(* ===== verification/Prelude.thy ===== *)
theory Prelude
  imports Main "HOL-Library.AList"
begin

text \<open>
  Shared vocabulary of the development: Go error values, the error-and-state functions in which
  the code that calls AWS is written, Go maps as association lists, and the insertion sort that
  \<^verbatim>\<open>sort.Slice\<close> runs on short slices. Strings and numbers are in \<open>GoStrings\<close>.

  Conventions. A Go pointer \<^verbatim>\<open>*T\<close> is \<open>'t option\<close>. A Go map is an association list with distinct
  keys; the order of the list is the order in which \<^verbatim>\<open>range\<close> visits the entries, and Go leaves
  that order open, so a property of code that ranges over a map is stated for every such list.
  A function that can fail returns \<open>go_error + 'a\<close>; \<open>Panic\<close> marks a nil dereference or an index
  out of range, which no handler of the code catches. A function that calls AWS has the type
  \<open>'w \<Rightarrow> (go_error + 'a) \<times> 'w\<close>, where \<open>'w\<close> is the state behind the AWS clients: the clients are
  arguments of the model, so \<open>'w\<close> is a type variable.
\<close>

named_theorems go_simps \<open>evaluation rules of the Go vocabulary\<close>
named_theorems run_simps \<open>evaluation rules of error-and-state functions\<close>

section \<open>Errors\<close>

text \<open>
  \<open>APIError\<close> is \<^verbatim>\<open>smithy.APIError\<close>: a code and its message text. \<open>Errorf\<close> is
  \<^verbatim>\<open>fmt.Errorf\<close> without \<^verbatim>\<open>%w\<close> (the arguments already rendered), \<open>Wrapf\<close> is \<^verbatim>\<open>fmt.Errorf\<close> with
  a trailing \<^verbatim>\<open>%w\<close>, \<open>Joined\<close> is \<^verbatim>\<open>errors.Join\<close>. The next three are the sentinels of
  \<^verbatim>\<open>k8s.io/cloud-provider\<close>.
\<close>

datatype go_error =
    APIError (error_code: string) (error_text: string)
  | Errorf string "string list"
  | Wrapf string "string list" go_error
  | Joined "go_error list"
  | InstanceNotFound
  | NotImplemented
  | ImplementedElsewhere
  | Panic string

fun sprintf :: "string \<Rightarrow> string list \<Rightarrow> string" where
  "sprintf [] as = []"
| "sprintf (c # f) [] = c # f"
| "sprintf (c # f) (a # as) =
     (if c = CHR ''%'' then
        (case f of [] \<Rightarrow> [c]
         | v # f' \<Rightarrow> (if v = CHR ''q'' then CHR 0x22 # a @ [CHR 0x22] else a) @ sprintf f' as)
      else c # sprintf f (a # as))"

text \<open>The text of an error, \<^verbatim>\<open>err.Error()\<close>.\<close>

fun Error :: "go_error \<Rightarrow> string" where
  "Error (APIError c t) = ''api error '' @ c @ '': '' @ t"
| "Error (Errorf f as) = sprintf f as"
| "Error (Wrapf f as e) = sprintf f (as @ [Error e])"
| "Error (Joined es) = concat (map (\<lambda>e. Error e @ [CHR 0x0A]) es)"
| "Error InstanceNotFound = ''instance not found''"
| "Error NotImplemented = ''unimplemented''"
| "Error ImplementedElsewhere = ''implemented by alternate to cloud provider''"
| "Error (Panic m) = ''panic: '' @ m"

text \<open>\<^verbatim>\<open>errors.As(err, &ae)\<close> for \<^verbatim>\<open>ae smithy.APIError\<close>: the code of the first API error in the
  chain, depth first through joined errors.\<close>

fun as_api_error :: "go_error \<Rightarrow> string option" where
  "as_api_error (APIError c t) = Some c"
| "as_api_error (Wrapf f as e) = as_api_error e"
| "as_api_error (Joined es) =
     (case List.map_filter (\<lambda>x. x) (map as_api_error es) of [] \<Rightarrow> None | c # cs \<Rightarrow> Some c)"
| "as_api_error e = None"

text \<open>\<^verbatim>\<open>errors.Is(err, cloudprovider.InstanceNotFound)\<close>.\<close>

fun is_instance_not_found :: "go_error \<Rightarrow> bool" where
  "is_instance_not_found InstanceNotFound = True"
| "is_instance_not_found (Wrapf f as e) = is_instance_not_found e"
| "is_instance_not_found (Joined es) = list_ex (\<lambda>b. b) (map is_instance_not_found es)"
| "is_instance_not_found e = False"

fun is_panic :: "go_error \<Rightarrow> bool" where
  "is_panic (Panic m) = True"
| "is_panic e = False"

type_synonym 'a result = "go_error + 'a"

section \<open>Functions that call AWS\<close>

type_synonym ('w, 'a) aws = "'w \<Rightarrow> 'a result \<times> 'w"

definition returnM :: "'a \<Rightarrow> ('w, 'a) aws" where
  "returnM x = (\<lambda>w. (Inr x, w))"

definition throwM :: "go_error \<Rightarrow> ('w, 'a) aws" where
  "throwM e = (\<lambda>w. (Inl e, w))"

definition bindM :: "('w, 'a) aws \<Rightarrow> ('a \<Rightarrow> ('w, 'b) aws) \<Rightarrow> ('w, 'b) aws" where
  "bindM m f = (\<lambda>w. case m w of (Inl e, w') \<Rightarrow> (Inl e, w') | (Inr x, w') \<Rightarrow> f x w')"

text \<open>A call whose error the code looks at: the body sees the result; a panic is not seen.\<close>

definition tryM :: "('w, 'a) aws \<Rightarrow> ('a result \<Rightarrow> ('w, 'b) aws) \<Rightarrow> ('w, 'b) aws" where
  "tryM m f = (\<lambda>w. case m w of
       (Inl e, w') \<Rightarrow> if is_panic e then (Inl e, w') else f (Inl e) w'
     | (Inr x, w') \<Rightarrow> f (Inr x) w')"

definition liftM :: "'a result \<Rightarrow> ('w, 'a) aws" where
  "liftM r = (\<lambda>w. (r, w))"

text \<open>A call whose error is wrapped before it is returned.\<close>

definition wrapM :: "(go_error \<Rightarrow> go_error) \<Rightarrow> ('w, 'a) aws \<Rightarrow> ('w, 'a) aws" where
  "wrapM g m = (\<lambda>w. case m w of
       (Inl e, w') \<Rightarrow> (Inl (if is_panic e then e else g e), w')
     | (Inr x, w') \<Rightarrow> (Inr x, w'))"

text \<open>\<^verbatim>\<open>for _, x := range xs { if err := f(x); err != nil { return err } }\<close>\<close>

fun forM :: "('x \<Rightarrow> ('w, unit) aws) \<Rightarrow> 'x list \<Rightarrow> ('w, unit) aws" where
  "forM f [] = returnM ()"
| "forM f (x # xs) = bindM (f x) (\<lambda>_. forM f xs)"

text \<open>The same with variables that the loop updates.\<close>

fun foldM :: "('x \<Rightarrow> 's \<Rightarrow> ('w, 's) aws) \<Rightarrow> 'x list \<Rightarrow> 's \<Rightarrow> ('w, 's) aws" where
  "foldM f [] s = returnM s"
| "foldM f (x # xs) s = bindM (f x s) (\<lambda>s'. foldM f xs s')"

text \<open>The pure counterpart.\<close>

definition bindR :: "'a result \<Rightarrow> ('a \<Rightarrow> 'b result) \<Rightarrow> 'b result" where
  "bindR r f = (case r of Inl e \<Rightarrow> Inl e | Inr x \<Rightarrow> f x)"

fun foldR :: "('x \<Rightarrow> 's \<Rightarrow> 's result) \<Rightarrow> 'x list \<Rightarrow> 's \<Rightarrow> 's result" where
  "foldR f [] s = Inr s"
| "foldR f (x # xs) s = bindR (f x s) (\<lambda>s'. foldR f xs s')"

text \<open>Search loops over a test that can panic: they stop at the first hit.\<close>

fun anyR :: "('x \<Rightarrow> bool result) \<Rightarrow> 'x list \<Rightarrow> bool result" where
  "anyR f [] = Inr False"
| "anyR f (x # xs) = bindR (f x) (\<lambda>found. if found then Inr True else anyR f xs)"

fun allR :: "('x \<Rightarrow> bool result) \<Rightarrow> 'x list \<Rightarrow> bool result" where
  "allR f [] = Inr True"
| "allR f (x # xs) = bindR (f x) (\<lambda>ok. if ok then allR f xs else Inr False)"

lemma returnM_run [run_simps]: "returnM x w = (Inr x, w)"
  by (simp add: returnM_def)

lemma throwM_run [run_simps]: "throwM e w = (Inl e, w)"
  by (simp add: throwM_def)

lemma liftM_run [run_simps]: "liftM r w = (r, w)"
  by (simp add: liftM_def)

lemma bindM_run [run_simps]:
  "bindM m f w = (case m w of (Inl e, w') \<Rightarrow> (Inl e, w') | (Inr x, w') \<Rightarrow> f x w')"
  by (simp add: bindM_def)

lemma tryM_run [run_simps]:
  "tryM m f w = (case m w of
       (Inl e, w') \<Rightarrow> if is_panic e then (Inl e, w') else f (Inl e) w'
     | (Inr x, w') \<Rightarrow> f (Inr x) w')"
  by (simp add: tryM_def)

lemma wrapM_run [run_simps]:
  "wrapM g m w = (case m w of
       (Inl e, w') \<Rightarrow> (Inl (if is_panic e then e else g e), w') | (Inr x, w') \<Rightarrow> (Inr x, w'))"
  by (simp add: wrapM_def)

lemma bindR_simps [simp]: "bindR (Inl e) f = Inl e" "bindR (Inr x) f = f x"
  by (simp_all add: bindR_def)

lemma bindR_Inr_iff: "bindR r f = Inr y \<longleftrightarrow> (\<exists>x. r = Inr x \<and> f x = Inr y)"
  by (cases r) auto

lemma anyR_total: "(\<And>x. x \<in> set xs \<Longrightarrow> f x = Inr (g x)) \<Longrightarrow> anyR f xs = Inr (list_ex g xs)"
  by (induction xs) auto

lemma allR_total: "(\<And>x. x \<in> set xs \<Longrightarrow> f x = Inr (g x)) \<Longrightarrow> allR f xs = Inr (list_all g xs)"
  by (induction xs) auto

lemma bindM_Inr_iff:
  "bindM m f w = (Inr y, w'') \<longleftrightarrow> (\<exists>x w'. m w = (Inr x, w') \<and> f x w' = (Inr y, w''))"
  by (auto simp: bindM_def split: prod.splits sum.splits)

lemma bindM_InrE:
  assumes "bindM m f w = (Inr y, w'')"
  obtains x w' where "m w = (Inr x, w')" and "f x w' = (Inr y, w'')"
  using assms by (auto simp: bindM_Inr_iff)

lemma wrapM_Inr_iff: "wrapM g m w = (Inr y, w') \<longleftrightarrow> m w = (Inr y, w')"
  by (auto simp: wrapM_def split: prod.splits sum.splits)

text \<open>An assertion on the world that a call keeps, whether it succeeds or fails.\<close>

definition keeps :: "('w \<Rightarrow> bool) \<Rightarrow> ('w, 'a) aws \<Rightarrow> bool" where
  "keeps I m \<longleftrightarrow> (\<forall>w. I w \<longrightarrow> I (snd (m w)))"

named_theorems keeps_intros \<open>rules for assertions a call keeps\<close>

lemma keepsD: "keeps I m \<Longrightarrow> I w \<Longrightarrow> m w = (r, w') \<Longrightarrow> I w'"
  by (auto simp: keeps_def dest!: spec[of _ w])

lemma keeps_return [keeps_intros]: "keeps I (returnM x)"
  by (simp add: keeps_def returnM_def)

lemma keeps_throw [keeps_intros]: "keeps I (throwM e)"
  by (simp add: keeps_def throwM_def)

lemma keeps_lift [keeps_intros]: "keeps I (liftM r)"
  by (simp add: keeps_def liftM_def)

lemma keeps_bind [keeps_intros]:
  assumes "keeps I m" and "\<And>x. keeps I (f x)"
  shows "keeps I (bindM m f)"
  unfolding keeps_def
proof (intro allI impI)
  fix w assume "I w"
  obtain r w' where m: "m w = (r, w')" by (cases "m w")
  from assms(1) \<open>I w\<close> m have "I w'" by (rule keepsD)
  with m assms(2) show "I (snd (bindM m f w))"
    by (cases r) (auto simp: bindM_def keeps_def)
qed

lemma keeps_try [keeps_intros]:
  assumes "keeps I m" and "\<And>r. keeps I (f r)"
  shows "keeps I (tryM m f)"
  unfolding keeps_def
proof (intro allI impI)
  fix w assume "I w"
  obtain r w' where m: "m w = (r, w')" by (cases "m w")
  from assms(1) \<open>I w\<close> m have "I w'" by (rule keepsD)
  with m assms(2) show "I (snd (tryM m f w))"
    by (cases r) (auto simp: tryM_def keeps_def)
qed

lemma keeps_wrap [keeps_intros]: "keeps I m \<Longrightarrow> keeps I (wrapM g m)"
  unfolding keeps_def wrapM_def by (force split: prod.splits sum.splits)

lemma keeps_if [keeps_intros]:
  "(P \<Longrightarrow> keeps I m) \<Longrightarrow> (\<not> P \<Longrightarrow> keeps I n) \<Longrightarrow> keeps I (if P then m else n)"
  by simp

lemma keeps_forM [keeps_intros]: "(\<And>x. x \<in> set xs \<Longrightarrow> keeps I (f x)) \<Longrightarrow> keeps I (forM f xs)"
  by (induction xs) (auto intro!: keeps_intros)

lemma keeps_foldM [keeps_intros]:
  "(\<And>x s. x \<in> set xs \<Longrightarrow> keeps I (f x s)) \<Longrightarrow> keeps I (foldM f xs s)"
  by (induction xs arbitrary: s) (auto intro!: keeps_intros)

section \<open>Go maps\<close>

type_synonym ('k, 'v) gomap = "('k \<times> 'v) list"

abbreviation mput :: "'k \<Rightarrow> 'v \<Rightarrow> ('k, 'v) gomap \<Rightarrow> ('k, 'v) gomap" where
  "mput \<equiv> AList.update"

abbreviation mdel :: "'k \<Rightarrow> ('k, 'v) gomap \<Rightarrow> ('k, 'v) gomap" where
  "mdel \<equiv> AList.delete"

abbreviation mkeys :: "('k, 'v) gomap \<Rightarrow> 'k list" where
  "mkeys \<equiv> map fst"

definition wf_map :: "('k, 'v) gomap \<Rightarrow> bool" where
  "wf_map m \<longleftrightarrow> distinct (mkeys m)"

definition mhas :: "('k, 'v) gomap \<Rightarrow> 'k \<Rightarrow> bool" where
  "mhas m k \<longleftrightarrow> map_of m k \<noteq> None"

text \<open>\<^verbatim>\<open>m[k]\<close> of a \<^verbatim>\<open>map[string]string\<close>: the zero value when the key is absent.\<close>

definition mstr :: "('k, string) gomap \<Rightarrow> 'k \<Rightarrow> string" where
  "mstr m k = (case map_of m k of None \<Rightarrow> '''' | Some v \<Rightarrow> v)"

text \<open>Insertion of every entry of a list, in order.\<close>

definition mput_all :: "('k \<times> 'v) list \<Rightarrow> ('k, 'v) gomap \<Rightarrow> ('k, 'v) gomap" where
  "mput_all kvs m = fold (\<lambda>(k, v) acc. mput k v acc) kvs m"

lemma wf_map_Nil [simp]: "wf_map []"
  by (simp add: wf_map_def)

lemma wf_map_mput [simp]: "wf_map m \<Longrightarrow> wf_map (mput k v m)"
  by (simp add: wf_map_def distinct_update)

lemma wf_map_mdel [simp]: "wf_map m \<Longrightarrow> wf_map (mdel k m)"
  by (simp add: wf_map_def distinct_delete)

lemma wf_map_filter [simp]: "wf_map m \<Longrightarrow> wf_map (filter P m)"
  by (simp add: wf_map_def distinct_map_filter)

lemma wf_map_mput_all [simp]: "wf_map m \<Longrightarrow> wf_map (mput_all kvs m)"
  unfolding mput_all_def by (induction kvs arbitrary: m) auto

lemma mhas_iff: "mhas m k \<longleftrightarrow> k \<in> set (mkeys m)"
  by (metis mhas_def map_of_eq_None_iff list.set_map)

lemma wf_map_in_set: "wf_map m \<Longrightarrow> (k, v) \<in> set m \<longleftrightarrow> map_of m k = Some v"
  by (simp add: wf_map_def)

lemma map_of_mput_all: "map_of (mput_all kvs m) = map_of m ++ map_of (rev kvs)"
proof (induction kvs arbitrary: m)
  case (Cons kv kvs)
  then show ?case
    by (cases kv) (simp add: mput_all_def update_conv' map_add_def fun_eq_iff split: option.splits)
qed (simp add: mput_all_def)

lemma update_new: "k \<notin> set (mkeys m) \<Longrightarrow> mput k v m = m @ [(k, v)]"
  by (induction m) auto

lemma mkeys_mput: "set (mkeys (mput k v m)) = insert k (set (mkeys m))"
  by (induction m) auto

lemma mkeys_mput_all: "set (mkeys (mput_all kvs m)) = set (mkeys kvs) \<union> set (mkeys m)"
proof -
  have "dom (map_of (mput_all kvs m)) = fst ` set kvs \<union> fst ` set m"
    by (auto simp: map_of_mput_all dom_map_of_conv_image_fst)
  then show ?thesis by (simp add: dom_map_of_conv_image_fst)
qed

section \<open>Sorting\<close>

text \<open>
  \<^verbatim>\<open>sort.Slice\<close> runs \<^verbatim>\<open>pdqsort_func\<close>, which is a plain insertion sort on slices of at most
  12 elements: element \<open>i\<close> moves left while it is less than its left neighbour. The loop works for
  every comparison function, also one that is not a strict weak order.
\<close>

fun sink :: "('a \<Rightarrow> 'a \<Rightarrow> bool) \<Rightarrow> 'a \<Rightarrow> 'a list \<Rightarrow> 'a list" where
  "sink lt x [] = [x]"
| "sink lt x (y # ys) = (if lt x y then y # sink lt x ys else x # y # ys)"

text \<open>\<open>sink\<close> works on the reversed prefix, whose head is the left neighbour.\<close>

definition sort_slice :: "('a \<Rightarrow> 'a \<Rightarrow> bool) \<Rightarrow> 'a list \<Rightarrow> 'a list" where
  "sort_slice lt xs = rev (fold (sink lt) xs [])"

lemma set_sink [simp]: "set (sink lt x ys) = insert x (set ys)"
  by (induction ys) auto

lemma length_sink [simp]: "length (sink lt x ys) = Suc (length ys)"
  by (induction ys) auto

lemma set_fold_sink: "set (fold (sink lt) xs acc) = set xs \<union> set acc"
  by (induction xs arbitrary: acc) auto

lemma length_fold_sink: "length (fold (sink lt) xs acc) = length xs + length acc"
  by (induction xs arbitrary: acc) auto

lemma set_sort_slice [simp]: "set (sort_slice lt xs) = set xs"
  by (simp add: sort_slice_def set_fold_sink)

lemma length_sort_slice [simp]: "length (sort_slice lt xs) = length xs"
  by (simp add: sort_slice_def length_fold_sink)

lemma sort_slice_Nil [simp]: "sort_slice lt [] = []"
  by (simp add: sort_slice_def)

lemma sort_slice_eq_Nil [simp]: "sort_slice lt xs = [] \<longleftrightarrow> xs = []"
  by (metis length_0_conv length_sort_slice)

text \<open>With a strict weak order the result is sorted; it is always a permutation.\<close>

definition weak_order :: "('a \<Rightarrow> 'a \<Rightarrow> bool) \<Rightarrow> bool" where
  "weak_order lt \<longleftrightarrow> (\<forall>x y. lt x y \<longrightarrow> \<not> lt y x) \<and> (\<forall>x y z. \<not> lt x y \<and> \<not> lt y z \<longrightarrow> \<not> lt x z)"

lemma sink_sorted:
  assumes "weak_order lt" and "sorted_wrt (\<lambda>a b. \<not> lt a b) ys"
  shows "sorted_wrt (\<lambda>a b. \<not> lt a b) (sink lt x ys)"
  using assms(2)
proof (induction ys)
  case (Cons y ys)
  show ?case
  proof (cases "lt x y")
    case True
    then have "\<not> lt y x" using assms(1) unfolding weak_order_def by blast
    with True Cons show ?thesis by simp
  next
    case False
    have "\<not> lt x z" if "\<not> lt y z" for z
      using assms(1) False that unfolding weak_order_def by blast
    with False Cons.prems show ?thesis by simp
  qed
qed simp

lemma sort_slice_sorted:
  assumes "weak_order lt"
  shows "sorted_wrt (\<lambda>a b. \<not> lt b a) (sort_slice lt xs)"
proof -
  have "sorted_wrt (\<lambda>a b. \<not> lt a b) (fold (sink lt) xs acc)"
    if "sorted_wrt (\<lambda>a b. \<not> lt a b) acc" for acc
    using that by (induction xs arbitrary: acc) (simp_all add: sink_sorted [OF assms])
  then show ?thesis by (simp add: sort_slice_def sorted_wrt_rev)
qed

section \<open>Lists\<close>

lemma map_filter_id_eq_Nil: "List.map_filter (\<lambda>x. x) xs = [] \<longleftrightarrow> set xs \<subseteq> {None}"
  by (induction xs) (auto simp: List.map_filter_def split: option.splits)

text \<open>The last element that satisfies a test, as a \<^verbatim>\<open>for\<close> loop that overwrites a variable finds it.\<close>

definition find_last :: "('a \<Rightarrow> bool) \<Rightarrow> 'a list \<Rightarrow> 'a option" where
  "find_last P xs = find P (rev xs)"

lemma find_last_Some: "find_last P xs = Some x \<Longrightarrow> x \<in> set xs \<and> P x"
  unfolding find_last_def find_Some_iff by (metis nth_mem set_rev)

lemma find_last_None: "find_last P xs = None \<longleftrightarrow> (\<forall>x \<in> set xs. \<not> P x)"
  by (auto simp: find_last_def find_None_iff)

text \<open>Consecutive pieces of at most \<open>k\<close> elements: \<^verbatim>\<open>for i := 0; i < len(xs); i += k\<close>.\<close>

function chunks :: "nat \<Rightarrow> 'a list \<Rightarrow> 'a list list" where
  "chunks k xs = (if xs = [] \<or> k = 0 then [] else take k xs # chunks k (drop k xs))"
  by pat_completeness auto
termination
  by (relation "measure (\<lambda>(k, xs). length xs)") auto

declare chunks.simps [simp del]

lemma chunks_Nil [simp]: "chunks k [] = []"
  by (subst chunks.simps) simp

lemma concat_chunks: "k > 0 \<Longrightarrow> concat (chunks k xs) = xs"
proof (induction k xs rule: chunks.induct)
  case (1 k xs)
  then show ?case by (subst chunks.simps) auto
qed

lemma chunks_size: "c \<in> set (chunks k xs) \<Longrightarrow> c \<noteq> [] \<and> length c \<le> k"
proof (induction k xs rule: chunks.induct)
  case (1 k xs)
  show ?case
  proof (cases "xs = [] \<or> k = 0")
    case True
    with "1.prems" show ?thesis by (simp add: chunks.simps [of k xs])
  next
    case False
    with "1.prems" have "c = take k xs \<or> c \<in> set (chunks k (drop k xs))"
      by (simp add: chunks.simps [of k xs])
    with False "1.IH" show ?thesis by auto
  qed
qed

end
