(* ===== verification/AwsApi.thy ===== *)
theory AwsApi
  imports GoStrings
begin

text \<open>
  The EC2 data the code reads and writes, with the SDK's fields that it uses, and the client
  interface \<^verbatim>\<open>iface.EC2\<close> as a record of calls. A client is an argument of every function that
  calls AWS; nothing is assumed of it here. Where a property relies on what EC2 does, the property
  names it as a hypothesis.
\<close>

section \<open>EC2 data\<close>

record ec2_tag =
  tag_Key :: "string option"
  tag_Value :: "string option"

record ec2_filter =
  filter_Name :: string
  filter_Values :: "string list"

definition newEc2Filter :: "string \<Rightarrow> string list \<Rightarrow> ec2_filter" where
  "newEc2Filter name values = \<lparr>filter_Name = name, filter_Values = values\<rparr>"

record ip_range =
  range_CidrIp :: "string option"
  range_Description :: "string option"

record ipv6_range =
  range6_CidrIpv6 :: "string option"
  range6_Description :: "string option"

record prefix_list_id =
  prefix_Description :: "string option"
  prefix_PrefixListId :: "string option"

record user_id_group_pair =
  pair_Description :: "string option"
  pair_GroupId :: "string option"
  pair_GroupName :: "string option"
  pair_PeeringStatus :: "string option"
  pair_UserId :: "string option"
  pair_VpcId :: "string option"
  pair_VpcPeeringConnectionId :: "string option"

text \<open>A slice field is an option: Go distinguishes a nil slice from an empty one, and JSON does.\<close>

record ip_permission =
  perm_FromPort :: "int option"
  perm_IpProtocol :: "string option"
  perm_IpRanges :: "ip_range list option"
  perm_Ipv6Ranges :: "ipv6_range list option"
  perm_PrefixListIds :: "prefix_list_id list option"
  perm_ToPort :: "int option"
  perm_UserIdGroupPairs :: "user_id_group_pair list option"

text \<open>The elements of a slice; a nil slice has none.\<close>

definition slice :: "'a list option \<Rightarrow> 'a list" where
  "slice s = (case s of None \<Rightarrow> [] | Some xs \<Rightarrow> xs)"

lemma slice_simps [simp]: "slice None = []" "slice (Some xs) = xs"
  by (simp_all add: slice_def)

record security_group =
  sg_GroupId :: "string option"
  sg_Tags :: "ec2_tag list"
  sg_IpPermissions :: "ip_permission list"

record group_identifier =
  group_GroupId :: "string option"
  group_GroupName :: "string option"

record ec2_private_ip =
  private_PrivateIpAddress :: "string option"

record ec2_attachment =
  attachment_DeviceIndex :: "int option"

record network_interface =
  eni_Attachment :: "ec2_attachment option"
  eni_Status :: string
  eni_PrivateIpAddresses :: "string option list"
  eni_Ipv6Addresses :: "string option list"
  eni_PrivateDnsName :: "string option"
  eni_PrivateIpAddress :: "string option"
  eni_AvailabilityZone :: "string option"

text \<open>\<open>inst_State\<close> is the pointer to the state, of which the code reads the name;
  \<open>inst_Placement\<close> is the pointer to the placement, of which it reads the availability zone.\<close>

record ec2_instance =
  inst_InstanceId :: "string option"
  inst_InstanceType :: string
  inst_State :: "string option"
  inst_Placement :: "string option option"
  inst_PrivateDnsName :: "string option"
  inst_PublicDnsName :: "string option"
  inst_PublicIpAddress :: "string option"
  inst_VpcId :: "string option"
  inst_SubnetId :: "string option"
  inst_Tags :: "ec2_tag list"
  inst_SecurityGroups :: "group_identifier list"
  inst_NetworkInterfaces :: "network_interface list"

record ec2_subnet =
  subnet_SubnetId :: "string option"
  subnet_AvailabilityZone :: "string option"
  subnet_CidrBlock :: "string option"
  subnet_Ipv6CidrBlocks :: "(string option \<times> string option) list"
  subnet_Tags :: "ec2_tag list"

record ec2_route =
  route_DestinationCidrBlock :: "string option"
  route_GatewayId :: "string option"
  route_InstanceId :: "string option"
  route_State :: string

record rt_association =
  assoc_SubnetId :: "string option"
  assoc_Main :: "bool option"

record route_table =
  rt_RouteTableId :: "string option"
  rt_Associations :: "rt_association list"
  rt_Routes :: "ec2_route list"
  rt_Tags :: "ec2_tag list"

record availability_zone =
  az_ZoneName :: "string option"
  az_ZoneId :: "string option"
  az_ZoneType :: "string option"

record instance_topology =
  topo_InstanceId :: "string option"
  topo_NetworkNodes :: "string list"

section \<open>The EC2 client\<close>

text \<open>
  \<^verbatim>\<open>iface.EC2\<close>. The arguments are the fields of the request that the code sets, in the order of
  the comments: \<open>DescribeInstances ids filters\<close>, \<open>DescribeSecurityGroups ids filters\<close>,
  \<open>CreateSecurityGroup vpc name description tags\<close> (the result is the new group's id),
  \<open>DeleteSecurityGroup id\<close>, \<open>AuthorizeSecurityGroupIngress id permissions\<close>,
  \<open>RevokeSecurityGroupIngress id permissions\<close>, \<open>DescribeSubnets ids filters\<close>,
  \<open>CreateTags resources tags\<close>, \<open>DeleteTags resources tags\<close>, \<open>DescribeRouteTables filters\<close>,
  \<open>CreateRoute table cidr instance\<close>, \<open>DeleteRoute table cidr\<close>,
  \<open>ModifyInstanceAttribute instance sourceDestCheck\<close>, \<open>DescribeNetworkInterfaces filters\<close>,
  \<open>DescribeInstanceTopology ids\<close>, and \<open>DescribeVpcs\<close>, which nothing calls, with the CIDR blocks of the answer.
\<close>

record 'w ec2_client =
  DescribeInstances :: "string list \<Rightarrow> ec2_filter list \<Rightarrow> ('w, ec2_instance list) aws"
  DescribeSecurityGroups :: "string list \<Rightarrow> ec2_filter list \<Rightarrow> ('w, security_group list) aws"
  CreateSecurityGroup :: "string \<Rightarrow> string \<Rightarrow> string \<Rightarrow> ec2_tag list \<Rightarrow> ('w, string option) aws"
  DeleteSecurityGroup :: "string \<Rightarrow> ('w, unit) aws"
  AuthorizeSecurityGroupIngress :: "string \<Rightarrow> ip_permission list \<Rightarrow> ('w, unit) aws"
  RevokeSecurityGroupIngress :: "string \<Rightarrow> ip_permission list \<Rightarrow> ('w, unit) aws"
  DescribeSubnets :: "string list \<Rightarrow> ec2_filter list \<Rightarrow> ('w, ec2_subnet list) aws"
  DescribeAvailabilityZones :: "('w, availability_zone list) aws"
  CreateTags :: "string list \<Rightarrow> ec2_tag list \<Rightarrow> ('w, unit) aws"
  DeleteTags :: "string list \<Rightarrow> ec2_tag list \<Rightarrow> ('w, unit) aws"
  DescribeRouteTables :: "ec2_filter list \<Rightarrow> ('w, route_table list) aws"
  CreateRoute :: "string option \<Rightarrow> string \<Rightarrow> string option \<Rightarrow> ('w, unit) aws"
  DeleteRoute :: "string option \<Rightarrow> string option \<Rightarrow> ('w, unit) aws"
  ModifyInstanceAttribute :: "string \<Rightarrow> bool \<Rightarrow> ('w, unit) aws"
  DescribeNetworkInterfaces :: "ec2_filter list \<Rightarrow> ('w, network_interface list) aws"
  DescribeInstanceTopology :: "string list \<Rightarrow> ('w, instance_topology list) aws"
  DescribeVpcs :: "('w, string option list) aws"

text \<open>A client that answers every call with an empty result and changes nothing: the base of the
  concrete clients that instantiate the parameter in witnesses.\<close>

definition idle_client :: "'w ec2_client" where
  "idle_client = \<lparr>
     DescribeInstances = (\<lambda>_ _. returnM []),
     DescribeSecurityGroups = (\<lambda>_ _. returnM []),
     CreateSecurityGroup = (\<lambda>_ _ _ _. returnM None),
     DeleteSecurityGroup = (\<lambda>_. returnM ()),
     AuthorizeSecurityGroupIngress = (\<lambda>_ _. returnM ()),
     RevokeSecurityGroupIngress = (\<lambda>_ _. returnM ()),
     DescribeSubnets = (\<lambda>_ _. returnM []),
     DescribeAvailabilityZones = returnM [],
     CreateTags = (\<lambda>_ _. returnM ()),
     DeleteTags = (\<lambda>_ _. returnM ()),
     DescribeRouteTables = (\<lambda>_. returnM []),
     CreateRoute = (\<lambda>_ _ _. returnM ()),
     DeleteRoute = (\<lambda>_ _. returnM ()),
     ModifyInstanceAttribute = (\<lambda>_ _. returnM ()),
     DescribeNetworkInterfaces = (\<lambda>_. returnM []),
     DescribeInstanceTopology = (\<lambda>_. returnM []),
     DescribeVpcs = returnM []\<rparr>"

section \<open>Classifying errors\<close>

text \<open>\<^verbatim>\<open>IsAWSErrorInstanceNotFound\<close> and \<^verbatim>\<open>IsAWSErrorInvalidInstanceID\<close>: an API error is judged by
  its code, any other error by its text.\<close>

definition IsAWSErrorInstanceNotFound :: "go_error \<Rightarrow> bool" where
  "IsAWSErrorInstanceNotFound err =
     (case as_api_error err of
        Some code \<Rightarrow> code = ''InvalidInstanceID.NotFound''
      | None \<Rightarrow> Contains (Error err) ''InvalidInstanceID.NotFound'')"

definition IsAWSErrorInvalidInstanceID :: "go_error \<Rightarrow> bool" where
  "IsAWSErrorInvalidInstanceID err =
     (case as_api_error err of
        Some code \<Rightarrow> code = ''InvalidID''
      | None \<Rightarrow> Contains (Error err) ''InvalidID'')"

end
