(* ===== verification/Wait.thy ===== *)
theory Wait
  imports AwsApi
begin

text \<open>
  The retry loops of \<^verbatim>\<open>k8s.io/apimachinery/pkg/util/wait\<close> that the code uses. The time between two
  attempts is not part of the model; the number of attempts is. A condition answers \<open>Inr True\<close>
  when it is done, \<open>Inr False\<close> to be tried again, and an error to give up.
\<close>

definition ErrWaitTimeout :: go_error where
  "ErrWaitTimeout = Errorf ''timed out waiting for the condition'' []"

fun ExponentialBackoff :: "nat \<Rightarrow> ('w, bool) aws \<Rightarrow> ('w, unit) aws" where
  "ExponentialBackoff 0 condition w = (Inl ErrWaitTimeout, w)"
| "ExponentialBackoff (Suc n) condition w =
     (case condition w of
        (Inl e, w') \<Rightarrow> (Inl e, w')
      | (Inr True, w') \<Rightarrow> (Inr (), w')
      | (Inr False, w') \<Rightarrow> ExponentialBackoff n condition w')"

text \<open>\<^verbatim>\<open>PollUntilContextTimeout\<close> with immediate first attempt: the timeout admits \<open>n\<close> attempts.\<close>

definition PollUntilContextTimeout :: "nat \<Rightarrow> ('w, bool) aws \<Rightarrow> ('w, unit) aws" where
  "PollUntilContextTimeout n condition = ExponentialBackoff n condition"

text \<open>The state after \<open>k\<close> attempts that all asked for another one.\<close>

fun retried :: "('w, bool) aws \<Rightarrow> nat \<Rightarrow> 'w \<Rightarrow> 'w option" where
  "retried condition 0 w = Some w"
| "retried condition (Suc k) w =
     (case condition w of (Inr False, w') \<Rightarrow> retried condition k w' | _ \<Rightarrow> None)"

lemma ExponentialBackoff_done:
  "retried condition k w = Some w1 \<Longrightarrow> k < n \<Longrightarrow> condition w1 = (Inr True, w2) \<Longrightarrow>
   ExponentialBackoff n condition w = (Inr (), w2)"
proof (induction condition k w arbitrary: n rule: retried.induct)
  case (1 condition w)
  then show ?case by (cases n) auto
next
  case (2 condition k w)
  then show ?case
    by (cases n) (auto split: prod.splits sum.splits bool.splits)
qed

lemma ExponentialBackoff_timeout:
  "retried condition n w = Some w1 \<Longrightarrow> ExponentialBackoff n condition w = (Inl ErrWaitTimeout, w1)"
proof (induction condition n w rule: retried.induct)
  case (2 condition k w)
  then show ?case by (auto split: prod.splits sum.splits bool.splits)
qed simp

text \<open>Every run stops at one of the first \<open>n\<close> attempts or uses them all.\<close>

lemma ExponentialBackoff_cases:
  assumes "ExponentialBackoff n condition w = (r, w2)"
  obtains (success) k w1 where "k < n" "retried condition k w = Some w1"
      "condition w1 = (Inr True, w2)" "r = Inr ()"
    | (failure) k w1 e where "k < n" "retried condition k w = Some w1"
      "condition w1 = (Inl e, w2)" "r = Inl e"
    | (timeout) "retried condition n w = Some w2" "r = Inl ErrWaitTimeout"
  using assms
proof (induction n arbitrary: w thesis)
  case 0
  then show ?case by auto
next
  case (Suc n)
  obtain x w' where c: "condition w = (x, w')" by (cases "condition w")
  show ?case
  proof (cases x)
    case (Inl e)
    with Suc.prems c show ?thesis by (auto intro: Suc.prems(2) [of 0 w e])
  next
    case (Inr b)
    show ?thesis
    proof (cases b)
      case True
      with Inr Suc.prems c show ?thesis by (auto intro: Suc.prems(1) [of 0 w])
    next
      case False
      with Inr c Suc.prems(4) have run: "ExponentialBackoff n condition w' = (r, w2)" by simp
      have step: "retried condition (Suc k) w = retried condition k w'" for k
        using Inr False c by simp
      show ?thesis
      proof (rule Suc.IH [OF _ _ _ run])
        fix k w1
        assume "k < n" "retried condition k w' = Some w1" "condition w1 = (Inr True, w2)" "r = Inr ()"
        then show thesis using Suc.prems(1) [of "Suc k" w1] step [of k] by simp
      next
        fix k w1 e
        assume "k < n" "retried condition k w' = Some w1" "condition w1 = (Inl e, w2)" "r = Inl e"
        then show thesis using Suc.prems(2) [of "Suc k" w1 e] step [of k] by simp
      next
        assume "retried condition n w' = Some w2" "r = Inl ErrWaitTimeout"
        then show thesis using Suc.prems(3) step [of n] by simp
      qed
    qed
  qed
qed

lemma ExponentialBackoff_keeps [keeps_intros]:
  "keeps I condition \<Longrightarrow> keeps I (ExponentialBackoff n condition)"
proof (induction n)
  case (Suc n)
  have "I (snd (ExponentialBackoff (Suc n) condition w))" if "I w" for w
  proof -
    obtain x w' where c: "condition w = (x, w')" by (cases "condition w")
    with Suc.prems \<open>I w\<close> have "I w'" by (auto dest: keepsD)
    with c Suc show ?thesis by (auto simp: keeps_def split: sum.splits bool.splits)
  qed
  then show ?case by (simp add: keeps_def)
qed (simp add: keeps_def)

end
