(* ===== verification/Tagging.thy ===== *)
theory Tagging
  imports Wait
begin

text \<open>
  Cluster tags, \<^verbatim>\<open>src/pkg/providers/v1/tags.go\<close>. A resource belongs to a cluster when it carries
  the tag \<^verbatim>\<open>kubernetes.io/cluster/<id>\<close> or the legacy tag \<^verbatim>\<open>KubernetesCluster=<id>\<close>. The theory has
  the detection of the cluster id on the node's own tags, the tests on a resource's tags, the tags
  that the provider writes, the repair of missing tags, and the retried \<^verbatim>\<open>CreateTags\<close>.

  The lemmas show that what is written is what is recognised (\<open>tagging_contract\<close>), that clusters do
  not recognise each other's resources, that detection inverts tagging, and that a repair never
  overwrites a tag of another cluster.
\<close>

section \<open>Definitions\<close>

definition TagNameKubernetesClusterPrefix :: string where
  "TagNameKubernetesClusterPrefix = ''kubernetes.io/cluster/''"

definition TagNameKubernetesClusterLegacy :: string where
  "TagNameKubernetesClusterLegacy = ''KubernetesCluster''"

type_synonym ResourceLifecycle = string

definition ResourceLifecycleOwned :: ResourceLifecycle where
  "ResourceLifecycleOwned = ''owned''"

definition ResourceLifecycleShared :: ResourceLifecycle where
  "ResourceLifecycleShared = ''shared''"

record awsTagging =
  ClusterID :: string
  usesLegacyTags :: bool

text \<open>\<^verbatim>\<open>init\<close> changes the receiver, also when it then fails for want of an id.\<close>

definition init :: "string \<Rightarrow> string \<Rightarrow> (awsTagging, unit) aws" where
  "init legacyClusterID clusterID t =
     (if legacyClusterID \<noteq> '''' \<and> clusterID \<noteq> '''' \<and> legacyClusterID \<noteq> clusterID
      then (Inl (Errorf ''clusterID tags did not match: %q vs %q'' [clusterID, legacyClusterID]), t)
      else
        (let t = (if legacyClusterID \<noteq> '''' then t\<lparr>usesLegacyTags := True\<rparr> else t);
             clusterID = (if legacyClusterID \<noteq> '''' then legacyClusterID else clusterID);
             t = t\<lparr>ClusterID := clusterID\<rparr>
         in if clusterID \<noteq> '''' then (Inr (), t)
            else (Inl (Errorf ''AWS cloud failed to find ClusterID'' []), t)))"

text \<open>The loop body of \<^verbatim>\<open>findClusterIDs\<close>; the variables are the legacy and the new id.\<close>

definition findClusterIDs_step :: "ec2_tag \<Rightarrow> string \<times> string \<Rightarrow> (string \<times> string) result" where
  "findClusterIDs_step tag ids =
     (let (legacyClusterID, newClusterID) = ids; tagKey = ToString (tag_Key tag) in
      bindR
        (if HasPrefix tagKey TagNameKubernetesClusterPrefix then
           (let id = TrimPrefix tagKey TagNameKubernetesClusterPrefix in
            if newClusterID \<noteq> '''' then
              Inl (Errorf ''Found multiple cluster tags with prefix %s (%q and %q)''
                     [TagNameKubernetesClusterPrefix, newClusterID, id])
            else Inr id)
         else Inr newClusterID)
        (\<lambda>newClusterID.
           if tagKey = TagNameKubernetesClusterLegacy then
             (let id = ToString (tag_Value tag) in
              if legacyClusterID \<noteq> '''' then
                Inl (Errorf ''Found multiple %s tags (%q and %q)''
                       [TagNameKubernetesClusterLegacy, legacyClusterID, id])
              else Inr (id, newClusterID))
           else Inr (legacyClusterID, newClusterID)))"

definition findClusterIDs :: "ec2_tag list \<Rightarrow> (string \<times> string) result" where
  "findClusterIDs tags = foldR findClusterIDs_step tags ('''', '''')"

definition initFromTags :: "ec2_tag list \<Rightarrow> (awsTagging, unit) aws" where
  "initFromTags tags = bindM (liftM (findClusterIDs tags))
     (\<lambda>(legacyClusterID, newClusterID). init legacyClusterID newClusterID)"

definition clusterTagKey :: "awsTagging \<Rightarrow> string" where
  "clusterTagKey t = TagNameKubernetesClusterPrefix @ ClusterID t"

text \<open>The loop of \<^verbatim>\<open>hasClusterTag\<close> returns at the first tag that matches.\<close>

definition hasClusterTag :: "awsTagging \<Rightarrow> ec2_tag list \<Rightarrow> bool" where
  "hasClusterTag t tags =
     (if ClusterID t = '''' then True
      else list_ex (\<lambda>tag.
             (ToString (tag_Key tag) = TagNameKubernetesClusterLegacy
                \<and> ToString (tag_Value tag) = ClusterID t)
             \<or> ToString (tag_Key tag) = clusterTagKey t) tags)"

definition hasClusterTagOwned :: "awsTagging \<Rightarrow> ec2_tag list \<Rightarrow> bool result" where
  "hasClusterTagOwned t tags =
     (if ClusterID t = '''' then
        Inl (Errorf ''cannot check cluster tag owned: clusterID is empty'' [])
      else Inr (list_ex (\<lambda>tag.
             (ToString (tag_Key tag) = TagNameKubernetesClusterLegacy
                \<and> ToString (tag_Value tag) = ClusterID t)
             \<or> (ToString (tag_Key tag) = clusterTagKey t
                \<and> ToString (tag_Value tag) = ResourceLifecycleOwned)) tags))"

definition hasNoClusterPrefixTag :: "ec2_tag list \<Rightarrow> bool" where
  "hasNoClusterPrefixTag tags =
     list_all (\<lambda>tag. \<not> HasPrefix (ToString (tag_Key tag)) TagNameKubernetesClusterPrefix) tags"

definition buildTags ::
  "awsTagging \<Rightarrow> ResourceLifecycle \<Rightarrow> (string, string) gomap \<Rightarrow> (string, string) gomap" where
  "buildTags t lifecycle additionalTags =
     (let tags = mput_all additionalTags [] in
      if ClusterID t = '''' then tags
      else
        (let tags = (if usesLegacyTags t then mput TagNameKubernetesClusterLegacy (ClusterID t) tags
                     else tags)
         in mput (clusterTagKey t) lifecycle tags))"

definition buildAwsTags :: "(string, string) gomap \<Rightarrow> ec2_tag list" where
  "buildAwsTags tags = map (\<lambda>(k, v). \<lparr>tag_Key = Some k, tag_Value = Some v\<rparr>) tags"

definition addFilters :: "awsTagging \<Rightarrow> ec2_filter list \<Rightarrow> ec2_filter list" where
  "addFilters t filters =
     (if ClusterID t = '''' then filters
      else filters @ [newEc2Filter ''tag-key'' [clusterTagKey t]])"

definition addLegacyFilters :: "awsTagging \<Rightarrow> ec2_filter list \<Rightarrow> ec2_filter list" where
  "addLegacyFilters t filters =
     (if ClusterID t = '''' then filters
      else filters @ [newEc2Filter (''tag:'' @ TagNameKubernetesClusterLegacy) [ClusterID t]])"

definition createTagSteps :: nat where
  "createTagSteps = 9"

text \<open>
  The closure that \<^verbatim>\<open>createTags\<close> retries. It writes the variable \<^verbatim>\<open>lastErr\<close> of the enclosing
  function, so the state it runs on is the world together with that variable.
\<close>

definition createTags_attempt ::
  "'w ec2_client \<Rightarrow> string \<Rightarrow> ec2_tag list \<Rightarrow> ('w \<times> go_error option, bool) aws" where
  "createTags_attempt client resourceID awsTags = (\<lambda>(w, lastErr).
     case CreateTags client [resourceID] awsTags w of
       (Inr _, w') \<Rightarrow> (Inr True, (w', lastErr))
     | (Inl e, w') \<Rightarrow> (Inr False, (w', Some e)))"

definition createTags ::
  "awsTagging \<Rightarrow> 'w ec2_client \<Rightarrow> string \<Rightarrow> ResourceLifecycle \<Rightarrow> (string, string) gomap
     \<Rightarrow> ('w, unit) aws" where
  "createTags t client resourceID lifecycle additionalTags w =
     (let tags = buildTags t lifecycle additionalTags in
      if tags = [] then (Inr (), w)
      else
        (case ExponentialBackoff createTagSteps
                (createTags_attempt client resourceID (buildAwsTags tags)) (w, None) of
           (Inr _, (w', lastErr)) \<Rightarrow> (Inr (), w')
         | (Inl err, (w', lastErr)) \<Rightarrow>
             (if err = ErrWaitTimeout
              then (case lastErr of None \<Rightarrow> (Inr (), w') | Some e \<Rightarrow> (Inl e, w'))
              else (Inl err, w'))))"

text \<open>The loop of \<^verbatim>\<open>readRepairClusterTags\<close> over the expected tags; it collects the missing ones.\<close>

definition readRepair_step ::
  "string \<Rightarrow> (string, string) gomap \<Rightarrow> string \<times> string \<Rightarrow> (string, string) gomap
     \<Rightarrow> (string, string) gomap result" where
  "readRepair_step resourceID actualTagMap kv addTags =
     (let (k, expected) = kv; actual = mstr actualTagMap k in
      if actual = expected then Inr addTags
      else if actual = '''' then Inr (mput k expected addTags)
      else Inl (Errorf ''resource %q has tag belonging to another cluster: %q=%q (expected %q)''
                  [resourceID, k, actual, expected]))"

definition observedTagMap :: "ec2_tag list \<Rightarrow> (string, string) gomap" where
  "observedTagMap observedTags =
     mput_all (map (\<lambda>tag. (ToString (tag_Key tag), ToString (tag_Value tag))) observedTags) []"

definition readRepairClusterTags ::
  "awsTagging \<Rightarrow> 'w ec2_client \<Rightarrow> string \<Rightarrow> ResourceLifecycle \<Rightarrow> (string, string) gomap
     \<Rightarrow> ec2_tag list \<Rightarrow> ('w, unit) aws" where
  "readRepairClusterTags t client resourceID lifecycle additionalTags observedTags =
     bindM (liftM (foldR (readRepair_step resourceID (observedTagMap observedTags))
                     (buildTags t lifecycle additionalTags) []))
       (\<lambda>addTags.
          if addTags = [] then returnM ()
          else wrapM (\<lambda>err. Errorf ''error adding missing tags to resource %q: %q''
                              [resourceID, Error err])
                 (createTags t client resourceID lifecycle addTags))"

definition TagResource :: "'w ec2_client \<Rightarrow> string \<Rightarrow> (string, string) gomap \<Rightarrow> ('w, unit) aws" where
  "TagResource ec2 resourceID tags = CreateTags ec2 [resourceID] (buildAwsTags tags)"

definition UntagResource :: "'w ec2_client \<Rightarrow> string \<Rightarrow> (string, string) gomap \<Rightarrow> ('w, unit) aws" where
  "UntagResource ec2 resourceID tags =
     tryM (DeleteTags ec2 [resourceID] (buildAwsTags tags))
       (\<lambda>Inl err \<Rightarrow> if IsAWSErrorInstanceNotFound err then returnM () else throwM err
         | Inr _ \<Rightarrow> returnM ())"

section \<open>Maps and tag lists\<close>

lemma wf_buildTags [simp]: "wf_map (buildTags t lifecycle add)"
  by (simp add: buildTags_def Let_def)

lemma tag_set_buildAwsTags:
  "list_ex P (buildAwsTags m) \<longleftrightarrow> (\<exists>(k, v) \<in> set m. P \<lparr>tag_Key = Some k, tag_Value = Some v\<rparr>)"
  unfolding buildAwsTags_def by (induction m) auto

text \<open>A cluster key is never the legacy key.\<close>

lemma clusterTagKey_not_legacy [simp]:
  "clusterTagKey t \<noteq> TagNameKubernetesClusterLegacy"
  "TagNameKubernetesClusterLegacy \<noteq> clusterTagKey t"
  by (simp_all add: clusterTagKey_def TagNameKubernetesClusterPrefix_def
      TagNameKubernetesClusterLegacy_def)

lemma clusterTagKey_prefix [simp]:
  "HasPrefix (clusterTagKey t) TagNameKubernetesClusterPrefix"
  "TrimPrefix (clusterTagKey t) TagNameKubernetesClusterPrefix = ClusterID t"
  "\<not> HasPrefix TagNameKubernetesClusterLegacy TagNameKubernetesClusterPrefix"
  by (simp_all add: clusterTagKey_def HasPrefix_def TrimPrefix_def
      TagNameKubernetesClusterPrefix_def TagNameKubernetesClusterLegacy_def)

lemma clusterTagKey_inj [simp]: "clusterTagKey t = clusterTagKey t' \<longleftrightarrow> ClusterID t = ClusterID t'"
  by (simp add: clusterTagKey_def)

lemma map_of_buildTags:
  assumes "ClusterID t \<noteq> ''''"
  shows "map_of (buildTags t lifecycle add) k =
     (if k = clusterTagKey t then Some lifecycle
      else if k = TagNameKubernetesClusterLegacy \<and> usesLegacyTags t then Some (ClusterID t)
      else map_of (rev add) k)"
  using assms by (auto simp: buildTags_def Let_def update_conv' map_of_mput_all)

lemma set_buildTags:
  assumes "ClusterID t \<noteq> ''''"
  shows "(k, v) \<in> set (buildTags t lifecycle add) \<longleftrightarrow>
     (if k = clusterTagKey t then v = lifecycle
      else if k = TagNameKubernetesClusterLegacy \<and> usesLegacyTags t then v = ClusterID t
      else map_of (rev add) k = Some v)"
  using assms by (auto simp: wf_map_in_set map_of_buildTags)

section \<open>What is written is what is recognised\<close>

text \<open>
  The contract between the code that creates resources and the code that later looks for them.
  \<open>foreign t t' add\<close> says that the two clusters differ and that the user's additional tags \<open>add\<close> do
  not themselves claim the resource for \<open>t'\<close>.
\<close>

locale tagging_contract =
  fixes configured :: "'t \<Rightarrow> bool"
    and build :: "'t \<Rightarrow> 'l \<Rightarrow> 'add \<Rightarrow> 'tags"
    and mine :: "'t \<Rightarrow> 'tags \<Rightarrow> bool"
    and owns :: "'t \<Rightarrow> 'tags \<Rightarrow> bool"
    and owning :: 'l
    and foreign :: "'t \<Rightarrow> 't \<Rightarrow> 'add \<Rightarrow> bool"
  assumes build_mine: "configured t \<Longrightarrow> mine t (build t l add)"
    and build_owns: "configured t \<Longrightarrow> owns t (build t owning add)"
    and owns_mine: "configured t \<Longrightarrow> owns t tags \<Longrightarrow> mine t tags"
    and build_foreign: "configured t \<Longrightarrow> configured t' \<Longrightarrow> foreign t t' add \<Longrightarrow>
      \<not> mine t' (build t l add)"
begin

text \<open>Among resources that several clusters created, a cluster selects exactly its own.\<close>

lemma select_own:
  assumes "configured t"
    and "\<And>t' l add. (t', l, add) \<in> set rs \<Longrightarrow> configured t' \<and> (t' = t \<or> foreign t' t add)"
    and "\<And>add. \<not> foreign t t add"
  shows "filter (\<lambda>(t', l, add). mine t (build t' l add)) rs = filter (\<lambda>(t', l, add). t' = t) rs"
proof (rule filter_cong [OF refl])
  fix r assume "r \<in> set rs"
  moreover obtain t' l add where r: "r = (t', l, add)" by (cases r)
  ultimately have "configured t'" "t' = t \<or> foreign t' t add" using assms(2) by auto
  then show "(case r of (t', l, add) \<Rightarrow> mine t (build t' l add)) = (case r of (t', l, add) \<Rightarrow> t' = t)"
    using assms(1,3) build_mine build_foreign r by auto
qed

lemma foreign_not_owned:
  assumes "configured t" "configured t'" "foreign t t' add"
  shows "\<not> owns t' (build t l add)"
  using assms build_foreign owns_mine by blast

end

definition foreign_cluster :: "awsTagging \<Rightarrow> awsTagging \<Rightarrow> (string, string) gomap \<Rightarrow> bool" where
  "foreign_cluster t t' add \<longleftrightarrow>
     ClusterID t \<noteq> ClusterID t' \<and> \<not> mhas add (clusterTagKey t')
     \<and> (TagNameKubernetesClusterLegacy, ClusterID t') \<notin> set add"

lemma hasClusterTag_build:
  assumes "ClusterID t \<noteq> ''''"
  shows "hasClusterTag t (buildAwsTags (buildTags t lifecycle add))"
proof -
  have "(clusterTagKey t, lifecycle) \<in> set (buildTags t lifecycle add)"
    using assms by (simp add: set_buildTags)
  then show ?thesis using assms by (auto simp: hasClusterTag_def tag_set_buildAwsTags ToString_def)
qed

lemma hasClusterTagOwned_build:
  assumes "ClusterID t \<noteq> ''''"
  shows "hasClusterTagOwned t (buildAwsTags (buildTags t ResourceLifecycleOwned add)) = Inr True"
proof -
  have "(clusterTagKey t, ResourceLifecycleOwned) \<in> set (buildTags t ResourceLifecycleOwned add)"
    using assms by (simp add: set_buildTags)
  then show ?thesis using assms
    by (auto simp: hasClusterTagOwned_def tag_set_buildAwsTags ToString_def)
qed

lemma hasClusterTag_foreign:
  assumes "ClusterID t \<noteq> ''''" and "ClusterID t' \<noteq> ''''" and "foreign_cluster t t' add"
  shows "\<not> hasClusterTag t' (buildAwsTags (buildTags t lifecycle add))"
proof
  assume "hasClusterTag t' (buildAwsTags (buildTags t lifecycle add))"
  then obtain k v where kv: "(k, v) \<in> set (buildTags t lifecycle add)"
    and m: "k = TagNameKubernetesClusterLegacy \<and> v = ClusterID t' \<or> k = clusterTagKey t'"
    using assms(2) by (auto simp: hasClusterTag_def tag_set_buildAwsTags ToString_def)
  have in_add: "(k', v') \<in> set add" if "map_of (rev add) k' = Some v'" for k' v'
    using map_of_SomeD [OF that] by simp
  from m show False
  proof (elim disjE conjE)
    assume "k = TagNameKubernetesClusterLegacy" "v = ClusterID t'"
    with kv assms show False
      by (auto simp: set_buildTags foreign_cluster_def dest: in_add split: if_splits)
  next
    assume "k = clusterTagKey t'"
    with kv assms have "map_of (rev add) (clusterTagKey t') = Some v"
      by (simp add: set_buildTags foreign_cluster_def split: if_splits)
    then have "mhas add (clusterTagKey t')" using in_add by (force simp: mhas_iff)
    with assms show False by (simp add: foreign_cluster_def)
  qed
qed

interpretation tags: tagging_contract "\<lambda>t. ClusterID t \<noteq> ''''"
  "\<lambda>t lifecycle add. buildAwsTags (buildTags t lifecycle add)" hasClusterTag
  "\<lambda>t tags. hasClusterTagOwned t tags = Inr True" ResourceLifecycleOwned foreign_cluster
proof unfold_locales
  fix t tags
  assume "ClusterID t \<noteq> ''''" "hasClusterTagOwned t tags = Inr True"
  then show "hasClusterTag t tags"
    by (auto simp: hasClusterTagOwned_def hasClusterTag_def list_ex_iff)
qed (auto intro: hasClusterTag_build hasClusterTagOwned_build dest: hasClusterTag_foreign)

section \<open>Detection of the cluster id\<close>

definition plain_key :: "string \<Rightarrow> bool" where
  "plain_key k \<longleftrightarrow> \<not> HasPrefix k TagNameKubernetesClusterPrefix \<and> k \<noteq> TagNameKubernetesClusterLegacy"

definition plain_tags :: "(string, string) gomap \<Rightarrow> bool" where
  "plain_tags add \<longleftrightarrow> list_all (\<lambda>(k, v). plain_key k) add"

lemma plain_tags_keys: "plain_tags add \<longleftrightarrow> (\<forall>k \<in> set (mkeys add). plain_key k)"
  by (auto simp: plain_tags_def list_all_iff)

lemma findClusterIDs_plain:
  "plain_tags m \<Longrightarrow> foldR findClusterIDs_step (buildAwsTags m @ rest) ids = foldR findClusterIDs_step rest ids"
  by (induction m)
     (auto simp: plain_tags_def plain_key_def buildAwsTags_def findClusterIDs_step_def ToString_def
       Let_def split: prod.splits)

lemma buildTags_append:
  assumes "ClusterID t \<noteq> ''''" and "plain_tags add"
  shows "buildTags t lifecycle add = mput_all add []
    @ (if usesLegacyTags t then [(TagNameKubernetesClusterLegacy, ClusterID t)] else [])
    @ [(clusterTagKey t, lifecycle)]"
proof -
  have "\<not> plain_key (clusterTagKey t)" "\<not> plain_key TagNameKubernetesClusterLegacy"
    by (auto simp: plain_key_def)
  with assms(2) have "TagNameKubernetesClusterLegacy \<notin> set (mkeys (mput_all add []))"
    "clusterTagKey t \<notin> set (mkeys (mput_all add []))"
    by (auto simp: plain_tags_keys simp del: set_map simp: mkeys_mput_all)
  with assms(1) show ?thesis by (simp add: buildTags_def Let_def update_new)
qed

lemma findClusterIDs_build:
  assumes "ClusterID t \<noteq> ''''" and "plain_tags add"
  shows "findClusterIDs (buildAwsTags (buildTags t lifecycle add)) =
    Inr (if usesLegacyTags t then ClusterID t else '''', ClusterID t)"
proof -
  have plain: "plain_tags (mput_all add [])"
    using assms(2) by (simp add: plain_tags_keys mkeys_mput_all del: set_map)
  have "buildAwsTags (buildTags t lifecycle add) = buildAwsTags (mput_all add []) @
      buildAwsTags ((if usesLegacyTags t then [(TagNameKubernetesClusterLegacy, ClusterID t)] else [])
        @ [(clusterTagKey t, lifecycle)])"
    using assms by (simp add: buildTags_append buildAwsTags_def)
  then show ?thesis
    by (simp add: findClusterIDs_def findClusterIDs_plain plain)
       (simp add: buildAwsTags_def findClusterIDs_step_def ToString_def Let_def)
qed

text \<open>C35: Starting from the tags of a resource that this provider tagged (with additional tags that
  are not cluster tags), \<^verbatim>\<open>initFromTags\<close> finds the cluster id back, and uses legacy tags exactly
  when they were in use before or are on the resource.\<close>

theorem initFromTags_buildTags:
  assumes "ClusterID t \<noteq> ''''" and "plain_tags add"
  shows "initFromTags (buildAwsTags (buildTags t lifecycle add)) t0 =
    (Inr (), t0\<lparr>ClusterID := ClusterID t, usesLegacyTags := usesLegacyTags t0 \<or> usesLegacyTags t\<rparr>)"
  using assms by (simp add: initFromTags_def findClusterIDs_build run_simps init_def Let_def)

theorem initFromTags_buildTags_witness:
  "initFromTags (buildAwsTags (buildTags \<lparr>ClusterID = ''c1'', usesLegacyTags = True\<rparr> ''owned''
       [(''team'', ''a'')])) \<lparr>ClusterID = '''', usesLegacyTags = False\<rparr> =
    (Inr (), \<lparr>ClusterID = ''c1'', usesLegacyTags = True\<rparr>)"
proof -
  have "plain_tags [(''team'', ''a'')]"
    by (simp add: plain_tags_def plain_key_def HasPrefix_def TagNameKubernetesClusterPrefix_def
        TagNameKubernetesClusterLegacy_def)
  then show ?thesis
    using initFromTags_buildTags [of "\<lparr>ClusterID = ''c1'', usesLegacyTags = True\<rparr>"
        "[(''team'', ''a'')]" "''owned''" "\<lparr>ClusterID = '''', usesLegacyTags = False\<rparr>"] by simp
qed

text \<open>C34: Of the resources that configured clusters created (whatever lifecycle and additional tags,
  as long as the tags of one cluster's resource do not claim it for this one), \<^verbatim>\<open>hasClusterTag\<close>
  selects exactly the resources of its own cluster.\<close>

theorem hasClusterTag_selects_own:
  assumes "ClusterID t \<noteq> ''''"
    and "\<And>t' lifecycle add. (t', lifecycle, add) \<in> set rs \<Longrightarrow>
      ClusterID t' \<noteq> '''' \<and> (t' = t \<or> foreign_cluster t' t add)"
  shows "filter (\<lambda>(t', lifecycle, add). hasClusterTag t (buildAwsTags (buildTags t' lifecycle add))) rs
    = filter (\<lambda>(t', lifecycle, add). t' = t) rs"
  using assms by (intro tags.select_own) (auto simp: foreign_cluster_def)

theorem hasClusterTag_selects_own_witness:
  "filter (\<lambda>(t', lifecycle, add). hasClusterTag \<lparr>ClusterID = ''a'', usesLegacyTags = True\<rparr>
       (buildAwsTags (buildTags t' lifecycle add)))
     [(\<lparr>ClusterID = ''b'', usesLegacyTags = True\<rparr>, ''owned'', [(''k'', ''v'')]),
      (\<lparr>ClusterID = ''a'', usesLegacyTags = True\<rparr>, ''shared'', [])]
   = [(\<lparr>ClusterID = ''a'', usesLegacyTags = True\<rparr>, ''shared'', [])]"
  by (subst hasClusterTag_selects_own)
     (auto simp: foreign_cluster_def mhas_def clusterTagKey_def TagNameKubernetesClusterPrefix_def
       TagNameKubernetesClusterLegacy_def)

section \<open>Repair of missing tags\<close>

definition missing_tags :: "(string, string) gomap \<Rightarrow> (string, string) gomap \<Rightarrow> (string, string) gomap" where
  "missing_tags actual expected = filter (\<lambda>(k, e). mstr actual k \<noteq> e) expected"

definition conflicts :: "(string, string) gomap \<Rightarrow> (string, string) gomap \<Rightarrow> bool" where
  "conflicts actual expected \<longleftrightarrow> list_ex (\<lambda>(k, e). mstr actual k \<noteq> e \<and> mstr actual k \<noteq> '''') expected"

lemma readRepair_step_eq:
  "readRepair_step r actual (k, e) acc =
    (if mstr actual k = e then Inr acc
     else if mstr actual k = '''' then Inr (mput k e acc)
     else Inl (Errorf ''resource %q has tag belonging to another cluster: %q=%q (expected %q)''
                 [r, k, mstr actual k, e]))"
  by (simp add: readRepair_step_def Let_def)

lemma readRepair_fold:
  "(if conflicts actual expected
    then (\<exists>args. foldR (readRepair_step r actual) expected acc =
           Inl (Errorf ''resource %q has tag belonging to another cluster: %q=%q (expected %q)'' args))
    else foldR (readRepair_step r actual) expected acc = Inr (mput_all (missing_tags actual expected) acc))"
proof (induction expected arbitrary: acc)
  case Nil
  then show ?case by (simp add: conflicts_def missing_tags_def mput_all_def)
next
  case (Cons kv expected)
  obtain k e where kv: "kv = (k, e)" by (cases kv)
  show ?case
    using Cons [of acc] Cons [of "mput k e acc"]
    by (auto simp: kv conflicts_def missing_tags_def readRepair_step_eq mput_all_def split: if_splits)
qed

lemma mput_all_distinct: "wf_map (m @ kvs) \<Longrightarrow> mput_all kvs m = m @ kvs"
proof (induction kvs arbitrary: m)
  case (Cons kv kvs)
  then have "fst kv \<notin> set (mkeys m)" "wf_map ((m @ [kv]) @ kvs)" by (auto simp: wf_map_def)
  with Cons.IH [of "m @ [kv]"] show ?case
    by (cases kv) (simp add: mput_all_def update_new)
qed (simp add: mput_all_def)

lemma readRepair_collects:
  "\<not> conflicts actual (buildTags t lifecycle add) \<Longrightarrow>
   foldR (readRepair_step r actual) (buildTags t lifecycle add) [] =
     Inr (missing_tags actual (buildTags t lifecycle add))"
  using readRepair_fold [of actual "buildTags t lifecycle add" r "[]"]
  by (simp add: mput_all_distinct missing_tags_def)

lemma buildTags_subset:
  assumes "(k, v) \<in> set (buildTags t lifecycle (missing_tags actual (buildTags t lifecycle add)))"
  shows "(k, v) \<in> set (buildTags t lifecycle add)"
proof -
  let ?m = "missing_tags actual (buildTags t lifecycle add)"
  have wf: "wf_map (rev ?m)" "wf_map ?m"
    by (auto simp: missing_tags_def wf_map_def rev_map [symmetric] distinct_map_filter
        wf_buildTags [unfolded wf_map_def])
  have sub: "set ?m \<subseteq> set (buildTags t lifecycle add)" by (auto simp: missing_tags_def)
  have add: "map_of (rev ?m) k' = Some v' \<longleftrightarrow> (k', v') \<in> set ?m" for k' v'
    using wf_map_in_set [OF wf(1), of k' v'] by simp
  show ?thesis
  proof (cases "ClusterID t = ''''")
    case True
    then have "buildTags t lifecycle ?m = ?m"
      using wf(2) by (simp add: buildTags_def mput_all_distinct)
    with assms sub show ?thesis by auto
  next
    case False
    with assms sub add show ?thesis
      by (auto simp: set_buildTags [OF False] split: if_splits)
  qed
qed

text \<open>C36: \<^verbatim>\<open>readRepairClusterTags\<close> on every branch. If a tag of the resource has a non-empty value
  other than the expected one, it fails without calling AWS. If no tag is missing, it succeeds
  without calling AWS. Otherwise it runs \<^verbatim>\<open>createTags\<close> with the missing tags, and every tag that
  call writes replaces an empty value or the same value: nothing of another cluster is
  overwritten.\<close>

theorem readRepairClusterTags_branches:
  "let actual = observedTagMap observed;
       expected = buildTags t lifecycle add;
       missing = missing_tags actual expected;
       run = readRepairClusterTags t client r lifecycle add observed w
   in if conflicts actual expected
      then (\<exists>args. run =
        (Inl (Errorf ''resource %q has tag belonging to another cluster: %q=%q (expected %q)'' args), w))
      else if missing = [] then run = (Inr (), w)
      else run = wrapM (\<lambda>err. Errorf ''error adding missing tags to resource %q: %q'' [r, Error err])
            (createTags t client r lifecycle missing) w
        \<and> list_all (\<lambda>(k, v). mstr actual k = '''' \<or> mstr actual k = v) (buildTags t lifecycle missing)"
proof -
  define actual where "actual = observedTagMap observed"
  define expected where "expected = buildTags t lifecycle add"
  show ?thesis
  proof (cases "conflicts actual expected")
    case True
    then show ?thesis
      using readRepair_fold [of actual expected r "[]"]
      by (auto simp: readRepairClusterTags_def run_simps actual_def expected_def Let_def)
  next
    case False
    then have "foldR (readRepair_step r actual) expected [] = Inr (missing_tags actual expected)"
      by (simp add: expected_def readRepair_collects)
    moreover have "list_all (\<lambda>(k, v). mstr actual k = '''' \<or> mstr actual k = v)
        (buildTags t lifecycle (missing_tags actual expected))"
      using False buildTags_subset [of _ _ t lifecycle actual add]
      by (auto simp: list_all_iff conflicts_def list_ex_iff expected_def)
    ultimately show ?thesis
      using False by (simp add: readRepairClusterTags_def run_simps actual_def expected_def Let_def)
  qed
qed

section \<open>Retried tagging\<close>

text \<open>The world after \<open>k\<close> failed calls in a row, with the error of the last one.\<close>

fun failed_calls :: "('w, unit) aws \<Rightarrow> nat \<Rightarrow> 'w \<times> go_error option \<Rightarrow> ('w \<times> go_error option) option" where
  "failed_calls call 0 s = Some s"
| "failed_calls call (Suc k) s =
     (case call (fst s) of (Inl e, w') \<Rightarrow> failed_calls call k (w', Some e) | (Inr _, w') \<Rightarrow> None)"

lemma retried_failed:
  "retried (createTags_attempt client r ts) k s = failed_calls (CreateTags client [r] ts) k s"
proof (induction k arbitrary: s)
  case (Suc k)
  then show ?case by (cases s) (auto simp: createTags_attempt_def split: prod.splits sum.splits)
qed simp

lemma failed_calls_err: "failed_calls call (Suc k) s = Some (w', l) \<Longrightarrow> \<exists>e. l = Some e"
proof (induction k arbitrary: s)
  case 0
  then show ?case by (auto split: prod.splits sum.splits)
next
  case (Suc k)
  obtain r w1 where c: "call (fst s) = (r, w1)" by (cases "call (fst s)")
  with Suc.prems obtain e where e: "r = Inl e"
    by (cases r) simp_all
  with c Suc.prems have "failed_calls call (Suc k) (w1, Some e) = Some (w', l)" by simp
  then show ?case by (rule Suc.IH)
qed

lemma failed_calls_err9: "failed_calls call 9 s = Some (w', l) \<Longrightarrow> \<exists>e. l = Some e"
  using failed_calls_err [of call 8 s w' l] by (simp only: eval_nat_numeral)

lemma createTags_attempt_done:
  "createTags_attempt client r ts (w1, l1) = (Inr True, (w2, l2)) \<longleftrightarrow>
   CreateTags client [r] ts w1 = (Inr (), w2) \<and> l2 = l1"
  by (auto simp: createTags_attempt_def split: prod.splits sum.splits)

lemma createTags_attempt_no_error: "createTags_attempt client r ts s \<noteq> (Inl e, s')"
  by (auto simp: createTags_attempt_def split: prod.splits sum.splits)

lemma backoff_createTags_ok:
  "(\<exists>l. ExponentialBackoff n (createTags_attempt client r ts) s = (Inr (), (w2, l))) \<longleftrightarrow>
   (\<exists>k < n. \<exists>w1 l. failed_calls (CreateTags client [r] ts) k s = Some (w1, l)
      \<and> CreateTags client [r] ts w1 = (Inr (), w2))" (is "?L \<longleftrightarrow> ?R")
proof
  assume ?L
  then obtain l where "ExponentialBackoff n (createTags_attempt client r ts) s = (Inr (), (w2, l))" ..
  then show ?R
    by (cases rule: ExponentialBackoff_cases)
       (auto simp: retried_failed createTags_attempt_done createTags_attempt_no_error)
next
  assume ?R
  then obtain k w1 l1 where "k < n" "retried (createTags_attempt client r ts) k s = Some (w1, l1)"
    "createTags_attempt client r ts (w1, l1) = (Inr True, (w2, l1))"
    by (auto simp: retried_failed createTags_attempt_done)
  then have "ExponentialBackoff n (createTags_attempt client r ts) s = (Inr (), (w2, l1))"
    by (intro ExponentialBackoff_done)
  then show ?L ..
qed

lemma backoff_createTags_err:
  "ExponentialBackoff n (createTags_attempt client r ts) s = (Inl e, s2) \<longleftrightarrow>
   e = ErrWaitTimeout \<and> failed_calls (CreateTags client [r] ts) n s = Some s2" (is "?L \<longleftrightarrow> ?R")
proof
  assume ?L
  then show ?R
    by (cases rule: ExponentialBackoff_cases) (auto simp: retried_failed createTags_attempt_no_error)
next
  assume ?R
  then show ?L by (simp add: retried_failed ExponentialBackoff_timeout)
qed

lemma createTags_run:
  assumes "buildTags t lifecycle add \<noteq> []"
    and "ExponentialBackoff 9
      (createTags_attempt client r (buildAwsTags (buildTags t lifecycle add))) (w, None) = (res, (w', l))"
  shows "createTags t client r lifecycle add w = (case res of Inr _ \<Rightarrow> (Inr (), w')
     | Inl err \<Rightarrow> (Inl (the l), w'))"
proof (cases res)
  case (Inl err)
  with assms(2) have "err = ErrWaitTimeout" and
    "failed_calls (CreateTags client [r] (buildAwsTags (buildTags t lifecycle add))) 9 (w, None) = Some (w', l)"
    by (simp_all add: backoff_createTags_err)
  moreover from this(2) obtain e where "l = Some e" by (blast dest: failed_calls_err9)
  ultimately show ?thesis using assms Inl by (simp add: createTags_def createTagSteps_def Let_def)
qed (use assms in \<open>simp add: createTags_def createTagSteps_def Let_def\<close>)

text \<open>C37: The retry of \<^verbatim>\<open>createTags\<close>. When there are tags to write, it succeeds exactly when one of
  the first nine \<^verbatim>\<open>CreateTags\<close> calls in a row succeeds, each one made after the previous ones have
  failed, and it stops at that call; when all nine fail it returns the error of the ninth.\<close>

theorem createTags_nine_attempts:
  assumes "buildTags t lifecycle add \<noteq> []"
  shows "let call = CreateTags client [r] (buildAwsTags (buildTags t lifecycle add)) in
      (createTags t client r lifecycle add w = (Inr (), w2) \<longleftrightarrow>
        (\<exists>k < 9. \<exists>w1 l. failed_calls call k (w, None) = Some (w1, l) \<and> call w1 = (Inr (), w2)))
    \<and> (createTags t client r lifecycle add w = (Inl e, w2) \<longleftrightarrow>
        failed_calls call 9 (w, None) = Some (w2, Some e))"
proof -
  let ?ts = "buildAwsTags (buildTags t lifecycle add)"
  obtain res w' l where run: "ExponentialBackoff 9 (createTags_attempt client r ?ts) (w, None) = (res, (w', l))"
    by (metis prod.exhaust)
  note create = createTags_run [OF assms run]
  show ?thesis
  proof (cases res)
    case (Inl err)
    with run have f: "failed_calls (CreateTags client [r] ?ts) 9 (w, None) = Some (w', l)"
      by (simp add: backoff_createTags_err)
    then obtain e' where "l = Some e'" by (blast dest: failed_calls_err9)
    with Inl create run f backoff_createTags_ok [of 9 client r ?ts "(w, None)" w2] show ?thesis
      by (auto simp: Let_def)
  next
    case (Inr u)
    with run have "failed_calls (CreateTags client [r] ?ts) 9 (w, None) \<noteq> Some s" for s
      using backoff_createTags_err [of 9 client r ?ts "(w, None)" ErrWaitTimeout s] by auto
    with Inr create run backoff_createTags_ok [of 9 client r ?ts "(w, None)" w2] show ?thesis
      by (auto simp: Let_def)
  qed
qed

text \<open>A client whose calls fail until its counter reaches zero.\<close>

definition flaky_client :: "nat ec2_client" where
  "flaky_client = idle_client\<lparr>CreateTags := (\<lambda>rs ts n.
     case n of 0 \<Rightarrow> (Inr (), 0) | Suc m \<Rightarrow> (Inl (APIError ''InvalidGroup.NotFound'' ''''), m))\<rparr>"

theorem createTags_nine_attempts_witness:
  "createTags \<lparr>ClusterID = ''c'', usesLegacyTags = False\<rparr> flaky_client ''sg-1'' ''owned'' [] 8
     = (Inr (), 0)
   \<and> createTags \<lparr>ClusterID = ''c'', usesLegacyTags = False\<rparr> flaky_client ''sg-1'' ''owned'' [] 9
     = (Inl (APIError ''InvalidGroup.NotFound'' ''''), 0)"
proof -
  let ?t = "\<lparr>ClusterID = ''c'', usesLegacyTags = False\<rparr>"
  have ne: "buildTags ?t ''owned'' [] \<noteq> []" by (simp add: buildTags_def mput_all_def)
  have fc: "failed_calls (CreateTags flaky_client [r] ts) n (n + m, l) =
      Some (m, if n = 0 then l else Some (APIError ''InvalidGroup.NotFound'' ''''))" for r ts n m l
    by (induction n arbitrary: l) (simp_all add: flaky_client_def)
  have ok: "CreateTags flaky_client [r] ts 0 = (Inr (), 0)" for r ts
    by (simp add: flaky_client_def)
  have f8: "\<exists>k<9. \<exists>w1 l. failed_calls (CreateTags flaky_client [r] ts) k (8, None) = Some (w1, l)
      \<and> CreateTags flaky_client [r] ts w1 = (Inr (), 0)" for r ts
    using fc [of r ts 8 0] ok by (intro exI [of _ 8]) auto
  show ?thesis
    using createTags_nine_attempts [OF ne, of flaky_client "''sg-1''" 8 0 undefined]
      createTags_nine_attempts [OF ne, of flaky_client "''sg-1''" 9 0 "APIError ''InvalidGroup.NotFound'' ''''"]
      f8 fc [of "''sg-1''" "buildAwsTags (buildTags ?t ''owned'' [])" 9 0]
    by (simp add: Let_def)
qed

end
