(* ===== verification/Json.thy ===== *)
theory Json
  imports AwsApi
begin

text \<open>
  The part of \<^verbatim>\<open>encoding/json\<close>'s \<^verbatim>\<open>Marshal\<close> that \<^verbatim>\<open>keyForIPPermission\<close> uses: objects with fields
  in declaration order, arrays, \<^verbatim>\<open>null\<close> for a nil pointer or slice, decimal integers, and strings
  with HTML escaping on. Bytes from 128 on stand for valid UTF-8 and are copied.

  The encoders are shown to be prefix-free (\<open>prefix_free\<close>), so the key of a permission determines
  the permission.
\<close>

section \<open>Encoders\<close>

definition hex_digit :: "nat \<Rightarrow> char" where
  "hex_digit n = (if n < 10 then char_of (48 + n) else char_of (87 + n))"

definition hex_value :: "char \<Rightarrow> nat" where
  "hex_value c = (let n = of_char c in if n < 58 then n - 48 else n - 87)"

definition json_escape :: "char \<Rightarrow> string" where
  "json_escape c =
     (if c = CHR 0x22 then [CHR 0x5C, CHR 0x22]
      else if c = CHR 0x5C then [CHR 0x5C, CHR 0x5C]
      else if c = CHR 0x08 then [CHR 0x5C, CHR ''b'']
      else if c = CHR 0x0C then [CHR 0x5C, CHR ''f'']
      else if c = CHR 0x0A then [CHR 0x5C, CHR ''n'']
      else if c = CHR 0x0D then [CHR 0x5C, CHR ''r'']
      else if c = CHR 0x09 then [CHR 0x5C, CHR ''t'']
      else if (of_char c :: nat) < 32 \<or> c = CHR ''<'' \<or> c = CHR ''>'' \<or> c = CHR ''&'' then
        [CHR 0x5C, CHR ''u'', CHR ''0'', CHR ''0'',
         hex_digit (of_char c div 16), hex_digit (of_char c mod 16)]
      else [c])"

definition json_string :: "string \<Rightarrow> string" where
  "json_string s = [CHR 0x22] @ concat (map json_escape s) @ [CHR 0x22]"

definition json_null :: string where
  "json_null = ''null''"

fun json_pointer :: "('a \<Rightarrow> string) \<Rightarrow> 'a option \<Rightarrow> string" where
  "json_pointer enc None = json_null"
| "json_pointer enc (Some x) = enc x"

fun json_elements :: "('a \<Rightarrow> string) \<Rightarrow> 'a list \<Rightarrow> string" where
  "json_elements enc [] = '']''"
| "json_elements enc [x] = enc x @ '']''"
| "json_elements enc (x # xs) = enc x @ '','' @ json_elements enc xs"

fun json_slice :: "('a \<Rightarrow> string) \<Rightarrow> 'a list option \<Rightarrow> string" where
  "json_slice enc None = json_null"
| "json_slice enc (Some xs) = ''['' @ json_elements enc xs"

text \<open>A field of an object: its separator, its name, its value.\<close>

definition json_field :: "string \<Rightarrow> string \<Rightarrow> string \<Rightarrow> string" where
  "json_field sep name v = sep @ [CHR 0x22] @ name @ [CHR 0x22, CHR '':''] @ v"

section \<open>Prefix-free codes\<close>

definition prefix_free :: "('a \<Rightarrow> string) \<Rightarrow> bool" where
  "prefix_free enc \<longleftrightarrow> (\<forall>x y r s. enc x @ r = enc y @ s \<longrightarrow> x = y \<and> r = s)"

lemma prefix_freeI: "(\<And>x y r s. enc x @ r = enc y @ s \<Longrightarrow> x = y \<and> r = s) \<Longrightarrow> prefix_free enc"
  by (auto simp: prefix_free_def)

lemma prefix_freeD: "prefix_free enc \<Longrightarrow> enc x @ r = enc y @ s \<Longrightarrow> x = y \<and> r = s"
  by (auto simp: prefix_free_def)

lemma prefix_free_inj: "prefix_free enc \<Longrightarrow> enc x = enc y \<Longrightarrow> x = y"
  by (metis append_Nil2 prefix_freeD)

text \<open>A decoder of one escaped byte.\<close>

definition json_unescape :: "string \<Rightarrow> char \<times> string" where
  "json_unescape s =
     (if hd s \<noteq> CHR 0x5C then (hd s, tl s)
      else
        (let d = s ! 1 in
         if d = CHR ''u'' then (char_of (16 * hex_value (s ! 4) + hex_value (s ! 5)), drop 6 s)
         else (if d = CHR ''b'' then CHR 0x08 else if d = CHR ''f'' then CHR 0x0C
               else if d = CHR ''n'' then CHR 0x0A else if d = CHR ''r'' then CHR 0x0D
               else if d = CHR ''t'' then CHR 0x09 else d, drop 2 s)))"

lemma hex_value_digit: "n < 16 \<Longrightarrow> hex_value (hex_digit n) = n"
  by (auto simp: hex_value_def hex_digit_def Let_def of_char_of take_bit_eq_mod)

lemma json_unescape_escape: "json_unescape (json_escape c @ s) = (c, s)"
proof -
  have n: "(of_char c :: nat) < 256" by simp
  have "char_of (16 * hex_value (hex_digit (of_char c div 16)) + hex_value (hex_digit (of_char c mod 16))) = c"
    using n by (simp add: hex_value_digit less_mult_imp_div_less)
  then show ?thesis
    by (auto simp: json_unescape_def json_escape_def Let_def)
qed

lemma json_escape_prefix_free: "prefix_free json_escape"
  by (rule prefix_freeI) (metis json_unescape_escape prod.inject)

lemma json_escape_not_quote: "hd (json_escape c @ r) \<noteq> CHR 0x22"
  by (auto simp: json_escape_def)

lemma json_escape_Cons: "\<exists>d t. json_escape c = d # t \<and> d \<noteq> CHR 0x22"
  by (auto simp: json_escape_def)

lemma json_chars_prefix_free:
  "concat (map json_escape x) @ CHR 0x22 # r = concat (map json_escape y) @ CHR 0x22 # s \<Longrightarrow>
   x = y \<and> r = s"
proof (induction x arbitrary: y)
  case Nil
  then show ?case
    using json_escape_Cons by (cases y) (auto, metis append_Cons list.inject)
next
  case (Cons c x)
  show ?case
  proof (cases y)
    case Nil
    with Cons.prems show ?thesis
      using json_escape_Cons [of c] by auto
  next
    case (Cons d y')
    with Cons.prems have "c = d \<and> concat (map json_escape x) @ CHR 0x22 # r =
        concat (map json_escape y') @ CHR 0x22 # s"
      using prefix_freeD [OF json_escape_prefix_free] by auto
    with Cons.IH [of y'] Cons show ?thesis by auto
  qed
qed

lemma json_string_prefix_free: "prefix_free json_string"
  by (rule prefix_freeI) (auto simp: json_string_def dest: json_chars_prefix_free)

lemma json_pointer_prefix_free:
  assumes "prefix_free enc" and "\<And>x. \<exists>c t. enc x = c # t \<and> c \<noteq> CHR ''n''"
  shows "prefix_free (json_pointer enc)"
proof (rule prefix_freeI)
  fix x y r s
  assume eq: "json_pointer enc x @ r = json_pointer enc y @ s"
  show "x = y \<and> r = s"
  proof (cases x; cases y)
    fix a assume "x = None" "y = Some a"
    with eq assms(2) [of a] show ?thesis by (auto simp: json_null_def)
  next
    fix a assume "x = Some a" "y = None"
    with eq assms(2) [of a] show ?thesis by (auto simp: json_null_def)
  next
    fix a b assume "x = Some a" "y = Some b"
    with eq prefix_freeD [OF assms(1)] show ?thesis by auto
  qed (use eq in auto)
qed

lemma json_elements_Cons:
  "json_elements enc (z # zs) = enc z @ (if zs = [] then '']'' else '','' @ json_elements enc zs)"
  by (cases zs) auto

lemma json_elements_prefix_free:
  assumes "prefix_free enc" and "\<And>x. \<exists>c t. enc x = c # t \<and> c \<noteq> CHR '']''"
  shows "json_elements enc xs @ r = json_elements enc ys @ s \<Longrightarrow> xs = ys \<and> r = s"
proof (induction xs arbitrary: ys)
  case Nil
  show ?case
  proof (cases ys)
    case (Cons y ys')
    with Nil assms(2) [of y] show ?thesis by (auto simp: json_elements_Cons)
  qed (use Nil in simp)
next
  case (Cons x xs)
  note IH = Cons.IH and prems = Cons.prems
  show ?case
  proof (cases ys)
    case Nil
    with Cons.prems assms(2) [of x] show ?thesis by (auto simp: json_elements_Cons)
  next
    case (Cons y ys')
    from prems Cons have "x = y \<and> (if xs = [] then '']'' else '','' @ json_elements enc xs) @ r =
        (if ys' = [] then '']'' else '','' @ json_elements enc ys') @ s"
      using prefix_freeD [OF assms(1), of x _ y] by (simp only: json_elements_Cons append_assoc)
    with IH [of ys'] Cons show ?thesis by (auto split: if_splits)
  qed
qed

lemma json_slice_prefix_free:
  assumes "prefix_free enc" and "\<And>x. \<exists>c t. enc x = c # t \<and> c \<noteq> CHR '']''"
  shows "prefix_free (json_slice enc)"
proof (rule prefix_freeI)
  fix x y r s
  assume eq: "json_slice enc x @ r = json_slice enc y @ s"
  then show "x = y \<and> r = s"
    by (cases x; cases y)
       (auto simp: json_null_def dest: json_elements_prefix_free [OF assms])
qed

text \<open>A decimal number is not prefix-free, but it is when a comma follows.\<close>

lemma json_int_comma:
  assumes "Itoa i @ CHR '','' # r = Itoa j @ CHR '','' # s"
  shows "i = j \<and> r = s"
proof -
  have no_comma: "CHR '','' \<notin> set (Itoa k)" for k
    using Itoa_chars [of "CHR '',''" k] by (auto simp: is_digit_def)
  have "takeWhile (\<lambda>c. c \<noteq> CHR '','') (Itoa k @ CHR '','' # t) = Itoa k"
    "dropWhile (\<lambda>c. c \<noteq> CHR '','') (Itoa k @ CHR '','' # t) = CHR '','' # t" for k t
    using no_comma [of k] by (auto simp: takeWhile_append dropWhile_append)
  note num = this
  from assms have "Itoa i = Itoa j" "CHR '','' # r = CHR '','' # s"
    by (metis num(1), metis num(2))
  then show ?thesis by (simp add: Itoa_inj)
qed

end
