(* ===== verification/IpAddr.thy ===== *)
theory IpAddr
  imports Json
begin

text \<open>
  IP addresses and CIDR blocks, as far as the code uses \<^verbatim>\<open>net.ParseIP\<close>, \<^verbatim>\<open>netutils.ParseIPSloppy\<close>,
  \<^verbatim>\<open>net.ParseCIDR\<close>, \<^verbatim>\<open>netip.ParsePrefix\<close>, \<^verbatim>\<open>utilnet.ParseIPNets\<close> and the text form of an address.
  An IPv4 address is four numbers, an IPv6 address eight groups.

  The lemmas show that the text of an IPv4 address is read back as the same address, and that masking
  is idempotent.
\<close>

section \<open>Addresses\<close>

datatype ip = IPv4 "nat list" | IPv6 "nat list"

definition parse_octet :: "bool \<Rightarrow> string \<Rightarrow> nat option" where
  "parse_octet sloppy s =
     (if s = [] \<or> \<not> list_all is_digit s then None
      else if \<not> sloppy \<and> length s > 1 \<and> hd s = CHR ''0'' then None
      else if digits_val s > 255 then None
      else Some (digits_val s))"

text \<open>All values, or \<open>None\<close> if one is missing.\<close>

fun sequence :: "'a option list \<Rightarrow> 'a list option" where
  "sequence [] = Some []"
| "sequence (x # xs) =
     (case x of None \<Rightarrow> None
      | Some y \<Rightarrow> (case sequence xs of None \<Rightarrow> None | Some ys \<Rightarrow> Some (y # ys)))"

definition parse_ipv4 :: "bool \<Rightarrow> string \<Rightarrow> nat list option" where
  "parse_ipv4 sloppy s =
     (let fields = Split (CHR ''.'') s in
      if length fields = 4 then sequence (map (parse_octet sloppy) fields) else None)"

definition hex_val :: "string \<Rightarrow> nat" where
  "hex_val s = foldl (\<lambda>n c. 16 * n + unhex c) 0 s"

definition parse_group :: "string \<Rightarrow> nat option" where
  "parse_group s = (if s = [] \<or> length s > 4 \<or> \<not> list_all is_hex s then None else Some (hex_val s))"

text \<open>The groups between colons; the last one may be a dotted IPv4 address, which makes two groups.\<close>

fun parse_groups :: "bool \<Rightarrow> string list \<Rightarrow> nat list option" where
  "parse_groups sloppy [] = Some []"
| "parse_groups sloppy [g] =
     (if CHR ''.'' \<in> set g then
        (case parse_ipv4 sloppy g of
           Some [a, b, c, d] \<Rightarrow> Some [256 * a + b, 256 * c + d] | _ \<Rightarrow> None)
      else map_option (\<lambda>n. [n]) (parse_group g))"
| "parse_groups sloppy (g # gs) =
     (case parse_group g of None \<Rightarrow> None
      | Some n \<Rightarrow> map_option (\<lambda>ns. n # ns) (parse_groups sloppy gs))"

definition parse_side :: "bool \<Rightarrow> string \<Rightarrow> nat list option" where
  "parse_side sloppy s = (if s = [] then Some [] else parse_groups sloppy (Split (CHR '':'') s))"

text \<open>The text before and after the first \<^verbatim>\<open>::\<close>.\<close>

fun cut_double_colon :: "string \<Rightarrow> (string \<times> string) option" where
  "cut_double_colon (a # b # s) =
     (if a = CHR '':'' \<and> b = CHR '':'' then Some ([], s)
      else map_option (\<lambda>(l, r). (a # l, r)) (cut_double_colon (b # s)))"
| "cut_double_colon s = None"

definition parse_ipv6 :: "bool \<Rightarrow> string \<Rightarrow> nat list option" where
  "parse_ipv6 sloppy s =
     (case cut_double_colon s of
        None \<Rightarrow> (case parse_side sloppy s of
            Some gs \<Rightarrow> if length gs = 8 then Some gs else None | None \<Rightarrow> None)
      | Some (l, r) \<Rightarrow>
          (if CHR ''.'' \<in> set l then None
           else case (parse_side sloppy l, parse_side sloppy r) of
             (Some ls, Some rs) \<Rightarrow>
               if length ls + length rs \<le> 7
               then Some (ls @ replicate (8 - length ls - length rs) 0 @ rs) else None
           | _ \<Rightarrow> None))"

definition parse_ip :: "bool \<Rightarrow> string \<Rightarrow> ip option" where
  "parse_ip sloppy s =
     (if CHR '':'' \<in> set s then map_option IPv6 (parse_ipv6 sloppy s)
      else map_option IPv4 (parse_ipv4 sloppy s))"

definition ParseIP :: "string \<Rightarrow> ip option" where
  "ParseIP s = parse_ip False s"

definition ParseIPSloppy :: "string \<Rightarrow> ip option" where
  "ParseIPSloppy s = parse_ip True s"

text \<open>\<^verbatim>\<open>IP.To4()\<close>: an IPv4 address, also one mapped into IPv6.\<close>

fun To4 :: "ip \<Rightarrow> nat list option" where
  "To4 (IPv4 os) = Some os"
| "To4 (IPv6 gs) =
     (case gs of
        [a, b, c, d, e, f, g, h] \<Rightarrow>
          if a = 0 \<and> b = 0 \<and> c = 0 \<and> d = 0 \<and> e = 0 \<and> f = 65535
          then Some [g div 256, g mod 256, h div 256, h mod 256] else None
      | _ \<Rightarrow> None)"

section \<open>Text\<close>

definition ipv4_String :: "nat list \<Rightarrow> string" where
  "ipv4_String os = Join (map show_nat os) ''.''"

function show_hex :: "nat \<Rightarrow> string" where
  "show_hex n = (if n < 16 then [hex_digit n] else show_hex (n div 16) @ [hex_digit (n mod 16)])"
  by pat_completeness auto
termination
  by (relation "measure (\<lambda>n. n)") auto

declare show_hex.simps [simp del]

text \<open>The leftmost longest run of zero groups, as start and length; a run counts from two groups on.\<close>

fun zero_run :: "nat list \<Rightarrow> nat" where
  "zero_run (0 # gs) = Suc (zero_run gs)"
| "zero_run gs = 0"

fun longest_run :: "nat \<Rightarrow> nat list \<Rightarrow> nat \<times> nat" where
  "longest_run i [] = (i, 0)"
| "longest_run i (g # gs) =
     (let here = zero_run (g # gs); (j, n) = longest_run (Suc i) gs in
      if here \<ge> n \<and> here > 0 then (i, here) else (j, n))"

definition ipv6_String :: "nat list \<Rightarrow> string" where
  "ipv6_String gs =
     (let (i, n) = longest_run 0 gs in
      if n \<ge> 2
      then Join (map show_hex (take i gs)) '':'' @ ''::'' @ Join (map show_hex (drop (i + n) gs)) '':''
      else Join (map show_hex gs) '':'')"

definition ip_String :: "ip \<Rightarrow> string" where
  "ip_String a =
     (case To4 a of Some os \<Rightarrow> ipv4_String os | None \<Rightarrow> (case a of IPv6 gs \<Rightarrow> ipv6_String gs | _ \<Rightarrow> ''''))"

section \<open>CIDR blocks\<close>

fun mask_units :: "nat \<Rightarrow> nat \<Rightarrow> nat list \<Rightarrow> nat list" where
  "mask_units width ones [] = []"
| "mask_units width ones (u # us) =
     (let keep = min width ones in
      (u div 2 ^ (width - keep)) * 2 ^ (width - keep) # mask_units width (ones - keep) us)"

fun mask_ip :: "nat \<Rightarrow> ip \<Rightarrow> ip" where
  "mask_ip ones (IPv4 os) = IPv4 (mask_units 8 ones os)"
| "mask_ip ones (IPv6 gs) = IPv6 (mask_units 16 ones gs)"

fun ip_bits :: "ip \<Rightarrow> nat" where
  "ip_bits (IPv4 os) = 32"
| "ip_bits (IPv6 gs) = 128"

text \<open>\<^verbatim>\<open>net.ParseCIDR\<close> returns the masked network with its prefix length; \<^verbatim>\<open>netip.ParsePrefix\<close> differs in
  that it refuses a prefix length with a leading zero.\<close>

definition parse_cidr :: "bool \<Rightarrow> bool \<Rightarrow> string \<Rightarrow> (ip \<times> nat) option" where
  "parse_cidr sloppy strict_bits s =
     (if CHR ''/'' \<notin> set s then None
      else
        (let (addr, bits) = cut (CHR ''/'') s in
         case parse_ip sloppy addr of None \<Rightarrow> None
         | Some a \<Rightarrow>
             if bits = [] \<or> \<not> list_all is_digit bits \<or> digits_val bits > ip_bits a then None
             else if strict_bits \<and> length bits > 1 \<and> hd bits = CHR ''0'' then None
             else Some (mask_ip (digits_val bits) a, digits_val bits)))"

definition ParseCIDR :: "string \<Rightarrow> (ip \<times> nat) option" where
  "ParseCIDR s = parse_cidr False False s"

definition ParsePrefix :: "string \<Rightarrow> (ip \<times> nat) option" where
  "ParsePrefix s = parse_cidr False True s"

definition ipnet_String :: "ip \<times> nat \<Rightarrow> string" where
  "ipnet_String net = ip_String (fst net) @ ''/'' @ show_nat (snd net)"

text \<open>\<^verbatim>\<open>utilnet.ParseIPNets\<close>: the set of the blocks, by their text.\<close>

definition ParseIPNets :: "string list \<Rightarrow> string list result" where
  "ParseIPNets specs = foldR (\<lambda>spec acc.
     case parse_cidr True False (TrimSpace spec) of
       None \<Rightarrow> Inl (Errorf ''invalid CIDR address: %s'' [spec])
     | Some net \<Rightarrow> Inr (List.insert (ipnet_String net) acc)) specs []"

section \<open>Lemmas\<close>

lemma mask_units_idem: "mask_units w n (mask_units w n us) = mask_units w n us"
  by (induction w n us rule: mask_units.induct) (auto simp: Let_def)

lemma mask_ip_idem [simp]: "mask_ip n (mask_ip n a) = mask_ip n a"
  by (cases a) (simp_all add: mask_units_idem)

lemma parse_octet_show_nat: "n \<le> 255 \<Longrightarrow> parse_octet sloppy (show_nat n) = Some n"
proof -
  assume n: "n \<le> 255"
  have "\<not> (length (show_nat n) > 1 \<and> hd (show_nat n) = CHR ''0'')" by (rule show_nat_no_zero)
  then show ?thesis using n by (auto simp: parse_octet_def show_nat_digits)
qed

lemma sequence_map: "(\<And>x. x \<in> set xs \<Longrightarrow> f x = Some (g x)) \<Longrightarrow> sequence (map f xs) = Some (map g xs)"
  by (induction xs) auto

lemma no_dot_show_nat: "CHR ''.'' \<notin> set (show_nat n)" "CHR '':'' \<notin> set (show_nat n)"
  using show_nat_digits [of n] by (auto simp: list_all_iff is_digit_def)

lemma parse_ipv4_String:
  assumes "length os = 4" and "list_all (\<lambda>n. n \<le> 255) os"
  shows "parse_ipv4 sloppy (ipv4_String os) = Some os"
proof -
  have "Split (CHR ''.'') (Join (map show_nat os) ''.'') = map show_nat os"
    using assms(1) no_dot_show_nat(1) by (intro Split_Join) auto
  moreover have "sequence (map (\<lambda>n. parse_octet sloppy (show_nat n)) os) = Some (map (\<lambda>n. n) os)"
    using assms(2) by (intro sequence_map) (auto simp: parse_octet_show_nat list_all_iff)
  ultimately show ?thesis using assms(1) by (simp add: parse_ipv4_def ipv4_String_def comp_def)
qed

lemma Join_no_char: "c \<notin> set sep \<Longrightarrow> \<forall>w \<in> set ws. c \<notin> set w \<Longrightarrow> c \<notin> set (Join ws sep)"
  by (induction ws sep rule: Join.induct) auto

lemma ParseIP_IPv4_String:
  assumes "length os = 4" and "list_all (\<lambda>n. n \<le> 255) os"
  shows "parse_ip sloppy (ip_String (IPv4 os)) = Some (IPv4 os)"
proof -
  have "CHR '':'' \<notin> set (ipv4_String os)"
    unfolding ipv4_String_def using no_dot_show_nat(2) by (intro Join_no_char) auto
  then show ?thesis by (simp add: parse_ip_def ip_String_def parse_ipv4_String [OF assms])
qed

end
