(* ===== verification/Url.thy ===== *)
theory Url
  imports IpAddr
begin

text \<open>
  Go's \<^verbatim>\<open>net/url.Parse\<close>, as far as the code uses it: for the provider id of a node, of which it
  reads \<^verbatim>\<open>Scheme\<close> and \<^verbatim>\<open>Path\<close>, and for the URL of an endpoint override. The steps are those of the
  library: the fragment is cut off, control characters are refused, the scheme is split off, the
  query is cut off, the authority of a \<^verbatim>\<open>//\<close> URL is checked, the path is unescaped, and at last the
  fragment. The checks of a host are those of Go 1.26, the version in \<^verbatim>\<open>go.mod\<close>: one colon, and an IPv6
  address in brackets.
\<close>

record url =
  url_Scheme :: string
  url_Opaque :: string
  url_Host :: string
  url_Path :: string
  url_RawQuery :: string
  url_Fragment :: string

definition EscapeError :: go_error where
  "EscapeError = Errorf ''invalid URL escape'' []"

text \<open>\<^verbatim>\<open>unescape(s, encodePath)\<close>: a percent sign is followed by two hexadecimal digits.\<close>

fun unescape :: "string \<Rightarrow> string result" where
  "unescape [] = Inr []"
| "unescape (c # s) =
     (if c = CHR ''%'' then
        (case s of
           a # b # s' \<Rightarrow>
             (if is_hex a \<and> is_hex b
              then bindR (unescape s') (\<lambda>t. Inr (char_of (16 * unhex a + unhex b) # t))
              else Inl EscapeError)
         | _ \<Rightarrow> Inl EscapeError)
      else bindR (unescape s) (\<lambda>t. Inr (c # t)))"

definition is_ctl :: "char \<Rightarrow> bool" where
  "is_ctl c \<longleftrightarrow> (of_char c :: nat) < 32 \<or> (of_char c :: nat) = 127"

text \<open>\<^verbatim>\<open>getScheme\<close>: the leading letters, digits and \<^verbatim>\<open>+-.\<close> up to a colon; the first is a letter.\<close>

definition scheme_char :: "char \<Rightarrow> bool" where
  "scheme_char c \<longleftrightarrow> is_alpha c \<or> is_digit c \<or> c \<in> set ''+-.''"

definition getScheme :: "string \<Rightarrow> (string \<times> string) result" where
  "getScheme s =
     (let p = takeWhile scheme_char s; r = dropWhile scheme_char s in
      if r = [] \<or> hd r \<noteq> CHR '':'' then Inr ('''', s)
      else if p = [] then Inl (Errorf ''missing protocol scheme'' [])
      else if \<not> is_alpha (hd p) then Inr ('''', s)
      else Inr (p, tl r))"

definition validOptionalPort :: "string \<Rightarrow> bool" where
  "validOptionalPort p \<longleftrightarrow> p = [] \<or> hd p = CHR '':'' \<and> list_all is_digit (tl p)"

text \<open>The bytes that \<^verbatim>\<open>shouldEscape\<close> lets stand in a host, and those that a host may have.\<close>

definition host_byte :: "char \<Rightarrow> bool" where
  "host_byte c \<longleftrightarrow> is_alnum c \<or> c \<in> set ''-_.~!$&()*+,;=:[]<>'' \<or> c = CHR 0x27 \<or> c = CHR 0x22"

definition host_char :: "char \<Rightarrow> bool" where
  "host_char c \<longleftrightarrow> 128 \<le> (of_char c :: nat) \<or> host_byte c"

text \<open>\<^verbatim>\<open>unescape\<close> in the modes \<^verbatim>\<open>encodeHost\<close> and \<^verbatim>\<open>encodeZone\<close>, which differ in the escapes they allow.\<close>

fun unescape_host :: "(char \<Rightarrow> char \<Rightarrow> bool) \<Rightarrow> string \<Rightarrow> string result" where
  "unescape_host escape [] = Inr []"
| "unescape_host escape (c # s) =
     (if c = CHR ''%'' then
        (case s of
           a # b # s' \<Rightarrow>
             (if is_hex a \<and> is_hex b \<and> escape a b
              then bindR (unescape_host escape s') (\<lambda>t. Inr (char_of (16 * unhex a + unhex b) # t))
              else Inl EscapeError)
         | _ \<Rightarrow> Inl EscapeError)
      else if host_char c then bindR (unescape_host escape s) (\<lambda>t. Inr (c # t))
      else Inl (Errorf ''invalid character %s in host name'' [[c]]))"

definition encodeHost :: "char \<Rightarrow> char \<Rightarrow> bool" where
  "encodeHost a b \<longleftrightarrow> 8 \<le> unhex a \<or> [a, b] = ''25''"

definition encodeZone :: "char \<Rightarrow> char \<Rightarrow> bool" where
  "encodeZone a b \<longleftrightarrow> [a, b] = ''25'' \<or> [a, b] = ''20'' \<or> host_byte (char_of (16 * unhex a + unhex b))"

text \<open>\<^verbatim>\<open>netip.ParseAddr\<close> on a text with a colon: an IPv6 address with an optional zone.\<close>

definition ipv6_literal :: "string \<Rightarrow> bool" where
  "ipv6_literal s \<longleftrightarrow> (let (addr, zone) = cut (CHR ''%'') s in
     CHR '':'' \<in> set addr \<and> (CHR ''%'' \<in> set s \<longrightarrow> zone \<noteq> []) \<and> parse_ipv6 False addr \<noteq> None)"

definition bracket_host :: "string \<Rightarrow> string result" where
  "bracket_host hostname =
     bindR (case find (\<lambda>n. HasPrefix (drop n hostname) ''%25'') [0..<length hostname] of
         None \<Rightarrow> unescape_host encodeHost hostname
       | Some n \<Rightarrow> bindR (unescape_host encodeHost (take n hostname)) (\<lambda>addr.
           bindR (unescape_host encodeZone (drop n hostname)) (\<lambda>zone. Inr (addr @ zone))))
     (\<lambda>literal. if ipv6_literal literal then Inr literal else Inl (Errorf ''invalid host'' []))"

text \<open>The text before and after the last occurrence of a byte.\<close>

definition cut_last :: "char \<Rightarrow> string \<Rightarrow> string \<times> string" where
  "cut_last c s = (let (b, a) = cut c (rev s) in (rev a, rev b))"

definition parseHost :: "string \<Rightarrow> string result" where
  "parseHost host =
     (if CHR ''['' \<in> set host then
        (if CHR ''['' \<in> set (tl host) then Inl (Errorf ''invalid IP-literal'' [])
         else if CHR '']'' \<notin> set host then Inl (Errorf ''missing ']' in host'' [])
         else let (opened, colonPort) = cut_last (CHR '']'') host in
           if \<not> validOptionalPort colonPort then Inl (Errorf ''invalid port %q after host'' [colonPort])
           else bindR (bracket_host (tl opened)) (\<lambda>literal. Inr (''['' @ literal @ '']'' @ colonPort)))
      else let colonPort = dropWhile (\<lambda>c. c \<noteq> CHR '':'') host in
        if \<not> validOptionalPort colonPort then Inl (Errorf ''invalid port %q after host'' [colonPort])
        else unescape_host encodeHost host)"

definition valid_user_char :: "char \<Rightarrow> bool" where
  "valid_user_char c \<longleftrightarrow> is_alnum c \<or> c \<in> set ''-._:~!$&()*+,;=%@'' \<or> c = CHR 0x27"

text \<open>\<^verbatim>\<open>parseAuthority\<close>: the host after the last \<^verbatim>\<open>@\<close>; the user information before it is only checked.\<close>

definition parseAuthority :: "string \<Rightarrow> string result" where
  "parseAuthority authority =
     (if CHR ''@'' \<notin> set authority then parseHost authority
      else let (userinfo, host) = cut_last (CHR ''@'') authority in
        bindR (parseHost host) (\<lambda>host.
        if \<not> list_all valid_user_char userinfo then Inl (Errorf ''net/url: invalid userinfo'' [])
        else let (username, password) = cut (CHR '':'') userinfo in
          bindR (unescape username) (\<lambda>_. bindR (unescape password) (\<lambda>_. Inr host))))"

definition has_authority :: "string \<Rightarrow> string \<Rightarrow> bool" where
  "has_authority scheme rest \<longleftrightarrow> (scheme \<noteq> '''' \<or> \<not> HasPrefix rest ''///'') \<and> HasPrefix rest ''//''"

definition url_Parse :: "string \<Rightarrow> url result" where
  "url_Parse rawURL =
     (let (u, frag) = cut (CHR ''#'') rawURL in
      if list_ex is_ctl u then Inl (Errorf ''net/url: invalid control character in URL'' [])
      else if u = ''*'' then bindR (unescape frag) (\<lambda>fragment.
        Inr \<lparr>url_Scheme = '''', url_Opaque = '''', url_Host = '''', url_Path = ''*'', url_RawQuery = '''',
             url_Fragment = fragment\<rparr>)
      else bindR (getScheme u) (\<lambda>(scheme, rest).
        let scheme = ToLower scheme; (rest, query) = cut (CHR ''?'') rest in
        if \<not> HasPrefix rest ''/'' \<and> scheme \<noteq> '''' then
          bindR (unescape frag) (\<lambda>fragment.
            Inr \<lparr>url_Scheme = scheme, url_Opaque = rest, url_Host = '''', url_Path = '''',
                 url_RawQuery = query, url_Fragment = fragment\<rparr>)
        else if \<not> HasPrefix rest ''/'' \<and> CHR '':'' \<in> set (fst (cut (CHR ''/'') rest)) then
          Inl (Errorf ''first path segment in URL cannot contain colon'' [])
        else
          (let auth = has_authority scheme rest;
               authority = (if auth then takeWhile (\<lambda>c. c \<noteq> CHR ''/'') (drop 2 rest) else '''');
               path = (if auth then dropWhile (\<lambda>c. c \<noteq> CHR ''/'') (drop 2 rest) else rest)
           in bindR (if auth then parseAuthority authority else Inr '''') (\<lambda>host.
              bindR (unescape path) (\<lambda>path.
              bindR (unescape frag) (\<lambda>fragment.
                Inr \<lparr>url_Scheme = scheme, url_Opaque = '''', url_Host = host, url_Path = path,
                     url_RawQuery = query, url_Fragment = fragment\<rparr>))))))"

text \<open>\<^verbatim>\<open>u.Hostname()\<close>: the host without a port and without the brackets.\<close>

definition Hostname :: "url \<Rightarrow> string" where
  "Hostname u =
     (let hostPort = url_Host u; (before, port) = cut_last (CHR '':'') hostPort;
          host = (if CHR '':'' \<in> set hostPort \<and> validOptionalPort (CHR '':'' # port) then before else hostPort)
      in if HasPrefix host ''['' \<and> HasSuffix host '']'' then butlast (tl host) else host)"

section \<open>Paths without special bytes\<close>

definition plain_url_char :: "char \<Rightarrow> bool" where
  "plain_url_char c \<longleftrightarrow> \<not> is_ctl c \<and> c \<notin> set ''%?#''"

lemma unescape_plain: "list_all plain_url_char s \<Longrightarrow> unescape s = Inr s"
  by (induction s) (auto simp: plain_url_char_def)

lemma cut_absent: "c \<notin> set s \<Longrightarrow> cut c s = (s, '''')"
proof -
  assume "c \<notin> set s"
  then have "\<forall>d \<in> set s. d \<noteq> c" by auto
  then have "takeWhile (\<lambda>d. d \<noteq> c) s = s" "dropWhile (\<lambda>d. d \<noteq> c) s = []" by auto
  then show ?thesis by (simp only: cut_def list.sel)
qed

lemma plain_url_no_cut: "list_all plain_url_char s \<Longrightarrow> cut (CHR ''#'') s = (s, '''')
    \<and> cut (CHR ''?'') s = (s, '''') \<and> \<not> list_ex is_ctl s"
  by (auto simp: plain_url_char_def list_all_iff list_ex_iff intro!: cut_absent)

text \<open>A URL \<^verbatim>\<open>aws://\<close> with an empty authority parses to its path.\<close>

lemma url_Parse_aws:
  assumes "list_all plain_url_char path" and "HasPrefix path ''/''"
  shows "url_Parse (''aws://'' @ path) = Inr \<lparr>url_Scheme = ''aws'', url_Opaque = '''', url_Host = '''',
    url_Path = path, url_RawQuery = '''', url_Fragment = ''''\<rparr>"
proof -
  have plain: "list_all plain_url_char (''aws://'' @ path)" "list_all plain_url_char (''//'' @ path)"
    using assms(1) by (simp_all add: plain_url_char_def is_ctl_def)
  have scheme: "getScheme (''aws://'' @ path) = Inr (''aws'', ''//'' @ path)"
    by (simp add: getScheme_def scheme_char_def is_alpha_def is_upper_def is_lower_def is_digit_def)
  obtain p where p: "path = CHR ''/'' # p" using assms(2) by (cases path) (auto simp: HasPrefix_def)
  have "unescape path = Inr path" using assms(1) by (rule unescape_plain)
  then show ?thesis
    using plain_url_no_cut [OF plain(1)] plain_url_no_cut [OF plain(2)] scheme
    by (simp add: url_Parse_def ToLower_def lower_char_def is_upper_def HasPrefix_def has_authority_def parseAuthority_def parseHost_def
        validOptionalPort_def p)
qed

text \<open>A URL \<^verbatim>\<open>https://\<close> with a name, an optional port and a plain path.\<close>

definition plain_host_char :: "char \<Rightarrow> bool" where
  "plain_host_char c \<longleftrightarrow> is_alnum c \<or> c \<in> set ''-._''"

lemma plain_host_char_facts:
  assumes "plain_host_char c"
  shows "host_char c" and "plain_url_char c" and "c \<noteq> CHR ''/''" and "c \<noteq> CHR '':''" and "c \<noteq> CHR ''@''"
    and "c \<noteq> CHR ''[''" and "c \<noteq> CHR ''%''"
  using assms by (auto simp: plain_host_char_def host_char_def host_byte_def plain_url_char_def is_ctl_def is_alnum_def
      is_alpha_def is_upper_def is_lower_def is_digit_def)

lemma port_char_facts:
  assumes "validOptionalPort port" and "c \<in> set port"
  shows "host_char c" and "plain_url_char c" and "c \<noteq> CHR ''/''" and "c \<noteq> CHR ''@''" and "c \<noteq> CHR ''[''" and "c \<noteq> CHR ''%''"
proof -
  have "c = CHR '':'' \<or> is_digit c" using assms by (cases port) (auto simp: validOptionalPort_def list_all_iff)
  then show "host_char c" and "plain_url_char c" and "c \<noteq> CHR ''/''" and "c \<noteq> CHR ''@''" and "c \<noteq> CHR ''[''" and "c \<noteq> CHR ''%''"
    by (auto simp: host_char_def host_byte_def plain_url_char_def is_ctl_def is_alnum_def is_digit_def)
qed

lemma unescape_host_plain: "(\<And>c. c \<in> set s \<Longrightarrow> host_char c \<and> c \<noteq> CHR ''%'') \<Longrightarrow> unescape_host escape s = Inr s"
  by (induction s) auto

lemma span_absent:
  assumes "\<And>c. c \<in> set s \<Longrightarrow> c \<noteq> sep" and "t = [] \<or> hd t = sep"
  shows "takeWhile (\<lambda>c. c \<noteq> sep) (s @ t) = s" and "dropWhile (\<lambda>c. c \<noteq> sep) (s @ t) = t"
proof -
  have "\<forall>c \<in> set s. c \<noteq> sep" using assms(1) by blast
  then show "takeWhile (\<lambda>c. c \<noteq> sep) (s @ t) = s" "dropWhile (\<lambda>c. c \<noteq> sep) (s @ t) = t"
    using assms(2) by (induction s) (cases t; simp)+
qed

lemma authority_chars:
  assumes "list_all plain_host_char name" and "validOptionalPort port" and "c \<in> set (name @ port)"
  shows "host_char c \<and> plain_url_char c \<and> c \<noteq> CHR ''%'' \<and> c \<noteq> CHR ''@'' \<and> c \<noteq> CHR ''['' \<and> c \<noteq> CHR ''/''"
proof (cases "c \<in> set name")
  case True
  then have "plain_host_char c" using assms(1) by (simp add: list_all_iff)
  from plain_host_char_facts [OF this] show ?thesis by blast
next
  case False
  then have "c \<in> set port" using assms(3) by simp
  from port_char_facts [OF assms(2) this] show ?thesis by blast
qed

lemma parseAuthority_plain:
  assumes "list_all plain_host_char name" and "validOptionalPort port"
  shows "parseAuthority (name @ port) = Inr (name @ port)"
proof -
  note chars = authority_chars [OF assms]
  have "dropWhile (\<lambda>c. c \<noteq> CHR '':'') (name @ port) = port"
    by (rule span_absent) (use assms plain_host_char_facts in \<open>auto simp: list_all_iff validOptionalPort_def\<close>)
  moreover have "CHR ''@'' \<notin> set (name @ port)" "CHR ''['' \<notin> set (name @ port)" using chars by blast+
  ultimately show ?thesis
    using assms(2) unescape_host_plain [of "name @ port"] chars by (simp only: parseAuthority_def parseHost_def if_False if_True Let_def simp_thms)
qed

lemma url_Parse_https:
  assumes "list_all plain_host_char name" and "validOptionalPort port" and "list_all plain_url_char path"
    and "path = [] \<or> hd path = CHR ''/''"
  shows "url_Parse (''https://'' @ name @ port @ path) = Inr \<lparr>url_Scheme = ''https'', url_Opaque = '''', url_Host = name @ port,
    url_Path = path, url_RawQuery = '''', url_Fragment = ''''\<rparr>"
proof -
  let ?rest = "''//'' @ name @ port @ path"
  have "list_all plain_url_char (name @ port @ path)"
    using assms(3) authority_chars [OF assms(1,2)] by (auto simp: list_all_iff)
  then have plain: "list_all plain_url_char (''https://'' @ name @ port @ path)" "list_all plain_url_char ?rest"
    by (simp_all add: plain_url_char_def is_ctl_def)
  have scheme: "getScheme (''https://'' @ name @ port @ path) = Inr (''https'', ?rest)"
    by (simp add: getScheme_def scheme_char_def is_alpha_def is_upper_def is_lower_def is_digit_def)
  have "c \<noteq> CHR ''/''" if "c \<in> set (name @ port)" for c
    using authority_chars [OF assms(1,2) that] by blast
  note split = span_absent [of "name @ port", OF this assms(4)]
  have lower: "ToLower ''https'' = ''https''" by (simp add: ToLower_def lower_char_def is_upper_def)
  have "unescape path = Inr path" "unescape '''' = Inr ''''" using unescape_plain [OF assms(3)] by simp_all
  moreover have "has_authority ''https'' ?rest" "HasPrefix ?rest ''/''" "drop 2 ?rest = (name @ port) @ path"
    by (simp_all add: has_authority_def HasPrefix_def)
  moreover have "''https://'' @ name @ port @ path \<noteq> ''*''" by simp
  ultimately show ?thesis
    using plain_url_no_cut [OF plain(1)] plain_url_no_cut [OF plain(2)] scheme split parseAuthority_plain [OF assms(1,2)]
    by (simp only: url_Parse_def Let_def split bindR_simps lower prod.case if_True if_False simp_thms)
qed

lemma Hostname_plain:
  assumes "list_all plain_host_char name" and "validOptionalPort port" and "url_Host u = name @ port"
  shows "Hostname u = name"
proof -
  have "CHR ''['' \<notin> set name" and colon: "CHR '':'' \<notin> set name"
    using assms(1) plain_host_char_facts(4,6) unfolding list_all_iff by blast+
  then have name: "CHR '':'' \<notin> set name" "\<not> HasPrefix name ''[''" by (auto simp: HasPrefix_iff)
  show ?thesis
  proof (cases port)
    case Nil
    then show ?thesis using name assms(3) by (simp add: Hostname_def cut_last_def Let_def split: prod.split)
  next
    case (Cons c digits)
    then have c: "c = CHR '':''" "list_all is_digit digits" using assms(2) by (simp_all add: validOptionalPort_def)
    then have "d \<noteq> CHR '':''" if "d \<in> set (rev digits)" for d using that by (auto simp: list_all_iff is_digit_def)
    then have "cut (CHR '':'') (rev digits @ CHR '':'' # rev name) = (rev digits, rev name)"
      using span_absent [of "rev digits" "CHR '':''" "CHR '':'' # rev name"] by (simp add: cut_def)
    then have "cut_last (CHR '':'') (url_Host u) = (name, digits)" by (simp add: cut_last_def assms(3) Cons c(1))
    then show ?thesis using name(2) assms(2,3) by (simp add: Hostname_def Cons c(1))
  qed
qed

end
