(* ===== verification/Config.thy ===== *)
theory Config
  imports Url Wait "HOL-Library.Multiset"
begin

text \<open>
  The cloud configuration, \<^verbatim>\<open>src/pkg/providers/v1/config/config.go\<close>: its fields, the lookup of the
  region, the validation of endpoint overrides, and the overrides that the four AWS clients apply.

  The lemmas show that validated overrides are unambiguous, so that the endpoint a client gets does
  not depend on the order in which Go visits the map (\<open>endpoint_override\<close>), and that validation
  leaves trimmed names.
\<close>

section \<open>Definitions\<close>

record service_override =
  ov_Service :: string
  ov_Region :: string
  ov_URL :: string
  ov_SigningRegion :: string
  ov_SigningMethod :: string
  ov_SigningName :: string

record global_config =
  Zone :: string
  Region :: string
  VPC :: string
  SubnetID :: string
  RouteTableID :: string
  RoleARN :: string
  SourceARN :: string
  KubernetesClusterTag :: string
  KubernetesClusterID :: string
  DisableSecurityGroupIngress :: bool
  ElbSecurityGroup :: string
  NodeIPFamilies :: "string list"
  ClusterServiceLoadBalancerHealthProbeMode :: string
  ClusterServiceSharedLoadBalancerHealthProbePort :: int
  ClusterServiceSharedLoadBalancerHealthProbePath :: string
  SupportedTopologyInstanceTypePattern :: string
  NLBSecurityGroupMode :: string

record CloudConfig =
  Global :: global_config
  ServiceOverride :: "(string, service_override) gomap"

definition ClusterServiceLoadBalancerHealthProbeModeShared :: string where
  "ClusterServiceLoadBalancerHealthProbeModeShared = ''Shared''"

definition NLBSecurityGroupModeManaged :: string where
  "NLBSecurityGroupModeManaged = ''Managed''"

text \<open>The metadata service: \<open>GetMetadata path\<close> and \<open>GetRegion\<close>.\<close>

record 'w EC2Metadata =
  imds_GetMetadata :: "string \<Rightarrow> ('w, string) aws"
  imds_GetRegion :: "('w, string) aws"

text \<open>\<^verbatim>\<open>GetRegion\<close> stores the region it got in the configuration, which is part of the state.\<close>

definition GetRegion :: "'w EC2Metadata \<Rightarrow> ('w \<times> CloudConfig, string) aws" where
  "GetRegion metadata = (\<lambda>(w, cfg).
     if Region (Global cfg) \<noteq> '''' then (Inr (Region (Global cfg)), (w, cfg))
     else
       (case imds_GetRegion metadata w of
          (Inl err, w') \<Rightarrow> (Inl err, (w', cfg))
        | (Inr region, w') \<Rightarrow> (Inr region, (w', cfg\<lparr>Global := (Global cfg)\<lparr>Region := region\<rparr>\<rparr>))))"

text \<open>One iteration of \<^verbatim>\<open>ValidateOverrides\<close>: the entry is rewritten in place (the map holds pointers)
  and its signature is added to the set of those seen.\<close>

definition validate_override ::
  "string \<Rightarrow> service_override \<Rightarrow> string list \<Rightarrow> (service_override \<times> string list) result \<times> service_override" where
  "validate_override onum ovrd seen =
     (let name = TrimSpace (ov_Service ovrd) in
      if name = '''' then
        (Inl (Errorf ''service name is missing [Service is \"\"] in override %s'' [onum]), ovrd)
      else
        (let ovrd = ovrd\<lparr>ov_Service := name\<rparr>; region = TrimSpace (ov_Region ovrd) in
         if region = '''' then
           (Inl (Errorf ''service region is missing [Region is \"\"] in override %s'' [onum]), ovrd)
         else
           (let ovrd = ovrd\<lparr>ov_Region := region\<rparr> in
            if TrimSpace (ov_URL ovrd) = '''' then
              (Inl (Errorf ''url is missing [URL is \"\"] in override %s'' [onum]), ovrd)
            else if TrimSpace (ov_SigningRegion ovrd) = '''' then
              (Inl (Errorf ''signingRegion is missing [SigningRegion is \"\"] in override %s'' [onum]), ovrd)
            else
              (let signature = name @ ''_'' @ region in
               if signature \<in> set seen then
                 (Inl (Errorf ''duplicate entry found for service override [%s] (%s in %s)''
                         [onum, name, region]), ovrd)
               else (Inr (ovrd, signature # seen), ovrd)))))"

fun validate_overrides ::
  "(string, service_override) gomap \<Rightarrow> string list \<Rightarrow> unit result \<times> (string, service_override) gomap" where
  "validate_overrides [] seen = (Inr (), [])"
| "validate_overrides ((onum, ovrd) # rest) seen =
     (case validate_override onum ovrd seen of
        (Inl err, ovrd') \<Rightarrow> (Inl err, (onum, ovrd') # rest)
      | (Inr (_, seen'), ovrd') \<Rightarrow>
          (case validate_overrides rest seen' of (r, rest') \<Rightarrow> (r, (onum, ovrd') # rest')))"

definition ValidateOverrides :: "(CloudConfig, unit) aws" where
  "ValidateOverrides cfg =
     (case validate_overrides (ServiceOverride cfg) [] of
        (r, overrides) \<Rightarrow> (r, cfg\<lparr>ServiceOverride := overrides\<rparr>))"

definition IsNLBSecurityGroupModeManaged :: "CloudConfig \<Rightarrow> bool result" where
  "IsNLBSecurityGroupModeManaged cfg =
     (let mode = NLBSecurityGroupMode (Global cfg) in
      if mode = '''' then Inr False
      else if mode = NLBSecurityGroupModeManaged then Inr True
      else Inl (Errorf ''invalid NLB security group mode: %q. Expected: %q''
                  [mode, NLBSecurityGroupModeManaged]))"

text \<open>The service ids of the SDK's clients.\<close>

definition ec2_ServiceID :: string where "ec2_ServiceID = ''EC2''"
definition elb_ServiceID :: string where "elb_ServiceID = ''Elastic Load Balancing''"
definition elbv2_ServiceID :: string where "elbv2_ServiceID = ''Elastic Load Balancing v2''"
definition kms_ServiceID :: string where "kms_ServiceID = ''KMS''"
definition imds_ServiceID :: string where "imds_ServiceID = ''ec2imds''"

datatype client_option = WithSigV4SigningName string | WithSigV4SigningRegion string | WithEndpoint string

definition GetEC2EndpointOpts :: "CloudConfig \<Rightarrow> string \<Rightarrow> client_option list" where
  "GetEC2EndpointOpts cfg region = concat (map (\<lambda>(_, override).
     if ov_Service override = ec2_ServiceID \<and> ov_Region override = region
     then [WithSigV4SigningName (ov_SigningName override), WithSigV4SigningRegion (ov_SigningRegion override)]
     else []) (ServiceOverride cfg))"

definition GetELBEndpointOpts :: "CloudConfig \<Rightarrow> string \<Rightarrow> client_option list" where
  "GetELBEndpointOpts cfg region = concat (map (\<lambda>(_, override).
     if ov_Service override = elb_ServiceID \<and> ov_Region override = region
     then [WithSigV4SigningName (ov_SigningName override), WithSigV4SigningRegion (ov_SigningRegion override)]
     else []) (ServiceOverride cfg))"

definition GetELBV2EndpointOpts :: "CloudConfig \<Rightarrow> string \<Rightarrow> client_option list" where
  "GetELBV2EndpointOpts cfg region = concat (map (\<lambda>(_, override).
     if ov_Service override = elbv2_ServiceID \<and> ov_Region override = region
     then [WithSigV4SigningName (ov_SigningName override), WithSigV4SigningRegion (ov_SigningRegion override)]
     else []) (ServiceOverride cfg))"

definition GetKMSEndpointOpts :: "CloudConfig \<Rightarrow> string \<Rightarrow> client_option list" where
  "GetKMSEndpointOpts cfg region = concat (map (\<lambda>(_, override).
     if ov_Service override = kms_ServiceID \<and> ov_Region override = region
     then [WithSigV4SigningName (ov_SigningName override), WithSigV4SigningRegion (ov_SigningRegion override)]
     else []) (ServiceOverride cfg))"

definition GetIMDSEndpointOpts :: "CloudConfig \<Rightarrow> client_option list" where
  "GetIMDSEndpointOpts cfg = concat (map (\<lambda>(_, override).
     if ov_Service override = imds_ServiceID then [WithEndpoint (ov_URL override)] else [])
     (ServiceOverride cfg))"

text \<open>The loop that the four resolvers share: the first matching override decides. The default
  resolver of the SDK is an argument.\<close>

fun resolve_override ::
  "string \<Rightarrow> string option \<Rightarrow> (string, service_override) gomap \<Rightarrow> (string option \<Rightarrow> url result) \<Rightarrow> url result" where
  "resolve_override service region [] default_resolver = default_resolver region"
| "resolve_override service region ((onum, override) # rest) default_resolver =
     (if ov_Service override = service \<and> ov_Region override = ToString region then
        (case url_Parse (ov_URL override) of
           Inl err \<Rightarrow> Inl (Wrapf ''could not parse override URL, %w'' [] err)
         | Inr customURL \<Rightarrow> Inr customURL)
      else resolve_override service region rest default_resolver)"

definition EC2_ResolveEndpoint :: "CloudConfig \<Rightarrow> (string option \<Rightarrow> url result) \<Rightarrow> string option \<Rightarrow> url result" where
  "EC2_ResolveEndpoint cfg default_resolver region =
     resolve_override ec2_ServiceID region (ServiceOverride cfg) default_resolver"

definition ELB_ResolveEndpoint :: "CloudConfig \<Rightarrow> (string option \<Rightarrow> url result) \<Rightarrow> string option \<Rightarrow> url result" where
  "ELB_ResolveEndpoint cfg default_resolver region =
     resolve_override elb_ServiceID region (ServiceOverride cfg) default_resolver"

definition ELBV2_ResolveEndpoint :: "CloudConfig \<Rightarrow> (string option \<Rightarrow> url result) \<Rightarrow> string option \<Rightarrow> url result" where
  "ELBV2_ResolveEndpoint cfg default_resolver region =
     resolve_override elbv2_ServiceID region (ServiceOverride cfg) default_resolver"

definition KMS_ResolveEndpoint :: "CloudConfig \<Rightarrow> (string option \<Rightarrow> url result) \<Rightarrow> string option \<Rightarrow> url result" where
  "KMS_ResolveEndpoint cfg default_resolver region =
     resolve_override kms_ServiceID region (ServiceOverride cfg) default_resolver"

section \<open>Validation\<close>

definition trim_override :: "service_override \<Rightarrow> service_override" where
  "trim_override ov = ov\<lparr>ov_Service := TrimSpace (ov_Service ov), ov_Region := TrimSpace (ov_Region ov)\<rparr>"

definition override_signature :: "service_override \<Rightarrow> string" where
  "override_signature ov = TrimSpace (ov_Service ov) @ ''_'' @ TrimSpace (ov_Region ov)"

definition complete_override :: "service_override \<Rightarrow> bool" where
  "complete_override ov \<longleftrightarrow> TrimSpace (ov_Service ov) \<noteq> '''' \<and> TrimSpace (ov_Region ov) \<noteq> ''''
     \<and> TrimSpace (ov_URL ov) \<noteq> '''' \<and> TrimSpace (ov_SigningRegion ov) \<noteq> ''''"

abbreviation signatures :: "(string, service_override) gomap \<Rightarrow> string list" where
  "signatures ovs \<equiv> map (\<lambda>(n, ov). override_signature ov) ovs"

lemma validate_override_cases:
  "if complete_override ov \<and> override_signature ov \<notin> set seen
   then validate_override onum ov seen =
     (Inr (trim_override ov, override_signature ov # seen), trim_override ov)
   else (\<exists>e ov'. validate_override onum ov seen = (Inl e, ov'))"
  by (auto simp: validate_override_def complete_override_def override_signature_def trim_override_def Let_def)

lemma validate_overrides_ok:
  "validate_overrides ovs seen = (Inr (), ovs') \<longleftrightarrow>
     list_all (\<lambda>(n, ov). complete_override ov) ovs \<and> distinct (signatures ovs)
     \<and> set (signatures ovs) \<inter> set seen = {} \<and> ovs' = map (\<lambda>(n, ov). (n, trim_override ov)) ovs"
proof (induction ovs arbitrary: seen ovs')
  case (Cons p rest)
  obtain n ov where p: "p = (n, ov)" by (cases p)
  show ?case
  proof (cases "complete_override ov \<and> override_signature ov \<notin> set seen")
    case True
    obtain r rest' where rec: "validate_overrides rest (override_signature ov # seen) = (r, rest')"
      by (cases "validate_overrides rest (override_signature ov # seen)")
    from True have "validate_override n ov seen =
        (Inr (trim_override ov, override_signature ov # seen), trim_override ov)"
      using validate_override_cases [of ov seen n] by simp
    with rec have "validate_overrides (p # rest) seen = (r, (n, trim_override ov) # rest')"
      by (simp add: p)
    moreover have "r = Inr () \<and> rest' = tl ovs' \<longleftrightarrow> list_all (\<lambda>(n, ov). complete_override ov) rest
        \<and> distinct (signatures rest) \<and> set (signatures rest) \<inter> set (override_signature ov # seen) = {}
        \<and> tl ovs' = map (\<lambda>(n, ov). (n, trim_override ov)) rest"
      using rec Cons.IH [of "override_signature ov # seen" "tl ovs'"] by simp
    ultimately show ?thesis using True by (cases ovs') (auto simp: p)
  next
    case False
    then obtain e ov' where "validate_override n ov seen = (Inl e, ov')"
      using validate_override_cases [of ov seen n] by (auto split: if_splits)
    with False show ?thesis by (auto simp: p)
  qed
qed auto

lemma ValidateOverrides_ok:
  "ValidateOverrides cfg = (Inr (), cfg') \<longleftrightarrow>
     list_all (\<lambda>(n, ov). complete_override ov) (ServiceOverride cfg) \<and> distinct (signatures (ServiceOverride cfg))
     \<and> cfg' = cfg\<lparr>ServiceOverride := map (\<lambda>(n, ov). (n, trim_override ov)) (ServiceOverride cfg)\<rparr>"
proof -
  obtain r ovs where run: "validate_overrides (ServiceOverride cfg) [] = (r, ovs)"
    by (cases "validate_overrides (ServiceOverride cfg) []")
  let ?ok = "list_all (\<lambda>(n, ov). complete_override ov) (ServiceOverride cfg)
    \<and> distinct (signatures (ServiceOverride cfg))"
  let ?trimmed = "map (\<lambda>(n, ov). (n, trim_override ov)) (ServiceOverride cfg)"
  have "r = Inr () \<and> ovs = x \<longleftrightarrow> ?ok \<and> x = ?trimmed" for x
    using validate_overrides_ok [of "ServiceOverride cfg" "[]" x] run by simp
  then have "r = Inr () \<longleftrightarrow> ?ok" and "?ok \<Longrightarrow> ovs = ?trimmed" by metis+
  then show ?thesis using run by (auto simp: ValidateOverrides_def)
qed

section \<open>Endpoint overrides\<close>

definition overrides_for :: "string \<Rightarrow> string \<Rightarrow> (string, service_override) gomap \<Rightarrow> service_override list" where
  "overrides_for service region ovs =
     filter (\<lambda>ov. ov_Service ov = service \<and> ov_Region ov = region) (map snd ovs)"

text \<open>What the four clients do with the overrides: the resolver takes the first match, the options
  come from every match.\<close>

locale endpoint_override =
  fixes service :: string
    and resolve :: "CloudConfig \<Rightarrow> (string option \<Rightarrow> url result) \<Rightarrow> string option \<Rightarrow> url result"
    and opts :: "CloudConfig \<Rightarrow> string \<Rightarrow> client_option list"
  assumes resolve_eq: "resolve cfg d region =
      (case overrides_for service (ToString region) (ServiceOverride cfg) of
         [] \<Rightarrow> d region
       | ov # _ \<Rightarrow> (case url_Parse (ov_URL ov) of
            Inl err \<Rightarrow> Inl (Wrapf ''could not parse override URL, %w'' [] err) | Inr u \<Rightarrow> Inr u))"
    and opts_eq: "opts cfg r = concat (map (\<lambda>ov. [WithSigV4SigningName (ov_SigningName ov),
        WithSigV4SigningRegion (ov_SigningRegion ov)]) (overrides_for service r (ServiceOverride cfg)))"
begin

text \<open>When at most one override matches, the map order has no influence.\<close>

lemma order_irrelevant:
  assumes "mset ovs = mset (ServiceOverride cfg)"
    and one: "\<And>r. length (overrides_for service r (ServiceOverride cfg)) \<le> 1"
  shows "resolve (cfg\<lparr>ServiceOverride := ovs\<rparr>) d region = resolve cfg d region
    \<and> opts (cfg\<lparr>ServiceOverride := ovs\<rparr>) r = opts cfg r"
proof -
  have "overrides_for service r ovs = overrides_for service r (ServiceOverride cfg)" for r
  proof -
    let ?P = "\<lambda>ov. ov_Service ov = service \<and> ov_Region ov = r"
    have "mset (overrides_for service r ovs) = mset (overrides_for service r (ServiceOverride cfg))"
      using assms(1) by (simp add: overrides_for_def)
    with one [of r] show ?thesis
      by (cases "overrides_for service r (ServiceOverride cfg)") auto
  qed
  then show ?thesis by (simp add: resolve_eq opts_eq)
qed

text \<open>The signing options and the endpoint are overridden together.\<close>

lemma overridden_together:
  "opts cfg (ToString region) = [] \<longleftrightarrow> overrides_for service (ToString region) (ServiceOverride cfg) = []"
  "opts cfg (ToString region) = [] \<Longrightarrow> resolve cfg d region = d region"
  by (auto simp: opts_eq resolve_eq)

end

lemma resolve_override_first:
  "resolve_override service region ovs d =
     (case overrides_for service (ToString region) ovs of
        [] \<Rightarrow> d region
      | ov # _ \<Rightarrow> (case url_Parse (ov_URL ov) of
           Inl err \<Rightarrow> Inl (Wrapf ''could not parse override URL, %w'' [] err) | Inr u \<Rightarrow> Inr u))"
  by (induction service region ovs d rule: resolve_override.induct) (auto simp: overrides_for_def)

lemma opts_concat:
  "concat (map (\<lambda>(_, ov). if ov_Service ov = service \<and> ov_Region ov = r then f ov else []) ovs) =
   concat (map f (overrides_for service r ovs))"
  by (induction ovs) (auto simp: overrides_for_def)

interpretation ec2: endpoint_override ec2_ServiceID EC2_ResolveEndpoint GetEC2EndpointOpts
  by unfold_locales (simp_all add: EC2_ResolveEndpoint_def resolve_override_first GetEC2EndpointOpts_def opts_concat)

interpretation elb: endpoint_override elb_ServiceID ELB_ResolveEndpoint GetELBEndpointOpts
  by unfold_locales (simp_all add: ELB_ResolveEndpoint_def resolve_override_first GetELBEndpointOpts_def opts_concat)

interpretation elbv2: endpoint_override elbv2_ServiceID ELBV2_ResolveEndpoint GetELBV2EndpointOpts
  by unfold_locales (simp_all add: ELBV2_ResolveEndpoint_def resolve_override_first GetELBV2EndpointOpts_def opts_concat)

interpretation kms: endpoint_override kms_ServiceID KMS_ResolveEndpoint GetKMSEndpointOpts
  by unfold_locales (simp_all add: KMS_ResolveEndpoint_def resolve_override_first GetKMSEndpointOpts_def opts_concat)

lemma TrimSpace_idem [simp]: "TrimSpace (TrimSpace s) = TrimSpace s"
  by (simp add: TrimSpace_def trim_by_idem)

lemma validated_unique:
  assumes "distinct (signatures ovs)"
  shows "length (overrides_for service r (map (\<lambda>(n, ov). (n, trim_override ov)) ovs)) \<le> 1"
  using assms
proof (induction ovs)
  case (Cons p ovs)
  obtain n ov where p: "p = (n, ov)" by (cases p)
  show ?case
  proof (cases "ov_Service (trim_override ov) = service \<and> ov_Region (trim_override ov) = r")
    case True
    have "overrides_for service r (map (\<lambda>(n, ov). (n, trim_override ov)) ovs) = []"
    proof -
      have "\<not> (ov_Service (trim_override x) = service \<and> ov_Region (trim_override x) = r)"
        if "(m, x) \<in> set ovs" for m x
      proof
        assume "ov_Service (trim_override x) = service \<and> ov_Region (trim_override x) = r"
        with True have "override_signature x = override_signature ov"
          by (auto simp: override_signature_def trim_override_def)
        with that Cons.prems show False by (force simp: p)
      qed
      then show ?thesis unfolding overrides_for_def filter_empty_conv by fastforce
    qed
    with True show ?thesis by (simp add: p overrides_for_def)
  next
    case False
    with Cons show ?thesis by (auto simp: p overrides_for_def)
  qed
qed (simp add: overrides_for_def)

text \<open>The overrides of the metadata service, whatever their region.\<close>

definition imds_overrides :: "CloudConfig \<Rightarrow> service_override list" where
  "imds_overrides cfg = filter (\<lambda>ov. ov_Service ov = imds_ServiceID) (map snd (ServiceOverride cfg))"

lemma GetIMDSEndpointOpts_eq: "GetIMDSEndpointOpts cfg = map (\<lambda>ov. WithEndpoint (ov_URL ov)) (imds_overrides cfg)"
proof -
  have "concat (map (\<lambda>(_, ov). if ov_Service ov = imds_ServiceID then [WithEndpoint (ov_URL ov)] else []) ovs)
      = map (\<lambda>ov. WithEndpoint (ov_URL ov)) (filter (\<lambda>ov. ov_Service ov = imds_ServiceID) (map snd ovs))" for ovs
    by (induction ovs) auto
  then show ?thesis by (simp add: GetIMDSEndpointOpts_def imds_overrides_def)
qed

lemma imds_order_irrelevant:
  assumes "mset ovs = mset (ServiceOverride cfg)" and "length (imds_overrides cfg) \<le> 1"
  shows "GetIMDSEndpointOpts (cfg\<lparr>ServiceOverride := ovs\<rparr>) = GetIMDSEndpointOpts cfg"
proof -
  have "mset (imds_overrides (cfg\<lparr>ServiceOverride := ovs\<rparr>)) = mset (imds_overrides cfg)"
    using assms(1) by (simp add: imds_overrides_def)
  with assms(2) have "imds_overrides (cfg\<lparr>ServiceOverride := ovs\<rparr>) = imds_overrides cfg"
    by (cases "imds_overrides cfg") auto
  then show ?thesis by (simp add: GetIMDSEndpointOpts_eq)
qed

text \<open>C33: Once \<^verbatim>\<open>ValidateOverrides\<close> has accepted a configuration, the endpoints and signing options
  that the EC2, ELB, ELBv2 and KMS clients get do not depend on the order in which Go visits the
  map of overrides. For the endpoint of the metadata service this holds when at most one override names
  that service (with two for different regions it does not, see \<open>imds_endpoint_order_matters\<close>).\<close>

theorem endpoints_deterministic:
  assumes "ValidateOverrides cfg0 = (Inr (), cfg)" and "mset ovs = mset (ServiceOverride cfg)"
  shows "let cfg' = cfg\<lparr>ServiceOverride := ovs\<rparr> in
      EC2_ResolveEndpoint cfg' d region = EC2_ResolveEndpoint cfg d region
    \<and> ELB_ResolveEndpoint cfg' d region = ELB_ResolveEndpoint cfg d region
    \<and> ELBV2_ResolveEndpoint cfg' d region = ELBV2_ResolveEndpoint cfg d region
    \<and> KMS_ResolveEndpoint cfg' d region = KMS_ResolveEndpoint cfg d region
    \<and> GetEC2EndpointOpts cfg' r = GetEC2EndpointOpts cfg r
    \<and> GetELBEndpointOpts cfg' r = GetELBEndpointOpts cfg r
    \<and> GetELBV2EndpointOpts cfg' r = GetELBV2EndpointOpts cfg r
    \<and> GetKMSEndpointOpts cfg' r = GetKMSEndpointOpts cfg r
    \<and> (length (imds_overrides cfg) \<le> 1 \<longrightarrow> GetIMDSEndpointOpts cfg' = GetIMDSEndpointOpts cfg)"
proof -
  have "length (overrides_for service r (ServiceOverride cfg)) \<le> 1" for service r
    using assms(1) validated_unique by (auto simp: ValidateOverrides_ok)
  then show ?thesis
    using ec2.order_irrelevant elb.order_irrelevant elbv2.order_irrelevant kms.order_irrelevant imds_order_irrelevant assms(2)
    by (simp add: Let_def)
qed

definition sample_override :: "string \<Rightarrow> service_override" where
  "sample_override region = \<lparr>ov_Service = ''EC2'', ov_Region = region, ov_URL = ''http://localhost'',
     ov_SigningRegion = ''r'', ov_SigningMethod = '''', ov_SigningName = ''n''\<rparr>"

definition sample_global :: global_config where
  "sample_global = \<lparr>Zone = '''', Region = '''', VPC = '''', SubnetID = '''', RouteTableID = '''',
     RoleARN = '''', SourceARN = '''', KubernetesClusterTag = '''', KubernetesClusterID = '''',
     DisableSecurityGroupIngress = False, ElbSecurityGroup = '''', NodeIPFamilies = [],
     ClusterServiceLoadBalancerHealthProbeMode = '''',
     ClusterServiceSharedLoadBalancerHealthProbePort = 0,
     ClusterServiceSharedLoadBalancerHealthProbePath = '''',
     SupportedTopologyInstanceTypePattern = '''', NLBSecurityGroupMode = ''''\<rparr>"

definition sample_config :: CloudConfig where
  "sample_config = \<lparr>Global = sample_global,
     ServiceOverride = [(''1'', sample_override ''r1''), (''2'', sample_override ''r2'')]\<rparr>"

lemma sample_config_valid: "ValidateOverrides sample_config = (Inr (), sample_config)"
  by (simp add: ValidateOverrides_ok sample_config_def sample_override_def complete_override_def
      override_signature_def trim_override_def TrimSpace_def trim_by_def is_space_def Let_def)

theorem endpoints_deterministic_witness:
  "GetEC2EndpointOpts (sample_config\<lparr>ServiceOverride := rev (ServiceOverride sample_config)\<rparr>) ''r1''
     = GetEC2EndpointOpts sample_config ''r1''
   \<and> GetIMDSEndpointOpts (sample_config\<lparr>ServiceOverride := rev (ServiceOverride sample_config)\<rparr>) = GetIMDSEndpointOpts sample_config"
  using endpoints_deterministic [OF sample_config_valid,
      of "rev (ServiceOverride sample_config)" undefined undefined "''r1''"]
  by (simp add: Let_def imds_overrides_def sample_config_def sample_override_def imds_ServiceID_def)

text \<open>A defect: two overrides of the metadata service for different regions are accepted, and the last one that Go visits decides the
  endpoint, so it depends on the order of the map.\<close>

definition two_imds_config :: CloudConfig where
  "two_imds_config = \<lparr>Global = sample_global, ServiceOverride =
     [(''1'', (sample_override ''r1'')\<lparr>ov_Service := imds_ServiceID, ov_URL := ''http://a''\<rparr>),
      (''2'', (sample_override ''r2'')\<lparr>ov_Service := imds_ServiceID, ov_URL := ''http://b''\<rparr>)]\<rparr>"

lemma imds_endpoint_order_matters:
  "ValidateOverrides two_imds_config = (Inr (), two_imds_config)"
  "last (GetIMDSEndpointOpts two_imds_config) = WithEndpoint ''http://b''"
  "last (GetIMDSEndpointOpts (two_imds_config\<lparr>ServiceOverride := rev (ServiceOverride two_imds_config)\<rparr>)) = WithEndpoint ''http://a''"
proof -
  show "ValidateOverrides two_imds_config = (Inr (), two_imds_config)"
    by (simp add: ValidateOverrides_ok two_imds_config_def sample_override_def complete_override_def imds_ServiceID_def
        override_signature_def trim_override_def TrimSpace_def trim_by_def is_space_def Let_def)
qed (simp_all add: GetIMDSEndpointOpts_eq imds_overrides_def two_imds_config_def)

text \<open>\<^verbatim>\<open>ValidateOverrides\<close> accepts a configuration exactly when every override names a service, a
  region, a URL and a signing region (blanks do not count) and no two have the same trimmed service
  and region joined by an underscore. It then leaves the service and region names trimmed and the
  rest unchanged, and a second validation accepts the result and changes nothing.\<close>

lemma ValidateOverrides_accepts:
  "((\<exists>cfg'. ValidateOverrides cfg = (Inr (), cfg')) \<longleftrightarrow>
     list_all (\<lambda>(n, ov). complete_override ov) (ServiceOverride cfg) \<and> distinct (signatures (ServiceOverride cfg)))
   \<and> (case ValidateOverrides cfg of (Inl e, cfg') \<Rightarrow> True
      | (Inr _, cfg') \<Rightarrow> cfg' = cfg\<lparr>ServiceOverride := map (\<lambda>(n, ov). (n, trim_override ov)) (ServiceOverride cfg)\<rparr>
          \<and> ValidateOverrides cfg' = (Inr (), cfg'))"
proof -
  have sig: "override_signature (trim_override ov) = override_signature ov"
    "complete_override (trim_override ov) = complete_override ov"
    "trim_override (trim_override ov) = trim_override ov" for ov
    by (simp_all add: override_signature_def trim_override_def complete_override_def)
  have "cfg' = cfg\<lparr>ServiceOverride := map (\<lambda>(n, ov). (n, trim_override ov)) (ServiceOverride cfg)\<rparr>
      \<and> ValidateOverrides cfg' = (Inr (), cfg')" if "ValidateOverrides cfg = (Inr (), cfg')" for cfg'
    using that by (auto simp: ValidateOverrides_ok list_all_iff sig comp_def case_prod_unfold)
  note ok = this
  obtain r cfg' where run: "ValidateOverrides cfg = (r, cfg')" by (cases "ValidateOverrides cfg")
  have "case ValidateOverrides cfg of (Inl e, cfg') \<Rightarrow> True
      | (Inr _, cfg') \<Rightarrow> cfg' = cfg\<lparr>ServiceOverride := map (\<lambda>(n, ov). (n, trim_override ov)) (ServiceOverride cfg)\<rparr>
          \<and> ValidateOverrides cfg' = (Inr (), cfg')"
    using ok [of cfg'] run by (cases r) auto
  then show ?thesis by (simp only: ValidateOverrides_ok simp_thms) blast
qed

end
