(* ===== verification/ElbApi.thy ===== *)
theory ElbApi
  imports AwsApi
begin

text \<open>
  The data of the classic (ELB) and network (ELBv2) load balancer APIs that the code uses, and the
  two client interfaces \<^verbatim>\<open>ELB\<close> and \<^verbatim>\<open>ELBV2\<close> of \<^verbatim>\<open>aws.go\<close> as records of calls. As with EC2, a
  client is an argument and nothing is assumed of it here.
\<close>

section \<open>Classic load balancers\<close>

record elb_listener =
  l_InstancePort :: "int option"
  l_InstanceProtocol :: "string option"
  l_LoadBalancerPort :: int
  l_Protocol :: "string option"
  l_SSLCertificateId :: "string option"

record backend_server =
  bs_InstancePort :: "int option"
  bs_PolicyNames :: "string list"

record health_check =
  hc_Target :: "string option"
  hc_HealthyThreshold :: "int option"
  hc_UnhealthyThreshold :: "int option"
  hc_Timeout :: "int option"
  hc_Interval :: "int option"

record access_log =
  al_Enabled :: bool
  al_EmitInterval :: "int option"
  al_S3BucketName :: "string option"
  al_S3BucketPrefix :: "string option"

record connection_draining =
  cd_Enabled :: bool
  cd_Timeout :: "int option"

text \<open>\<open>attr_ConnectionSettings\<close> is the pointer to the settings, whose only field is the idle timeout,
  \<open>attr_CrossZoneLoadBalancing\<close> the pointer to a flag.\<close>

record elb_attributes =
  attr_AccessLog :: "access_log option"
  attr_AdditionalAttributes :: "(string option \<times> string option) list option"
  attr_ConnectionDraining :: "connection_draining option"
  attr_ConnectionSettings :: "int option option"
  attr_CrossZoneLoadBalancing :: "bool option"

record elb_description =
  lbd_LoadBalancerName :: "string option"
  lbd_DNSName :: "string option"
  lbd_Subnets :: "string list"
  lbd_SecurityGroups :: "string list"
  lbd_ListenerDescriptions :: "elb_listener option list"
  lbd_BackendServerDescriptions :: "backend_server list"
  lbd_HealthCheck :: "health_check option"
  lbd_Instances :: "string option list"

record create_elb_input =
  cli_LoadBalancerName :: string
  cli_Listeners :: "elb_listener list"
  cli_Scheme :: "string option"
  cli_Subnets :: "string list"
  cli_SecurityGroups :: "string list"
  cli_Tags :: "ec2_tag list"

text \<open>The calls: the first argument is the load balancer's name, except for \<open>elb_Create\<close> and
  \<open>elb_Describe\<close> (a list of names). A policy is its name, its type and one attribute.\<close>

record 'w elb_client =
  elb_Create :: "create_elb_input \<Rightarrow> ('w, unit) aws"
  elb_Delete :: "string option \<Rightarrow> ('w, unit) aws"
  elb_Describe :: "string list \<Rightarrow> ('w, elb_description list) aws"
  elb_AddTags :: "string \<Rightarrow> ec2_tag list \<Rightarrow> ('w, unit) aws"
  elb_RegisterInstances :: "string \<Rightarrow> string list \<Rightarrow> ('w, unit) aws"
  elb_DeregisterInstances :: "string \<Rightarrow> string list \<Rightarrow> ('w, unit) aws"
  elb_CreatePolicy :: "string option \<Rightarrow> string \<Rightarrow> string \<Rightarrow> string \<times> string \<Rightarrow> ('w, unit) aws"
  elb_SetBackendPolicies :: "string \<Rightarrow> int option \<Rightarrow> string list \<Rightarrow> ('w, unit) aws"
  elb_SetListenerPolicies :: "string \<Rightarrow> int \<Rightarrow> string list \<Rightarrow> ('w, unit) aws"
  elb_DescribePolicies :: "string option \<Rightarrow> string list \<Rightarrow> ('w, string list) aws"
  elb_DetachSubnets :: "string \<Rightarrow> string list \<Rightarrow> ('w, unit) aws"
  elb_AttachSubnets :: "string \<Rightarrow> string list \<Rightarrow> ('w, unit) aws"
  elb_CreateListeners :: "string \<Rightarrow> elb_listener list \<Rightarrow> ('w, unit) aws"
  elb_DeleteListeners :: "string \<Rightarrow> int list \<Rightarrow> ('w, unit) aws"
  elb_ApplySecurityGroups :: "string \<Rightarrow> string list \<Rightarrow> ('w, unit) aws"
  elb_ConfigureHealthCheck :: "string option \<Rightarrow> health_check \<Rightarrow> ('w, unit) aws"
  elb_DescribeAttributes :: "string \<Rightarrow> ('w, elb_attributes) aws"
  elb_ModifyAttributes :: "string \<Rightarrow> elb_attributes \<Rightarrow> ('w, unit) aws"

section \<open>Network load balancers\<close>

text \<open>\<open>lb_State\<close> is the pointer to the state, of which the code reads the code; \<open>lb_AvailabilityZones\<close>
  are the subnet ids of the zones.\<close>

record load_balancer =
  lb_LoadBalancerArn :: "string option"
  lb_Type :: string
  lb_DNSName :: "string option"
  lb_VpcId :: "string option"
  lb_SecurityGroups :: "string list option"
  lb_IpAddressType :: string
  lb_State :: "string option"
  lb_AvailabilityZones :: "string option list"

record target_group =
  tg_TargetGroupArn :: "string option"
  tg_Port :: "int option"
  tg_Protocol :: string
  tg_IpAddressType :: string
  tg_HealthCheckProtocol :: string
  tg_HealthCheckPort :: "string option"
  tg_HealthCheckIntervalSeconds :: "int option"
  tg_HealthyThresholdCount :: "int option"

record target_description =
  target_Id :: "string option"
  target_Port :: "int option"

record target_health =
  th_Target :: target_description
  th_Reason :: string

text \<open>Of an action the code uses the target group's ARN, of a certificate its ARN.\<close>

record lb_listener =
  ln_ListenerArn :: "string option"
  ln_Port :: "int option"
  ln_Protocol :: string
  ln_SslPolicy :: "string option"
  ln_Certificates :: "string option list"
  ln_AlpnPolicy :: "string list"
  ln_DefaultActions :: "string option list"

record subnet_mapping =
  sm_SubnetId :: string
  sm_AllocationId :: "string option"
  sm_PrivateIPv4Address :: "string option"

record create_nlb_input =
  cnlb_Name :: string
  cnlb_IpAddressType :: string
  cnlb_Internal :: bool
  cnlb_SubnetMappings :: "subnet_mapping list"
  cnlb_SecurityGroups :: "string list"
  cnlb_Tags :: "ec2_tag list"

record create_tg_input =
  ctg_VpcId :: string
  ctg_Name :: string
  ctg_Port :: int
  ctg_Protocol :: string
  ctg_TargetType :: string
  ctg_IpAddressType :: string
  ctg_HealthCheckIntervalSeconds :: int
  ctg_HealthCheckPort :: string
  ctg_HealthCheckProtocol :: string
  ctg_HealthyThresholdCount :: int
  ctg_UnhealthyThresholdCount :: int
  ctg_HealthCheckPath :: "string option"
  ctg_Tags :: "ec2_tag list"

record modify_tg_input =
  mtg_TargetGroupArn :: "string option"
  mtg_HealthCheckPort :: "string option"
  mtg_HealthyThresholdCount :: "int option"
  mtg_UnhealthyThresholdCount :: "int option"
  mtg_HealthCheckPath :: "string option"

text \<open>The listener that \<^verbatim>\<open>CreateListener\<close> and \<^verbatim>\<open>ModifyListener\<close> describe.\<close>

record listener_input =
  li_Port :: int
  li_Protocol :: string
  li_TargetGroupArn :: "string option"
  li_SslPolicy :: "string option"
  li_Certificates :: "string list"
  li_AlpnPolicy :: "string list"
  li_Tags :: "ec2_tag list"

text \<open>Attributes of load balancers and target groups are pairs of optional key and value.\<close>

type_synonym attribute = "string option \<times> string option"

text \<open>\<open>nlb_Describe names arns\<close>; \<open>nlb_DescribeTargetGroups lbArn arns\<close>; the listener calls take the
  ARN of the load balancer or of the listener first. Nothing calls \<open>nlb_AddTags\<close>.\<close>

record 'w elbv2_client =
  nlb_AddTags :: "string list \<Rightarrow> ec2_tag list \<Rightarrow> ('w, unit) aws"
  nlb_Create :: "create_nlb_input \<Rightarrow> ('w, load_balancer list) aws"
  nlb_Describe :: "string list \<Rightarrow> string list \<Rightarrow> ('w, load_balancer list) aws"
  nlb_Delete :: "string option \<Rightarrow> ('w, unit) aws"
  nlb_SetSecurityGroups :: "string option \<Rightarrow> string list \<Rightarrow> ('w, unit) aws"
  nlb_SetIpAddressType :: "string option \<Rightarrow> string \<Rightarrow> ('w, unit) aws"
  nlb_ModifyAttributes :: "string \<Rightarrow> attribute list \<Rightarrow> ('w, unit) aws"
  nlb_DescribeAttributes :: "string \<Rightarrow> ('w, attribute list) aws"
  nlb_CreateTargetGroup :: "create_tg_input \<Rightarrow> ('w, target_group list) aws"
  nlb_DescribeTargetGroups :: "string option \<Rightarrow> string list \<Rightarrow> ('w, target_group list) aws"
  nlb_ModifyTargetGroup :: "modify_tg_input \<Rightarrow> ('w, unit) aws"
  nlb_DeleteTargetGroup :: "string option \<Rightarrow> ('w, unit) aws"
  nlb_DescribeTargetHealth :: "string \<Rightarrow> ('w, target_health list) aws"
  nlb_DescribeTargetGroupAttributes :: "string option \<Rightarrow> ('w, attribute list option) aws"
  nlb_ModifyTargetGroupAttributes :: "string option \<Rightarrow> attribute list \<Rightarrow> ('w, unit) aws"
  nlb_RegisterTargets :: "string \<Rightarrow> target_description list \<Rightarrow> ('w, unit) aws"
  nlb_DeregisterTargets :: "string \<Rightarrow> target_description list \<Rightarrow> ('w, unit) aws"
  nlb_CreateListener :: "string option \<Rightarrow> listener_input \<Rightarrow> ('w, lb_listener list) aws"
  nlb_DescribeListeners :: "string option \<Rightarrow> ('w, lb_listener list) aws"
  nlb_DeleteListener :: "string option \<Rightarrow> ('w, unit) aws"
  nlb_ModifyListener :: "string option \<Rightarrow> listener_input \<Rightarrow> ('w, unit) aws"

section \<open>Clients for witnesses\<close>

text \<open>Clients that accept every call, answer with empty results and change nothing.\<close>

definition idle_elb :: "'w elb_client" where
  "idle_elb = \<lparr>
     elb_Create = (\<lambda>_. returnM ()), elb_Delete = (\<lambda>_. returnM ()), elb_Describe = (\<lambda>_. returnM []),
     elb_AddTags = (\<lambda>_ _. returnM ()), elb_RegisterInstances = (\<lambda>_ _. returnM ()),
     elb_DeregisterInstances = (\<lambda>_ _. returnM ()), elb_CreatePolicy = (\<lambda>_ _ _ _. returnM ()),
     elb_SetBackendPolicies = (\<lambda>_ _ _. returnM ()), elb_SetListenerPolicies = (\<lambda>_ _ _. returnM ()),
     elb_DescribePolicies = (\<lambda>_ _. returnM []), elb_DetachSubnets = (\<lambda>_ _. returnM ()),
     elb_AttachSubnets = (\<lambda>_ _. returnM ()), elb_CreateListeners = (\<lambda>_ _. returnM ()),
     elb_DeleteListeners = (\<lambda>_ _. returnM ()), elb_ApplySecurityGroups = (\<lambda>_ _. returnM ()),
     elb_ConfigureHealthCheck = (\<lambda>_ _. returnM ()),
     elb_DescribeAttributes = (\<lambda>_. returnM \<lparr>attr_AccessLog = None, attr_AdditionalAttributes = None,
        attr_ConnectionDraining = None, attr_ConnectionSettings = None,
        attr_CrossZoneLoadBalancing = None\<rparr>),
     elb_ModifyAttributes = (\<lambda>_ _. returnM ())\<rparr>"

definition idle_elbv2 :: "'w elbv2_client" where
  "idle_elbv2 = \<lparr>
     nlb_AddTags = (\<lambda>_ _. returnM ()),
     nlb_Create = (\<lambda>_. returnM []), nlb_Describe = (\<lambda>_ _. returnM []), nlb_Delete = (\<lambda>_. returnM ()),
     nlb_SetSecurityGroups = (\<lambda>_ _. returnM ()), nlb_SetIpAddressType = (\<lambda>_ _. returnM ()),
     nlb_ModifyAttributes = (\<lambda>_ _. returnM ()), nlb_DescribeAttributes = (\<lambda>_. returnM []),
     nlb_CreateTargetGroup = (\<lambda>_. returnM []), nlb_DescribeTargetGroups = (\<lambda>_ _. returnM []),
     nlb_ModifyTargetGroup = (\<lambda>_. returnM ()), nlb_DeleteTargetGroup = (\<lambda>_. returnM ()),
     nlb_DescribeTargetHealth = (\<lambda>_. returnM []),
     nlb_DescribeTargetGroupAttributes = (\<lambda>_. returnM (Some [])),
     nlb_ModifyTargetGroupAttributes = (\<lambda>_ _. returnM ()),
     nlb_RegisterTargets = (\<lambda>_ _. returnM ()), nlb_DeregisterTargets = (\<lambda>_ _. returnM ()),
     nlb_CreateListener = (\<lambda>_ _. returnM []), nlb_DescribeListeners = (\<lambda>_. returnM []),
     nlb_DeleteListener = (\<lambda>_. returnM ()), nlb_ModifyListener = (\<lambda>_ _. returnM ())\<rparr>"

end
