(* ===== verification/IPPermissions.thy ===== *)
theory IPPermissions
  imports Json
begin

text \<open>
  Sets of security group rules, \<^verbatim>\<open>src/pkg/providers/v1/sets_ippermissions.go\<close>, and the comparison of
  rules \<^verbatim>\<open>ipPermissionExists\<close> of \<^verbatim>\<open>aws.go\<close>. A set is a map from the JSON text of a rule to the
  rule.

  The lemmas show that the text determines the rule, so that the map behaves as a set
  (\<open>permission_set\<close>), what \<^verbatim>\<open>Ungroup\<close> keeps, and that \<^verbatim>\<open>Difference\<close> subtracts the granted sources
  when rules have one IPv4 or group source; for IPv6 sources it does not.
\<close>

section \<open>Comparison of rules\<close>

definition isEqualIntPointer :: "int option \<Rightarrow> int option \<Rightarrow> bool" where
  "isEqualIntPointer l r =
     (case l of None \<Rightarrow> r = None | Some x \<Rightarrow> (case r of None \<Rightarrow> False | Some y \<Rightarrow> x = y))"

definition isEqualStringPointer :: "string option \<Rightarrow> string option \<Rightarrow> bool" where
  "isEqualStringPointer l r =
     (case l of None \<Rightarrow> r = None | Some x \<Rightarrow> (case r of None \<Rightarrow> False | Some y \<Rightarrow> x = y))"

text \<open>The log statement of \<^verbatim>\<open>isEqualUserGroupPair\<close> dereferences both group ids.\<close>

definition isEqualUserGroupPair ::
  "user_id_group_pair \<Rightarrow> user_id_group_pair \<Rightarrow> bool \<Rightarrow> bool result" where
  "isEqualUserGroupPair l r compareGroupUserIDs =
     (if pair_GroupId l = None \<or> pair_GroupId r = None then Inl (Panic ''nil pointer dereference'')
      else Inr (isEqualStringPointer (pair_GroupId l) (pair_GroupId r)
             \<and> (compareGroupUserIDs \<longrightarrow> isEqualStringPointer (pair_UserId l) (pair_UserId r))))"

definition ipPermissionExists :: "ip_permission \<Rightarrow> ip_permission \<Rightarrow> bool \<Rightarrow> bool result" where
  "ipPermissionExists newPermission existing compareGroupUserIDs =
     (if \<not> isEqualIntPointer (perm_FromPort newPermission) (perm_FromPort existing) then Inr False
      else if \<not> isEqualIntPointer (perm_ToPort newPermission) (perm_ToPort existing) then Inr False
      else if \<not> isEqualStringPointer (perm_IpProtocol newPermission) (perm_IpProtocol existing)
      then Inr False
      else if length (slice (perm_IpRanges newPermission)) > length (slice (perm_IpRanges existing))
      then Inr False
      else if \<not> list_all (\<lambda>j. list_ex (\<lambda>k. isEqualStringPointer (range_CidrIp j) (range_CidrIp k))
                               (slice (perm_IpRanges existing)))
                 (slice (perm_IpRanges newPermission))
      then Inr False
      else allR (\<lambda>leftPair. anyR (\<lambda>rightPair. isEqualUserGroupPair leftPair rightPair compareGroupUserIDs)
                  (slice (perm_UserIdGroupPairs existing)))
             (slice (perm_UserIdGroupPairs newPermission)))"

section \<open>The key of a rule\<close>

abbreviation json_text :: "string option \<Rightarrow> string" where
  "json_text \<equiv> json_pointer json_string"

definition json_ip_range :: "ip_range \<Rightarrow> string" where
  "json_ip_range r = ''{'' @ json_field '''' ''CidrIp'' (json_text (range_CidrIp r))
     @ json_field '','' ''Description'' (json_text (range_Description r)) @ ''}''"

definition json_ipv6_range :: "ipv6_range \<Rightarrow> string" where
  "json_ipv6_range r = ''{'' @ json_field '''' ''CidrIpv6'' (json_text (range6_CidrIpv6 r))
     @ json_field '','' ''Description'' (json_text (range6_Description r)) @ ''}''"

definition json_prefix_list_id :: "prefix_list_id \<Rightarrow> string" where
  "json_prefix_list_id r = ''{'' @ json_field '''' ''Description'' (json_text (prefix_Description r))
     @ json_field '','' ''PrefixListId'' (json_text (prefix_PrefixListId r)) @ ''}''"

definition json_user_id_group_pair :: "user_id_group_pair \<Rightarrow> string" where
  "json_user_id_group_pair r =
     ''{'' @ json_field '''' ''Description'' (json_text (pair_Description r))
     @ json_field '','' ''GroupId'' (json_text (pair_GroupId r))
     @ json_field '','' ''GroupName'' (json_text (pair_GroupName r))
     @ json_field '','' ''PeeringStatus'' (json_text (pair_PeeringStatus r))
     @ json_field '','' ''UserId'' (json_text (pair_UserId r))
     @ json_field '','' ''VpcId'' (json_text (pair_VpcId r))
     @ json_field '','' ''VpcPeeringConnectionId'' (json_text (pair_VpcPeeringConnectionId r)) @ ''}''"

definition keyForIPPermission :: "ip_permission \<Rightarrow> string" where
  "keyForIPPermission p =
     ''{'' @ json_field '''' ''FromPort'' (json_pointer Itoa (perm_FromPort p))
     @ json_field '','' ''IpProtocol'' (json_text (perm_IpProtocol p))
     @ json_field '','' ''IpRanges'' (json_slice json_ip_range (perm_IpRanges p))
     @ json_field '','' ''Ipv6Ranges'' (json_slice json_ipv6_range (perm_Ipv6Ranges p))
     @ json_field '','' ''PrefixListIds'' (json_slice json_prefix_list_id (perm_PrefixListIds p))
     @ json_field '','' ''ToPort'' (json_pointer Itoa (perm_ToPort p))
     @ json_field '','' ''UserIdGroupPairs''
         (json_slice json_user_id_group_pair (perm_UserIdGroupPairs p)) @ ''}''"

section \<open>The set\<close>

type_synonym IPPermissionSet = "(string, ip_permission) gomap"

definition Insert :: "ip_permission list \<Rightarrow> IPPermissionSet \<Rightarrow> IPPermissionSet" where
  "Insert items s = fold (\<lambda>p s. mput (keyForIPPermission p) p s) items s"

definition NewIPPermissionSet :: "ip_permission list \<Rightarrow> IPPermissionSet" where
  "NewIPPermissionSet items = Insert items []"

definition Delete :: "ip_permission list \<Rightarrow> IPPermissionSet \<Rightarrow> IPPermissionSet" where
  "Delete items s = fold (\<lambda>p s. mdel (keyForIPPermission p) s) items s"

definition DeleteIf :: "(ip_permission \<Rightarrow> bool) \<Rightarrow> IPPermissionSet \<Rightarrow> IPPermissionSet" where
  "DeleteIf predicate s = filter (\<lambda>(k, p). \<not> predicate p) s"

definition List :: "IPPermissionSet \<Rightarrow> ip_permission list" where
  "List s = map snd s"

definition IsSuperset :: "IPPermissionSet \<Rightarrow> IPPermissionSet \<Rightarrow> bool" where
  "IsSuperset s s2 = list_all (\<lambda>(k, p). mhas s k) s2"

definition Equal :: "IPPermissionSet \<Rightarrow> IPPermissionSet \<Rightarrow> bool" where
  "Equal s s2 \<longleftrightarrow> length s = length s2 \<and> IsSuperset s s2"

definition Len :: "IPPermissionSet \<Rightarrow> nat" where
  "Len s = length s"

definition Difference :: "IPPermissionSet \<Rightarrow> IPPermissionSet \<Rightarrow> IPPermissionSet result" where
  "Difference s s2 = foldR (\<lambda>desired result.
       bindR (anyR (\<lambda>existing. ipPermissionExists desired existing False) (List s2))
         (\<lambda>found. Inr (if found then result else Insert [desired] result)))
     (List s) (NewIPPermissionSet [])"

text \<open>The three splitting loops of \<^verbatim>\<open>Ungroup\<close>: a rule with at most one element is kept, another one
  is copied once for each element.\<close>

definition ungroup_ranges :: "ip_permission \<Rightarrow> ip_permission list" where
  "ungroup_ranges p =
     (if length (slice (perm_IpRanges p)) \<le> 1 then [p]
      else map (\<lambda>r. p\<lparr>perm_IpRanges := Some [r]\<rparr>) (slice (perm_IpRanges p)))"

definition ungroup_pairs :: "ip_permission \<Rightarrow> ip_permission list" where
  "ungroup_pairs p =
     (if length (slice (perm_UserIdGroupPairs p)) \<le> 1 then [p]
      else map (\<lambda>u. p\<lparr>perm_UserIdGroupPairs := Some [u]\<rparr>) (slice (perm_UserIdGroupPairs p)))"

definition ungroup_prefixes :: "ip_permission \<Rightarrow> ip_permission list" where
  "ungroup_prefixes p =
     (if length (slice (perm_PrefixListIds p)) \<le> 1 then [p]
      else map (\<lambda>v. p\<lparr>perm_PrefixListIds := Some [v]\<rparr>) (slice (perm_PrefixListIds p)))"

definition Ungroup :: "IPPermissionSet \<Rightarrow> IPPermissionSet" where
  "Ungroup s =
     (let l = concat (map ungroup_ranges (List s));
          l2 = concat (map ungroup_pairs l);
          l3 = concat (map ungroup_prefixes l2)
      in NewIPPermissionSet l3)"

definition IPPermissionMatchDesc :: "string \<Rightarrow> ip_permission \<Rightarrow> bool" where
  "IPPermissionMatchDesc d perm =
     (list_ex (\<lambda>r. ToString (range_Description r) = d) (slice (perm_IpRanges perm))
      \<or> list_ex (\<lambda>r. ToString (range6_Description r) = d) (slice (perm_Ipv6Ranges perm))
      \<or> list_ex (\<lambda>r. ToString (prefix_Description r) = d) (slice (perm_PrefixListIds perm))
      \<or> list_ex (\<lambda>r. ToString (pair_Description r) = d) (slice (perm_UserIdGroupPairs perm)))"

definition IPPermissionNotMatch :: "(ip_permission \<Rightarrow> bool) \<Rightarrow> ip_permission \<Rightarrow> bool" where
  "IPPermissionNotMatch predicate perm = (\<not> predicate perm)"

section \<open>The key determines the rule\<close>

lemma isEqualIntPointer_eq [simp]: "isEqualIntPointer l r \<longleftrightarrow> l = r"
  by (auto simp: isEqualIntPointer_def split: option.splits)

lemma isEqualStringPointer_eq [simp]: "isEqualStringPointer l r \<longleftrightarrow> l = r"
  by (auto simp: isEqualStringPointer_def split: option.splits)

lemma json_text_prefix_free: "prefix_free json_text"
  by (rule json_pointer_prefix_free [OF json_string_prefix_free]) (simp add: json_string_def)

lemmas json_textD = prefix_freeD [OF json_text_prefix_free]

lemma json_ip_range_prefix_free: "prefix_free json_ip_range"
  by (rule prefix_freeI) (auto simp: json_ip_range_def json_field_def dest!: json_textD)

lemma json_ipv6_range_prefix_free: "prefix_free json_ipv6_range"
  by (rule prefix_freeI) (auto simp: json_ipv6_range_def json_field_def dest!: json_textD)

lemma json_prefix_list_id_prefix_free: "prefix_free json_prefix_list_id"
  by (rule prefix_freeI) (auto simp: json_prefix_list_id_def json_field_def dest!: json_textD)

lemma json_user_id_group_pair_prefix_free: "prefix_free json_user_id_group_pair"
  by (rule prefix_freeI) (auto simp: json_user_id_group_pair_def json_field_def dest!: json_textD)

lemma json_slices_prefix_free:
  "prefix_free (json_slice json_ip_range)" "prefix_free (json_slice json_ipv6_range)"
  "prefix_free (json_slice json_prefix_list_id)" "prefix_free (json_slice json_user_id_group_pair)"
  by (intro json_slice_prefix_free json_ip_range_prefix_free json_ipv6_range_prefix_free
      json_prefix_list_id_prefix_free json_user_id_group_pair_prefix_free;
      simp add: json_ip_range_def json_ipv6_range_def json_prefix_list_id_def
        json_user_id_group_pair_def)+

lemma json_port_comma:
  assumes "json_pointer Itoa x @ CHR '','' # r = json_pointer Itoa y @ CHR '','' # s"
  shows "x = y \<and> r = s"
proof -
  have no_n: "Itoa i @ t \<noteq> CHR ''n'' # u" for i t u
    using Itoa_chars [of "hd (Itoa i)" i] Itoa_not_Nil [of i]
    by (cases "Itoa i") (auto simp: is_digit_def)
  show ?thesis
    using assms no_n no_n [symmetric]
    by (cases x; cases y) (auto simp: json_null_def dest: json_int_comma)
qed

lemma keyForIPPermission_inj: "keyForIPPermission p = keyForIPPermission q \<longleftrightarrow> p = q"
proof
  assume "keyForIPPermission p = keyForIPPermission q"
  then have "perm_FromPort p = perm_FromPort q \<and> perm_IpProtocol p = perm_IpProtocol q
      \<and> perm_IpRanges p = perm_IpRanges q \<and> perm_Ipv6Ranges p = perm_Ipv6Ranges q
      \<and> perm_PrefixListIds p = perm_PrefixListIds q \<and> perm_ToPort p = perm_ToPort q
      \<and> perm_UserIdGroupPairs p = perm_UserIdGroupPairs q"
    by (auto simp: keyForIPPermission_def json_field_def
        dest!: json_port_comma json_textD json_slices_prefix_free [THEN prefix_freeD]
          json_slices_prefix_free(4) [THEN prefix_free_inj])
  then show "p = q" by simp
qed simp

section \<open>The map is a set\<close>

definition elems :: "('k, 'a) gomap \<Rightarrow> 'a set" where
  "elems s = snd ` set s"

definition keyed :: "('a \<Rightarrow> 'k) \<Rightarrow> ('k, 'a) gomap \<Rightarrow> bool" where
  "keyed key s \<longleftrightarrow> wf_map s \<and> list_all (\<lambda>(k, x). k = key x) s"

text \<open>A map that files every element under its own key is a set when the key determines the element.\<close>

locale keyed_set =
  fixes key :: "'a \<Rightarrow> 'k"
  assumes key_eqD: "key x = key y \<Longrightarrow> x = y"
begin

lemma keyed_set_iff:
  assumes "keyed key s"
  shows "(k, x) \<in> set s \<longleftrightarrow> k = key x \<and> x \<in> elems s"
  using assms by (force simp: keyed_def elems_def list_all_iff)

lemma mhas_elems: "keyed key s \<Longrightarrow> mhas s (key x) \<longleftrightarrow> x \<in> elems s"
proof -
  assume k: "keyed key s"
  have "mhas s (key x) \<longleftrightarrow> (\<exists>y. (key x, y) \<in> set s)" by (force simp: mhas_iff)
  also have "\<dots> \<longleftrightarrow> x \<in> elems s" using k by (auto simp: keyed_set_iff dest: key_eqD)
  finally show ?thesis .
qed

lemma keyed_Nil: "keyed key []" and elems_Nil: "elems [] = {}"
  by (simp_all add: keyed_def elems_def)

lemma set_mput:
  assumes "keyed key s"
  shows "set (mput (key x) x s) = insert (key x, x) (set s)"
proof -
  have wf: "wf_map (mput (key x) x s)" "wf_map s" using assms by (auto simp: keyed_def)
  have "(k, y) \<in> set (mput (key x) x s) \<longleftrightarrow> k = key x \<and> y = x \<or> k \<noteq> key x \<and> (k, y) \<in> set s" for k y
    using wf by (auto simp: wf_map_in_set update_conv')
  moreover have "y = x" if "(key x, y) \<in> set s" for y
    using that assms key_eqD by (auto simp: keyed_set_iff)
  ultimately show ?thesis by auto
qed

lemma set_mdel:
  assumes "keyed key s"
  shows "set (mdel (key x) s) = set s - {(key x, x)}"
proof -
  have "y = x" if "(key x, y) \<in> set s" for y
    using that assms key_eqD by (auto simp: keyed_set_iff)
  then show ?thesis by (auto simp: AList.delete_eq)
qed

lemma keyed_mput: "keyed key s \<Longrightarrow> keyed key (mput (key x) x s)"
  using set_mput [of s x] by (auto simp: keyed_def list_all_iff)

lemma keyed_mdel: "keyed key s \<Longrightarrow> keyed key (mdel (key x) s)"
  using set_mdel [of s x] by (auto simp: keyed_def list_all_iff)

lemma elems_mput: "keyed key s \<Longrightarrow> elems (mput (key x) x s) = insert x (elems s)"
  by (simp add: elems_def set_mput)

lemma elems_mdel: "keyed key s \<Longrightarrow> elems (mdel (key x) s) = elems s - {x}"
proof -
  assume k: "keyed key s"
  have "y \<in> elems (mdel (key x) s) \<longleftrightarrow> (key y, y) \<in> set s - {(key x, x)}" for y
    using keyed_set_iff [OF keyed_mdel [OF k], of "key y" y x] set_mdel [OF k, of x] by auto
  also have "(key y, y) \<in> set s - {(key x, x)} \<longleftrightarrow> y \<in> elems s - {x}" for y
    using keyed_set_iff [OF k, of "key y" y] by auto
  finally show ?thesis by blast
qed

lemma keyed_fold_mput:
  "keyed key s \<Longrightarrow> keyed key (fold (\<lambda>x s. mput (key x) x s) xs s)
     \<and> elems (fold (\<lambda>x s. mput (key x) x s) xs s) = set xs \<union> elems s"
  by (induction xs arbitrary: s) (auto simp: keyed_mput elems_mput)

lemma keyed_fold_mdel:
  "keyed key s \<Longrightarrow> keyed key (fold (\<lambda>x s. mdel (key x) s) xs s)
     \<and> elems (fold (\<lambda>x s. mdel (key x) s) xs s) = elems s - set xs"
  by (induction xs arbitrary: s) (auto simp: keyed_mdel elems_mdel)

lemma keyed_filter:
  "keyed key s \<Longrightarrow> keyed key (filter (\<lambda>(k, x). P x) s)
     \<and> elems (filter (\<lambda>(k, x). P x) s) = {x \<in> elems s. P x}"
  by (auto simp: keyed_def list_all_iff elems_def image_iff)

lemma card_elems: "keyed key s \<Longrightarrow> card (elems s) = length s"
proof -
  assume k: "keyed key s"
  then have "distinct s" by (auto simp: keyed_def wf_map_def distinct_map)
  moreover have "inj_on snd (set s)" using k by (auto simp: inj_on_def keyed_set_iff)
  ultimately show ?thesis by (simp add: elems_def card_image distinct_card)
qed

lemma superset_elems:
  "keyed key s \<Longrightarrow> keyed key s2 \<Longrightarrow> list_all (\<lambda>(k, x). mhas s k) s2 \<longleftrightarrow> elems s2 \<subseteq> elems s"
proof -
  assume k: "keyed key s" "keyed key s2"
  have "list_all (\<lambda>(k, x). mhas s k) s2 \<longleftrightarrow> (\<forall>k x. (k, x) \<in> set s2 \<longrightarrow> mhas s k)"
    by (auto simp: list_all_iff)
  also have "\<dots> \<longleftrightarrow> (\<forall>x \<in> elems s2. mhas s (key x))" using keyed_set_iff [OF k(2)] by auto
  also have "\<dots> \<longleftrightarrow> elems s2 \<subseteq> elems s" using mhas_elems [OF k(1)] by auto
  finally show ?thesis .
qed

lemma equal_elems:
  assumes "keyed key s" and "keyed key s2"
  shows "length s = length s2 \<and> list_all (\<lambda>(k, x). mhas s k) s2 \<longleftrightarrow> elems s = elems s2"
proof -
  have fin: "finite (elems s)" by (simp add: elems_def)
  show ?thesis
    using assms card_subset_eq [OF fin, of "elems s2"]
    by (auto simp: superset_elems card_elems [symmetric])
qed

end

interpretation perms: keyed_set keyForIPPermission
  by unfold_locales (simp add: keyForIPPermission_inj)

abbreviation wf_perms :: "IPPermissionSet \<Rightarrow> bool" where
  "wf_perms \<equiv> keyed keyForIPPermission"

lemma Insert_set:
  "wf_perms s \<Longrightarrow> wf_perms (Insert items s) \<and> elems (Insert items s) = set items \<union> elems s"
  unfolding Insert_def by (rule perms.keyed_fold_mput)

lemma NewIPPermissionSet_set [simp]:
  "wf_perms (NewIPPermissionSet items)" "elems (NewIPPermissionSet items) = set items"
  using Insert_set [OF perms.keyed_Nil, of items]
  by (simp_all add: NewIPPermissionSet_def perms.elems_Nil)

lemma set_List [simp]: "set (List s) = elems s"
  by (simp add: List_def elems_def)

text \<open>C38: An \<^verbatim>\<open>IPPermissionSet\<close> is the finite set of its rules, because the JSON key determines the
  rule: every operation keeps the invariant that rules are filed under their keys, \<^verbatim>\<open>Insert\<close>,
  \<^verbatim>\<open>Delete\<close> and \<^verbatim>\<open>DeleteIf\<close> are union, difference and selection, \<^verbatim>\<open>Len\<close> is the number of rules, and
  \<^verbatim>\<open>IsSuperset\<close> and \<^verbatim>\<open>Equal\<close> decide inclusion and equality.\<close>

theorem IPPermissionSet_refines_set:
  assumes "wf_perms s" and "wf_perms s2"
  shows "wf_perms (Insert items s) \<and> elems (Insert items s) = elems s \<union> set items
    \<and> wf_perms (Delete items s) \<and> elems (Delete items s) = elems s - set items
    \<and> wf_perms (DeleteIf f s) \<and> elems (DeleteIf f s) = {p \<in> elems s. \<not> f p}
    \<and> wf_perms (NewIPPermissionSet items) \<and> elems (NewIPPermissionSet items) = set items
    \<and> Len s = card (elems s)
    \<and> (IsSuperset s s2 \<longleftrightarrow> elems s2 \<subseteq> elems s)
    \<and> (Equal s s2 \<longleftrightarrow> elems s = elems s2)"
  using Insert_set [OF assms(1), of items] perms.keyed_fold_mdel [OF assms(1), of items]
    perms.keyed_filter [OF assms(1), of "\<lambda>p. \<not> f p"] perms.superset_elems [OF assms]
    perms.equal_elems [OF assms] perms.card_elems [OF assms(1)]
  by (auto simp: Delete_def DeleteIf_def Len_def IsSuperset_def Equal_def)

definition rule_a :: ip_permission where
  "rule_a = \<lparr>perm_FromPort = Some 80, perm_IpProtocol = Some ''tcp'',
     perm_IpRanges = Some [\<lparr>range_CidrIp = Some ''10.0.0.0/8'', range_Description = None\<rparr>],
     perm_Ipv6Ranges = None, perm_PrefixListIds = None, perm_ToPort = Some 80,
     perm_UserIdGroupPairs = None\<rparr>"

definition rule_b :: ip_permission where
  "rule_b = rule_a\<lparr>perm_IpRanges := None,
     perm_Ipv6Ranges := Some [\<lparr>range6_CidrIpv6 = Some ''::/0'', range6_Description = None\<rparr>]\<rparr>"

theorem IPPermissionSet_refines_set_witness:
  "Equal (NewIPPermissionSet [rule_a, rule_b]) (NewIPPermissionSet [rule_b, rule_a, rule_b])
   \<and> elems (Delete [rule_a] (NewIPPermissionSet [rule_a, rule_b])) = {rule_b}"
proof -
  have "rule_a \<noteq> rule_b" by (simp add: rule_a_def rule_b_def)
  then show ?thesis
    using IPPermissionSet_refines_set [of "NewIPPermissionSet [rule_a, rule_b]"
        "NewIPPermissionSet [rule_b, rule_a, rule_b]" "[rule_a]"] by auto
qed

section \<open>What a rule grants\<close>

datatype source =
    FromRange ip_range
  | FromRange6 ipv6_range
  | FromPrefix prefix_list_id
  | FromGroup user_id_group_pair

definition sources :: "ip_permission \<Rightarrow> source set" where
  "sources p = FromRange ` set (slice (perm_IpRanges p)) \<union> FromRange6 ` set (slice (perm_Ipv6Ranges p))
     \<union> FromPrefix ` set (slice (perm_PrefixListIds p)) \<union> FromGroup ` set (slice (perm_UserIdGroupPairs p))"

text \<open>The traffic a rule lets in: a port range and protocol, and a source.\<close>

definition grants :: "ip_permission \<Rightarrow> ((int option \<times> int option \<times> string option) \<times> source) set" where
  "grants p = {(perm_FromPort p, perm_ToPort p, perm_IpProtocol p)} \<times> sources p"

definition granted :: "ip_permission set \<Rightarrow> ((int option \<times> int option \<times> string option) \<times> source) set" where
  "granted ps = \<Union> (grants ` ps)"

lemma sources_update [simp]:
  "sources (p\<lparr>perm_IpRanges := Some rs\<rparr>) = FromRange ` set rs \<union> FromRange6 ` set (slice (perm_Ipv6Ranges p))
     \<union> FromPrefix ` set (slice (perm_PrefixListIds p)) \<union> FromGroup ` set (slice (perm_UserIdGroupPairs p))"
  "sources (p\<lparr>perm_UserIdGroupPairs := Some us\<rparr>) = FromRange ` set (slice (perm_IpRanges p))
     \<union> FromRange6 ` set (slice (perm_Ipv6Ranges p)) \<union> FromPrefix ` set (slice (perm_PrefixListIds p)) \<union> FromGroup ` set us"
  "sources (p\<lparr>perm_PrefixListIds := Some vs\<rparr>) = FromRange ` set (slice (perm_IpRanges p))
     \<union> FromRange6 ` set (slice (perm_Ipv6Ranges p)) \<union> FromPrefix ` set vs \<union> FromGroup ` set (slice (perm_UserIdGroupPairs p))"
  by (simp_all add: sources_def)

lemma not_short: "\<not> length xs \<le> Suc 0 \<Longrightarrow> \<exists>x. x \<in> set xs"
  by (cases xs) auto

lemma granted_ungroup:
  "granted (set (ungroup_ranges p)) = grants p"
  "granted (set (ungroup_pairs p)) = grants p"
  "granted (set (ungroup_prefixes p)) = grants p"
  unfolding granted_def ungroup_ranges_def ungroup_pairs_def ungroup_prefixes_def grants_def
  by (auto simp: not_short) (auto simp: sources_def not_short)

lemma granted_concat:
  assumes "\<And>p. granted (set (f p)) = grants p"
  shows "granted (set (concat (map f ps))) = granted (set ps)"
  using assms by (auto simp: granted_def)

lemma granted_Ungroup: "granted (elems (Ungroup s)) = granted (elems s)"
proof -
  have "granted (elems (Ungroup s)) = granted (set (List s))"
    by (simp only: Ungroup_def Let_def NewIPPermissionSet_set granted_concat granted_ungroup)
  then show ?thesis by simp
qed

definition ungrouped :: "ip_permission \<Rightarrow> bool" where
  "ungrouped p \<longleftrightarrow> length (slice (perm_IpRanges p)) \<le> 1 \<and> length (slice (perm_UserIdGroupPairs p)) \<le> 1
     \<and> length (slice (perm_PrefixListIds p)) \<le> 1"

lemma Ungroup_ungrouped: "p \<in> elems (Ungroup s) \<Longrightarrow> ungrouped p"
  by (fastforce simp: Ungroup_def Let_def ungrouped_def ungroup_ranges_def ungroup_pairs_def
      ungroup_prefixes_def split: if_splits)

text \<open>\<^verbatim>\<open>Ungroup\<close> keeps the traffic that the rules let in, with the descriptions, and leaves at
  most one IPv4 range, one group pair and one prefix list in each rule. The result is a well-formed
  set.\<close>

lemma Ungroup_correct:
  "wf_perms (Ungroup s) \<and> granted (elems (Ungroup s)) = granted (elems s)
   \<and> list_all ungrouped (List (Ungroup s))"
  using granted_Ungroup [of s] Ungroup_ungrouped [of _ s]
  by (simp add: list_all_iff) (simp add: Ungroup_def Let_def)

section \<open>Difference\<close>

text \<open>What \<^verbatim>\<open>ipPermissionExists\<close> compares of a source: not the description, and of a group the id.\<close>

datatype source_name =
    Cidr "string option"
  | Cidr6 "string option"
  | PrefixList "string option"
  | GroupId "string option"

fun source_id :: "source \<Rightarrow> source_name" where
  "source_id (FromRange r) = Cidr (range_CidrIp r)"
| "source_id (FromRange6 r) = Cidr6 (range6_CidrIpv6 r)"
| "source_id (FromPrefix r) = PrefixList (prefix_PrefixListId r)"
| "source_id (FromGroup r) = GroupId (pair_GroupId r)"

definition grant_ids :: "ip_permission set \<Rightarrow> ((int option \<times> int option \<times> string option) \<times> source_name) set" where
  "grant_ids ps = map_prod id source_id ` granted ps"

text \<open>A rule with one IPv4 range or one group pair as its only source.\<close>

definition single_source :: "ip_permission \<Rightarrow> bool" where
  "single_source p \<longleftrightarrow> slice (perm_Ipv6Ranges p) = [] \<and> slice (perm_PrefixListIds p) = []
     \<and> length (slice (perm_IpRanges p)) + length (slice (perm_UserIdGroupPairs p)) = 1"

definition has_group_ids :: "ip_permission \<Rightarrow> bool" where
  "has_group_ids p \<longleftrightarrow> list_all (\<lambda>u. pair_GroupId u \<noteq> None) (slice (perm_UserIdGroupPairs p))"

lemma ipPermissionExists_total:
  assumes "has_group_ids p" and "has_group_ids q"
  shows "ipPermissionExists p q False = Inr (perm_FromPort p = perm_FromPort q \<and> perm_ToPort p = perm_ToPort q
     \<and> perm_IpProtocol p = perm_IpProtocol q
     \<and> length (slice (perm_IpRanges p)) \<le> length (slice (perm_IpRanges q))
     \<and> range_CidrIp ` set (slice (perm_IpRanges p)) \<subseteq> range_CidrIp ` set (slice (perm_IpRanges q))
     \<and> pair_GroupId ` set (slice (perm_UserIdGroupPairs p)) \<subseteq> pair_GroupId ` set (slice (perm_UserIdGroupPairs q)))"
proof -
  let ?ps = "slice (perm_UserIdGroupPairs p)" and ?qs = "slice (perm_UserIdGroupPairs q)"
  have "anyR (\<lambda>r. isEqualUserGroupPair l r False) ?qs = Inr (list_ex (\<lambda>r. pair_GroupId l = pair_GroupId r) ?qs)"
    if "l \<in> set ?ps" for l
    using that assms
    by (intro anyR_total) (auto simp: isEqualUserGroupPair_def has_group_ids_def list_all_iff)
  then have "allR (\<lambda>l. anyR (\<lambda>r. isEqualUserGroupPair l r False) ?qs) ?ps =
      Inr (list_all (\<lambda>l. list_ex (\<lambda>r. pair_GroupId l = pair_GroupId r) ?qs) ?ps)"
    by (rule allR_total)
  then show ?thesis
    by (auto simp: ipPermissionExists_def list_all_iff list_ex_iff image_subset_iff image_iff)
qed

lemma single_source_cases:
  assumes "single_source p"
  obtains (range) r where "slice (perm_IpRanges p) = [r]" "slice (perm_UserIdGroupPairs p) = []"
      "sources p = {FromRange r}"
    | (group) u where "slice (perm_IpRanges p) = []" "slice (perm_UserIdGroupPairs p) = [u]"
      "sources p = {FromGroup u}"
  using assms unfolding single_source_def sources_def
  by (cases "slice (perm_IpRanges p)"; cases "slice (perm_UserIdGroupPairs p)") auto

lemma exists_single:
  assumes "single_source p" and "has_group_ids p" and "has_group_ids q"
  shows "ipPermissionExists p q False = Inr (grant_ids {p} \<subseteq> grant_ids {q})"
proof -
  let ?g = "\<lambda>p. (perm_FromPort p, perm_ToPort p, perm_IpProtocol p)"
  have gids: "grant_ids {x} = {?g x} \<times> source_id ` sources x" for x
    by (auto simp: grant_ids_def granted_def grants_def image_iff map_prod_def)
  have src: "Cidr c \<in> source_id ` sources x \<longleftrightarrow> c \<in> range_CidrIp ` set (slice (perm_IpRanges x))"
    "GroupId c \<in> source_id ` sources x \<longleftrightarrow> c \<in> pair_GroupId ` set (slice (perm_UserIdGroupPairs x))" for x c
    by (force simp: sources_def)+
  show ?thesis
    using assms(1)
  proof (cases rule: single_source_cases)
    case (range r)
    have "1 \<le> length (slice (perm_IpRanges q))" if "range_CidrIp r \<in> range_CidrIp ` set (slice (perm_IpRanges q))"
      using that by (cases "slice (perm_IpRanges q)") auto
    with range show ?thesis
      by (auto simp: ipPermissionExists_total [OF assms(2,3)] gids src)
  next
    case (group u)
    then show ?thesis by (auto simp: ipPermissionExists_total [OF assms(2,3)] gids src)
  qed
qed

lemma single_grant: "single_source p \<Longrightarrow> \<exists>g. grant_ids {p} = {g}"
  by (elim single_source_cases) (auto simp: grant_ids_def granted_def grants_def)

lemma grant_ids_Un: "grant_ids ps = (\<Union>p \<in> ps. grant_ids {p})"
  by (simp add: grant_ids_def granted_def image_UN)

lemma Difference_run:
  assumes ex: "\<And>p q. p \<in> elems s \<Longrightarrow> q \<in> elems s2 \<Longrightarrow> ipPermissionExists p q False = Inr (ex p q)"
  shows "\<exists>d. Difference s s2 = Inr d \<and> wf_perms d
     \<and> elems d = {p \<in> elems s. \<forall>q \<in> elems s2. \<not> ex p q}"
proof -
  define step where "step = (\<lambda>desired result.
       bindR (anyR (\<lambda>existing. ipPermissionExists desired existing False) (List s2))
         (\<lambda>found. Inr (if found then result else Insert [desired] result)))"
  have step: "step p acc = Inr (if list_ex (ex p) (List s2) then acc else Insert [p] acc)"
    if "p \<in> elems s" for p acc
    using anyR_total [of "List s2" "\<lambda>existing. ipPermissionExists p existing False" "ex p"] ex that
    by (simp add: step_def)
  have "\<exists>d. foldR step ps acc = Inr d \<and> wf_perms d
     \<and> elems d = {p \<in> set ps. \<forall>q \<in> elems s2. \<not> ex p q} \<union> elems acc"
    if "set ps \<subseteq> elems s" "wf_perms acc" for ps acc
    using that
  proof (induction ps arbitrary: acc)
    case (Cons p ps)
    define acc' where "acc' = (if list_ex (ex p) (List s2) then acc else Insert [p] acc)"
    have acc': "wf_perms acc'"
      "elems acc' = (if \<exists>q \<in> elems s2. ex p q then elems acc else insert p (elems acc))"
      using Cons.prems Insert_set [of acc "[p]"] by (auto simp: acc'_def list_ex_iff)
    with Cons.IH [of acc'] Cons.prems(1) obtain d where d: "foldR step ps acc' = Inr d" "wf_perms d"
      "elems d = {p \<in> set ps. \<forall>q \<in> elems s2. \<not> ex p q} \<union> elems acc'"
      by auto
    have "foldR step (p # ps) acc = Inr d"
      using Cons.prems(1) d(1) by (simp add: step acc'_def)
    moreover have "elems d = {p' \<in> set (p # ps). \<forall>q \<in> elems s2. \<not> ex p' q} \<union> elems acc"
      using d(3) acc'(2) by auto
    ultimately show ?case using d(2) by blast
  qed auto
  from this [of "List s" "NewIPPermissionSet []"] show ?thesis
    by (simp add: Difference_def step_def)
qed

lemma Difference_grants:
  assumes "\<forall>p \<in> elems s. single_source p \<and> has_group_ids p" and "\<forall>q \<in> elems s2. has_group_ids q"
  shows "\<exists>d. Difference s s2 = Inr d \<and> wf_perms d \<and> elems d \<subseteq> elems s
     \<and> grant_ids (elems d) = grant_ids (elems s) - grant_ids (elems s2)"
proof -
  obtain d where d: "Difference s s2 = Inr d" "wf_perms d"
    "elems d = {p \<in> elems s. \<forall>q \<in> elems s2. \<not> grant_ids {p} \<subseteq> grant_ids {q}}"
    using Difference_run [of s s2 "\<lambda>p q. grant_ids {p} \<subseteq> grant_ids {q}"] assms exists_single by blast
  obtain g where g: "\<forall>p \<in> elems s. grant_ids {p} = {g p}"
    using bchoice [of "elems s" "\<lambda>p g. grant_ids {p} = {g}"] single_grant assms(1) by blast
  have image: "grant_ids X = g ` X" if "X \<subseteq> elems s" for X
    using that g by (subst grant_ids_Un) auto
  have "elems d = {p \<in> elems s. g p \<notin> grant_ids (elems s2)}"
    using d(3) g by (subst grant_ids_Un) auto
  then have "grant_ids (elems d) = grant_ids (elems s) - grant_ids (elems s2)"
    by (subst (1 2) image) auto
  with d show ?thesis by auto
qed

text \<open>\<^verbatim>\<open>Difference\<close> on rules that have one IPv4 range or one group as their source (and no nil group
  id, which would panic): it returns, and the rules it returns grant exactly the traffic that the
  first set grants and the second does not.\<close>

lemma Difference_subtracts_grants:
  assumes "\<forall>p \<in> elems s. single_source p \<and> has_group_ids p" and "\<forall>q \<in> elems s2. has_group_ids q"
  shows "\<exists>d. Difference s s2 = Inr d \<and> wf_perms d \<and> elems d \<subseteq> elems s
     \<and> grant_ids (elems d) = grant_ids (elems s) - grant_ids (elems s2)"
  using assms by (rule Difference_grants)

lemma Difference_subtracts_grants_example:
  "\<exists>d. Difference (NewIPPermissionSet [rule_a]) (NewIPPermissionSet [rule_a]) = Inr d
     \<and> grant_ids (elems d) = {}"
proof -
  have "single_source rule_a \<and> has_group_ids rule_a"
    by (simp add: single_source_def has_group_ids_def rule_a_def)
  then show ?thesis
    using Difference_subtracts_grants [of "NewIPPermissionSet [rule_a]" "NewIPPermissionSet [rule_a]"]
    by auto
qed

text \<open>A defect of \<^verbatim>\<open>ipPermissionExists\<close>: it compares neither IPv6 ranges nor prefix lists, so a
  rule whose sources are only of these kinds counts as existing as soon as there is any rule for the
  same ports and protocol. \<^verbatim>\<open>Difference\<close> then drops it although nothing grants its traffic.\<close>

lemma Difference_loses_IPv6:
  "Difference (NewIPPermissionSet [rule_b]) (NewIPPermissionSet [rule_a]) = Inr []
   \<and> grant_ids {rule_b} \<noteq> {} \<and> grant_ids {rule_b} \<inter> grant_ids {rule_a} = {}"
proof -
  have ex: "ipPermissionExists rule_b rule_a False = Inr True"
    by (simp add: ipPermissionExists_def rule_a_def rule_b_def)
  have "Difference (NewIPPermissionSet [rule_b]) (NewIPPermissionSet [rule_a]) = Inr []"
    by (simp add: Difference_def NewIPPermissionSet_def Insert_def List_def ex)
  then show ?thesis
    by (auto simp: grant_ids_def granted_def grants_def sources_def rule_a_def rule_b_def)
qed

end
