(* ===== verification/Cloud.thy ===== *)
theory Cloud
  imports Tagging Config ElbApi IPPermissions
begin

text \<open>
  The provider object \<^verbatim>\<open>Cloud\<close> of \<^verbatim>\<open>aws.go\<close> and the Kubernetes objects it is given. The clients, the
  configuration, the region, the VPC and the tagging are fixed when the object is built and form the
  record \<open>Cloud\<close>; the caches that its methods change are state and are introduced with the
  components that own them.
\<close>

section \<open>Kubernetes objects\<close>

record service_port =
  port_Name :: string
  port_Protocol :: string
  port_Port :: int
  port_NodePort :: int

record service =
  svc_Name :: string
  svc_Namespace :: string
  svc_UID :: string
  svc_Annotations :: "(string, string) gomap"
  svc_Ports :: "service_port list"
  svc_ExternalTrafficPolicy :: string
  svc_SessionAffinity :: string
  svc_LoadBalancerIP :: string
  svc_LoadBalancerSourceRanges :: "string list"
  svc_Type :: string
  svc_IPFamilies :: "string list"
  svc_IPFamilyPolicy :: "string option"
  svc_HealthCheckNodePort :: int
  svc_IngressHostnames :: "string list"

record node =
  node_Name :: string
  node_ProviderID :: string
  node_Labels :: "(string, string) gomap"

text \<open>\<^verbatim>\<open>types.NamespacedName\<close>.\<close>

record namespaced_name =
  nn_Namespace :: string
  nn_Name :: string

definition nn_String :: "namespaced_name \<Rightarrow> string" where
  "nn_String n = nn_Namespace n @ ''/'' @ nn_Name n"

section \<open>The provider\<close>

text \<open>The AWS instance on which the provider runs.\<close>

record awsInstance =
  self_awsID :: string
  self_nodeName :: string
  self_availabilityZone :: string
  self_vpcID :: string
  self_subnetID :: string
  self_instanceType :: string

text \<open>\<open>sha1hex\<close> and \<open>sha256hex\<close> stand for the hexadecimal SHA-1 and SHA-256 digests of Go's
  \<^verbatim>\<open>crypto\<close> packages; \<open>informer\<close> is the node lister, \<open>None\<close> when there is none or it has not synced.\<close>

record 'w Cloud =
  c_ec2 :: "'w ec2_client"
  c_elb :: "'w elb_client"
  c_elbv2 :: "'w elbv2_client"
  c_metadata :: "'w EC2Metadata"
  c_cfg :: CloudConfig
  c_region :: string
  c_vpcID :: string
  c_tagging :: awsTagging
  c_selfAWSInstance :: awsInstance
  c_informer :: "node list option"
  c_sha1hex :: "string \<Rightarrow> string"
  c_sha256hex :: "string \<Rightarrow> string"

abbreviation c_global :: "'w Cloud \<Rightarrow> global_config" where
  "c_global c \<equiv> Global (c_cfg c)"

definition ProviderName :: string where
  "ProviderName = ''aws''"

definition HasClusterID :: "'w Cloud \<Rightarrow> bool" where
  "HasClusterID c \<longleftrightarrow> length (ClusterID (c_tagging c)) > 0"

text \<open>A provider whose clients do nothing, for witnesses.\<close>

definition sample_cloud :: "'w Cloud" where
  "sample_cloud = \<lparr>c_ec2 = idle_client, c_elb = idle_elb, c_elbv2 = idle_elbv2,
     c_metadata = \<lparr>imds_GetMetadata = (\<lambda>_. returnM ''''), imds_GetRegion = returnM ''us-east-1''\<rparr>,
     c_cfg = \<lparr>Global = sample_global, ServiceOverride = []\<rparr>, c_region = ''us-east-1'',
     c_vpcID = ''vpc-1'', c_tagging = \<lparr>ClusterID = ''c1'', usesLegacyTags = False\<rparr>,
     c_selfAWSInstance = \<lparr>self_awsID = ''i-self'', self_nodeName = ''self'',
        self_availabilityZone = ''us-east-1a'', self_vpcID = ''vpc-1'', self_subnetID = ''subnet-1'',
        self_instanceType = ''m5.large''\<rparr>,
     c_informer = None, c_sha1hex = (\<lambda>s. s), c_sha256hex = (\<lambda>s. s)\<rparr>"

end
