(* ===== verification/Annotations.thy ===== *)
theory Annotations
  imports Cloud
begin

text \<open>
  The reading of service annotations in \<^verbatim>\<open>aws.go\<close> and \<^verbatim>\<open>aws_loadbalancer.go\<close>: comma-separated lists
  and key-value properties, the port sets of the SSL annotation, integers and flags, the listener of
  a classic load balancer, and the health checks of both kinds of load balancer.

  The lemmas show that properties round-trip through their text, that port sets separate names from
  numbers, that listeners use SSL exactly on the requested ports, and when a health check is
  accepted. Integers are parsed at 64 bits and cut to 32, which the lemmas keep visible.
\<close>

section \<open>Annotation keys\<close>

definition ServiceAnnotationLoadBalancerType :: string where
  "ServiceAnnotationLoadBalancerType = ''service.beta.kubernetes.io/aws-load-balancer-type''"

definition ServiceAnnotationLoadBalancerALPNPolicy :: string where
  "ServiceAnnotationLoadBalancerALPNPolicy = ''service.beta.kubernetes.io/aws-load-balancer-alpn-policy''"

definition ServiceAnnotationLoadBalancerInternal :: string where
  "ServiceAnnotationLoadBalancerInternal = ''service.beta.kubernetes.io/aws-load-balancer-internal''"

definition ServiceAnnotationLoadBalancerProxyProtocol :: string where
  "ServiceAnnotationLoadBalancerProxyProtocol = ''service.beta.kubernetes.io/aws-load-balancer-proxy-protocol''"

definition ServiceAnnotationLoadBalancerAccessLogEmitInterval :: string where
  "ServiceAnnotationLoadBalancerAccessLogEmitInterval = ''service.beta.kubernetes.io/aws-load-balancer-access-log-emit-interval''"

definition ServiceAnnotationLoadBalancerAccessLogEnabled :: string where
  "ServiceAnnotationLoadBalancerAccessLogEnabled = ''service.beta.kubernetes.io/aws-load-balancer-access-log-enabled''"

definition ServiceAnnotationLoadBalancerAccessLogS3BucketName :: string where
  "ServiceAnnotationLoadBalancerAccessLogS3BucketName = ''service.beta.kubernetes.io/aws-load-balancer-access-log-s3-bucket-name''"

definition ServiceAnnotationLoadBalancerAccessLogS3BucketPrefix :: string where
  "ServiceAnnotationLoadBalancerAccessLogS3BucketPrefix = ''service.beta.kubernetes.io/aws-load-balancer-access-log-s3-bucket-prefix''"

definition ServiceAnnotationLoadBalancerConnectionDrainingEnabled :: string where
  "ServiceAnnotationLoadBalancerConnectionDrainingEnabled = ''service.beta.kubernetes.io/aws-load-balancer-connection-draining-enabled''"

definition ServiceAnnotationLoadBalancerConnectionDrainingTimeout :: string where
  "ServiceAnnotationLoadBalancerConnectionDrainingTimeout = ''service.beta.kubernetes.io/aws-load-balancer-connection-draining-timeout''"

definition ServiceAnnotationLoadBalancerConnectionIdleTimeout :: string where
  "ServiceAnnotationLoadBalancerConnectionIdleTimeout = ''service.beta.kubernetes.io/aws-load-balancer-connection-idle-timeout''"

definition ServiceAnnotationLoadBalancerCrossZoneLoadBalancingEnabled :: string where
  "ServiceAnnotationLoadBalancerCrossZoneLoadBalancingEnabled = ''service.beta.kubernetes.io/aws-load-balancer-cross-zone-load-balancing-enabled''"

definition ServiceAnnotationLoadBalancerExtraSecurityGroups :: string where
  "ServiceAnnotationLoadBalancerExtraSecurityGroups = ''service.beta.kubernetes.io/aws-load-balancer-extra-security-groups''"

definition ServiceAnnotationLoadBalancerSecurityGroups :: string where
  "ServiceAnnotationLoadBalancerSecurityGroups = ''service.beta.kubernetes.io/aws-load-balancer-security-groups''"

definition ServiceAnnotationLoadBalancerCertificate :: string where
  "ServiceAnnotationLoadBalancerCertificate = ''service.beta.kubernetes.io/aws-load-balancer-ssl-cert''"

definition ServiceAnnotationLoadBalancerSSLPorts :: string where
  "ServiceAnnotationLoadBalancerSSLPorts = ''service.beta.kubernetes.io/aws-load-balancer-ssl-ports''"

definition ServiceAnnotationLoadBalancerSSLNegotiationPolicy :: string where
  "ServiceAnnotationLoadBalancerSSLNegotiationPolicy = ''service.beta.kubernetes.io/aws-load-balancer-ssl-negotiation-policy''"

definition ServiceAnnotationLoadBalancerBEProtocol :: string where
  "ServiceAnnotationLoadBalancerBEProtocol = ''service.beta.kubernetes.io/aws-load-balancer-backend-protocol''"

definition ServiceAnnotationLoadBalancerAdditionalTags :: string where
  "ServiceAnnotationLoadBalancerAdditionalTags = ''service.beta.kubernetes.io/aws-load-balancer-additional-resource-tags''"

definition ServiceAnnotationLoadBalancerHealthCheckProtocol :: string where
  "ServiceAnnotationLoadBalancerHealthCheckProtocol = ''service.beta.kubernetes.io/aws-load-balancer-healthcheck-protocol''"

definition ServiceAnnotationLoadBalancerHealthCheckPort :: string where
  "ServiceAnnotationLoadBalancerHealthCheckPort = ''service.beta.kubernetes.io/aws-load-balancer-healthcheck-port''"

definition ServiceAnnotationLoadBalancerHealthCheckPath :: string where
  "ServiceAnnotationLoadBalancerHealthCheckPath = ''service.beta.kubernetes.io/aws-load-balancer-healthcheck-path''"

definition ServiceAnnotationLoadBalancerHCHealthyThreshold :: string where
  "ServiceAnnotationLoadBalancerHCHealthyThreshold = ''service.beta.kubernetes.io/aws-load-balancer-healthcheck-healthy-threshold''"

definition ServiceAnnotationLoadBalancerHCUnhealthyThreshold :: string where
  "ServiceAnnotationLoadBalancerHCUnhealthyThreshold = ''service.beta.kubernetes.io/aws-load-balancer-healthcheck-unhealthy-threshold''"

definition ServiceAnnotationLoadBalancerHCTimeout :: string where
  "ServiceAnnotationLoadBalancerHCTimeout = ''service.beta.kubernetes.io/aws-load-balancer-healthcheck-timeout''"

definition ServiceAnnotationLoadBalancerHCInterval :: string where
  "ServiceAnnotationLoadBalancerHCInterval = ''service.beta.kubernetes.io/aws-load-balancer-healthcheck-interval''"

definition ServiceAnnotationLoadBalancerTargetGroupAttributes :: string where
  "ServiceAnnotationLoadBalancerTargetGroupAttributes = ''service.beta.kubernetes.io/aws-load-balancer-target-group-attributes''"

definition ServiceAnnotationLoadBalancerEIPAllocations :: string where
  "ServiceAnnotationLoadBalancerEIPAllocations = ''service.beta.kubernetes.io/aws-load-balancer-eip-allocations''"

definition ServiceAnnotationLoadBalancerPrivateIPv4Addresses :: string where
  "ServiceAnnotationLoadBalancerPrivateIPv4Addresses = ''service.beta.kubernetes.io/aws-load-balancer-private-ipv4-addresses''"

definition ServiceAnnotationLoadBalancerTargetNodeLabels :: string where
  "ServiceAnnotationLoadBalancerTargetNodeLabels = ''service.beta.kubernetes.io/aws-load-balancer-target-node-labels''"

definition ServiceAnnotationLoadBalancerSubnets :: string where
  "ServiceAnnotationLoadBalancerSubnets = ''service.beta.kubernetes.io/aws-load-balancer-subnets''"

section \<open>Lists and properties\<close>

definition isNLB :: "(string, string) gomap \<Rightarrow> bool" where
  "isNLB annotations \<longleftrightarrow> mstr annotations ServiceAnnotationLoadBalancerType = ''nlb''"

definition isLBExternal :: "(string, string) gomap \<Rightarrow> bool" where
  "isLBExternal annotations \<longleftrightarrow>
     (let val = mstr annotations ServiceAnnotationLoadBalancerType in val = ''nlb-ip'' \<or> val = ''external'')"

text \<open>The loop body of \<^verbatim>\<open>getKeyValuePropertiesFromAnnotation\<close>.\<close>

definition add_property :: "string \<Rightarrow> (string, string) gomap \<Rightarrow> (string, string) gomap" where
  "add_property tagSet additionalTags =
     (let tag = Split (CHR ''='') (TrimSpace tagSet) in
      if length tag \<ge> 2 \<and> tag ! 0 \<noteq> '''' then mput (tag ! 0) (tag ! 1) additionalTags
      else if length tag = 1 \<and> tag ! 0 \<noteq> '''' then mput (tag ! 0) '''' additionalTags
      else additionalTags)"

definition getKeyValuePropertiesFromAnnotation ::
  "(string, string) gomap \<Rightarrow> string \<Rightarrow> (string, string) gomap" where
  "getKeyValuePropertiesFromAnnotation annotations annotation =
     (case map_of annotations annotation of
        None \<Rightarrow> []
      | Some additionalTagsList \<Rightarrow>
          fold add_property (Split (CHR '','') (TrimSpace additionalTagsList)) [])"

definition splitCommaSeparatedString :: "string \<Rightarrow> string list" where
  "splitCommaSeparatedString s = filter (\<lambda>part. part \<noteq> '''') (map TrimSpace (Split (CHR '','') s))"

definition getSGListFromAnnotation :: "string \<Rightarrow> string list" where
  "getSGListFromAnnotation annotatedSG =
     filter (\<lambda>sg. sg \<noteq> '''') (map TrimSpace (Split (CHR '','') annotatedSG))"

text \<open>The functions that fill a variable return whether the annotation exists, and the variable.\<close>

definition parseStringAnnotation :: "(string, string) gomap \<Rightarrow> string \<Rightarrow> string \<Rightarrow> bool \<times> string" where
  "parseStringAnnotation annotations annotation value =
     (case map_of annotations annotation of None \<Rightarrow> (False, value) | Some v \<Rightarrow> (True, v))"

definition parseInt32Annotation :: "(string, string) gomap \<Rightarrow> string \<Rightarrow> int \<Rightarrow> (bool \<times> int) result" where
  "parseInt32Annotation annotations annotation value =
     (case map_of annotations annotation of
        None \<Rightarrow> Inr (False, value)
      | Some v \<Rightarrow>
          (case ParseInt 0 v of
             None \<Rightarrow> Inl (Errorf ''failed to parse annotation %v=%v'' [annotation, v])
           | Some parsed64 \<Rightarrow> Inr (True, to_int32 parsed64)))"

definition parseStringSliceAnnotation ::
  "(string, string) gomap \<Rightarrow> string \<Rightarrow> string list \<Rightarrow> bool \<times> string list" where
  "parseStringSliceAnnotation annotations annotation value =
     (case parseStringAnnotation annotations annotation '''' of
        (False, _) \<Rightarrow> (False, value)
      | (True, rawValue) \<Rightarrow> (True, splitCommaSeparatedString rawValue))"

record portSets =
  ps_names :: "string list"
  ps_numbers :: "int list"

definition add_port :: "string \<Rightarrow> portSets \<Rightarrow> portSets" where
  "add_port item ports =
     (case Atoi item of
        None \<Rightarrow> ports\<lparr>ps_names := List.insert item (ps_names ports)\<rparr>
      | Some port \<Rightarrow> ports\<lparr>ps_numbers := List.insert (to_int32 port) (ps_numbers ports)\<rparr>)"

definition getPortSets :: "string \<Rightarrow> portSets option" where
  "getPortSets annotation =
     (if annotation \<noteq> '''' \<and> annotation \<noteq> ''*''
      then Some (fold add_port (Split (CHR '','') annotation) \<lparr>ps_names = [], ps_numbers = []\<rparr>)
      else None)"

text \<open>\<^verbatim>\<open>sslPorts == nil || sslPorts.numbers.Has(n) || sslPorts.names.Has(s)\<close>\<close>

definition port_selected :: "portSets option \<Rightarrow> int \<Rightarrow> string \<Rightarrow> bool" where
  "port_selected ports n s =
     (case ports of None \<Rightarrow> True | Some p \<Rightarrow> n \<in> set (ps_numbers p) \<or> s \<in> set (ps_names p))"

section \<open>Protocols and listeners\<close>

definition checkMixedProtocol :: "service_port list \<Rightarrow> unit result" where
  "checkMixedProtocol ports =
     (case ports of
        [] \<Rightarrow> Inr ()
      | p # ps \<Rightarrow>
          (if list_ex (\<lambda>port. port_Protocol port \<noteq> port_Protocol p) ps
           then Inl (Errorf ''mixed protocol is not supported for LoadBalancer'' []) else Inr ()))"

definition checkProtocol :: "service_port \<Rightarrow> (string, string) gomap \<Rightarrow> unit result" where
  "checkProtocol port annotations =
     (if isNLB annotations \<and> (port_Protocol port = ''TCP'' \<or> port_Protocol port = ''UDP'') then Inr ()
      else if \<not> isNLB annotations \<and> port_Protocol port = ''TCP'' then Inr ()
      else Inl (Errorf ''Protocol %s not supported by LoadBalancer'' [port_Protocol port]))"

definition backendProtocolMapping :: "(string, string) gomap" where
  "backendProtocolMapping =
     [(''https'', ''https''), (''http'', ''https''), (''ssl'', ''ssl''), (''tcp'', ''ssl'')]"

definition buildListener ::
  "service_port \<Rightarrow> (string, string) gomap \<Rightarrow> portSets option \<Rightarrow> elb_listener result" where
  "buildListener port annotations sslPorts =
     (let portName = ToLower (port_Name port);
          protocol = ToLower (port_Protocol port);
          certID = mstr annotations ServiceAnnotationLoadBalancerCertificate;
          backend = mstr annotations ServiceAnnotationLoadBalancerBEProtocol;
          listener = (\<lambda>protocol instanceProtocol cert.
            \<lparr>l_InstancePort = Some (port_NodePort port), l_InstanceProtocol = Some instanceProtocol,
             l_LoadBalancerPort = port_Port port, l_Protocol = Some protocol, l_SSLCertificateId = cert\<rparr>)
      in if certID \<noteq> '''' \<and> port_selected sslPorts (port_Port port) portName then
           (if backend = '''' then Inr (listener ''ssl'' ''tcp'' (Some certID))
            else
              (let protocol = mstr backendProtocolMapping backend in
               if protocol = '''' then
                 Inl (Errorf ''Invalid backend protocol %s for %s in %s''
                        [backend, certID, ServiceAnnotationLoadBalancerBEProtocol])
               else Inr (listener protocol backend (Some certID))))
         else if backend = ''http'' then Inr (listener ''http'' ''http'' None)
         else Inr (listener protocol protocol None))"

section \<open>IP families\<close>

definition serviceRequestsIPv6 :: "service \<Rightarrow> bool" where
  "serviceRequestsIPv6 svc = (''IPv6'' \<in> set (svc_IPFamilies svc))"

definition getTargetGroupIPAddressTypeFromService :: "service \<Rightarrow> string" where
  "getTargetGroupIPAddressTypeFromService svc =
     (case svc_IPFamilies svc of
        [] \<Rightarrow> ''ipv4'' | f # _ \<Rightarrow> (if f = ''IPv6'' then ''ipv6'' else ''ipv4''))"

definition getLoadBalancerIPAddressTypeFromService :: "service \<Rightarrow> string" where
  "getLoadBalancerIPAddressTypeFromService svc =
     (if serviceRequestsIPv6 svc then ''dualstack'' else ''ipv4'')"

definition canFallbackToIPv4 :: "service \<Rightarrow> bool" where
  "canFallbackToIPv4 svc =
     (case svc_IPFamilyPolicy svc of
        None \<Rightarrow> \<not> serviceRequestsIPv6 svc
      | Some policy \<Rightarrow>
          if policy = ''SingleStack'' then \<not> serviceRequestsIPv6 svc
          else if policy = ''PreferDualStack'' then True
          else if policy = ''RequireDualStack'' then False
          else True)"

definition validateIPFamilyInfo :: "service \<Rightarrow> bool \<Rightarrow> unit result" where
  "validateIPFamilyInfo svc ipv6Requested =
     (let policy = (case svc_IPFamilyPolicy svc of None \<Rightarrow> ''SingleStack'' | Some p \<Rightarrow> p);
          n = length (svc_IPFamilies svc)
      in if n \<ge> 3 then Inl (Errorf ''ipFamilies requires 1 or 2 entries. got %d'' [Itoa (int n)])
         else if policy = ''SingleStack'' \<and> ipv6Requested then
           Inl (Errorf ''single stack IPv6 is not supported for network load balancers'' [])
         else if policy = ''RequireDualStack'' \<and> n \<noteq> 2 then
           Inl (Errorf ''policy %s requires 2 entries in the ipFamilies field. got %d''
                  [''RequireDualStack'', Itoa (int n)])
         else if policy = ''PreferDualStack'' \<and> n \<ge> 3 then
           Inl (Errorf ''policy %s requires 1 or 2 entries. got %d'' [''PreferDualStack'', Itoa (int n)])
         else Inr ())"

section \<open>Health checks\<close>

definition defaultElbHCHealthyThreshold :: int where "defaultElbHCHealthyThreshold = 2"
definition defaultElbHCUnhealthyThreshold :: int where "defaultElbHCUnhealthyThreshold = 6"
definition defaultElbHCTimeout :: int where "defaultElbHCTimeout = 5"
definition defaultElbHCInterval :: int where "defaultElbHCInterval = 10"
definition defaultNlbHealthCheckInterval :: int where "defaultNlbHealthCheckInterval = 30"
definition defaultNlbHealthCheckTimeout :: int where "defaultNlbHealthCheckTimeout = 10"
definition defaultNlbHealthCheckThreshold :: int where "defaultNlbHealthCheckThreshold = 3"
definition defaultHealthCheckPort :: string where "defaultHealthCheckPort = ''traffic-port''"
definition defaultHealthCheckPath :: string where "defaultHealthCheckPath = ''/''"
definition defaultKubeProxyHealthCheckPort :: int where "defaultKubeProxyHealthCheckPort = 10256"
definition defaultKubeProxyHealthCheckPath :: string where "defaultKubeProxyHealthCheckPath = ''/healthz''"

record healthCheckConfig =
  hcc_Port :: string
  hcc_Path :: string
  hcc_Protocol :: string
  hcc_Interval :: int
  hcc_Timeout :: int
  hcc_HealthyThreshold :: int
  hcc_UnhealthyThreshold :: int

text \<open>\<^verbatim>\<open>GetServiceHealthCheckPathPort\<close> of \<^verbatim>\<open>k8s.io/cloud-provider/service/helpers\<close>: only a load
  balancer service with local traffic policy and a health check node port has one.\<close>

definition GetServiceHealthCheckPathPort :: "service \<Rightarrow> string \<times> int" where
  "GetServiceHealthCheckPathPort svc =
     (if svc_Type svc \<noteq> ''LoadBalancer'' \<or> svc_ExternalTrafficPolicy svc \<noteq> ''Local''
         \<or> svc_HealthCheckNodePort svc = 0
      then ('''', 0) else (''/healthz'', svc_HealthCheckNodePort svc))"

text \<open>The four parts of \<^verbatim>\<open>buildNLBHealthCheckConfiguration\<close>: the defaults, the protocol, path and port
  annotations, the shared probe of the configuration, and the numeric annotations.\<close>

definition nlb_hc_defaults :: "service \<Rightarrow> healthCheckConfig" where
  "nlb_hc_defaults svc =
     (if svc_ExternalTrafficPolicy svc = ''Local'' then
        (let (path, port) = GetServiceHealthCheckPathPort svc in
         \<lparr>hcc_Port = Itoa port, hcc_Path = path, hcc_Protocol = ''HTTP'', hcc_Interval = 10,
          hcc_Timeout = 10, hcc_HealthyThreshold = 2, hcc_UnhealthyThreshold = 2\<rparr>)
      else
        \<lparr>hcc_Port = defaultHealthCheckPort, hcc_Path = defaultHealthCheckPath, hcc_Protocol = ''TCP'',
         hcc_Interval = defaultNlbHealthCheckInterval, hcc_Timeout = defaultNlbHealthCheckTimeout,
         hcc_HealthyThreshold = defaultNlbHealthCheckThreshold,
         hcc_UnhealthyThreshold = defaultNlbHealthCheckThreshold\<rparr>)"

definition nlb_hc_endpoint ::
  "(string, string) gomap \<Rightarrow> healthCheckConfig \<Rightarrow> healthCheckConfig result" where
  "nlb_hc_endpoint annotations hc =
     (let (present, protocolStr) =
            parseStringAnnotation annotations ServiceAnnotationLoadBalancerHealthCheckProtocol (hcc_Protocol hc);
          hc = (if present then hc\<lparr>hcc_Protocol := ToUpper protocolStr\<rparr> else hc)
      in bindR
        (if hcc_Protocol hc = ''HTTP'' \<or> hcc_Protocol hc = ''HTTPS'' then
           Inr (hc\<lparr>hcc_Path := snd (parseStringAnnotation annotations
             ServiceAnnotationLoadBalancerHealthCheckPath (hcc_Path hc))\<rparr>)
         else if hcc_Protocol hc = ''TCP'' then Inr (hc\<lparr>hcc_Path := ''''\<rparr>)
         else Inl (Errorf ''Unsupported health check protocol %v'' [hcc_Protocol hc]))
        (\<lambda>hc. Inr (hc\<lparr>hcc_Port := snd (parseStringAnnotation annotations
             ServiceAnnotationLoadBalancerHealthCheckPort (hcc_Port hc))\<rparr>)))"

definition nlb_hc_probe_mode :: "global_config \<Rightarrow> service \<Rightarrow> healthCheckConfig \<Rightarrow> healthCheckConfig result" where
  "nlb_hc_probe_mode g svc hc =
     (let mode = ClusterServiceLoadBalancerHealthProbeMode g in
      if mode = ClusterServiceLoadBalancerHealthProbeModeShared then
        Inr (if svc_ExternalTrafficPolicy svc \<noteq> ''Local'' then
               hc\<lparr>hcc_Path := (if ClusterServiceSharedLoadBalancerHealthProbePath g \<noteq> ''''
                                then ClusterServiceSharedLoadBalancerHealthProbePath g
                                else defaultKubeProxyHealthCheckPath),
                  hcc_Port := Itoa (if ClusterServiceSharedLoadBalancerHealthProbePort g \<noteq> 0
                                then ClusterServiceSharedLoadBalancerHealthProbePort g
                                else defaultKubeProxyHealthCheckPort),
                  hcc_Protocol := ''HTTP''\<rparr>
             else hc)
      else if mode = ''ServiceNodePort'' \<or> mode = '''' then Inr hc
      else Inl (Errorf ''Unsupported ClusterServiceLoadBalancerHealthProbeMode %v'' [mode]))"

definition nlb_hc_numbers ::
  "(string, string) gomap \<Rightarrow> healthCheckConfig \<Rightarrow> healthCheckConfig result" where
  "nlb_hc_numbers annotations hc =
     bindR (parseInt32Annotation annotations ServiceAnnotationLoadBalancerHCInterval (hcc_Interval hc))
       (\<lambda>(_, interval).
     bindR (parseInt32Annotation annotations ServiceAnnotationLoadBalancerHCTimeout (hcc_Timeout hc))
       (\<lambda>(_, timeout).
     bindR (parseInt32Annotation annotations ServiceAnnotationLoadBalancerHCHealthyThreshold
              (hcc_HealthyThreshold hc))
       (\<lambda>(_, healthy).
     bindR (parseInt32Annotation annotations ServiceAnnotationLoadBalancerHCUnhealthyThreshold
              (hcc_UnhealthyThreshold hc))
       (\<lambda>(_, unhealthy).
     Inr (hc\<lparr>hcc_Interval := interval, hcc_Timeout := timeout, hcc_HealthyThreshold := healthy,
             hcc_UnhealthyThreshold := unhealthy\<rparr>)))))"

definition buildNLBHealthCheckConfiguration :: "'w Cloud \<Rightarrow> service \<Rightarrow> healthCheckConfig result" where
  "buildNLBHealthCheckConfiguration c svc =
     bindR (nlb_hc_endpoint (svc_Annotations svc) (nlb_hc_defaults svc)) (\<lambda>hc.
     bindR (nlb_hc_probe_mode (c_global c) svc hc) (\<lambda>hc.
     bindR (nlb_hc_numbers (svc_Annotations svc) hc) (\<lambda>hc.
       if hcc_Port hc \<noteq> defaultHealthCheckPort \<and> ParseInt 0 (hcc_Port hc) = None
       then Inl (Errorf (''Invalid health check port '' @ [CHR 0x27] @ ''%v'' @ [CHR 0x27]) [hcc_Port hc])
       else Inr hc)))"

text \<open>\<^verbatim>\<open>ValidateHealthCheck\<close> collects one message per field.\<close>

definition required_field :: "string \<Rightarrow> int \<Rightarrow> int option \<Rightarrow> string list" where
  "required_field name lowest v =
     (case v of
        None \<Rightarrow> [name @ '' is required'']
      | Some x \<Rightarrow> (if x < lowest then [name @ '' must be at least '' @ Itoa lowest] else []))"

definition ValidateHealthCheck :: "health_check \<Rightarrow> unit result" where
  "ValidateHealthCheck s =
     (let errs = required_field ''HealthyThreshold'' 2 (hc_HealthyThreshold s)
            @ required_field ''Interval'' 5 (hc_Interval s)
            @ (case hc_Target s of None \<Rightarrow> [''Target is required''] | Some _ \<Rightarrow> [])
            @ required_field ''Timeout'' 2 (hc_Timeout s)
            @ required_field ''UnhealthyThreshold'' 2 (hc_UnhealthyThreshold s)
      in if errs \<noteq> [] then Inl (Errorf ''HealthCheck validation errors: %s'' [Join errs ''; '']) else Inr ())"

definition getOrDefault :: "(string, string) gomap \<Rightarrow> string \<Rightarrow> int \<Rightarrow> int result" where
  "getOrDefault annotations annotation defaultValue =
     (case map_of annotations annotation of
        None \<Rightarrow> Inr defaultValue
      | Some s \<Rightarrow>
          (case ParseInt 0 s of
             None \<Rightarrow> Inl (Errorf ''failed parsing health check annotation value: %v'' [s])
           | Some i64 \<Rightarrow> Inr (to_int32 i64)))"

definition getExpectedHealthCheck :: "string \<Rightarrow> (string, string) gomap \<Rightarrow> health_check result" where
  "getExpectedHealthCheck target annotations =
     bindR (getOrDefault annotations ServiceAnnotationLoadBalancerHCHealthyThreshold
              defaultElbHCHealthyThreshold) (\<lambda>healthy.
     bindR (getOrDefault annotations ServiceAnnotationLoadBalancerHCUnhealthyThreshold
              defaultElbHCUnhealthyThreshold) (\<lambda>unhealthy.
     bindR (getOrDefault annotations ServiceAnnotationLoadBalancerHCTimeout defaultElbHCTimeout)
       (\<lambda>timeout.
     bindR (getOrDefault annotations ServiceAnnotationLoadBalancerHCInterval defaultElbHCInterval)
       (\<lambda>interval.
     (let hc = \<lparr>hc_Target = Some target, hc_HealthyThreshold = Some healthy,
                hc_UnhealthyThreshold = Some unhealthy, hc_Timeout = Some timeout,
                hc_Interval = Some interval\<rparr>
      in case ValidateHealthCheck hc of
           Inl err \<Rightarrow> Inl (Errorf ''some of the load balancer health check parameters are invalid: %v''
                            [Error err])
         | Inr _ \<Rightarrow> Inr hc)))))"

section \<open>Validation of annotations\<close>

definition targetGroupAttributePreserveClientIPEnabled :: string where
  "targetGroupAttributePreserveClientIPEnabled = ''preserve_client_ip.enabled''"

definition targetGroupAttributeProxyProtocolV2Enabled :: string where
  "targetGroupAttributeProxyProtocolV2Enabled = ''proxy_protocol_v2.enabled''"

definition tga_err :: "string \<Rightarrow> string list \<Rightarrow> go_error" where
  "tga_err fmt args = Errorf (''error validating target group attributes: '' @ fmt) args"

text \<open>One iteration of the loop over the attributes; the variable is the map of those accepted.\<close>

definition validate_tg_attribute ::
  "service_port list \<Rightarrow> string \<times> string \<Rightarrow> (string, string) gomap \<Rightarrow> (string, string) gomap result" where
  "validate_tg_attribute ports kv seen =
     (let (attrKey, attrValue) = kv in
      if mhas seen attrKey then Inl (tga_err ''%q is set twice in the annotation'' [attrKey])
      else if attrValue = '''' then Inl (tga_err ''attribute value is empty for %q'' [attrKey])
      else if attrKey = targetGroupAttributePreserveClientIPEnabled then
        (if attrValue \<noteq> ''true'' \<and> attrValue \<noteq> ''false'' then
           Inl (tga_err ''invalid attribute value for %q: %s'' [attrKey, attrValue])
         else if attrValue = ''false''
                 \<and> list_ex (\<lambda>p. port_Protocol p = ''UDP'' \<or> port_Protocol p = ''TCP_UDP'') ports then
           Inl (tga_err ''client IP preservation can't be disabled for UDP ports'' [])
         else Inr (mput attrKey attrValue seen))
      else if attrKey = targetGroupAttributeProxyProtocolV2Enabled then
        (if attrValue \<noteq> ''true'' \<and> attrValue \<noteq> ''false'' then
           Inl (tga_err ''invalid attribute value for %q: %s'' [attrKey, attrValue])
         else Inr (mput attrKey attrValue seen))
      else Inl (tga_err ''the attribute %q is not supported by the controller or is invalid'' [attrKey]))"

definition validateServiceAnnotationTargetGroupAttributes ::
  "service \<Rightarrow> (string, string) gomap \<Rightarrow> unit result" where
  "validateServiceAnnotationTargetGroupAttributes svc annotations =
     bindR (foldR (validate_tg_attribute (svc_Ports svc))
              (getKeyValuePropertiesFromAnnotation annotations
                 ServiceAnnotationLoadBalancerTargetGroupAttributes) [])
       (\<lambda>_. Inr ())"

definition validateServiceAnnotations :: "service \<Rightarrow> (string, string) gomap \<Rightarrow> unit result" where
  "validateServiceAnnotations svc annotations =
     (let nlb = isNLB annotations;
          classic = (svc_IngressHostnames svc \<noteq> []
                     \<and> HasSuffix (hd (svc_IngressHostnames svc)) ''.elb.amazonaws.com'')
      in if svc_IngressHostnames svc \<noteq> [] \<and> nlb \<and> classic then
           Inl (Errorf ''cannot update Load Balancer Type annotation %q after creation for NLB''
                  [ServiceAnnotationLoadBalancerType])
         else if svc_IngressHostnames svc \<noteq> [] \<and> \<not> nlb \<and> \<not> classic then
           Inl (Errorf ''cannot update Load Balancer Type annotation %q after creation for Classic Load Balancer''
                  [ServiceAnnotationLoadBalancerType])
         else if mhas annotations ServiceAnnotationLoadBalancerExtraSecurityGroups \<and> nlb then
           Inl (Errorf ''BYO extra security group annotation %q is not supported by NLB''
                  [ServiceAnnotationLoadBalancerExtraSecurityGroups])
         else if mhas annotations ServiceAnnotationLoadBalancerTargetGroupAttributes then
           (if \<not> nlb then Inl (Errorf ''target group attributes annotation is only supported for NLB'' [])
            else validateServiceAnnotationTargetGroupAttributes svc annotations)
         else Inr ())"

definition ensureLoadBalancerValidation :: "service \<Rightarrow> (string, string) gomap \<Rightarrow> unit result" where
  "ensureLoadBalancerValidation svc annotations = validateServiceAnnotations svc annotations"

section \<open>Properties round-trip\<close>

definition plain_text :: "string \<Rightarrow> bool" where
  "plain_text s \<longleftrightarrow> list_all (\<lambda>c. \<not> is_space c \<and> c \<noteq> CHR '','' \<and> c \<noteq> CHR ''='') s"

definition property_text :: "string \<times> string \<Rightarrow> string" where
  "property_text kv = fst kv @ ''='' @ snd kv"

lemma not_space [simp]: "\<not> is_space CHR ''=''" "\<not> is_space CHR '',''"
  by (simp_all add: is_space_def)

lemma trim_by_none: "list_all (\<lambda>c. \<not> P c) s \<Longrightarrow> trim_by P s = s"
proof -
  assume "list_all (\<lambda>c. \<not> P c) s"
  then have "dropWhile P s = s" "dropWhile P (rev s) = rev s"
    by (cases s, simp_all) (cases "rev s" rule: list.exhaust, auto simp: list_all_iff)
  then show ?thesis by (simp add: trim_by_def)
qed

lemma plain_char: "plain_text s \<Longrightarrow> c \<in> set s \<Longrightarrow> \<not> is_space c \<and> c \<noteq> CHR '','' \<and> c \<noteq> CHR ''=''"
  by (simp add: plain_text_def list_all_iff)

lemma add_property_text:
  assumes "plain_text k" and "plain_text v" and "k \<noteq> ''''"
  shows "add_property (property_text (k, v)) acc = mput k v acc"
proof -
  have "list_all (\<lambda>c. \<not> is_space c) (property_text (k, v))"
    using assms(1,2) by (simp add: property_text_def plain_text_def list_all_iff ball_Un)
  then have "TrimSpace (property_text (k, v)) = k @ CHR ''='' # v"
    by (simp add: TrimSpace_def trim_by_none property_text_def)
  moreover have "CHR ''='' \<notin> set k" "CHR ''='' \<notin> set v"
    using plain_char [OF assms(1), of "CHR ''=''"] plain_char [OF assms(2), of "CHR ''=''"] by blast+
  then have "Split (CHR ''='') (k @ CHR ''='' # v) = [k, v]"
    by (simp add: Split_append_sep Split_single)
  ultimately show ?thesis using assms(3) by (simp add: add_property_def)
qed

lemma fold_add_property:
  "\<forall>(k, v) \<in> set m. plain_text k \<and> plain_text v \<and> k \<noteq> '''' \<Longrightarrow>
   fold add_property (map property_text m) acc = mput_all m acc"
  by (induction m arbitrary: acc) (auto simp: add_property_text mput_all_def)

lemma Join_chars: "c \<in> set (Join ws sep) \<Longrightarrow> c \<in> set sep \<or> (\<exists>w \<in> set ws. c \<in> set w)"
  by (induction ws sep rule: Join.induct) auto

text \<open>Key-value properties round-trip: the annotation text \<^verbatim>\<open>k1=v1,k2=v2,...\<close> written from a map
  whose keys and values have no blank, comma or equals sign (and whose keys are not empty) is read
  back as the same map.\<close>

lemma properties_roundtrip:
  assumes "m \<noteq> []" and "wf_map m"
    and "list_all (\<lambda>(k, v). plain_text k \<and> plain_text v \<and> k \<noteq> '''') m"
    and "map_of annotations annotation = Some (Join (map property_text m) '','')"
  shows "getKeyValuePropertiesFromAnnotation annotations annotation = m"
proof -
  have plain: "\<forall>(k, v) \<in> set m. plain_text k \<and> plain_text v \<and> k \<noteq> ''''"
    using assms(3) by (simp add: list_all_iff)
  have chars: "\<not> is_space c \<and> c \<noteq> CHR '',''" if "kv \<in> set m" "c \<in> set (property_text kv)" for c kv
  proof -
    obtain k v where kv: "kv = (k, v)" by (cases kv)
    with that plain have "plain_text k" "plain_text v" "c \<in> set k \<or> c = CHR ''='' \<or> c \<in> set v"
      by (auto simp: property_text_def)
    then show ?thesis using plain_char by fastforce
  qed
  have "list_all (\<lambda>c. \<not> is_space c) (Join (map property_text m) '','')"
    using chars by (auto simp: list_all_iff dest!: Join_chars)
  then have "TrimSpace (Join (map property_text m) '','') = Join (map property_text m) '',''"
    by (simp add: TrimSpace_def trim_by_none)
  moreover have "Split (CHR '','') (Join (map property_text m) '','') = map property_text m"
    using assms(1) chars by (intro Split_Join) auto
  ultimately show ?thesis
    using assms(2,4) plain
    by (simp add: getKeyValuePropertiesFromAnnotation_def fold_add_property mput_all_distinct)
qed

lemma properties_roundtrip_example:
  "getKeyValuePropertiesFromAnnotation [(''tags'', ''team=a,env='')] ''tags'' = [(''team'', ''a''), (''env'', '''')]"
  by (rule properties_roundtrip)
     (simp_all add: wf_map_def plain_text_def property_text_def is_space_def Let_def)

section \<open>Health checks\<close>

lemma not_Inl_unit: "\<forall>e. r \<noteq> Inl e \<Longrightarrow> r = Inr ()"
  by (cases r) auto

lemma required_field_Nil: "required_field name lowest v = [] \<longleftrightarrow> (\<exists>x. v = Some x \<and> lowest \<le> x)"
  by (auto simp: required_field_def split: option.splits)

lemma ValidateHealthCheck_ok:
  "ValidateHealthCheck s = Inr () \<longleftrightarrow>
   (\<exists>h i t u tm. hc_HealthyThreshold s = Some h \<and> 2 \<le> h \<and> hc_Interval s = Some i \<and> 5 \<le> i
      \<and> hc_Target s = Some t \<and> hc_UnhealthyThreshold s = Some u \<and> 2 \<le> u \<and> hc_Timeout s = Some tm \<and> 2 \<le> tm)"
  by (auto simp: ValidateHealthCheck_def Let_def required_field_Nil split: option.splits if_splits)

lemma getOrDefault_int32: "is_int32 d \<Longrightarrow> getOrDefault annotations a d = Inr x \<Longrightarrow> is_int32 x"
  by (auto simp: getOrDefault_def to_int32_range split: option.splits)

text \<open>A classic health check that \<^verbatim>\<open>getExpectedHealthCheck\<close> returns has the requested target and
  values within the limits of the API (thresholds and timeout at least 2, interval at least 5), all
  32-bit; without health check annotations it returns the documented defaults.\<close>

lemma getExpectedHealthCheck_valid:
  "(case getExpectedHealthCheck target annotations of Inl e \<Rightarrow> True
    | Inr hc \<Rightarrow> \<exists>h u t i. hc = \<lparr>hc_Target = Some target, hc_HealthyThreshold = Some h,
        hc_UnhealthyThreshold = Some u, hc_Timeout = Some t, hc_Interval = Some i\<rparr>
      \<and> 2 \<le> h \<and> 2 \<le> u \<and> 2 \<le> t \<and> 5 \<le> i \<and> is_int32 h \<and> is_int32 u \<and> is_int32 t \<and> is_int32 i)
   \<and> getExpectedHealthCheck target [] = Inr \<lparr>hc_Target = Some target, hc_HealthyThreshold = Some 2,
        hc_UnhealthyThreshold = Some 6, hc_Timeout = Some 5, hc_Interval = Some 10\<rparr>"
proof (intro conjI)
  note defaults = defaultElbHCHealthyThreshold_def defaultElbHCUnhealthyThreshold_def
    defaultElbHCTimeout_def defaultElbHCInterval_def
  show "getExpectedHealthCheck target [] = Inr \<lparr>hc_Target = Some target, hc_HealthyThreshold = Some 2,
        hc_UnhealthyThreshold = Some 6, hc_Timeout = Some 5, hc_Interval = Some 10\<rparr>"
    by (simp add: getExpectedHealthCheck_def getOrDefault_def defaults Let_def ValidateHealthCheck_def
        required_field_def)
  show "case getExpectedHealthCheck target annotations of Inl e \<Rightarrow> True
    | Inr hc \<Rightarrow> \<exists>h u t i. hc = \<lparr>hc_Target = Some target, hc_HealthyThreshold = Some h,
        hc_UnhealthyThreshold = Some u, hc_Timeout = Some t, hc_Interval = Some i\<rparr>
      \<and> 2 \<le> h \<and> 2 \<le> u \<and> 2 \<le> t \<and> 5 \<le> i \<and> is_int32 h \<and> is_int32 u \<and> is_int32 t \<and> is_int32 i"
  proof (cases "getExpectedHealthCheck target annotations")
    case (Inr hc)
    then obtain h u t i where
      get: "getOrDefault annotations ServiceAnnotationLoadBalancerHCHealthyThreshold defaultElbHCHealthyThreshold = Inr h"
        "getOrDefault annotations ServiceAnnotationLoadBalancerHCUnhealthyThreshold defaultElbHCUnhealthyThreshold = Inr u"
        "getOrDefault annotations ServiceAnnotationLoadBalancerHCTimeout defaultElbHCTimeout = Inr t"
        "getOrDefault annotations ServiceAnnotationLoadBalancerHCInterval defaultElbHCInterval = Inr i"
      and hc: "hc = \<lparr>hc_Target = Some target, hc_HealthyThreshold = Some h,
        hc_UnhealthyThreshold = Some u, hc_Timeout = Some t, hc_Interval = Some i\<rparr>"
      and valid: "ValidateHealthCheck hc = Inr ()"
      by (auto simp: getExpectedHealthCheck_def Let_def bindR_Inr_iff dest!: not_Inl_unit split: sum.splits if_splits)
    have "is_int32 defaultElbHCHealthyThreshold" "is_int32 defaultElbHCUnhealthyThreshold"
      "is_int32 defaultElbHCTimeout" "is_int32 defaultElbHCInterval"
      by (simp_all add: is_int32_def defaults)
    then have "is_int32 h" "is_int32 u" "is_int32 t" "is_int32 i"
      using get by (auto elim: getOrDefault_int32)
    with hc valid show ?thesis by (simp add: Inr ValidateHealthCheck_ok)
  qed simp
qed

text \<open>A defect: numbers in annotations are parsed at 64 bits and then converted to 32 bits without
  a check, so a value out of range is taken modulo two to the 32 instead of being refused.\<close>

lemma annotation_numbers_wrap:
  assumes "is_int32 n"
  shows "getOrDefault [(a, Itoa (n + 2 ^ 32))] a d = Inr n
    \<and> parseInt32Annotation [(a, Itoa (n + 2 ^ 32))] a d = Inr (True, n)"
proof -
  have "ParseInt 0 (Itoa (n + 2 ^ 32)) = Some (n + 2 ^ 32)"
    using assms by (intro ParseInt_text) (auto simp: is_int32_def)
  moreover have "to_int32 (n + 2 ^ 32) = n"
    using assms by (simp add: to_int32_wrap to_int32_id del: power_numeral)
  ultimately show ?thesis by (simp add: getOrDefault_def parseInt32Annotation_def)
qed

lemma annotation_numbers_wrap_example:
  "getOrDefault [(''interval'', Itoa 4294967306)] ''interval'' 30 = Inr 10"
  using annotation_numbers_wrap [of 10 "''interval''" 30] by (simp add: is_int32_def)

lemma parseInt32_range:
  "parseInt32Annotation annotations a d = Inr (b, x) \<Longrightarrow> is_int32 d \<Longrightarrow> is_int32 x"
  by (auto simp: parseInt32Annotation_def to_int32_range split: option.splits)

definition valid_nlb_check :: "healthCheckConfig \<Rightarrow> bool" where
  "valid_nlb_check hc \<longleftrightarrow> hcc_Protocol hc \<in> {''TCP'', ''HTTP'', ''HTTPS''}
     \<and> (hcc_Protocol hc = ''TCP'' \<longrightarrow> hcc_Path hc = '''')
     \<and> (hcc_Port hc = defaultHealthCheckPort \<or> ParseInt 0 (hcc_Port hc) \<noteq> None)
     \<and> is_int32 (hcc_Interval hc) \<and> is_int32 (hcc_Timeout hc)
     \<and> is_int32 (hcc_HealthyThreshold hc) \<and> is_int32 (hcc_UnhealthyThreshold hc)"

lemma nlb_hc_numbers_eq:
  assumes "nlb_hc_numbers annotations hc = Inr hc'"
  shows "hcc_Protocol hc' = hcc_Protocol hc \<and> hcc_Path hc' = hcc_Path hc \<and> hcc_Port hc' = hcc_Port hc"
    and "is_int32 (hcc_Interval hc) \<and> is_int32 (hcc_Timeout hc) \<and> is_int32 (hcc_HealthyThreshold hc)
      \<and> is_int32 (hcc_UnhealthyThreshold hc) \<Longrightarrow>
      is_int32 (hcc_Interval hc') \<and> is_int32 (hcc_Timeout hc') \<and> is_int32 (hcc_HealthyThreshold hc')
      \<and> is_int32 (hcc_UnhealthyThreshold hc')"
  using assms by (auto simp: nlb_hc_numbers_def bindR_Inr_iff dest!: parseInt32_range)

text \<open>A health check that \<^verbatim>\<open>buildNLBHealthCheckConfiguration\<close> returns is well-formed: its protocol is
  TCP, HTTP or HTTPS, a TCP check has no path, its port is the traffic port or a number, and its
  numbers are 32-bit. With the shared probe mode, a service that is not local is always checked over
  HTTP.\<close>

lemma buildNLBHealthCheckConfiguration_valid:
  "case buildNLBHealthCheckConfiguration c svc of Inl e \<Rightarrow> True
   | Inr hc \<Rightarrow> valid_nlb_check hc
      \<and> (ClusterServiceLoadBalancerHealthProbeMode (c_global c) \<noteq> ClusterServiceLoadBalancerHealthProbeModeShared
         \<or> svc_ExternalTrafficPolicy svc = ''Local'' \<or> hcc_Protocol hc = ''HTTP'')"
proof (cases "buildNLBHealthCheckConfiguration c svc")
  case (Inr hc)
  then obtain h1 h2 where
    h1: "nlb_hc_endpoint (svc_Annotations svc) (nlb_hc_defaults svc) = Inr h1"
    and h2: "nlb_hc_probe_mode (c_global c) svc h1 = Inr h2"
    and h3: "nlb_hc_numbers (svc_Annotations svc) h2 = Inr hc"
    and port: "hcc_Port hc = defaultHealthCheckPort \<or> ParseInt 0 (hcc_Port hc) \<noteq> None"
    by (auto simp: buildNLBHealthCheckConfiguration_def bindR_Inr_iff split: if_splits)
  let ?num = "\<lambda>h. is_int32 (hcc_Interval h) \<and> is_int32 (hcc_Timeout h) \<and> is_int32 (hcc_HealthyThreshold h)
      \<and> is_int32 (hcc_UnhealthyThreshold h)"
  have "?num (nlb_hc_defaults svc)"
    by (simp add: nlb_hc_defaults_def is_int32_def defaultNlbHealthCheckInterval_def
        defaultNlbHealthCheckTimeout_def defaultNlbHealthCheckThreshold_def Let_def case_prod_unfold)
  with h1 have e: "?num h1 \<and> hcc_Protocol h1 \<in> {''TCP'', ''HTTP'', ''HTTPS''}
      \<and> (hcc_Protocol h1 = ''TCP'' \<longrightarrow> hcc_Path h1 = '''')"
    by (auto simp: nlb_hc_endpoint_def Let_def bindR_Inr_iff case_prod_unfold split: if_splits)
  with h2 have "?num h2 \<and> hcc_Protocol h2 \<in> {''TCP'', ''HTTP'', ''HTTPS''}
      \<and> (hcc_Protocol h2 = ''TCP'' \<longrightarrow> hcc_Path h2 = '''')
      \<and> (ClusterServiceLoadBalancerHealthProbeMode (c_global c) \<noteq> ClusterServiceLoadBalancerHealthProbeModeShared
         \<or> svc_ExternalTrafficPolicy svc = ''Local'' \<or> hcc_Protocol h2 = ''HTTP'')"
    by (auto simp: nlb_hc_probe_mode_def Let_def split: if_splits)
  with nlb_hc_numbers_eq [OF h3] port Inr show ?thesis by (auto simp: valid_nlb_check_def)
qed simp

text \<open>A service without annotations, and a configuration with shared health probes.\<close>

definition bare_service :: service where
  "bare_service = \<lparr>svc_Name = ''s'', svc_Namespace = ''d'', svc_UID = ''u'', svc_Annotations = [],
     svc_Ports = [], svc_ExternalTrafficPolicy = ''Cluster'', svc_SessionAffinity = ''None'', svc_LoadBalancerIP = '''',
     svc_LoadBalancerSourceRanges = [], svc_Type = ''LoadBalancer'', svc_IPFamilies = [],
     svc_IPFamilyPolicy = None, svc_HealthCheckNodePort = 0, svc_IngressHostnames = []\<rparr>"

definition shared_probe_cloud :: "unit Cloud" where
  "shared_probe_cloud = sample_cloud\<lparr>c_cfg := \<lparr>Global = sample_global\<lparr>ClusterServiceLoadBalancerHealthProbeMode
     := ''Shared''\<rparr>, ServiceOverride = []\<rparr>\<rparr>"

lemma buildNLBHealthCheckConfiguration_valid_example:
  "\<exists>hc. buildNLBHealthCheckConfiguration shared_probe_cloud bare_service = Inr hc \<and> valid_nlb_check hc
     \<and> hcc_Protocol hc = ''HTTP''"
proof -
  have "ParseInt 0 (Itoa defaultKubeProxyHealthCheckPort) \<noteq> None"
    using ParseInt_text [of defaultKubeProxyHealthCheckPort] by (simp add: defaultKubeProxyHealthCheckPort_def)
  then obtain hc where hc: "buildNLBHealthCheckConfiguration shared_probe_cloud bare_service = Inr hc"
    by (simp add: buildNLBHealthCheckConfiguration_def nlb_hc_defaults_def nlb_hc_endpoint_def nlb_hc_probe_mode_def
        nlb_hc_numbers_def bare_service_def shared_probe_cloud_def parseStringAnnotation_def parseInt32Annotation_def
        sample_global_def ClusterServiceLoadBalancerHealthProbeModeShared_def)
  have "ClusterServiceLoadBalancerHealthProbeMode (c_global shared_probe_cloud) = ClusterServiceLoadBalancerHealthProbeModeShared"
    "svc_ExternalTrafficPolicy bare_service \<noteq> ''Local''"
    by (simp_all add: shared_probe_cloud_def ClusterServiceLoadBalancerHealthProbeModeShared_def bare_service_def)
  with hc buildNLBHealthCheckConfiguration_valid [of shared_probe_cloud bare_service] show ?thesis by simp
qed

section \<open>Target group attributes\<close>

definition valid_tg_attribute :: "service_port list \<Rightarrow> string \<times> string \<Rightarrow> bool" where
  "valid_tg_attribute ports kv \<longleftrightarrow> snd kv \<in> {''true'', ''false''}
     \<and> (fst kv = targetGroupAttributeProxyProtocolV2Enabled
        \<or> fst kv = targetGroupAttributePreserveClientIPEnabled
          \<and> (snd kv = ''true'' \<or> list_all (\<lambda>p. port_Protocol p \<notin> {''UDP'', ''TCP_UDP''}) ports))"

lemma getKeyValueProperties_wf: "wf_map (getKeyValuePropertiesFromAnnotation annotations a)"
proof -
  have "wf_map acc \<Longrightarrow> wf_map (fold add_property xs acc)" for xs acc
    by (induction xs arbitrary: acc) (auto simp: add_property_def Let_def)
  then show ?thesis
    by (auto simp: getKeyValuePropertiesFromAnnotation_def split: option.splits)
qed

lemma validate_tg_attribute_ok:
  assumes "\<not> mhas seen (fst kv)"
  shows "(\<exists>s. validate_tg_attribute ports kv seen = Inr s) \<longleftrightarrow> valid_tg_attribute ports kv"
    and "validate_tg_attribute ports kv seen = Inr s \<Longrightarrow> s = mput (fst kv) (snd kv) seen"
proof -
  obtain k v where kv: "kv = (k, v)" by (cases kv)
  have udp: "list_ex (\<lambda>p. port_Protocol p = ''UDP'' \<or> port_Protocol p = ''TCP_UDP'') ports \<longleftrightarrow>
      \<not> list_all (\<lambda>p. port_Protocol p \<notin> {''UDP'', ''TCP_UDP''}) ports"
    by (auto simp: list_ex_iff list_all_iff)
  have neq: "targetGroupAttributePreserveClientIPEnabled \<noteq> targetGroupAttributeProxyProtocolV2Enabled"
    by (simp add: targetGroupAttributePreserveClientIPEnabled_def targetGroupAttributeProxyProtocolV2Enabled_def)
  show "(\<exists>s. validate_tg_attribute ports kv seen = Inr s) \<longleftrightarrow> valid_tg_attribute ports kv"
    using assms neq unfolding validate_tg_attribute_def valid_tg_attribute_def kv udp
    by (auto split: if_splits)
  show "validate_tg_attribute ports kv seen = Inr s \<Longrightarrow> s = mput (fst kv) (snd kv) seen"
    using assms by (auto simp: validate_tg_attribute_def kv split: if_splits)
qed

lemma foldR_validate_tg:
  assumes "wf_map (seen @ kvs)"
  shows "(\<exists>s. foldR (validate_tg_attribute ports) kvs seen = Inr s) \<longleftrightarrow> list_all (valid_tg_attribute ports) kvs"
  using assms
proof (induction kvs arbitrary: seen)
  case (Cons kv kvs)
  have new: "\<not> mhas seen (fst kv)" using Cons.prems by (auto simp: wf_map_def mhas_iff)
  show ?case
  proof (cases "valid_tg_attribute ports kv")
    case True
    then obtain s where s: "validate_tg_attribute ports kv seen = Inr s"
      using validate_tg_attribute_ok(1) [OF new] by blast
    then have "s = seen @ [kv]"
      using validate_tg_attribute_ok(2) [OF new s] new by (simp add: update_new mhas_iff)
    with Cons.IH [of s] Cons.prems True s show ?thesis by simp
  next
    case False
    then have "\<nexists>s. validate_tg_attribute ports kv seen = Inr s"
      using validate_tg_attribute_ok(1) [OF new] by blast
    with False show ?thesis by (cases "validate_tg_attribute ports kv seen") auto
  qed
qed simp

text \<open>The target group annotation is accepted exactly when every attribute is one of the two
  supported ones with value \<^verbatim>\<open>true\<close> or \<^verbatim>\<open>false\<close>, and client IP preservation is not switched off for a
  service with UDP ports. (The check that an attribute is set twice never fires: a later entry of the
  annotation silently replaces an earlier one.)\<close>

lemma validate_target_group_attributes:
  "validateServiceAnnotationTargetGroupAttributes svc annotations = Inr () \<longleftrightarrow>
   list_all (valid_tg_attribute (svc_Ports svc))
     (getKeyValuePropertiesFromAnnotation annotations ServiceAnnotationLoadBalancerTargetGroupAttributes)"
  using foldR_validate_tg [of "[]" "getKeyValuePropertiesFromAnnotation annotations
      ServiceAnnotationLoadBalancerTargetGroupAttributes" "svc_Ports svc"] getKeyValueProperties_wf
  by (simp add: validateServiceAnnotationTargetGroupAttributes_def bindR_Inr_iff)

section \<open>Listeners\<close>

text \<open>Listeners of a classic load balancer. Unless the backend protocol annotation is unknown,
  \<^verbatim>\<open>buildListener\<close> returns a listener for the port and its node port; it carries the certificate, and
  terminates TLS (\<^verbatim>\<open>ssl\<close> or \<^verbatim>\<open>https\<close>), exactly when a certificate is configured and the SSL annotation
  selects the port.\<close>

lemma buildListener_tls:
  assumes "checkProtocol port annotations = Inr ()" and "\<not> isNLB annotations"
  shows "let cert = mstr annotations ServiceAnnotationLoadBalancerCertificate;
             tls = (cert \<noteq> '''' \<and> port_selected ssl (port_Port port) (ToLower (port_Name port)))
    in case buildListener port annotations ssl of
         Inl e \<Rightarrow> tls \<and> mstr annotations ServiceAnnotationLoadBalancerBEProtocol \<notin> {'''', ''http'', ''https'', ''ssl'', ''tcp''}
       | Inr l \<Rightarrow> l_LoadBalancerPort l = port_Port port \<and> l_InstancePort l = Some (port_NodePort port)
           \<and> l_SSLCertificateId l = (if tls then Some cert else None)
           \<and> (l_Protocol l \<in> {Some ''ssl'', Some ''https''} \<longleftrightarrow> tls)"
proof -
  have tcp: "ToLower (port_Protocol port) = ''tcp''"
    using assms by (auto simp: checkProtocol_def ToLower_def lower_char_def is_upper_def char_of_def
        bit_iff_odd split: if_splits)
  show ?thesis
    by (auto simp: buildListener_def Let_def tcp backendProtocolMapping_def mstr_def [of "[_, _, _, _]"]
        split: option.splits if_splits)
qed

definition tcp_port :: service_port where
  "tcp_port = \<lparr>port_Name = ''web'', port_Protocol = ''TCP'', port_Port = 443, port_NodePort = 30443\<rparr>"

lemma buildListener_tls_example:
  "\<exists>l. buildListener tcp_port [(ServiceAnnotationLoadBalancerCertificate, ''arn'')] None = Inr l
     \<and> l_SSLCertificateId l = Some ''arn''"
proof -
  let ?ann = "[(ServiceAnnotationLoadBalancerCertificate, ''arn'')]"
  have "checkProtocol tcp_port ?ann = Inr ()" "\<not> isNLB ?ann"
    by (simp_all add: checkProtocol_def tcp_port_def isNLB_def mstr_def ServiceAnnotationLoadBalancerType_def
        ServiceAnnotationLoadBalancerCertificate_def)
  from buildListener_tls [OF this, of None] show ?thesis
    by (cases "buildListener tcp_port ?ann None")
       (auto simp: Let_def mstr_def port_selected_def ServiceAnnotationLoadBalancerBEProtocol_def
         ServiceAnnotationLoadBalancerCertificate_def)
qed

end
