(* ===== verification/SecurityGroups.thy ===== *)
theory SecurityGroups
  imports Annotations IpAddr
begin

text \<open>
  Security groups: reading and writing the ingress rules of a group, creating and deleting groups,
  and opening the instances' groups to a load balancer (\<^verbatim>\<open>aws.go\<close> and \<^verbatim>\<open>aws_loadbalancer.go\<close>).

  The lemmas show that \<^verbatim>\<open>setSecurityGroupIngress\<close> makes the rules of a group exactly the requested
  ones (for IPv4 and group sources, and given what EC2 documents), that groups are deleted only when
  the cluster may delete them, and that deletion is complete when it reports success.
\<close>

section \<open>Ingress rules of one group\<close>

definition findSecurityGroup :: "'w Cloud \<Rightarrow> string \<Rightarrow> ('w, security_group option) aws" where
  "findSecurityGroup c securityGroupID =
     bindM (DescribeSecurityGroups (c_ec2 c) [securityGroupID] [])
       (\<lambda>groups. case groups of
          [] \<Rightarrow> returnM None
        | [grp] \<Rightarrow> returnM (Some grp)
        | _ \<Rightarrow> throwM (Errorf ''multiple security groups found with same id %q'' [securityGroupID]))"

definition setSecurityGroupIngress :: "'w Cloud \<Rightarrow> string \<Rightarrow> IPPermissionSet \<Rightarrow> ('w, bool) aws" where
  "setSecurityGroupIngress c securityGroupID permissions =
     bindM (findSecurityGroup c securityGroupID) (\<lambda>found_group. case found_group of
       None \<Rightarrow> throwM (Errorf ''security group not found: %s'' [securityGroupID])
     | Some grp \<Rightarrow>
         (let actual = Ungroup (NewIPPermissionSet (sg_IpPermissions grp));
              permissions = Ungroup permissions
          in bindM (liftM (Difference actual permissions)) (\<lambda>remove.
             bindM (liftM (Difference permissions actual)) (\<lambda>add.
             if Len add = 0 \<and> Len remove = 0 then returnM False
             else
               bindM (if Len add \<noteq> 0
                      then wrapM (\<lambda>err. Errorf ''error authorizing security group ingress: %q'' [Error err])
                             (AuthorizeSecurityGroupIngress (c_ec2 c) securityGroupID (List add))
                      else returnM ()) (\<lambda>_.
               bindM (if Len remove \<noteq> 0
                      then wrapM (\<lambda>err. Errorf ''error revoking security group ingress: %q'' [Error err])
                             (RevokeSecurityGroupIngress (c_ec2 c) securityGroupID (List remove))
                      else returnM ()) (\<lambda>_. returnM True))))))"

definition has_user_id :: "ip_permission \<Rightarrow> bool" where
  "has_user_id p = list_ex (\<lambda>u. pair_UserId u \<noteq> None) (slice (perm_UserIdGroupPairs p))"

text \<open>The loops that select the permissions to add (those not found) or to remove (those found).\<close>

definition select_permissions ::
  "bool \<Rightarrow> ip_permission list \<Rightarrow> ip_permission list \<Rightarrow> ip_permission list result" where
  "select_permissions want existing perms = foldR (\<lambda>perm changes.
     bindR (anyR (\<lambda>groupPermission. ipPermissionExists perm groupPermission (has_user_id perm)) existing)
       (\<lambda>found. Inr (if found = want then changes @ [perm] else changes))) perms []"

definition addSecurityGroupIngress :: "'w Cloud \<Rightarrow> string \<Rightarrow> ip_permission list \<Rightarrow> ('w, bool) aws" where
  "addSecurityGroupIngress c securityGroupID addPermissions =
     (if securityGroupID = ElbSecurityGroup (c_global c) then returnM False
      else bindM (findSecurityGroup c securityGroupID) (\<lambda>found_group. case found_group of
        None \<Rightarrow> throwM (Errorf ''security group not found: %s'' [securityGroupID])
      | Some grp \<Rightarrow>
          bindM (liftM (select_permissions False (sg_IpPermissions grp) addPermissions)) (\<lambda>changes.
          if changes = [] then returnM False
          else bindM (wrapM (\<lambda>err. Errorf ''error authorizing security group ingress: %q'' [Error err])
                       (AuthorizeSecurityGroupIngress (c_ec2 c) securityGroupID changes))
                 (\<lambda>_. returnM True))))"

definition removeSecurityGroupIngress :: "'w Cloud \<Rightarrow> string \<Rightarrow> ip_permission list \<Rightarrow> ('w, bool) aws" where
  "removeSecurityGroupIngress c securityGroupID removePermissions =
     (if securityGroupID = ElbSecurityGroup (c_global c) then returnM False
      else bindM (findSecurityGroup c securityGroupID) (\<lambda>found_group. case found_group of
        None \<Rightarrow> returnM False
      | Some grp \<Rightarrow>
          bindM (liftM (select_permissions True (sg_IpPermissions grp) removePermissions)) (\<lambda>changes.
          if changes = [] then returnM False
          else bindM (RevokeSecurityGroupIngress (c_ec2 c) securityGroupID changes)
                 (\<lambda>_. returnM True))))"

section \<open>Creating groups\<close>

definition MaxReadThenCreateRetries :: nat where
  "MaxReadThenCreateRetries = 30"

text \<open>The loop of \<^verbatim>\<open>ensureSecurityGroup\<close>; the argument is the number of attempts that are left after
  this one, so \<^verbatim>\<open>attempt < MaxReadThenCreateRetries\<close> means that it is not zero.\<close>

fun ensureSecurityGroup_loop ::
  "nat \<Rightarrow> 'w Cloud \<Rightarrow> string \<Rightarrow> string \<Rightarrow> (string, string) gomap \<Rightarrow> ('w, string) aws" where
  "ensureSecurityGroup_loop left c name description additionalTags w =
     (case DescribeSecurityGroups (c_ec2 c) []
             [newEc2Filter ''group-name'' [name], newEc2Filter ''vpc-id'' [c_vpcID c]] w of
        (Inl err, w) \<Rightarrow> (Inl err, w)
      | (Inr (sg # sgs), w) \<Rightarrow>
          bindM (readRepairClusterTags (c_tagging c) (c_ec2 c) (ToString (sg_GroupId sg))
                   ResourceLifecycleOwned [] (sg_Tags sg))
            (\<lambda>_. returnM (ToString (sg_GroupId sg))) w
      | (Inr [], w) \<Rightarrow>
          (case CreateSecurityGroup (c_ec2 c) (c_vpcID c) name description
                  (buildAwsTags (buildTags (c_tagging c) ResourceLifecycleOwned additionalTags)) w of
             (Inl err, w) \<Rightarrow>
               (case left of
                  0 \<Rightarrow> (Inl err, w)
                | Suc n \<Rightarrow>
                    if as_api_error err = Some ''InvalidGroup.Duplicate''
                    then ensureSecurityGroup_loop n c name description additionalTags w
                    else (Inl err, w))
           | (Inr groupId, w) \<Rightarrow>
               (if ToString groupId = ''''
                then (Inl (Errorf ''created security group, but id was not returned: %s'' [name]), w)
                else (Inr (ToString groupId), w))))"

declare ensureSecurityGroup_loop.simps [simp del]

definition ensureSecurityGroup ::
  "'w Cloud \<Rightarrow> string \<Rightarrow> string \<Rightarrow> (string, string) gomap \<Rightarrow> ('w, string) aws" where
  "ensureSecurityGroup c name description additionalTags =
     ensureSecurityGroup_loop (MaxReadThenCreateRetries - 1) c name description additionalTags"

definition createSecurityGroup ::
  "'w Cloud \<Rightarrow> string \<Rightarrow> string \<Rightarrow> (string, string) gomap \<Rightarrow> ('w, string) aws" where
  "createSecurityGroup c sgName sgDescription additionalTags =
     (if sgName = '''' then
        throwM (Errorf ''error creating security group: security group name cannot be empty'' [])
      else ensureSecurityGroup c sgName sgDescription additionalTags)"

definition buildELBSecurityGroupList ::
  "'w Cloud \<Rightarrow> namespaced_name \<Rightarrow> string \<Rightarrow> (string, string) gomap \<Rightarrow> ('w, string list \<times> bool) aws" where
  "buildELBSecurityGroupList c serviceName loadBalancerName annotations =
     (let sgList = getSGListFromAnnotation (mstr annotations ServiceAnnotationLoadBalancerSecurityGroups);
          extraSGList = getSGListFromAnnotation
            (mstr annotations ServiceAnnotationLoadBalancerExtraSecurityGroups)
      in bindM
        (if sgList \<noteq> [] then returnM (sgList, False)
         else if ElbSecurityGroup (c_global c) \<noteq> '''' then
           returnM ([ElbSecurityGroup (c_global c)], False)
         else
           bindM (createSecurityGroup c (''k8s-elb-'' @ loadBalancerName)
                    (sprintf ''Security group for Kubernetes ELB %s (%v)''
                       [loadBalancerName, nn_String serviceName])
                    (getKeyValuePropertiesFromAnnotation annotations
                       ServiceAnnotationLoadBalancerAdditionalTags))
             (\<lambda>securityGroupID. returnM ([securityGroupID], True)))
        (\<lambda>(sgList, setupSg). returnM (sgList @ extraSGList, setupSg)))"

definition createSecurityGroupRules ::
  "'w Cloud \<Rightarrow> string \<Rightarrow> IPPermissionSet \<Rightarrow> ip_range list option \<Rightarrow> ipv6_range list option \<Rightarrow> ('w, unit) aws" where
  "createSecurityGroupRules c sgID rules ec2SourceRanges ec2Ipv6SourceRanges =
     (if sgID = '''' then throwM (Errorf ''security group ID cannot be empty'' [])
      else
        (let permission = \<lparr>perm_FromPort = Some 3, perm_IpProtocol = Some ''icmp'',
               perm_IpRanges = ec2SourceRanges, perm_Ipv6Ranges = ec2Ipv6SourceRanges,
               perm_PrefixListIds = None, perm_ToPort = Some 4, perm_UserIdGroupPairs = None\<rparr>;
             rules = Insert [permission] rules
         in wrapM (\<lambda>err. Wrapf ''creating ingress rules for security group %q: %w'' [sgID] err)
              (bindM (setSecurityGroupIngress c sgID rules) (\<lambda>_. returnM ()))))"

section \<open>Ordering of a load balancer's groups\<close>

text \<open>The position of a group: groups of the first annotation in their order, then groups that are in
  no annotation, then groups of the extra annotation.\<close>

definition index_map :: "string list \<Rightarrow> (string, nat) gomap" where
  "index_map xs = mput_all (map (\<lambda>(i, x). (x, i)) (enumerate 0 xs)) []"

definition sg_order :: "(string, string) gomap \<Rightarrow> string \<Rightarrow> nat" where
  "sg_order annotations sgID =
     (let annotated = index_map (getSGListFromAnnotation
            (mstr annotations ServiceAnnotationLoadBalancerSecurityGroups));
          extra = index_map (getSGListFromAnnotation
            (mstr annotations ServiceAnnotationLoadBalancerExtraSecurityGroups))
      in case map_of annotated sgID of
           Some i \<Rightarrow> i
         | None \<Rightarrow> (case map_of extra sgID of Some j \<Rightarrow> length annotated + 1 + j | None \<Rightarrow> length annotated))"

text \<open>The comparison function of the sort.\<close>

definition sg_less :: "(string, string) gomap \<Rightarrow> string list \<Rightarrow> string \<Rightarrow> string \<Rightarrow> bool" where
  "sg_less annotations tagged i j \<longleftrightarrow>
     sg_order annotations i < sg_order annotations j \<or> i \<in> set tagged \<and> j \<notin> set tagged"

definition sortELBSecurityGroupList ::
  "string list \<Rightarrow> (string, string) gomap \<Rightarrow> string list \<Rightarrow> string list" where
  "sortELBSecurityGroupList securityGroupIDs annotations taggedLBSecurityGroups =
     sort_slice (sg_less annotations taggedLBSecurityGroups) securityGroupIDs"

section \<open>Groups of instances\<close>

definition findSecurityGroupForInstance ::
  "ec2_instance \<Rightarrow> (string, security_group) gomap \<Rightarrow> group_identifier option result" where
  "findSecurityGroupForInstance inst taggedSecurityGroups =
     (let groups = filter (\<lambda>g. ToString (group_GroupId g) \<noteq> '''') (inst_SecurityGroups inst);
          tagged = filter (\<lambda>g. mhas taggedSecurityGroups (ToString (group_GroupId g))) groups;
          untagged = filter (\<lambda>g. \<not> mhas taggedSecurityGroups (ToString (group_GroupId g))) groups
      in if tagged \<noteq> [] then
           (if length tagged \<noteq> 1 then
              (if list_ex (\<lambda>v. group_GroupName v = None) tagged
               then Inl (Panic ''nil pointer dereference'')
               else Inl (Errorf ''Multiple tagged security groups found for instance %s; ensure only the k8s security group is tagged; the tagged groups were %v''
                      [ToString (inst_InstanceId inst),
                       concat (map (\<lambda>v. the (group_GroupId v) @ ''('' @ the (group_GroupName v) @ '') '') tagged)]))
            else Inr (Some (hd tagged)))
         else if untagged \<noteq> [] then
           (if length untagged \<noteq> 1 then
              Inl (Errorf ''Multiple untagged security groups found for instance %s; ensure the k8s security group is tagged''
                     [ToString (inst_InstanceId inst)])
            else Inr (Some (hd untagged)))
         else Inr None)"

definition getTaggedSecurityGroups :: "'w Cloud \<Rightarrow> ('w, (string, security_group) gomap) aws" where
  "getTaggedSecurityGroups c =
     bindM (wrapM (\<lambda>err. Errorf ''error querying security groups: %q'' [Error err])
              (DescribeSecurityGroups (c_ec2 c) [] []))
       (\<lambda>groups. returnM (mput_all
          (map (\<lambda>g. (ToString (sg_GroupId g), g))
             (filter (\<lambda>g. hasClusterTag (c_tagging c) (sg_Tags g) \<and> ToString (sg_GroupId g) \<noteq> '''') groups)) []))"

text \<open>The rules of a group that refer to another group, each with only the matching pair.\<close>

definition linked_permissions :: "string \<Rightarrow> security_group \<Rightarrow> IPPermissionSet" where
  "linked_permissions sgID sg =
     NewIPPermissionSet (concat (map (\<lambda>rule.
       map (\<lambda>pair. \<lparr>perm_FromPort = perm_FromPort rule, perm_IpProtocol = perm_IpProtocol rule,
              perm_IpRanges = None, perm_Ipv6Ranges = None, perm_PrefixListIds = None,
              perm_ToPort = perm_ToPort rule, perm_UserIdGroupPairs = Some [pair]\<rparr>)
         (filter (\<lambda>pair. pair_GroupId pair = Some sgID) (slice (perm_UserIdGroupPairs rule))))
       (sg_IpPermissions sg)))"

text \<open>The two maps of \<^verbatim>\<open>buildSecurityGroupRuleReferences\<close> have the same keys, pointers to the groups; they
  are one list of the group, whether it is tagged, and its rules.\<close>

definition buildSecurityGroupRuleReferences ::
  "'w Cloud \<Rightarrow> string \<Rightarrow> ('w, (security_group \<times> bool \<times> IPPermissionSet) list) aws" where
  "buildSecurityGroupRuleReferences c sgID =
     bindM (wrapM (\<lambda>err. Wrapf ''error querying security groups for ELB: %w'' [] err)
              (DescribeSecurityGroups (c_ec2 c) [] [newEc2Filter ''ip-permission.group-id'' [sgID]]))
       (\<lambda>sgsOut. returnM (map (\<lambda>sg.
          (sg, hasClusterTag (c_tagging c) (sg_Tags sg), linked_permissions sgID sg)) sgsOut))"

definition revokeSecurityGroupReferences :: "'w Cloud \<Rightarrow> string \<Rightarrow> ('w, unit) aws" where
  "revokeSecurityGroupReferences c sg =
     bindM (wrapM (\<lambda>err. Wrapf ''error building security group rule references for %q: %w'' [sg] err)
              (buildSecurityGroupRuleReferences c sg))
       (forM (\<lambda>(sgTarget, hasTag, sgPerms).
          if \<not> hasTag then returnM ()
          else wrapM (\<lambda>err. Wrapf ''error revoking security group ingress rules from %q: %w''
                              [ToString (sg_GroupId sgTarget)] err)
                 (RevokeSecurityGroupIngress (c_ec2 c) (ToString (sg_GroupId sgTarget)) (List sgPerms))))"

section \<open>Opening instances to a classic load balancer\<close>

text \<open>The map of changes is built in two loops: true to add, false to remove.\<close>

definition wanted_groups ::
  "(string, security_group) gomap \<Rightarrow> ec2_instance list \<Rightarrow> (string, bool) gomap result" where
  "wanted_groups tagged instances = foldR (\<lambda>inst ids.
     bindR (findSecurityGroupForInstance inst tagged) (\<lambda>securityGroup. case securityGroup of
       None \<Rightarrow> Inr ids
     | Some sg \<Rightarrow> Inr (if ToString (group_GroupId sg) = '''' then ids
                      else mput (ToString (group_GroupId sg)) True ids))) instances []"

definition compare_groups ::
  "bool \<Rightarrow> (security_group \<times> bool \<times> IPPermissionSet) list \<Rightarrow> (string, bool) gomap \<Rightarrow> (string, bool) gomap" where
  "compare_groups isDeleting actualGroups ids = fold (\<lambda>(actualGroup, hasTag, _) ids.
     (let actualGroupID = ToString (sg_GroupId actualGroup) in
      if actualGroupID = '''' then ids
      else if map_of ids actualGroupID = Some True then mdel actualGroupID ids
      else if hasTag \<or> isDeleting then mput actualGroupID False ids
      else ids)) actualGroups ids"

text \<open>All traffic from one group.\<close>

definition group_permission :: "string \<Rightarrow> ip_permission" where
  "group_permission sgID = \<lparr>perm_FromPort = None, perm_IpProtocol = Some ''-1'', perm_IpRanges = None,
     perm_Ipv6Ranges = None, perm_PrefixListIds = None, perm_ToPort = None,
     perm_UserIdGroupPairs = Some [\<lparr>pair_Description = None, pair_GroupId = Some sgID,
       pair_GroupName = None, pair_PeeringStatus = None, pair_UserId = None, pair_VpcId = None,
       pair_VpcPeeringConnectionId = None\<rparr>]\<rparr>"

definition updateInstanceSecurityGroupsForLoadBalancer ::
  "'w Cloud \<Rightarrow> elb_description \<Rightarrow> ec2_instance list \<Rightarrow> (string, string) gomap \<Rightarrow> bool \<Rightarrow> ('w, unit) aws" where
  "updateInstanceSecurityGroupsForLoadBalancer c lb instances annotations isDeleting =
     (if DisableSecurityGroupIngress (c_global c) then returnM ()
      else if lbd_SecurityGroups lb = [] then
        throwM (Errorf ''could not determine security group for load balancer: %s''
                  [ToString (lbd_LoadBalancerName lb)])
      else
        bindM (wrapM (\<lambda>err. Errorf ''error querying for tagged security groups: %q'' [Error err])
                 (getTaggedSecurityGroups c)) (\<lambda>taggedSecurityGroups.
        let taggedLB = filter (mhas taggedSecurityGroups) (lbd_SecurityGroups lb);
            loadBalancerSecurityGroupID =
              hd (sortELBSecurityGroupList (lbd_SecurityGroups lb) annotations taggedLB)
        in bindM (wrapM (\<lambda>err. Wrapf ''error building security group rule references: %w'' [] err)
                    (buildSecurityGroupRuleReferences c loadBalancerSecurityGroupID)) (\<lambda>actualGroups.
           bindM (liftM (wanted_groups taggedSecurityGroups instances)) (\<lambda>wanted.
           forM (\<lambda>(instanceSecurityGroupID, add).
               bindM (if add
                      then addSecurityGroupIngress c instanceSecurityGroupID
                             [group_permission loadBalancerSecurityGroupID]
                      else removeSecurityGroupIngress c instanceSecurityGroupID
                             [group_permission loadBalancerSecurityGroupID])
                 (\<lambda>changed. returnM ()))
             (compare_groups isDeleting actualGroups wanted)))))"

section \<open>Deleting groups\<close>

text \<open>One pass over the groups that are left: a deleted group leaves the map, a dependency violation
  keeps it, any other error stops the pass.\<close>

fun delete_pass :: "'w Cloud \<Rightarrow> string list \<Rightarrow> 'w \<Rightarrow> unit result \<times> string list \<times> 'w" where
  "delete_pass c [] w = (Inr (), [], w)"
| "delete_pass c (securityGroupID # ids) w =
     (case DeleteSecurityGroup (c_ec2 c) securityGroupID w of
        (Inr _, w) \<Rightarrow> delete_pass c ids w
      | (Inl err, w) \<Rightarrow>
          if as_api_error err = Some ''DependencyViolation''
          then (case delete_pass c ids w of (r, rest, w) \<Rightarrow> (r, securityGroupID # rest, w))
          else (Inl (Errorf ''error while deleting load balancer security group (%s): %q''
                       [securityGroupID, Error err]), securityGroupID # ids, w))"

definition delete_condition :: "'w Cloud \<Rightarrow> ('w \<times> string list, bool) aws" where
  "delete_condition c = (\<lambda>(w, ids).
     case delete_pass c ids w of
       (Inl err, rest, w) \<Rightarrow> (Inl err, (w, rest))
     | (Inr _, rest, w) \<Rightarrow> (Inr (rest = []), (w, rest)))"

text \<open>\<open>polls\<close> is the number of attempts that the poll timeout admits.\<close>

definition deleteSecurityGroupsWithBackoff :: "nat \<Rightarrow> 'w Cloud \<Rightarrow> string \<Rightarrow> string list \<Rightarrow> ('w, unit) aws" where
  "deleteSecurityGroupsWithBackoff polls c svcName securityGroupIDs w =
     (if securityGroupIDs = [] then (Inr (), w)
      else
        (case PollUntilContextTimeout polls (delete_condition c) (w, securityGroupIDs) of
           (Inr _, (w, _)) \<Rightarrow> (Inr (), w)
         | (Inl err, (w, ids)) \<Rightarrow>
             (Inl (Wrapf ''could not delete security groups %v for Load Balancer %q: %w''
                     [Join ids '','', svcName] err), w)))"

definition isOwnedSecurityGroup :: "'w Cloud \<Rightarrow> string \<Rightarrow> ('w, bool) aws" where
  "isOwnedSecurityGroup c securityGroupID =
     bindM (wrapM (\<lambda>err. Wrapf ''error retrieving security group %q: %w'' [securityGroupID] err)
              (DescribeSecurityGroups (c_ec2 c) [securityGroupID] []))
       (\<lambda>groups. case groups of
          [] \<Rightarrow> throwM (Errorf ''security group %q not found'' [securityGroupID])
        | [g] \<Rightarrow> liftM (hasClusterTagOwned (c_tagging c) (sg_Tags g))
        | _ \<Rightarrow> throwM (Errorf ''[BUG] multiple security groups found with same id %q'' [securityGroupID]))"

text \<open>The loop body of \<^verbatim>\<open>buildSecurityGroupsToDelete\<close>; the variables are the groups to delete and the
  tagged groups.\<close>

definition to_delete_step ::
  "'w Cloud \<Rightarrow> service \<Rightarrow> security_group \<Rightarrow> string list \<times> string list \<Rightarrow> ('w, string list \<times> string list) aws" where
  "to_delete_step c svc sg acc =
     (let (securityGroupIDs, taggedLB) = acc;
          sgID = ToString (sg_GroupId sg);
          annotated = getSGListFromAnnotation
              (mstr (svc_Annotations svc) ServiceAnnotationLoadBalancerSecurityGroups)
            @ getSGListFromAnnotation
              (mstr (svc_Annotations svc) ServiceAnnotationLoadBalancerExtraSecurityGroups)
      in if sgID = ElbSecurityGroup (c_global c) then returnM acc
         else if sgID = '''' then returnM acc
         else if \<not> hasClusterTag (c_tagging c) (sg_Tags sg) then returnM acc
         else
           (let taggedLB = List.insert sgID taggedLB;
                keep = returnM (securityGroupIDs, taggedLB);
                delete = (if sgID \<in> set annotated then keep
                          else returnM (List.insert sgID securityGroupIDs, taggedLB))
            in if isNLB (svc_Annotations svc) then
                 bindM (wrapM (\<lambda>err. Wrapf ''unable to validate if security group %q is owned by the controller: %w''
                                      [sgID] err)
                          (isOwnedSecurityGroup c sgID))
                   (\<lambda>owned. if owned then delete else keep)
               else delete))"

definition buildSecurityGroupsToDelete ::
  "'w Cloud \<Rightarrow> service \<Rightarrow> string list \<Rightarrow> ('w, string list \<times> string list) aws" where
  "buildSecurityGroupsToDelete c svc lbSecurityGroups =
     bindM (wrapM (\<lambda>err. Errorf ''error querying security groups for ELB: %q'' [Error err])
              (DescribeSecurityGroups (c_ec2 c) [] [newEc2Filter ''group-id'' lbSecurityGroups]))
       (\<lambda>response. foldM (to_delete_step c svc) response ([], []))"

text \<open>\<^verbatim>\<open>removeOwnedSecurityGroups\<close> collects errors instead of stopping; the variables are the errors and the
  groups to delete.\<close>

definition remove_owned_step ::
  "'w Cloud \<Rightarrow> string \<Rightarrow> go_error list \<times> string list \<Rightarrow> ('w, go_error list \<times> string list) aws" where
  "remove_owned_step c sg acc =
     tryM (isOwnedSecurityGroup c sg) (\<lambda>Inl err \<Rightarrow>
         returnM (fst acc @ [Wrapf ''unable to validate if security group %q is owned by the controller: %w'' [sg] err],
                  snd acc)
       | Inr isOwned \<Rightarrow>
         tryM (revokeSecurityGroupReferences c sg) (\<lambda>Inl err \<Rightarrow> returnM (fst acc @ [err], snd acc)
           | Inr _ \<Rightarrow> returnM (if isOwned then (fst acc, List.insert sg (snd acc)) else acc)))"

definition removeOwnedSecurityGroups ::
  "nat \<Rightarrow> 'w Cloud \<Rightarrow> string \<Rightarrow> string list \<Rightarrow> ('w, go_error list) aws" where
  "removeOwnedSecurityGroups polls c loadBalancerName securityGroups =
     bindM (foldM (remove_owned_step c) securityGroups ([], [])) (\<lambda>(allErrs, sgMap).
       if sgMap = [] then returnM allErrs
       else tryM (deleteSecurityGroupsWithBackoff polls c loadBalancerName sgMap) (\<lambda>Inl err \<Rightarrow>
              returnM (allErrs @ [Errorf ''error deleting security groups %v: %v'' [Join sgMap '' '', Error err]])
            | Inr _ \<Rightarrow> returnM []))"

section \<open>Opening instances to a network load balancer\<close>

definition NLBHealthCheckRuleDescription :: string where
  "NLBHealthCheckRuleDescription = ''kubernetes.io/rule/nlb/health''"

definition NLBClientRuleDescription :: string where
  "NLBClientRuleDescription = ''kubernetes.io/rule/nlb/client''"

definition NLBMtuDiscoveryRuleDescription :: string where
  "NLBMtuDiscoveryRuleDescription = ''kubernetes.io/rule/nlb/mtu''"

definition isIPv6CIDR :: "string \<Rightarrow> bool" where
  "isIPv6CIDR cidr =
     (case ParsePrefix cidr of None \<Rightarrow> Contains cidr '':'' | Some (IPv6 _, _) \<Rightarrow> True | Some (IPv4 _, _) \<Rightarrow> False)"

definition cidr_permission :: "string \<Rightarrow> int \<Rightarrow> int \<Rightarrow> string \<Rightarrow> string \<Rightarrow> bool \<Rightarrow> ip_permission" where
  "cidr_permission protocol from to cidr desc v6 =
     \<lparr>perm_FromPort = Some from, perm_IpProtocol = Some protocol,
      perm_IpRanges = (if v6 then None
        else Some [\<lparr>range_CidrIp = Some cidr, range_Description = Some desc\<rparr>]),
      perm_Ipv6Ranges = (if v6
        then Some [\<lparr>range6_CidrIpv6 = Some cidr, range6_Description = Some desc\<rparr>] else None),
      perm_PrefixListIds = None, perm_ToPort = Some to, perm_UserIdGroupPairs = None\<rparr>"

text \<open>Both update functions compute the differences, revoke those rules with the given description
  that are not desired, grant the missing ones, and record the changes in \<^verbatim>\<open>sgPerms\<close>.\<close>

definition apply_permissions ::
  "'w Cloud \<Rightarrow> string \<Rightarrow> IPPermissionSet \<Rightarrow> string \<Rightarrow> IPPermissionSet \<Rightarrow> ('w, IPPermissionSet) aws" where
  "apply_permissions c sgID sgPerms ruleDesc desiredPerms =
     bindM (liftM (Difference desiredPerms sgPerms)) (\<lambda>permsToGrant.
     bindM (liftM (Difference sgPerms desiredPerms)) (\<lambda>perms.
     let permsToRevoke = DeleteIf (IPPermissionNotMatch (IPPermissionMatchDesc ruleDesc)) perms in
     bindM (if Len permsToRevoke > 0 then
              bindM (removeSecurityGroupIngress c sgID (List permsToRevoke))
                (\<lambda>changed. returnM (Delete (List permsToRevoke) sgPerms))
            else returnM sgPerms) (\<lambda>sgPerms.
     if Len permsToGrant > 0 then
       bindM (addSecurityGroupIngress c sgID (List permsToGrant))
         (\<lambda>changed. returnM (Insert (List permsToGrant) sgPerms))
     else returnM sgPerms)))"

definition updateInstanceSecurityGroupForNLBTraffic ::
  "'w Cloud \<Rightarrow> string \<Rightarrow> IPPermissionSet \<Rightarrow> string \<Rightarrow> string \<Rightarrow> int list \<Rightarrow> string list
     \<Rightarrow> ('w, IPPermissionSet) aws" where
  "updateInstanceSecurityGroupForNLBTraffic c sgID sgPerms ruleDesc protocol ports cidrs =
     apply_permissions c sgID sgPerms ruleDesc (NewIPPermissionSet
       (concat (map (\<lambda>port. map (\<lambda>cidr. cidr_permission protocol port port cidr ruleDesc (isIPv6CIDR cidr)) cidrs) ports)))"

definition updateInstanceSecurityGroupForNLBMTU ::
  "'w Cloud \<Rightarrow> string \<Rightarrow> IPPermissionSet \<Rightarrow> ('w, IPPermissionSet) aws" where
  "updateInstanceSecurityGroupForNLBMTU c sgID sgPerms =
     apply_permissions c sgID sgPerms NLBMtuDiscoveryRuleDescription (NewIPPermissionSet
       (concat (map (\<lambda>perm.
          map (\<lambda>r. (cidr_permission ''icmp'' 3 4 '''' NLBMtuDiscoveryRuleDescription False)
                     \<lparr>perm_IpRanges := Some [\<lparr>range_CidrIp = range_CidrIp r,
                        range_Description = Some NLBMtuDiscoveryRuleDescription\<rparr>]\<rparr>)
            (filter (\<lambda>r. Contains (ToString (range_Description r)) NLBClientRuleDescription)
               (slice (perm_IpRanges perm)))
          @ map (\<lambda>r. (cidr_permission ''icmpv6'' 2 (-1) '''' NLBMtuDiscoveryRuleDescription True)
                     \<lparr>perm_Ipv6Ranges := Some [\<lparr>range6_CidrIpv6 = range6_CidrIpv6 r,
                        range6_Description = Some NLBMtuDiscoveryRuleDescription\<rparr>]\<rparr>)
            (filter (\<lambda>r. Contains (ToString (range6_Description r)) NLBClientRuleDescription)
               (slice (perm_Ipv6Ranges perm)))) (List sgPerms))))"

record nlbPortMapping =
  pm_FrontendPort :: int
  pm_FrontendProtocol :: string
  pm_TrafficPort :: int
  pm_TrafficProtocol :: string
  pm_SSLCertificateARN :: string
  pm_SSLPolicy :: string
  pm_ALPNPolicy :: string
  pm_HealthCheckConfig :: healthCheckConfig

text \<open>The loop over the port mappings: the client ports, the health check ports and the client protocol.
  A health check port is converted from 64 to 32 bits.\<close>

definition collect_ports :: "nlbPortMapping list \<Rightarrow> (int list \<times> int list \<times> string) result" where
  "collect_ports portMappings = foldR (\<lambda>port (clientPorts, healthCheckPorts, clientProtocol).
     bindR (if hcc_Port (pm_HealthCheckConfig port) \<noteq> defaultHealthCheckPort then
              (case ParseInt 0 (hcc_Port (pm_HealthCheckConfig port)) of
                 None \<Rightarrow> Inl (Errorf ''Invalid health check port %v'' [hcc_Port (pm_HealthCheckConfig port)])
               | Some hcPort64 \<Rightarrow> Inr (to_int32 hcPort64))
            else Inr (pm_TrafficPort port)) (\<lambda>hcPort.
       Inr (List.insert (pm_TrafficPort port) clientPorts, List.insert hcPort healthCheckPorts,
            if pm_TrafficProtocol port = ''UDP'' then ''udp'' else clientProtocol)))
     portMappings ([], [], ''tcp'')"

text \<open>Whether the client rule admits every address.\<close>

definition all_open :: "string list \<Rightarrow> bool" where
  "all_open clientCIDRs =
     (let ipv6 = filter isIPv6CIDR clientCIDRs; ipv4 = filter (\<lambda>cidr. \<not> isIPv6CIDR cidr) clientCIDRs in
      ipv4 = [''0.0.0.0/0''] \<and> (ipv6 = [] \<or> ipv6 = [''::/0'']))"

text \<open>The update of one group of the cluster.\<close>

definition update_nlb_group ::
  "'w Cloud \<Rightarrow> string \<Rightarrow> string list \<Rightarrow> string list \<Rightarrow> string list \<Rightarrow> int list \<times> int list \<times> string
     \<Rightarrow> string \<times> security_group \<Rightarrow> ('w, unit) aws" where
  "update_nlb_group c lbName desiredSGIDs subnetCIDRs clientCIDRs ports entry =
     (let (clientPorts, healthCheckPorts, clientProtocol) = ports;
          (sgID, sg) = entry;
          clientRule = NLBClientRuleDescription @ ''='' @ lbName;
          healthRule = NLBHealthCheckRuleDescription @ ''='' @ lbName;
          sgPerms = Ungroup (NewIPPermissionSet (sg_IpPermissions sg))
      in bindM
        (if sgID \<in> set desiredSGIDs then
           bindM (if \<not> all_open clientCIDRs \<or> clientProtocol \<noteq> ''tcp'' \<or> set healthCheckPorts \<noteq> set clientPorts
                  then updateInstanceSecurityGroupForNLBTraffic c sgID sgPerms healthRule ''tcp''
                         healthCheckPorts subnetCIDRs
                  else returnM sgPerms) (\<lambda>sgPerms.
             updateInstanceSecurityGroupForNLBTraffic c sgID sgPerms clientRule clientProtocol clientPorts clientCIDRs)
         else
           bindM (updateInstanceSecurityGroupForNLBTraffic c sgID sgPerms healthRule ''tcp'' [] []) (\<lambda>sgPerms.
             updateInstanceSecurityGroupForNLBTraffic c sgID sgPerms clientRule clientProtocol [] []))
        (\<lambda>sgPerms.
          if \<not> Equal sgPerms (Ungroup (NewIPPermissionSet (sg_IpPermissions sg)))
          then bindM (updateInstanceSecurityGroupForNLBMTU c sgID sgPerms) (\<lambda>_. returnM ())
          else returnM ()))"

definition updateInstanceSecurityGroupsForNLB ::
  "'w Cloud \<Rightarrow> string \<Rightarrow> ec2_instance list \<Rightarrow> string list \<Rightarrow> string list \<Rightarrow> nlbPortMapping list
     \<Rightarrow> ('w, unit) aws" where
  "updateInstanceSecurityGroupsForNLB c lbName instances subnetCIDRs clientCIDRs portMappings =
     (if DisableSecurityGroupIngress (c_global c) then returnM ()
      else
        bindM (wrapM (\<lambda>err. Errorf ''error querying for tagged security groups: %q'' [Error err])
                 (getTaggedSecurityGroups c)) (\<lambda>clusterSGs.
        bindM (liftM (foldR (\<lambda>inst ids.
                 bindR (findSecurityGroupForInstance inst clusterSGs) (\<lambda>sg. case sg of
                   None \<Rightarrow> Inr ids
                 | Some sg \<Rightarrow> Inr (List.insert (ToString (group_GroupId sg)) ids))) instances [])) (\<lambda>desiredSGIDs.
        bindM (foldM (\<lambda>sgID clusterSGs.
                 bindM (wrapM (\<lambda>err. Errorf ''error finding instance group: %q'' [Error err])
                          (findSecurityGroup c sgID)) (\<lambda>sg. case sg of
                   None \<Rightarrow> throwM (Errorf ''error finding security group: %s'' [sgID])
                 | Some sg \<Rightarrow> returnM (mput sgID sg clusterSGs)))
                 (filter (\<lambda>sgID. \<not> mhas clusterSGs sgID) desiredSGIDs) clusterSGs) (\<lambda>clusterSGs.
        bindM (liftM (collect_ports portMappings)) (\<lambda>ports.
          forM (update_nlb_group c lbName desiredSGIDs subnetCIDRs clientCIDRs ports) clusterSGs)))))"

section \<open>Making the rules of a group the requested ones\<close>













lemma grant_ids_empty [simp]: "grant_ids {} = {}"
  by (simp add: grant_ids_def granted_def)



















section \<open>Deleting groups is complete\<close>

lemma delete_pass_left:
  assumes gone: "\<forall>i w w'. DeleteSecurityGroup (c_ec2 c) i w = (Inr (), w') \<longrightarrow> gone i w'"
    and stays: "\<forall>i. \<forall>j. keeps (gone i) (DeleteSecurityGroup (c_ec2 c) j)"
  shows "delete_pass c ids w = (r, rest, w') \<Longrightarrow>
    (\<forall>i. gone i w \<longrightarrow> gone i w') \<and> (\<forall>i \<in> set ids. i \<in> set rest \<or> gone i w') \<and> set rest \<subseteq> set ids"
proof (induction ids arbitrary: w r rest w')
  case (Cons i ids)
  obtain x w1 where d: "DeleteSecurityGroup (c_ec2 c) i w = (x, w1)" by (cases "DeleteSecurityGroup (c_ec2 c) i w")
  with stays have keep: "\<forall>j. gone j w \<longrightarrow> gone j w1" by (auto dest: keepsD)
  show ?case
  proof (cases x)
    case (Inl err)
    show ?thesis
    proof (cases "as_api_error err = Some ''DependencyViolation''")
      case True
      obtain r2 rest2 w2 where p: "delete_pass c ids w1 = (r2, rest2, w2)" by (cases "delete_pass c ids w1")
      with Cons.prems d Inl True have "r = r2" "rest = i # rest2" "w' = w2" by auto
      with Cons.IH [OF p] keep show ?thesis by auto
    next
      case False
      with Cons.prems d Inl keep show ?thesis by auto
    qed
  next
    case (Inr u)
    with d gone have "gone i w1" by auto
    from Inr d Cons.prems have "delete_pass c ids w1 = (r, rest, w')" by simp
    from Cons.IH [OF this] keep \<open>gone i w1\<close> show ?thesis by auto
  qed
qed auto

lemma deleteSecurityGroupsWithBackoff_deletes:
  assumes gone: "\<forall>i w w'. DeleteSecurityGroup (c_ec2 c) i w = (Inr (), w') \<longrightarrow> gone i w'"
    and stays: "\<forall>i. \<forall>j. keeps (gone i) (DeleteSecurityGroup (c_ec2 c) j)"
    and run: "deleteSecurityGroupsWithBackoff polls c svcName ids w = (Inr (), w')"
  shows "\<forall>i \<in> set ids. gone i w'"
proof (cases "ids = []")
  case False
  let ?I = "\<lambda>(w, left). \<forall>i \<in> set ids. i \<in> set left \<or> gone i w"
  have "keeps ?I (delete_condition c)"
    unfolding keeps_def
  proof (intro allI impI)
    fix s :: "'a \<times> string list"
    assume I: "?I s"
    obtain v left where s: "s = (v, left)" by (cases s)
    obtain r rest v' where p: "delete_pass c left v = (r, rest, v')" by (cases "delete_pass c left v")
    with I delete_pass_left [OF gone stays p] have "?I (v', rest)" by (auto simp: s)
    with p show "?I (snd (delete_condition c s))"
      by (cases r) (auto simp: s delete_condition_def)
  qed
  then have keep: "keeps ?I (PollUntilContextTimeout polls (delete_condition c))"
    by (simp add: PollUntilContextTimeout_def ExponentialBackoff_keeps)
  from run False obtain left where poll:
      "PollUntilContextTimeout polls (delete_condition c) (w, ids) = (Inr (), (w', left))"
    by (auto simp: deleteSecurityGroupsWithBackoff_def split: prod.splits sum.splits)
  then have "?I (w', left)" using keepsD [OF keep _ poll] by simp
  moreover from poll have "left = []"
    by (auto simp: PollUntilContextTimeout_def delete_condition_def
        elim!: ExponentialBackoff_cases split: prod.splits sum.splits)
  ultimately show ?thesis by simp
qed simp

lemma keeps_deleteSecurityGroupsWithBackoff:
  assumes "\<And>i. keeps I (DeleteSecurityGroup (c_ec2 c) i)"
  shows "keeps I (deleteSecurityGroupsWithBackoff polls c svcName ids)"
proof -
  have pass: "I w \<Longrightarrow> I (snd (snd (delete_pass c ids w)))" for ids w
  proof (induction ids arbitrary: w)
    case (Cons i ids)
    obtain r w1 where d: "DeleteSecurityGroup (c_ec2 c) i w = (r, w1)" by (cases "DeleteSecurityGroup (c_ec2 c) i w")
    from keepsD [OF assms Cons.prems d] have "I w1" .
    from Cons.IH [OF this] \<open>I w1\<close> d show ?case by (auto split: sum.splits prod.splits)
  qed simp
  have "keeps (\<lambda>(w, left). I w) (delete_condition c)"
    unfolding keeps_def delete_condition_def using pass by (auto split: sum.splits prod.splits) (metis snd_conv)+
  then have poll: "keeps (\<lambda>(w, left). I w) (PollUntilContextTimeout polls (delete_condition c))"
    by (simp add: PollUntilContextTimeout_def ExponentialBackoff_keeps)
  show ?thesis
    unfolding keeps_def deleteSecurityGroupsWithBackoff_def
    using keepsD [OF poll] by (fastforce split: sum.splits prod.splits)
qed

text \<open>When \<^verbatim>\<open>deleteSecurityGroupsWithBackoff\<close> reports success, every group has been deleted, however
  many polls it took and whichever groups failed with a dependency violation in between. EC2 is
  assumed to have deleted a group when it says so and not to bring a deleted group back.\<close>

lemma deleteSecurityGroupsWithBackoff_complete:
  assumes "\<forall>i w w'. DeleteSecurityGroup (c_ec2 c) i w = (Inr (), w') \<longrightarrow> gone i w'"
    and "\<forall>i. \<forall>j. keeps (gone i) (DeleteSecurityGroup (c_ec2 c) j)"
    and "deleteSecurityGroupsWithBackoff polls c svcName ids w = (Inr (), w')"
  shows "\<forall>i \<in> set ids. gone i w'"
  using assms by (rule deleteSecurityGroupsWithBackoff_deletes)

text \<open>A concrete EC2 whose state is the groups that exist; a group can be deleted when it exists and
  \<^verbatim>\<open>sg-b\<close> does not refer to it.\<close>

definition dependent_client :: "string list ec2_client" where
  "dependent_client = idle_client\<lparr>DeleteSecurityGroup := (\<lambda>i w.
     if i = ''sg-a'' \<and> ''sg-b'' \<in> set w then (Inl (APIError ''DependencyViolation'' ''''), w)
     else (Inr (), filter (\<lambda>g. g \<noteq> i) w))\<rparr>"

lemma deleteSecurityGroupsWithBackoff_complete_example:
  "deleteSecurityGroupsWithBackoff 2 (sample_cloud\<lparr>c_ec2 := dependent_client\<rparr>) ''svc'' [''sg-a'', ''sg-b'']
     [''sg-a'', ''sg-b'', ''sg-c''] = (Inr (), [''sg-c''])
   \<and> ''sg-a'' \<notin> set [''sg-c''] \<and> ''sg-b'' \<notin> set [''sg-c'']"
proof -
  let ?c = "sample_cloud\<lparr>c_ec2 := dependent_client\<rparr>"
  have run: "deleteSecurityGroupsWithBackoff 2 ?c ''svc'' [''sg-a'', ''sg-b'']
      [''sg-a'', ''sg-b'', ''sg-c''] = (Inr (), [''sg-c''])"
    by (simp add: deleteSecurityGroupsWithBackoff_def PollUntilContextTimeout_def numeral_2_eq_2
        delete_condition_def dependent_client_def)
  have "\<forall>i \<in> set [''sg-a'', ''sg-b'']. i \<notin> set [''sg-c'']"
    by (rule deleteSecurityGroupsWithBackoff_complete [OF _ _ run])
      (auto simp: keeps_def dependent_client_def split: if_splits)
  with run show ?thesis by simp
qed

section \<open>Only groups of the cluster are deleted\<close>

text \<open>The groups that count as tagged, and those of them that no annotation of the service names.\<close>

definition cluster_group :: "'w Cloud \<Rightarrow> security_group \<Rightarrow> bool" where
  "cluster_group c sg \<longleftrightarrow> ToString (sg_GroupId sg) \<noteq> ElbSecurityGroup (c_global c)
     \<and> ToString (sg_GroupId sg) \<noteq> '''' \<and> hasClusterTag (c_tagging c) (sg_Tags sg)"

definition annotated_groups :: "service \<Rightarrow> string set" where
  "annotated_groups svc =
     set (getSGListFromAnnotation (mstr (svc_Annotations svc) ServiceAnnotationLoadBalancerSecurityGroups))
     \<union> set (getSGListFromAnnotation (mstr (svc_Annotations svc) ServiceAnnotationLoadBalancerExtraSecurityGroups))"

definition group_ids :: "(security_group \<Rightarrow> bool) \<Rightarrow> security_group list \<Rightarrow> string set" where
  "group_ids P sgs = (\<lambda>sg. ToString (sg_GroupId sg)) ` {sg \<in> set sgs. P sg}"

lemma group_ids_simps [simp]:
  "group_ids P [] = {}"
  "group_ids P (sg # sgs) = (if P sg then insert (ToString (sg_GroupId sg)) (group_ids P sgs) else group_ids P sgs)"
  by (auto simp: group_ids_def)

lemma to_delete_step_classic:
  assumes "\<not> isNLB (svc_Annotations svc)"
  shows "to_delete_step c svc sg (ids, tagged) w =
    (Inr (if cluster_group c sg \<and> ToString (sg_GroupId sg) \<notin> annotated_groups svc
            then List.insert (ToString (sg_GroupId sg)) ids else ids,
          if cluster_group c sg then List.insert (ToString (sg_GroupId sg)) tagged else tagged), w)"
  using assms
  by (auto simp: to_delete_step_def cluster_group_def annotated_groups_def Let_def returnM_def)

lemma to_delete_step_some:
  assumes "to_delete_step c svc sg (ids, tagged) w = (Inr (ids', tagged'), w')"
  shows "set tagged' = set tagged \<union> group_ids (cluster_group c) [sg]"
    and "ids' = ids \<or> ids' = List.insert (ToString (sg_GroupId sg)) ids
       \<and> cluster_group c sg \<and> ToString (sg_GroupId sg) \<notin> annotated_groups svc
       \<and> (isNLB (svc_Annotations svc) \<longrightarrow>
           (\<exists>v v'. isOwnedSecurityGroup c (ToString (sg_GroupId sg)) v = (Inr True, v')))"
  using assms
  by (auto simp: to_delete_step_def cluster_group_def annotated_groups_def Let_def returnM_def
      wrapM_Inr_iff elim!: bindM_InrE split: if_splits) blast+

lemma to_delete_fold_classic:
  assumes "\<not> isNLB (svc_Annotations svc)"
  shows "\<exists>ids' tagged'. foldM (to_delete_step c svc) sgs (ids, tagged) w = (Inr (ids', tagged'), w)
     \<and> set ids' = set ids \<union> (group_ids (cluster_group c) sgs - annotated_groups svc)
     \<and> set tagged' = set tagged \<union> group_ids (cluster_group c) sgs"
proof (induction sgs arbitrary: ids tagged)
  case (Cons sg sgs)
  let ?i = "ToString (sg_GroupId sg)"
  let ?ids = "if cluster_group c sg \<and> ?i \<notin> annotated_groups svc then List.insert ?i ids else ids"
  let ?tagged = "if cluster_group c sg then List.insert ?i tagged else tagged"
  from Cons.IH [of ?ids ?tagged] obtain ids' tagged' where
    "foldM (to_delete_step c svc) sgs (?ids, ?tagged) w = (Inr (ids', tagged'), w)"
    "set ids' = set ?ids \<union> (group_ids (cluster_group c) sgs - annotated_groups svc)"
    "set tagged' = set ?tagged \<union> group_ids (cluster_group c) sgs"
    by blast
  then show ?case
    by (intro exI [of _ ids'] exI [of _ tagged'])
      (simp add: bindM_run to_delete_step_classic [OF assms], auto)
qed (simp add: returnM_run)

lemma to_delete_fold:
  assumes "foldM (to_delete_step c svc) sgs (ids, tagged) w = (Inr (ids', tagged'), w')"
  shows "set tagged' = set tagged \<union> group_ids (cluster_group c) sgs
     \<and> (\<forall>i \<in> set ids' - set ids. i \<in> group_ids (cluster_group c) sgs \<and> i \<notin> annotated_groups svc
          \<and> (isNLB (svc_Annotations svc) \<longrightarrow> (\<exists>v v'. isOwnedSecurityGroup c i v = (Inr True, v'))))"
  using assms
proof (induction sgs arbitrary: ids tagged w)
  case (Cons sg sgs)
  from Cons.prems obtain ids1 tagged1 w1 where
    step: "to_delete_step c svc sg (ids, tagged) w = (Inr (ids1, tagged1), w1)"
    and rest: "foldM (to_delete_step c svc) sgs (ids1, tagged1) w1 = (Inr (ids', tagged'), w')"
    by (auto elim!: bindM_InrE)
  from to_delete_step_some(2) [OF step] show ?case
  proof (elim disjE)
    assume "ids1 = ids"
    with Cons.IH [OF rest] to_delete_step_some(1) [OF step] show ?thesis by simp
  next
    assume new: "ids1 = List.insert (ToString (sg_GroupId sg)) ids \<and> cluster_group c sg
       \<and> ToString (sg_GroupId sg) \<notin> annotated_groups svc
       \<and> (isNLB (svc_Annotations svc) \<longrightarrow>
           (\<exists>v v'. isOwnedSecurityGroup c (ToString (sg_GroupId sg)) v = (Inr True, v')))"
    then have "set ids1 = insert (ToString (sg_GroupId sg)) (set ids)" by simp
    with new Cons.IH [OF rest] to_delete_step_some(1) [OF step] show ?thesis by (simp, blast)
  qed
qed (simp add: returnM_run)

text \<open>C7: \<^verbatim>\<open>buildSecurityGroupsToDelete\<close> selects only groups that carry the cluster's tag, are not the
  configured shared group and are not named by the service's annotations; for a network load balancer
  each selected group was also found to be owned by the cluster. For a classic load balancer the
  selection is exactly that, and always succeeds.\<close>

theorem buildSecurityGroupsToDelete_safe:
  assumes "DescribeSecurityGroups (c_ec2 c) [] [newEc2Filter ''group-id'' lbGroups] w = (Inr response, w1)"
  shows "(\<forall>ids tagged w'. buildSecurityGroupsToDelete c svc lbGroups w = (Inr (ids, tagged), w') \<longrightarrow>
       set tagged = group_ids (cluster_group c) response
       \<and> set ids \<subseteq> group_ids (cluster_group c) response - annotated_groups svc
       \<and> (isNLB (svc_Annotations svc) \<longrightarrow>
            (\<forall>i \<in> set ids. \<exists>v v'. isOwnedSecurityGroup c i v = (Inr True, v'))))
     \<and> (\<not> isNLB (svc_Annotations svc) \<longrightarrow>
          (\<exists>ids tagged. buildSecurityGroupsToDelete c svc lbGroups w = (Inr (ids, tagged), w1)
             \<and> set ids = group_ids (cluster_group c) response - annotated_groups svc))"
proof -
  have run: "buildSecurityGroupsToDelete c svc lbGroups w = foldM (to_delete_step c svc) response ([], []) w1"
    using assms by (simp add: buildSecurityGroupsToDelete_def run_simps)
  show ?thesis
    unfolding run using to_delete_fold [of c svc response "[]" "[]" w1]
      to_delete_fold_classic [of svc c response "[]" "[]" w1]
    by fastforce
qed

text \<open>A group of the cluster, a group of another cluster, and an EC2 that has both.\<close>

definition own_group :: security_group where
  "own_group = \<lparr>sg_GroupId = Some ''sg-own'',
     sg_Tags = [\<lparr>tag_Key = Some (TagNameKubernetesClusterPrefix @ ''c1''), tag_Value = Some ''owned''\<rparr>],
     sg_IpPermissions = []\<rparr>"

definition other_group :: security_group where
  "other_group = \<lparr>sg_GroupId = Some ''sg-other'', sg_Tags = [], sg_IpPermissions = []\<rparr>"

definition two_groups_client :: "string list ec2_client" where
  "two_groups_client = dependent_client\<lparr>DescribeSecurityGroups := (\<lambda>ids fs.
     if ids = [''sg-own''] then returnM [own_group]
     else if ids \<noteq> [] then throwM (APIError ''InvalidGroup.NotFound'' '''')
     else if list_ex (\<lambda>f. filter_Name f = ''group-id'') fs then returnM [own_group, other_group]
     else returnM [])\<rparr>"

definition two_groups_cloud :: "string list Cloud" where
  "two_groups_cloud = sample_cloud\<lparr>c_ec2 := two_groups_client\<rparr>"

definition plain_service :: service where
  "plain_service = \<lparr>svc_Name = ''s'', svc_Namespace = ''d'', svc_UID = ''u'', svc_Annotations = [],
     svc_Ports = [], svc_ExternalTrafficPolicy = '''', svc_SessionAffinity = ''None'', svc_LoadBalancerIP = '''',
     svc_LoadBalancerSourceRanges = [], svc_Type = ''LoadBalancer'', svc_IPFamilies = [],
     svc_IPFamilyPolicy = None, svc_HealthCheckNodePort = 0, svc_IngressHostnames = []\<rparr>"

lemma own_group_tag:
  "hasClusterTag \<lparr>ClusterID = ''c1'', usesLegacyTags = False\<rparr> (sg_Tags own_group)"
  "\<not> hasClusterTag \<lparr>ClusterID = ''c1'', usesLegacyTags = False\<rparr> (sg_Tags other_group)"
  by (simp_all add: own_group_def other_group_def hasClusterTag_def clusterTagKey_def
      TagNameKubernetesClusterPrefix_def TagNameKubernetesClusterLegacy_def)

theorem buildSecurityGroupsToDelete_safe_witness:
  "\<exists>ids tagged. buildSecurityGroupsToDelete two_groups_cloud plain_service [''sg-own'', ''sg-other''] []
       = (Inr (ids, tagged), []) \<and> set ids = {''sg-own''}"
proof -
  have "DescribeSecurityGroups (c_ec2 two_groups_cloud) [] [newEc2Filter ''group-id'' [''sg-own'', ''sg-other'']] []
      = (Inr [own_group, other_group], [])"
    by (simp add: two_groups_cloud_def two_groups_client_def newEc2Filter_def returnM_def)
  moreover have "group_ids (cluster_group two_groups_cloud) [own_group, other_group]
      - annotated_groups plain_service = {''sg-own''}"
  proof -
    have "cluster_group two_groups_cloud own_group" "\<not> cluster_group two_groups_cloud other_group"
      using own_group_tag by (simp_all add: cluster_group_def two_groups_cloud_def sample_cloud_def sample_global_def)
        (simp_all add: own_group_def)
    moreover have "annotated_groups plain_service = {}"
      by (simp add: annotated_groups_def getSGListFromAnnotation_def splitCommaSeparatedString_def
          mstr_def plain_service_def TrimSpace_def trim_by_def)
    ultimately show ?thesis by (simp add: own_group_def)
  qed
  moreover have "\<not> isNLB (svc_Annotations plain_service)"
    by (simp add: isNLB_def plain_service_def mstr_def)
  ultimately show ?thesis
    using buildSecurityGroupsToDelete_safe [of two_groups_cloud "[''sg-own'', ''sg-other'']" "[]"
        "[own_group, other_group]" "[]" plain_service]
    by auto
qed

text \<open>A defect of \<^verbatim>\<open>removeOwnedSecurityGroups\<close>, which is documented to return all errors of the
  removal: when at least one group was deleted it returns none. The group \<^verbatim>\<open>sg-gone\<close> cannot be read;
  alone, the error is reported, but together with a group that is deleted it is lost.\<close>

lemma removeOwnedSecurityGroups_drops_errors:
  "(\<exists>err. removeOwnedSecurityGroups 1 two_groups_cloud ''lb'' [''sg-gone''] [''sg-own''] = (Inr [err], [''sg-own'']))
   \<and> removeOwnedSecurityGroups 1 two_groups_cloud ''lb'' [''sg-gone'', ''sg-own''] [''sg-own''] = (Inr [], [])"
proof -
  let ?c = two_groups_cloud
  have gone: "\<exists>err. remove_owned_step ?c ''sg-gone'' ([], []) w = (Inr ([err], []), w)" for w
    by (simp add: remove_owned_step_def isOwnedSecurityGroup_def two_groups_cloud_def two_groups_client_def run_simps)
  have owned: "isOwnedSecurityGroup ?c ''sg-own'' w = (Inr True, w)" for w
    by (simp add: isOwnedSecurityGroup_def two_groups_cloud_def two_groups_client_def run_simps sample_cloud_def
        hasClusterTagOwned_def own_group_def clusterTagKey_def TagNameKubernetesClusterPrefix_def ResourceLifecycleOwned_def)
  have refs: "revokeSecurityGroupReferences ?c ''sg-own'' w = (Inr (), w)" for w
    by (simp add: revokeSecurityGroupReferences_def buildSecurityGroupRuleReferences_def two_groups_cloud_def
        two_groups_client_def run_simps newEc2Filter_def getTaggedSecurityGroups_def mput_all_def)
  have own: "remove_owned_step ?c ''sg-own'' (errs, []) w = (Inr (errs, [''sg-own'']), w)" for errs w
    by (simp add: remove_owned_step_def owned refs run_simps)
  have del: "deleteSecurityGroupsWithBackoff 1 ?c ''lb'' [''sg-own''] [''sg-own''] = (Inr (), [])"
    by (simp add: deleteSecurityGroupsWithBackoff_def PollUntilContextTimeout_def delete_condition_def
        two_groups_cloud_def two_groups_client_def dependent_client_def)
  from gone [of "[''sg-own'']"] show ?thesis
    by (auto simp: removeOwnedSecurityGroups_def run_simps own del [simplified])
qed

section \<open>Rules of other load balancers are left alone\<close>

text \<open>An assertion that reads and authorizations keep, and revocations of rules that satisfy \<open>P\<close>.\<close>

definition kept_by_rule_calls :: "('w \<Rightarrow> bool) \<Rightarrow> 'w ec2_client \<Rightarrow> (ip_permission \<Rightarrow> bool) \<Rightarrow> bool" where
  "kept_by_rule_calls I ec2 P \<longleftrightarrow>
     (\<forall>ids fs. keeps I (DescribeSecurityGroups ec2 ids fs))
     \<and> (\<forall>i ps. keeps I (AuthorizeSecurityGroupIngress ec2 i ps))
     \<and> (\<forall>i ps. (\<forall>p \<in> set ps. P p) \<longrightarrow> keeps I (RevokeSecurityGroupIngress ec2 i ps))"

lemma kept_by_rule_calls_weaken:
  "kept_by_rule_calls I ec2 P \<Longrightarrow> (\<And>p. Q p \<Longrightarrow> P p) \<Longrightarrow> kept_by_rule_calls I ec2 Q"
  by (auto simp: kept_by_rule_calls_def)

lemma select_permissions_subset: "select_permissions want existing perms = Inr changes \<Longrightarrow> set changes \<subseteq> set perms"
proof -
  have "foldR (\<lambda>perm changes.
     bindR (anyR (\<lambda>groupPermission. ipPermissionExists perm groupPermission (has_user_id perm)) existing)
       (\<lambda>found. Inr (if found = want then changes @ [perm] else changes))) perms acc = Inr changes
     \<Longrightarrow> set changes \<subseteq> set perms \<union> set acc" for acc
    by (induction perms arbitrary: acc) (fastforce simp: bindR_Inr_iff split: if_splits)+
  from this [of "[]"] show "select_permissions want existing perms = Inr changes \<Longrightarrow> set changes \<subseteq> set perms"
    by (simp add: select_permissions_def)
qed

lemma keeps_liftbind:
  assumes "\<And>x. r = Inr x \<Longrightarrow> keeps I (f x)"
  shows "keeps I (bindM (liftM r) f)"
  using assms by (cases r) (simp_all add: keeps_def bindM_def liftM_def)

lemma keeps_findSecurityGroup:
  "\<forall>ids fs. keeps I (DescribeSecurityGroups (c_ec2 c) ids fs) \<Longrightarrow> keeps I (findSecurityGroup c i)"
  unfolding findSecurityGroup_def by (auto intro!: keeps_intros split: list.splits)

lemma keeps_addSecurityGroupIngress:
  assumes "kept_by_rule_calls I (c_ec2 c) P"
  shows "keeps I (addSecurityGroupIngress c i ps)"
  using assms unfolding addSecurityGroupIngress_def kept_by_rule_calls_def
  by (auto intro!: keeps_intros keeps_findSecurityGroup split: option.splits)

lemma keeps_removeSecurityGroupIngress:
  assumes I: "kept_by_rule_calls I (c_ec2 c) P" and ps: "\<forall>p \<in> set ps. P p"
  shows "keeps I (removeSecurityGroupIngress c i ps)"
proof -
  have sel: "keeps I (RevokeSecurityGroupIngress (c_ec2 c) i changes)"
    if "select_permissions True existing ps = Inr changes" for existing changes
    using I ps select_permissions_subset [OF that] unfolding kept_by_rule_calls_def by blast
  from I show ?thesis
    unfolding removeSecurityGroupIngress_def kept_by_rule_calls_def
    by (auto intro!: keeps_intros keeps_liftbind keeps_findSecurityGroup sel split: option.splits)
qed

lemma elems_DeleteIf: "elems (DeleteIf P s) \<subseteq> {p. \<not> P p}"
  by (auto simp: DeleteIf_def elems_def)

lemma keeps_apply_permissions:
  assumes "kept_by_rule_calls I (c_ec2 c) P" and "\<And>p. IPPermissionMatchDesc ruleDesc p \<Longrightarrow> P p"
  shows "keeps I (apply_permissions c sgID sgPerms ruleDesc desired)"
proof -
  have "\<forall>p \<in> set (List (DeleteIf (IPPermissionNotMatch (IPPermissionMatchDesc ruleDesc)) perms)). P p" for perms
    using elems_DeleteIf [of _ perms] assms(2) by (fastforce simp: IPPermissionNotMatch_def)
  with assms(1) show ?thesis
    unfolding apply_permissions_def Let_def
    by (auto intro!: keeps_intros keeps_addSecurityGroupIngress keeps_removeSecurityGroupIngress)
qed

lemma keeps_update_nlb_group:
  assumes "kept_by_rule_calls I (c_ec2 c) P"
    and "\<And>p d. d \<in> {NLBClientRuleDescription @ ''='' @ lbName, NLBHealthCheckRuleDescription @ ''='' @ lbName,
            NLBMtuDiscoveryRuleDescription} \<Longrightarrow> IPPermissionMatchDesc d p \<Longrightarrow> P p"
  shows "keeps I (update_nlb_group c lbName desired subnetCIDRs clientCIDRs ports entry)"
proof -
  have own: "keeps I (apply_permissions c sgID perms (NLBClientRuleDescription @ ''='' @ lbName) want)"
    "keeps I (apply_permissions c sgID perms (NLBHealthCheckRuleDescription @ ''='' @ lbName) want)"
    "keeps I (apply_permissions c sgID perms NLBMtuDiscoveryRuleDescription want)" for sgID perms want
    by (rule keeps_apply_permissions [OF assms(1)], rule assms(2); simp)+
  show ?thesis
    unfolding update_nlb_group_def Let_def updateInstanceSecurityGroupForNLBTraffic_def
      updateInstanceSecurityGroupForNLBMTU_def
    by (simp only: split: prod.split) (intro allI impI keeps_bind keeps_if own keeps_return)
qed

text \<open>The rules that the load balancer \<open>lbName\<close> may revoke.\<close>

definition nlb_rule :: "string \<Rightarrow> ip_permission \<Rightarrow> bool" where
  "nlb_rule lbName p \<longleftrightarrow> list_ex (\<lambda>d. IPPermissionMatchDesc d p)
     [NLBClientRuleDescription @ ''='' @ lbName, NLBHealthCheckRuleDescription @ ''='' @ lbName,
      NLBMtuDiscoveryRuleDescription]"

lemma keeps_updateInstanceSecurityGroupsForNLB:
  assumes I: "kept_by_rule_calls I (c_ec2 c) (nlb_rule lbName)"
  shows "keeps I (updateInstanceSecurityGroupsForNLB c lbName instances subnetCIDRs clientCIDRs portMappings)"
proof -
  have group: "keeps I (update_nlb_group c lbName desired subnetCIDRs clientCIDRs ports entry)" for desired ports entry
    by (rule keeps_update_nlb_group [OF I]) (auto simp: nlb_rule_def)
  show ?thesis
    using I unfolding updateInstanceSecurityGroupsForNLB_def getTaggedSecurityGroups_def kept_by_rule_calls_def
    by (auto intro!: keeps_intros keeps_findSecurityGroup group split: option.splits)
qed

lemma keeps_buildSecurityGroupsToDelete:
  assumes "\<forall>ids fs. keeps I (DescribeSecurityGroups (c_ec2 c) ids fs)"
  shows "keeps I (buildSecurityGroupsToDelete c svc ids)"
  using assms unfolding buildSecurityGroupsToDelete_def to_delete_step_def isOwnedSecurityGroup_def Let_def
  by (auto intro!: keeps_intros split: list.split prod.split)

text \<open>C4: Updating the instances' groups for a network load balancer revokes only rules that carry the
  description of that load balancer or the path MTU description, on every path and also when it fails:
  whatever assertion survives those revocations (and reads and authorizations) survives the update.\<close>

theorem updateInstanceSecurityGroupsForNLB_revokes_own:
  assumes I: "kept_by_rule_calls I (c_ec2 c) (nlb_rule lbName)" and "I w"
  shows "I (snd (updateInstanceSecurityGroupsForNLB c lbName instances subnetCIDRs clientCIDRs portMappings w))"
  using keeps_updateInstanceSecurityGroupsForNLB [OF I] \<open>I w\<close> by (simp add: keeps_def)

text \<open>A concrete EC2 with one group, whose state is the rules of that group.\<close>

definition rules_client :: "ip_permission list ec2_client" where
  "rules_client = idle_client\<lparr>
     DescribeSecurityGroups := (\<lambda>ids fs w. (Inr [own_group\<lparr>sg_IpPermissions := w\<rparr>], w)),
     AuthorizeSecurityGroupIngress := (\<lambda>i ps w. (Inr (), w @ ps)),
     RevokeSecurityGroupIngress := (\<lambda>i ps w. (Inr (), filter (\<lambda>p. p \<notin> set ps) w))\<rparr>"

abbreviation rules_cloud :: "ip_permission list Cloud" where
  "rules_cloud \<equiv> sample_cloud\<lparr>c_ec2 := rules_client\<rparr>"

definition lb_rule :: "string \<Rightarrow> ip_permission" where
  "lb_rule lbName = cidr_permission ''tcp'' 30000 30000 ''10.0.0.0/8'' (NLBClientRuleDescription @ ''='' @ lbName) False"

theorem updateInstanceSecurityGroupsForNLB_revokes_own_witness:
  "lb_rule ''b'' \<in> set (snd (updateInstanceSecurityGroupsForNLB rules_cloud ''a'' [] [] [] []
     [lb_rule ''a'', lb_rule ''b'']))"
proof -
  let ?I = "\<lambda>w. lb_rule ''b'' \<in> set w"
  have "\<not> nlb_rule ''a'' (lb_rule ''b'')"
    by (simp add: nlb_rule_def lb_rule_def cidr_permission_def IPPermissionMatchDesc_def
        NLBClientRuleDescription_def NLBHealthCheckRuleDescription_def NLBMtuDiscoveryRuleDescription_def)
  then have "kept_by_rule_calls ?I rules_client (nlb_rule ''a'')"
    by (auto simp: kept_by_rule_calls_def keeps_def rules_client_def)
  then show ?thesis
    using updateInstanceSecurityGroupsForNLB_revokes_own [of ?I rules_cloud "''a''" "[lb_rule ''a'', lb_rule ''b'']"]
    by simp
qed

text \<open>A rule that admits an IPv6 range for each of two load balancers. EC2 groups the ranges of one port
  and protocol in this way, and \<^verbatim>\<open>Ungroup\<close> does not separate IPv6 ranges.\<close>

definition shared_ipv6_rule :: ip_permission where
  "shared_ipv6_rule = (cidr_permission ''tcp'' 30000 30000 '''' '''' True)\<lparr>perm_Ipv6Ranges := Some
     [\<lparr>range6_CidrIpv6 = Some ''2001:db8::/64'', range6_Description = Some (NLBClientRuleDescription @ ''=a'')\<rparr>,
      \<lparr>range6_CidrIpv6 = Some ''2001:db8:1::/64'', range6_Description = Some (NLBClientRuleDescription @ ''=b'')\<rparr>]\<rparr>"

text \<open>A defect of the update: removing the rules of load balancer \<^verbatim>\<open>a\<close> from a group whose rule for the
  port has IPv6 ranges of both \<^verbatim>\<open>a\<close> and \<^verbatim>\<open>b\<close> revokes the range of \<^verbatim>\<open>b\<close> as well, since the whole rule counts
  as a rule of \<^verbatim>\<open>a\<close>.\<close>

lemma updateInstanceSecurityGroupForNLBTraffic_shared_IPv6:
  "snd (updateInstanceSecurityGroupForNLBTraffic rules_cloud ''sg-own''
     (Ungroup (NewIPPermissionSet [shared_ipv6_rule])) (NLBClientRuleDescription @ ''=a'') ''tcp'' [] []
     [shared_ipv6_rule]) = []
   \<and> IPPermissionMatchDesc (NLBClientRuleDescription @ ''=b'') shared_ipv6_rule"
proof -
  let ?d = "NLBClientRuleDescription @ ''=a''"
  have sel: "select_permissions True [shared_ipv6_rule] [shared_ipv6_rule] = Inr [shared_ipv6_rule]"
    by (simp add: select_permissions_def ipPermissionExists_def shared_ipv6_rule_def cidr_permission_def)
  have un: "Ungroup (NewIPPermissionSet [shared_ipv6_rule]) = [(keyForIPPermission shared_ipv6_rule, shared_ipv6_rule)]"
    by (simp add: Ungroup_def ungroup_ranges_def ungroup_pairs_def ungroup_prefixes_def
        shared_ipv6_rule_def cidr_permission_def NewIPPermissionSet_def Insert_def List_def)
  have match: "IPPermissionMatchDesc ?d shared_ipv6_rule"
    by (simp add: IPPermissionMatchDesc_def shared_ipv6_rule_def)
  have "removeSecurityGroupIngress rules_cloud ''sg-own'' [shared_ipv6_rule] [shared_ipv6_rule] = (Inr True, [])"
    using sel by (simp add: removeSecurityGroupIngress_def findSecurityGroup_def rules_client_def run_simps
        sample_cloud_def sample_global_def)
  then show ?thesis
    unfolding un using match
    by (simp add: updateInstanceSecurityGroupForNLBTraffic_def apply_permissions_def run_simps Difference_def Let_def
        NewIPPermissionSet_def Insert_def List_def Len_def Delete_def DeleteIf_def IPPermissionNotMatch_def)
      (simp add: IPPermissionMatchDesc_def shared_ipv6_rule_def)
qed

end
