(* ===== verification/TargetGroups.thy ===== *)
theory TargetGroups
  imports SecurityGroups "HOL-Library.List_Lexorder" "HOL-Library.Char_ord"
begin

text \<open>
  Target groups of network load balancers (\<^verbatim>\<open>aws_loadbalancer.go\<close>, from \<^verbatim>\<open>reconcileTargetGroupsAttributes\<close>
  to \<^verbatim>\<open>chunkTargetDescriptions\<close>). The lemmas show that the targets of a group converge to the expected ones,
  that on the way no expected target is removed and no other one is added, also when a call fails, that
  a request never has more targets than the API takes, and that target group names are valid.
\<close>

section \<open>Attributes\<close>

text \<open>The attributes that change; \<^verbatim>\<open>range\<close> visits the annotated attributes in the order of the list.\<close>

definition buildTargetGroupAttributes ::
  "target_group option \<Rightarrow> attribute list option \<Rightarrow> (string, string) gomap \<Rightarrow> attribute list result" where
  "buildTargetGroupAttributes tg tgAttributes annotations =
     (case tg of
        None \<Rightarrow> Inl (Errorf ''%s: target group is nil'' [''error building target group attributes''])
      | Some _ \<Rightarrow> (case tgAttributes of
          None \<Rightarrow> Inl (Errorf ''%s: target group attributes are nil'' [''error building target group attributes''])
        | Some attrs \<Rightarrow>
            (let existing = mput_all (map (\<lambda>(k, v). (ToString k, ToString v)) attrs) [];
                 annotated = getKeyValuePropertiesFromAnnotation annotations
                   ServiceAnnotationLoadBalancerTargetGroupAttributes
             in Inr (map (\<lambda>(k, v). (Some k, Some v))
                  (filter (\<lambda>(k, v). mhas existing k \<and> v \<noteq> mstr existing k) annotated)))))"

definition ensureTargetGroupAttributes ::
  "'w Cloud \<Rightarrow> target_group option \<Rightarrow> (string, string) gomap \<Rightarrow> ('w, unit) aws" where
  "ensureTargetGroupAttributes c tg annotations = (case tg of
     None \<Rightarrow> throwM (Errorf ''unable to reconcile target group attributes: target group is required'' [])
   | Some g \<Rightarrow>
       bindM (wrapM (Wrapf ''unable to retrieve target group attributes during attribute sync: %w'' [])
                (nlb_DescribeTargetGroupAttributes (c_elbv2 c) (tg_TargetGroupArn g))) (\<lambda>tgAttributes.
       bindM (wrapM (Wrapf ''unable to build target group attributes: %w'' [])
                (liftM (buildTargetGroupAttributes tg tgAttributes annotations))) (\<lambda>desired.
         if desired = [] then returnM ()
         else wrapM (Wrapf ''unable to modify target group attributes during attribute sync: %w'' [])
                (nlb_ModifyTargetGroupAttributes (c_elbv2 c) (tg_TargetGroupArn g) desired))))"

text \<open>An error on one group does not keep the loop from the others.\<close>

definition reconcileTargetGroupsAttributes :: "'w Cloud \<Rightarrow> string \<Rightarrow> (string, string) gomap \<Rightarrow> ('w, unit) aws" where
  "reconcileTargetGroupsAttributes c lbARN annotations =
     (if length lbARN = 0 then
        throwM (Errorf ''error updating target groups attributes: load balancer ARN is empty'' [])
      else
        bindM (wrapM (Wrapf ''error updating target groups attributes from load balancer %q: %w'' [lbARN])
                 (nlb_DescribeTargetGroups (c_elbv2 c) (Some lbARN) [])) (\<lambda>groups.
        bindM (foldM (\<lambda>tg errs. tryM (ensureTargetGroupAttributes c (Some tg) annotations) (\<lambda>r. case r of
                   Inl err \<Rightarrow> returnM (errs @ [Wrapf ''error updating target group attributes for target group %q: %w''
                                [ToString (tg_TargetGroupArn tg)] err])
                 | Inr _ \<Rightarrow> returnM errs)) groups []) (\<lambda>errs.
          if errs = [] then returnM ()
          else throwM (Errorf ''one or more errors occurred while updating target group attributes: %v''
                         [Join (map Error errs) '' '']))))"

section \<open>Names\<close>

text \<open>The name is built from the hash of everything that cannot be changed on a target group.\<close>

definition buildTargetGroupName ::
  "'w Cloud \<Rightarrow> namespaced_name \<Rightarrow> int \<Rightarrow> int \<Rightarrow> string \<Rightarrow> string \<Rightarrow> nlbPortMapping \<Rightarrow> string \<Rightarrow> string" where
  "buildTargetGroupName c serviceName servicePort nodePort targetProtocol targetType mapping ipAddressType =
     (let tgUUID = c_sha1hex c (ClusterID (c_tagging c) @ nn_Namespace serviceName @ nn_Name serviceName
            @ Itoa servicePort @ Itoa nodePort @ targetProtocol @ targetType
            @ hcc_Protocol (pm_HealthCheckConfig mapping) @ Itoa (hcc_Interval (pm_HealthCheckConfig mapping))
            @ ipAddressType);
          sanitizedNamespace = filter is_alnum (nn_Namespace serviceName);
          sanitizedServiceName = filter is_alnum (nn_Name serviceName)
      in ''k8s-'' @ take 8 sanitizedNamespace @ ''-'' @ take 8 sanitizedServiceName @ ''-'' @ take 10 tgUUID)"

section \<open>Targets\<close>

definition defaultRegisterTargetsChunkSize :: nat where
  "defaultRegisterTargetsChunkSize = 100"

definition defaultDeregisterTargetsChunkSize :: nat where
  "defaultDeregisterTargetsChunkSize = 100"

definition computeTargetGroupExpectedTargets :: "string list \<Rightarrow> int \<Rightarrow> target_description list" where
  "computeTargetGroupExpectedTargets instanceIDs port =
     map (\<lambda>i. \<lparr>target_Id = Some i, target_Port = Some port\<rparr>) instanceIDs"

definition obtainTargetGroupActualTargets :: "'w Cloud \<Rightarrow> string \<Rightarrow> ('w, target_description list) aws" where
  "obtainTargetGroupActualTargets c tgARN =
     bindM (wrapM (\<lambda>err. Errorf ''error describing target group health: %q'' [Error err])
              (nlb_DescribeTargetHealth (c_elbv2 c) tgARN))
       (\<lambda>descs. returnM (map th_Target (filter (\<lambda>d. th_Reason d \<noteq> ''Target.DeregistrationInProgress'') descs)))"

definition targetUID :: "target_description \<Rightarrow> string" where
  "targetUID t = ToString (target_Id t) @ '':'' @ Itoa (ToInt32 (target_Port t))"

definition targets_by_uid :: "target_description list \<Rightarrow> (string, target_description) gomap" where
  "targets_by_uid ts = mput_all (map (\<lambda>t. (targetUID t, t)) ts) []"

text \<open>The entries of the first map whose key is not in the second one, in the order of the keys.\<close>

definition only_in :: "(string, target_description) gomap \<Rightarrow> (string, target_description) gomap \<Rightarrow> target_description list" where
  "only_in m n = map (\<lambda>uid. the (map_of m uid)) (sort (filter (\<lambda>uid. \<not> mhas n uid) (mkeys m)))"

definition diffTargetGroupTargets ::
  "target_description list \<Rightarrow> target_description list \<Rightarrow> target_description list \<times> target_description list" where
  "diffTargetGroupTargets expectedTargets actualTargets =
     (let expected = targets_by_uid expectedTargets; actual = targets_by_uid actualTargets
      in (only_in expected actual, only_in actual expected))"

definition chunkTargetDescriptions :: "target_description list \<Rightarrow> nat \<Rightarrow> target_description list list" where
  "chunkTargetDescriptions targets chunkSize = chunks chunkSize targets"

definition ensureTargetGroupTargets ::
  "'w Cloud \<Rightarrow> string \<Rightarrow> target_description list \<Rightarrow> target_description list \<Rightarrow> ('w, unit) aws" where
  "ensureTargetGroupTargets c tgARN expectedTargets actualTargets =
     (let (targetsToRegister, targetsToDeregister) = diffTargetGroupTargets expectedTargets actualTargets in
      bindM (forM (\<lambda>chunk. wrapM (\<lambda>err. Errorf ''error trying to deregister targets in target group: %q'' [Error err])
                     (nlb_DeregisterTargets (c_elbv2 c) tgARN chunk))
               (chunkTargetDescriptions targetsToDeregister defaultDeregisterTargetsChunkSize))
        (\<lambda>_. forM (\<lambda>chunk. wrapM (\<lambda>err. Errorf ''error trying to register targets in target group: %q'' [Error err])
                     (nlb_RegisterTargets (c_elbv2 c) tgARN chunk))
               (chunkTargetDescriptions targetsToRegister defaultRegisterTargetsChunkSize)))"

section \<open>Target groups\<close>

definition elb_tags :: "(string, string) gomap \<Rightarrow> ec2_tag list" where
  "elb_tags tags = map (\<lambda>(k, v). \<lparr>tag_Key = Some k, tag_Value = Some v\<rparr>) tags"

text \<open>The request that creates the target group of a port.\<close>

definition create_target_group_input ::
  "'w Cloud \<Rightarrow> namespaced_name \<Rightarrow> nlbPortMapping \<Rightarrow> string \<Rightarrow> (string, string) gomap \<Rightarrow> string \<Rightarrow> create_tg_input" where
  "create_target_group_input c serviceName mapping vpcID tags ipAddressType =
     (let hcc = pm_HealthCheckConfig mapping in
      \<lparr>ctg_VpcId = vpcID,
       ctg_Name = buildTargetGroupName c serviceName (pm_FrontendPort mapping) (pm_TrafficPort mapping)
         (pm_TrafficProtocol mapping) ''instance'' mapping ipAddressType,
       ctg_Port = pm_TrafficPort mapping, ctg_Protocol = pm_TrafficProtocol mapping, ctg_TargetType = ''instance'',
       ctg_IpAddressType = ipAddressType, ctg_HealthCheckIntervalSeconds = hcc_Interval hcc,
       ctg_HealthCheckPort = hcc_Port hcc, ctg_HealthCheckProtocol = hcc_Protocol hcc,
       ctg_HealthyThresholdCount = hcc_HealthyThreshold hcc, ctg_UnhealthyThresholdCount = hcc_UnhealthyThreshold hcc,
       ctg_HealthCheckPath = (if hcc_Protocol hcc \<noteq> ''TCP'' then Some (hcc_Path hcc) else None),
       ctg_Tags = elb_tags tags\<rparr>)"

text \<open>The change of the health check of an existing target group, if there is one. The path is compared with
  the path of the request, which is never set, and not with the path of the target group.\<close>

definition health_check_change :: "target_group \<Rightarrow> healthCheckConfig \<Rightarrow> modify_tg_input option" where
  "health_check_change targetGroup hcc =
     (let portChanged = hcc_Port hcc \<noteq> ToString (tg_HealthCheckPort targetGroup);
          thresholdChanged = hcc_HealthyThreshold hcc \<noteq> ToInt32 (tg_HealthyThresholdCount targetGroup);
          pathChanged = (\<not> EqualFold (hcc_Protocol hcc) ''TCP'' \<and> hcc_Path hcc \<noteq> ToString None)
      in if portChanged \<or> thresholdChanged \<or> pathChanged then
           Some \<lparr>mtg_TargetGroupArn = tg_TargetGroupArn targetGroup,
             mtg_HealthCheckPort = (if portChanged then Some (hcc_Port hcc) else None),
             mtg_HealthyThresholdCount = (if thresholdChanged then Some (hcc_HealthyThreshold hcc) else None),
             mtg_UnhealthyThresholdCount = (if thresholdChanged then Some (hcc_UnhealthyThreshold hcc) else None),
             mtg_HealthCheckPath = (if pathChanged then Some (hcc_Path hcc) else None)\<rparr>
         else None)"

definition ensureTargetGroup ::
  "'w Cloud \<Rightarrow> target_group option \<Rightarrow> namespaced_name \<Rightarrow> nlbPortMapping \<Rightarrow> string list \<Rightarrow> string
     \<Rightarrow> (string, string) gomap \<Rightarrow> string \<Rightarrow> ('w, target_group) aws" where
  "ensureTargetGroup c targetGroup serviceName mapping instanceIDs vpcID tags ipAddressType =
     (let expectedTargets = computeTargetGroupExpectedTargets instanceIDs (pm_TrafficPort mapping) in
      case targetGroup of
        None \<Rightarrow>
          bindM (wrapM (\<lambda>err. Errorf ''error creating load balancer target group: %q'' [Error err])
                   (nlb_CreateTargetGroup (c_elbv2 c)
                      (create_target_group_input c serviceName mapping vpcID tags ipAddressType)))
            (\<lambda>groups. case groups of
               [tg] \<Rightarrow> bindM (ensureTargetGroupTargets c (ToString (tg_TargetGroupArn tg)) expectedTargets [])
                          (\<lambda>_. returnM tg)
             | _ \<Rightarrow> throwM (Errorf ''expected only one target group on CreateTargetGroup, got %d groups''
                        [Itoa (int (length groups))]))
      | Some tg \<Rightarrow>
          bindM (obtainTargetGroupActualTargets c (ToString (tg_TargetGroupArn tg))) (\<lambda>actualTargets.
          bindM (ensureTargetGroupTargets c (ToString (tg_TargetGroupArn tg)) expectedTargets actualTargets) (\<lambda>_.
          case health_check_change tg (pm_HealthCheckConfig mapping) of
            None \<Rightarrow> returnM tg
          | Some inp \<Rightarrow>
              bindM (wrapM (\<lambda>err. Errorf ''error modifying target group health check: %q'' [Error err])
                       (nlb_ModifyTargetGroup (c_elbv2 c) inp)) (\<lambda>_.
              bindM (wrapM (\<lambda>err. Errorf ''error retrieving target group after creation/update: %q'' [Error err])
                       (nlb_DescribeTargetGroups (c_elbv2 c) None [ToString (tg_TargetGroupArn tg)])) (\<lambda>groups.
                case groups of [] \<Rightarrow> throwM (Panic ''index out of range'') | g # _ \<Rightarrow> returnM g)))))"

section \<open>The targets of a group converge\<close>

text \<open>A loop of calls each of which either changes a measured part of the world or fails and leaves it:
  the first \<open>k\<close> calls took effect, and all of them when the loop succeeds.\<close>

lemma forM_effect:
  assumes "\<And>x w. x \<in> set xs \<Longrightarrow> \<exists>r w'. f x w = (r, w') \<and> st w' = (case r of Inl _ \<Rightarrow> st w | Inr _ \<Rightarrow> upd x (st w))"
  shows "\<exists>r w' k. forM f xs w = (r, w') \<and> st w' = fold upd (take k xs) (st w) \<and> (r = Inr () \<longrightarrow> k = length xs)"
  using assms
proof (induction xs arbitrary: w)
  case Nil
  show ?case by (simp add: returnM_run)
next
  case (Cons x xs)
  obtain r w1 where r: "f x w = (r, w1)" "st w1 = (case r of Inl _ \<Rightarrow> st w | Inr _ \<Rightarrow> upd x (st w))"
    using Cons.prems by (meson list.set_intros(1))
  show ?case
  proof (cases r)
    case (Inl e)
    with r show ?thesis by (intro exI [of _ "Inl e"] exI [of _ w1] exI [of _ 0]) (simp add: bindM_run)
  next
    case (Inr u)
    obtain r' w' k where "forM f xs w1 = (r', w')" "st w' = fold upd (take k xs) (st w1)" "r' = Inr () \<longrightarrow> k = length xs"
      using Cons.IH [of w1] Cons.prems by (metis list.set_intros(2))
    with r Inr show ?thesis by (intro exI [of _ r'] exI [of _ w'] exI [of _ "Suc k"]) (simp add: bindM_run)
  qed
qed

lemma forM_succeeds: "(\<And>x w. x \<in> set xs \<Longrightarrow> fst (f x w) = Inr ()) \<Longrightarrow> fst (forM f xs w) = Inr ()"
  by (induction xs arbitrary: w) (auto simp: run_simps split: prod.splits sum.splits, (metis fst_conv sum.distinct(1))+)

lemma wrapM_effect:
  assumes "\<exists>r w'. m w = (r, w') \<and> st w' = (case r of Inl _ \<Rightarrow> a | Inr _ \<Rightarrow> b)"
  shows "\<exists>r w'. wrapM g m w = (r, w') \<and> st w' = (case r of Inl _ \<Rightarrow> a | Inr _ \<Rightarrow> b)"
proof -
  obtain r w' where "m w = (r, w')" "st w' = (case r of Inl _ \<Rightarrow> a | Inr _ \<Rightarrow> b)"
    using assms by blast
  then show ?thesis by (cases r) (simp_all add: wrapM_run)
qed

lemma fst_wrapM: "fst (m w) = Inr y \<Longrightarrow> fst (wrapM g m w) = Inr y"
  by (cases "m w") (simp add: wrapM_run)

lemma fold_union: "fold (\<lambda>x S. S \<union> g x) xs S = S \<union> (\<Union>x \<in> set xs. g x)"
  by (induction xs arbitrary: S) auto

lemma fold_diff: "fold (\<lambda>x S. S - g x) xs S = S - (\<Union>x \<in> set xs. g x)"
  by (induction xs arbitrary: S) auto

text \<open>What a target is to the API: an id and a port.\<close>

definition target_key :: "target_description \<Rightarrow> string \<times> int" where
  "target_key t = (ToString (target_Id t), ToInt32 (target_Port t))"

text \<open>The text that names a target in the maps identifies it, because a port has no colon.\<close>

lemma targetUID_eq_iff: "targetUID t = targetUID u \<longleftrightarrow> target_key t = target_key u"
proof
  assume eq: "targetUID t = targetUID u"
  have colon: "CHR '':'' \<notin> set (Itoa n)" for n
    using Itoa_chars [of "CHR '':''" n] by (auto simp: is_digit_def)
  have split: "length (takeWhile (\<lambda>ch. ch \<noteq> CHR '':'') (rev (targetUID v))) = length (Itoa (ToInt32 (target_Port v)))" for v
    using colon [of "ToInt32 (target_Port v)"] by (simp add: targetUID_def) (subst takeWhile_append2, auto)
  from eq split [of t] split [of u] have "length (Itoa (ToInt32 (target_Port t))) = length (Itoa (ToInt32 (target_Port u)))"
    by simp
  with eq show "target_key t = target_key u"
    by (auto simp: targetUID_def target_key_def dest: Itoa_inj)
qed (simp add: targetUID_def target_key_def)

lemma targets_by_uid_lookup:
  "map_of (targets_by_uid ts) uid = Some t \<Longrightarrow> t \<in> set ts \<and> targetUID t = uid"
  by (auto simp: targets_by_uid_def map_of_mput_all dest!: map_of_SomeD)

lemma targets_by_uid_keys: "set (mkeys (targets_by_uid ts)) = targetUID ` set ts"
  by (simp add: targets_by_uid_def mkeys_mput_all image_image del: set_map)
    (auto simp: image_iff)

lemma only_in_keys:
  "target_key ` set (only_in (targets_by_uid es) (targets_by_uid as)) = target_key ` set es - target_key ` set as"
proof -
  have lookup: "\<exists>t \<in> set es. map_of (targets_by_uid es) uid = Some t \<and> targetUID t = uid"
    if "uid \<in> targetUID ` set es" for uid
    using that targets_by_uid_lookup [of es uid] targets_by_uid_keys [of es] mhas_iff [of "targets_by_uid es" uid]
    by (auto simp: mhas_def)
  have "target_key ` set (only_in (targets_by_uid es) (targets_by_uid as))
      = (\<lambda>uid. target_key (the (map_of (targets_by_uid es) uid))) ` (targetUID ` set es - targetUID ` set as)"
    unfolding only_in_def by (simp add: image_image mhas_iff targets_by_uid_keys [simplified] set_diff_eq)
  also have "\<dots> = target_key ` set es - target_key ` set as"
  proof (intro set_eqI iffI)
    fix k assume "k \<in> (\<lambda>uid. target_key (the (map_of (targets_by_uid es) uid))) ` (targetUID ` set es - targetUID ` set as)"
    then obtain uid where uid: "uid \<in> targetUID ` set es" "uid \<notin> targetUID ` set as"
      "k = target_key (the (map_of (targets_by_uid es) uid))" by auto
    with lookup [OF uid(1)] show "k \<in> target_key ` set es - target_key ` set as"
      by (auto simp: targetUID_eq_iff image_iff)
  next
    fix k assume "k \<in> target_key ` set es - target_key ` set as"
    then obtain t where t: "t \<in> set es" "k = target_key t" "k \<notin> target_key ` set as" by auto
    then have uid: "targetUID t \<in> targetUID ` set es" "targetUID t \<notin> targetUID ` set as"
      by (auto simp: targetUID_eq_iff)
    with lookup [OF uid(1)] t(2) show
      "k \<in> (\<lambda>uid. target_key (the (map_of (targets_by_uid es) uid))) ` (targetUID ` set es - targetUID ` set as)"
      by (intro image_eqI [of _ _ "targetUID t"]) (auto simp: targetUID_eq_iff)
  qed
  finally show ?thesis .
qed

text \<open>What ELBv2 documents of the targets of the group \<open>arn\<close>, which \<open>registered\<close> reads: a call registers or
  deregisters the targets it names, or fails and changes none. A request may be limited to 100 targets and
  must have one.\<close>

definition target_api :: "'w elbv2_client \<Rightarrow> string \<Rightarrow> ('w \<Rightarrow> (string \<times> int) set) \<Rightarrow> bool" where
  "target_api api arn registered \<longleftrightarrow>
     (\<forall>w ts. \<exists>r w'. nlb_RegisterTargets api arn ts w = (r, w')
        \<and> registered w' = (case r of Inl _ \<Rightarrow> registered w | Inr _ \<Rightarrow> registered w \<union> target_key ` set ts))
     \<and> (\<forall>w ts. \<exists>r w'. nlb_DeregisterTargets api arn ts w = (r, w')
        \<and> registered w' = (case r of Inl _ \<Rightarrow> registered w | Inr _ \<Rightarrow> registered w - target_key ` set ts))"

definition accepts_requests :: "'w elbv2_client \<Rightarrow> string \<Rightarrow> bool" where
  "accepts_requests api arn \<longleftrightarrow> (\<forall>w ts. 0 < length ts \<and> length ts \<le> 100 \<longrightarrow>
     fst (nlb_RegisterTargets api arn ts w) = Inr () \<and> fst (nlb_DeregisterTargets api arn ts w) = Inr ())"

text \<open>The request bodies of one direction: together all targets, each of a size the API takes.\<close>

lemma chunkTargetDescriptions_parts:
  "(\<Union>ts \<in> set (chunkTargetDescriptions targets 100). target_key ` set ts) = target_key ` set targets"
  "ts \<in> set (chunkTargetDescriptions targets 100) \<Longrightarrow> 0 < length ts \<and> length ts \<le> 100"
  "(\<Union>ts \<in> set (take k (chunkTargetDescriptions targets 100)). target_key ` set ts) \<subseteq> target_key ` set targets"
proof -
  have "set targets = (\<Union>ts \<in> set (chunkTargetDescriptions targets 100). set ts)"
    using concat_chunks [of 100 targets] by (metis chunkTargetDescriptions_def set_concat zero_less_numeral)
  then show all: "(\<Union>ts \<in> set (chunkTargetDescriptions targets 100). target_key ` set ts) = target_key ` set targets"
    by (simp add: image_UN)
  show "ts \<in> set (chunkTargetDescriptions targets 100) \<Longrightarrow> 0 < length ts \<and> length ts \<le> 100"
    using chunks_size [of ts 100 targets] by (simp add: chunkTargetDescriptions_def)
  show "(\<Union>ts \<in> set (take k (chunkTargetDescriptions targets 100)). target_key ` set ts) \<subseteq> target_key ` set targets"
    using set_take_subset [of k "chunkTargetDescriptions targets 100"] by (subst all [symmetric]) blast
qed

text \<open>C29: Convergence of targets. When the group has the targets the provider was told, \<^verbatim>\<open>ensureTargetGroupTargets\<close>
  succeeds only with exactly the expected targets registered; if it fails half way, no expected target has
  been removed and no target that is neither expected nor old has been added; with the right targets it
  makes no call; and it cannot fail when the API takes every request of 1 to 100 targets.\<close>

theorem ensureTargetGroupTargets_converges:
  assumes api: "target_api (c_elbv2 c) arn registered" and actual: "registered w = target_key ` set actualTargets"
  shows "\<exists>r w'. ensureTargetGroupTargets c arn expectedTargets actualTargets w = (r, w')
     \<and> target_key ` set actualTargets \<inter> target_key ` set expectedTargets \<subseteq> registered w'
     \<and> registered w' \<subseteq> target_key ` set actualTargets \<union> target_key ` set expectedTargets
     \<and> (r = Inr () \<longrightarrow> registered w' = target_key ` set expectedTargets)
     \<and> (target_key ` set actualTargets = target_key ` set expectedTargets \<longrightarrow> r = Inr () \<and> w' = w)
     \<and> (accepts_requests (c_elbv2 c) arn \<longrightarrow> r = Inr ())"
proof -
  let ?A = "target_key ` set actualTargets" and ?E = "target_key ` set expectedTargets"
  let ?add = "only_in (targets_by_uid expectedTargets) (targets_by_uid actualTargets)"
  let ?del = "only_in (targets_by_uid actualTargets) (targets_by_uid expectedTargets)"
  let ?D = "\<lambda>chunk. wrapM (\<lambda>err. Errorf ''error trying to deregister targets in target group: %q'' [Error err])
                     (nlb_DeregisterTargets (c_elbv2 c) arn chunk)"
  let ?R = "\<lambda>chunk. wrapM (\<lambda>err. Errorf ''error trying to register targets in target group: %q'' [Error err])
                     (nlb_RegisterTargets (c_elbv2 c) arn chunk)"
  note keys = only_in_keys [of expectedTargets actualTargets] only_in_keys [of actualTargets expectedTargets]
  have run: "ensureTargetGroupTargets c arn expectedTargets actualTargets
      = bindM (forM ?D (chunkTargetDescriptions ?del 100)) (\<lambda>_. forM ?R (chunkTargetDescriptions ?add 100))"
    by (simp add: ensureTargetGroupTargets_def diffTargetGroupTargets_def Let_def
        defaultDeregisterTargetsChunkSize_def defaultRegisterTargetsChunkSize_def)
  have d: "\<exists>r w'. ?D ts w = (r, w') \<and> registered w' = (case r of Inl _ \<Rightarrow> registered w | Inr _ \<Rightarrow> registered w - target_key ` set ts)"
    and r: "\<exists>r w'. ?R ts w = (r, w') \<and> registered w' = (case r of Inl _ \<Rightarrow> registered w | Inr _ \<Rightarrow> registered w \<union> target_key ` set ts)" for ts w
    using api unfolding target_api_def by (intro wrapM_effect; blast)+
  obtain r1 w1 k where one: "forM ?D (chunkTargetDescriptions ?del 100) w = (r1, w1)"
    "registered w1 = ?A - (\<Union>ts \<in> set (take k (chunkTargetDescriptions ?del 100)). target_key ` set ts)"
    "r1 = Inr () \<longrightarrow> k = length (chunkTargetDescriptions ?del 100)"
    using forM_effect [of "chunkTargetDescriptions ?del 100" ?D registered "\<lambda>ts S. S - target_key ` set ts" w] d
    unfolding fold_diff actual by blast
  obtain r2 w2 j where two: "forM ?R (chunkTargetDescriptions ?add 100) w1 = (r2, w2)"
    "registered w2 = registered w1 \<union> (\<Union>ts \<in> set (take j (chunkTargetDescriptions ?add 100)). target_key ` set ts)"
    "r2 = Inr () \<longrightarrow> j = length (chunkTargetDescriptions ?add 100)"
    using forM_effect [of "chunkTargetDescriptions ?add 100" ?R registered "\<lambda>ts S. S \<union> target_key ` set ts" w1] r
    unfolding fold_union by blast
  have lim: "fst (forM ?D (chunkTargetDescriptions ?del 100) w) = Inr ()" "fst (forM ?R (chunkTargetDescriptions ?add 100) w1) = Inr ()"
    if "accepts_requests (c_elbv2 c) arn"
    using that chunkTargetDescriptions_parts(2) unfolding accepts_requests_def by (intro forM_succeeds fst_wrapM; blast)+
  have ok: "r1 = Inr ()" "r2 = Inr ()" if "accepts_requests (c_elbv2 c) arn"
    using lim [OF that] one(1) two(1) by simp_all
  have same: "r1 = Inr ()" "w1 = w" "r2 = Inr ()" "w2 = w1" if "?A = ?E"
  proof -
    have "?del = []" "?add = []" using keys that by auto
    with one(1) two(1) show "r1 = Inr ()" "w1 = w" "r2 = Inr ()" "w2 = w1"
      by (simp_all add: chunkTargetDescriptions_def returnM_run)
  qed
  define U V where "U = (\<Union>ts \<in> set (take k (chunkTargetDescriptions ?del 100)). target_key ` set ts)"
    and "V = (\<Union>ts \<in> set (take j (chunkTargetDescriptions ?add 100)). target_key ` set ts)"
  have U: "U \<subseteq> ?A - ?E" "r1 = Inr () \<longrightarrow> U = ?A - ?E"
    unfolding U_def keys [symmetric] using chunkTargetDescriptions_parts(1,3) [where targets = ?del] one(3) by simp_all
  have V: "V \<subseteq> ?E - ?A" "r2 = Inr () \<longrightarrow> V = ?E - ?A"
    unfolding V_def keys [symmetric] using chunkTargetDescriptions_parts(1,3) [where targets = ?add] two(3) by simp_all
  have w1: "registered w1 = ?A - U" and w2: "registered w2 = ?A - U \<union> V"
    using one(2) two(2) by (simp_all add: U_def V_def)
  show ?thesis
  proof (cases r1)
    case (Inl e)
    have "?A \<inter> ?E \<subseteq> registered w1" "registered w1 \<subseteq> ?A \<union> ?E" using w1 U(1) by blast+
    moreover have "?A \<noteq> ?E" "\<not> accepts_requests (c_elbv2 c) arn" using ok same Inl by auto
    ultimately show ?thesis using one(1) run Inl by (simp add: bindM_run)
  next
    case (Inr u)
    have "registered w2 = (?A \<inter> ?E) \<union> V" using w2 U(2) Inr by (simp add: Diff_Diff_Int)
    then have "?A \<inter> ?E \<subseteq> registered w2" "registered w2 \<subseteq> ?A \<union> ?E" "r2 = Inr () \<longrightarrow> registered w2 = ?E"
      using V by blast+
    moreover have "accepts_requests (c_elbv2 c) arn \<longrightarrow> r2 = Inr ()" "?A = ?E \<longrightarrow> r2 = Inr () \<and> w2 = w"
      using ok same by auto
    ultimately show ?thesis using one(1) two(1) run Inr by (simp add: bindM_run)
  qed
qed

definition targets_cloud :: "(string \<times> int) set Cloud" where
  "targets_cloud = sample_cloud\<lparr>c_elbv2 := idle_elbv2\<lparr>
     nlb_RegisterTargets := (\<lambda>_ ts w. (Inr (), w \<union> target_key ` set ts)),
     nlb_DeregisterTargets := (\<lambda>_ ts w. (Inr (), w - target_key ` set ts))\<rparr>\<rparr>"

theorem ensureTargetGroupTargets_converges_witness:
  "ensureTargetGroupTargets targets_cloud ''tg'' (computeTargetGroupExpectedTargets [''i-1'', ''i-2''] 80)
     (computeTargetGroupExpectedTargets [''i-0'', ''i-1''] 80) {(''i-0'', 80), (''i-1'', 80)}
   = (Inr (), {(''i-1'', 80), (''i-2'', 80)})"
proof -
  have "target_api (c_elbv2 targets_cloud) ''tg'' (\<lambda>w. w)"
    by (auto simp: target_api_def targets_cloud_def)
  moreover have "accepts_requests (c_elbv2 targets_cloud) ''tg''"
    by (auto simp: accepts_requests_def targets_cloud_def)
  ultimately show ?thesis
    using ensureTargetGroupTargets_converges [of targets_cloud "''tg''" "\<lambda>w. w" "{(''i-0'', 80), (''i-1'', 80)}"
        "computeTargetGroupExpectedTargets [''i-0'', ''i-1''] 80" "computeTargetGroupExpectedTargets [''i-1'', ''i-2''] 80"]
    by (auto simp: computeTargetGroupExpectedTargets_def target_key_def)
qed

section \<open>Target group names\<close>

text \<open>The rules of ELBv2 for the name of a target group: at most 32 letters, digits and hyphens, no hyphen at
  either end.\<close>

definition valid_target_group_name :: "string \<Rightarrow> bool" where
  "valid_target_group_name s \<longleftrightarrow> length s \<le> 32 \<and> list_all (\<lambda>ch. is_alnum ch \<or> ch = CHR ''-'') s
     \<and> s \<noteq> [] \<and> hd s \<noteq> CHR ''-'' \<and> last s \<noteq> CHR ''-''"

text \<open>C39: Whatever the service is called, the name of its target group is valid. A hexadecimal digest is
  assumed to be a non-empty string of letters and digits.\<close>

theorem buildTargetGroupName_valid:
  assumes "\<forall>x. c_sha1hex c x \<noteq> [] \<and> list_all is_alnum (c_sha1hex c x)"
  shows "valid_target_group_name (buildTargetGroupName c serviceName servicePort nodePort targetProtocol targetType
           mapping ipAddressType)"
proof -
  have part: "list_all (\<lambda>ch. is_alnum ch \<or> ch = CHR ''-'') (take n (filter is_alnum s))" for n s
    by (auto simp: list_all_iff dest: in_set_takeD)
  have hash: "list_all (\<lambda>ch. is_alnum ch \<or> ch = CHR ''-'') (take 10 (c_sha1hex c x))"
    "take 10 (c_sha1hex c x) \<noteq> []" "last (take 10 (c_sha1hex c x)) \<noteq> CHR ''-''" for x
  proof -
    have all: "list_all is_alnum (take 10 (c_sha1hex c x))" and "take 10 (c_sha1hex c x) \<noteq> []"
      using assms by (auto simp: list_all_iff dest: in_set_takeD)
    then have "is_alnum (last (take 10 (c_sha1hex c x)))"
      by (metis last_in_set list_all_iff)
    moreover have "\<not> is_alnum (CHR ''-'')"
      by (simp add: is_alnum_def is_alpha_def is_upper_def is_lower_def is_digit_def)
    ultimately show "last (take 10 (c_sha1hex c x)) \<noteq> CHR ''-''" by metis
    show "list_all (\<lambda>ch. is_alnum ch \<or> ch = CHR ''-'') (take 10 (c_sha1hex c x))"
      using all by (simp add: list_all_iff)
  qed (use assms in simp)
  show ?thesis
    using part hash unfolding valid_target_group_name_def buildTargetGroupName_def Let_def
    by (simp add: is_alnum_def is_alpha_def is_upper_def is_lower_def is_digit_def)
qed

abbreviation tcp_mapping :: nlbPortMapping where
  "tcp_mapping \<equiv> \<lparr>pm_FrontendPort = 80, pm_FrontendProtocol = ''TCP'', pm_TrafficPort = 30080, pm_TrafficProtocol = ''TCP'',
     pm_SSLCertificateARN = '''', pm_SSLPolicy = '''', pm_ALPNPolicy = '''',
     pm_HealthCheckConfig = \<lparr>hcc_Port = ''traffic-port'', hcc_Path = '''', hcc_Protocol = ''TCP'', hcc_Interval = 30,
       hcc_Timeout = 10, hcc_HealthyThreshold = 3, hcc_UnhealthyThreshold = 3\<rparr>\<rparr>"

theorem buildTargetGroupName_valid_witness:
  "valid_target_group_name (buildTargetGroupName (sample_cloud\<lparr>c_sha1hex := (\<lambda>_. ''da39a3ee5e6b4b0d'')\<rparr> :: unit Cloud)
     \<lparr>nn_Namespace = ''kube-system'', nn_Name = ''my_service''\<rparr> 80 30080 ''TCP'' ''instance'' tcp_mapping ''ipv4'')"
  by (rule buildTargetGroupName_valid)
    (simp add: is_alnum_def is_alpha_def is_upper_def is_lower_def is_digit_def)

section \<open>Health checks of existing target groups\<close>

text \<open>A health check that is only changed in its unhealthy threshold, its protocol or its interval is not updated,
  and one over HTTP is updated on every call.\<close>

lemma health_check_change_None:
  "health_check_change tg hcc = None \<longleftrightarrow>
     hcc_Port hcc = ToString (tg_HealthCheckPort tg) \<and> hcc_HealthyThreshold hcc = ToInt32 (tg_HealthyThresholdCount tg)
     \<and> (EqualFold (hcc_Protocol hcc) ''TCP'' \<or> hcc_Path hcc = '''')"
  by (auto simp: health_check_change_def Let_def)

end
