(* ===== verification/InstanceIDs.thy ===== *)
theory InstanceIDs
  imports Cloud Url
begin

text \<open>
  Names of instances: the provider id of a node (\<^verbatim>\<open>instances.go\<close>), and node variants
  (\<^verbatim>\<open>variant/variant.go\<close>, \<^verbatim>\<open>variant/fargate/fargate.go\<close>). The lemmas show that the id written by
  \<^verbatim>\<open>InstanceID\<close> is read back, which strings are accepted, and that nothing else is.
\<close>

section \<open>Fargate nodes\<close>

definition fargateNodeNamePrefix :: string where
  "fargateNodeNamePrefix = ''fargate-''"

definition privateDNSNamePrefix :: string where
  "privateDNSNamePrefix = ''ip-''"

definition fargate_IsSupportedNode :: "string \<Rightarrow> bool" where
  "fargate_IsSupportedNode nodeName = HasPrefix nodeName fargateNodeNamePrefix"

definition nodeNameToIPAddress :: "string \<Rightarrow> string" where
  "nodeNameToIPAddress nodeName =
     map (\<lambda>c. if c = CHR ''-'' then CHR ''.'' else c) (hd (Split (CHR ''.'') (TrimPrefix nodeName privateDNSNamePrefix)))"

type_synonym node_address = "string \<times> string"

definition getNodeAddressesForFargateNode :: "string \<Rightarrow> string \<Rightarrow> node_address list" where
  "getNodeAddressesForFargateNode privateDNSName privateIP =
     (''InternalIP'', privateIP) # (if privateDNSName \<noteq> '''' then [(''InternalDNS'', privateDNSName)] else [])"

definition fargate_DescribeNetworkInterfaces ::
  "'w ec2_client \<Rightarrow> string \<Rightarrow> string \<Rightarrow> ('w, network_interface option) aws" where
  "fargate_DescribeNetworkInterfaces ec2API instanceID vpcID =
     (let eniEndpoint = TrimPrefix instanceID fargateNodeNamePrefix;
          eniEndpoint = (if HasPrefix eniEndpoint privateDNSNamePrefix then nodeNameToIPAddress eniEndpoint else eniEndpoint)
      in bindM (DescribeNetworkInterfaces ec2API
                  [newEc2Filter ''attachment.status'' [''attached''], newEc2Filter ''vpc-id'' [vpcID],
                   newEc2Filter ''private-ip-address'' [eniEndpoint]])
           (\<lambda>enis. case enis of
              [] \<Rightarrow> returnM None
            | [eni] \<Rightarrow> returnM (Some eni)
            | _ \<Rightarrow> throwM (Errorf ''multiple interfaces found with same id'' [])))"

text \<open>\<^verbatim>\<open>cloudprovider.Zone\<close>.\<close>

record zone =
  FailureDomain :: string
  zone_Region :: string

definition no_zone :: zone where
  "no_zone = \<lparr>FailureDomain = '''', zone_Region = ''''\<rparr>"

definition fargate_GetZone :: "'w ec2_client \<Rightarrow> string \<Rightarrow> string \<Rightarrow> string \<Rightarrow> ('w, zone) aws" where
  "fargate_GetZone ec2API instanceID vpcID region =
     bindM (fargate_DescribeNetworkInterfaces ec2API instanceID vpcID) (\<lambda>eni. case eni of
       None \<Rightarrow> returnM no_zone
     | Some eni \<Rightarrow> (case eni_AvailabilityZone eni of
         None \<Rightarrow> throwM (Panic ''nil pointer dereference'')
       | Some az \<Rightarrow> returnM \<lparr>FailureDomain = az, zone_Region = region\<rparr>))"

definition fargate_NodeAddresses ::
  "string list \<Rightarrow> 'w ec2_client \<Rightarrow> string \<Rightarrow> string \<Rightarrow> ('w, node_address list) aws" where
  "fargate_NodeAddresses nodeIPFamilies ec2API instanceID vpcID =
     bindM (fargate_DescribeNetworkInterfaces ec2API instanceID vpcID) (\<lambda>eni. case eni of
       None \<Rightarrow> returnM []
     | Some eni \<Rightarrow> returnM (concat (map (\<lambda>family.
         if family = ''ipv4'' then
           getNodeAddressesForFargateNode (ToString (eni_PrivateDnsName eni)) (ToString (eni_PrivateIpAddress eni))
         else if family = ''ipv6'' \<and> eni_Ipv6Addresses eni \<noteq> [] then
           getNodeAddressesForFargateNode (ToString (eni_PrivateDnsName eni)) (ToString (hd (eni_Ipv6Addresses eni)))
         else []) nodeIPFamilies)))"

definition fargate_InstanceExists :: "'w ec2_client \<Rightarrow> string \<Rightarrow> string \<Rightarrow> ('w, bool) aws" where
  "fargate_InstanceExists ec2API instanceID vpcID =
     bindM (fargate_DescribeNetworkInterfaces ec2API instanceID vpcID) (\<lambda>eni. returnM (eni \<noteq> None))"

definition fargate_InstanceShutdown :: "'w ec2_client \<Rightarrow> string \<Rightarrow> string \<Rightarrow> ('w, bool) aws" where
  "fargate_InstanceShutdown ec2API instanceID vpcID =
     bindM (fargate_DescribeNetworkInterfaces ec2API instanceID vpcID) (\<lambda>eni. returnM (eni \<noteq> None))"

definition fargate_InstanceTypeByProviderID :: "string \<Rightarrow> string result" where
  "fargate_InstanceTypeByProviderID instanceID = Inr ''''"

section \<open>Variants\<close>

text \<open>The interface \<^verbatim>\<open>Variant\<close>, initialised with the configuration and the EC2 client.\<close>

record 'w Variant =
  v_IsSupportedNode :: "string \<Rightarrow> bool"
  v_NodeAddresses :: "string \<Rightarrow> string \<Rightarrow> ('w, node_address list) aws"
  v_GetZone :: "string \<Rightarrow> string \<Rightarrow> string \<Rightarrow> ('w, zone) aws"
  v_InstanceExists :: "string \<Rightarrow> string \<Rightarrow> ('w, bool) aws"
  v_InstanceShutdown :: "string \<Rightarrow> string \<Rightarrow> ('w, bool) aws"
  v_InstanceTypeByProviderID :: "string \<Rightarrow> string result"

definition fargateVariant :: "'w Cloud \<Rightarrow> 'w Variant" where
  "fargateVariant c = \<lparr>v_IsSupportedNode = fargate_IsSupportedNode,
     v_NodeAddresses = fargate_NodeAddresses (NodeIPFamilies (c_global c)) (c_ec2 c),
     v_GetZone = fargate_GetZone (c_ec2 c), v_InstanceExists = fargate_InstanceExists (c_ec2 c),
     v_InstanceShutdown = fargate_InstanceShutdown (c_ec2 c),
     v_InstanceTypeByProviderID = fargate_InstanceTypeByProviderID\<rparr>"

definition RegisterVariant ::
  "string \<Rightarrow> 'w Variant \<Rightarrow> (string, 'w Variant) gomap \<Rightarrow> (string, 'w Variant) gomap result" where
  "RegisterVariant name v variants =
     (if mhas variants name then Inl (Panic (sprintf ''%q was registered twice'' [name])) else Inr (mput name v variants))"

text \<open>The registry after the initialisation of the program: fargate is the only variant.\<close>

definition variants :: "'w Cloud \<Rightarrow> (string, 'w Variant) gomap" where
  "variants c = (case RegisterVariant ''fargate'' (fargateVariant c) [] of Inr m \<Rightarrow> m | Inl e \<Rightarrow> [])"

definition GetVariant :: "'w Cloud \<Rightarrow> string \<Rightarrow> 'w Variant option" where
  "GetVariant c instanceID = find (\<lambda>v. v_IsSupportedNode v instanceID) (map snd (variants c))"

definition GetVariants :: "'w Cloud \<Rightarrow> 'w Variant list" where
  "GetVariants c = map snd (variants c)"

definition NodeType :: "'w Cloud \<Rightarrow> string \<Rightarrow> string" where
  "NodeType c instanceID =
     (case find (\<lambda>(k, v). v_IsSupportedNode v instanceID) (variants c) of None \<Rightarrow> '''' | Some (k, v) \<Rightarrow> k)"

text \<open>\<^verbatim>\<open>IsVariantNode\<close> asks the registered variants; what they answer does not depend on the provider.\<close>

definition IsVariantNode :: "string \<Rightarrow> bool" where
  "IsVariantNode instanceID = list_ex (\<lambda>v. v_IsSupportedNode v instanceID) (GetVariants (sample_cloud :: unit Cloud))"

section \<open>Provider ids\<close>

type_synonym instance_id = string

text \<open>The regular expression \<^verbatim>\<open>^i-[^/]*$\<close>.\<close>

definition awsInstanceRegMatch :: "string \<Rightarrow> bool" where
  "awsInstanceRegMatch s \<longleftrightarrow> HasPrefix s ''i-'' \<and> CHR ''/'' \<notin> set s"

definition MapToAWSInstanceID :: "string \<Rightarrow> instance_id result" where
  "MapToAWSInstanceID name =
     (let s = (if \<not> HasPrefix name ''aws://'' then ''aws://'' @ ''/'' @ ''/'' @ name else name) in
      case url_Parse s of
        Inl err \<Rightarrow> Inl (Errorf ''Invalid instance name (%s): %v'' [name, Error err])
      | Inr url \<Rightarrow>
          if url_Scheme url \<noteq> ''aws'' then Inl (Errorf ''Invalid scheme for AWS instance (%s)'' [name])
          else
            (let awsID = last (Split (CHR ''/'') (trim_by (\<lambda>c. c = CHR ''/'') (url_Path url))) in
             if awsID = '''' \<or> \<not> (awsInstanceRegMatch awsID \<or> IsVariantNode awsID)
             then Inl (Errorf ''Invalid format for AWS instance (%s)'' [name])
             else Inr awsID))"

definition mapToAWSInstanceIDs :: "node list \<Rightarrow> instance_id list result" where
  "mapToAWSInstanceIDs nodes = foldR (\<lambda>n instanceIDs.
     if node_ProviderID n = '''' then Inl (Errorf ''node %q did not have ProviderID set'' [node_Name n])
     else (case MapToAWSInstanceID (node_ProviderID n) of
         Inl err \<Rightarrow> Inl (Errorf ''unable to parse ProviderID %q for node %q'' [node_ProviderID n, node_Name n])
       | Inr instanceID \<Rightarrow> Inr (instanceIDs @ [instanceID]))) nodes []"

definition mapToAWSInstanceIDsTolerant :: "node list \<Rightarrow> instance_id list" where
  "mapToAWSInstanceIDsTolerant nodes = fold (\<lambda>n instanceIDs.
     if node_ProviderID n = '''' then instanceIDs
     else (case MapToAWSInstanceID (node_ProviderID n) of
         Inl err \<Rightarrow> instanceIDs | Inr instanceID \<Rightarrow> instanceIDs @ [instanceID])) nodes []"

definition InstanceIDIndexFunc :: "node \<Rightarrow> string list" where
  "InstanceIDIndexFunc n =
     (if node_ProviderID n = '''' then ['''']
      else (case MapToAWSInstanceID (node_ProviderID n) of Inl err \<Rightarrow> [''''] | Inr instanceID \<Rightarrow> [instanceID]))"

section \<open>Node names\<close>

definition rbnNamePrefix :: string where
  "rbnNamePrefix = ''i-''"

definition nodeNameToInstanceID :: "'w Cloud \<Rightarrow> string \<Rightarrow> instance_id result" where
  "nodeNameToInstanceID c nodeName =
     (if HasPrefix nodeName rbnNamePrefix then
        (if CHR ''.'' \<in> set nodeName then Inr (takeWhile (\<lambda>ch. ch \<noteq> CHR ''.'') nodeName) else Inr nodeName)
      else if length nodeName = 0 then Inl (Errorf ''no nodeName provided'' [])
      else (case c_informer c of
          None \<Rightarrow> Inl (Errorf ''node informer has not synced yet'' [])
        | Some nodes \<Rightarrow>
            (case find (\<lambda>n. node_Name n = nodeName) nodes of
               None \<Rightarrow> Inl (Errorf ''node %q not found'' [nodeName])
             | Some n \<Rightarrow>
                 if length (node_ProviderID n) = 0 then Inl (Errorf ''node has no providerID'' [])
                 else MapToAWSInstanceID (node_ProviderID n))))"

definition instanceIDToNodeName :: "'w Cloud \<Rightarrow> instance_id \<Rightarrow> string result" where
  "instanceIDToNodeName c instanceID =
     (if length instanceID = 0 then Inl (Errorf ''no instanceID provided'' [])
      else (case c_informer c of
          None \<Rightarrow> Inl (Errorf ''node informer has not synced yet'' [])
        | Some nodes \<Rightarrow>
            (case filter (\<lambda>n. instanceID \<in> set (InstanceIDIndexFunc n)) nodes of
               [] \<Rightarrow> Inl (Errorf ''node with instanceID %q not found'' [instanceID])
             | [n] \<Rightarrow> Inr (node_Name n)
             | ns \<Rightarrow> Inl (Errorf ''multiple nodes with instanceID %q found: %v''
                        [instanceID, Join (map node_Name ns) '' ''])))) "

section \<open>Provider ids are read back\<close>

lemma IsVariantNode_iff: "IsVariantNode s \<longleftrightarrow> HasPrefix s ''fargate-''"
  by (simp add: IsVariantNode_def GetVariants_def variants_def RegisterVariant_def mhas_def fargateVariant_def
      fargate_IsSupportedNode_def fargateNodeNamePrefix_def)

text \<open>An id that the provider accepts: of an EC2 instance or of a fargate node.\<close>

definition resource_id :: "string \<Rightarrow> bool" where
  "resource_id s \<longleftrightarrow> CHR ''/'' \<notin> set s \<and> (HasPrefix s ''i-'' \<or> HasPrefix s ''fargate-'')"

lemma resource_id_not_Nil: "resource_id s \<Longrightarrow> s \<noteq> ''''"
  by (auto simp: resource_id_def HasPrefix_def)

lemma trim_slashes:
  assumes "CHR ''/'' \<notin> set az" and "CHR ''/'' \<notin> set i" and "i \<noteq> ''''"
  shows "last (Split (CHR ''/'') (trim_by (\<lambda>c. c = CHR ''/'') (CHR ''/'' # az @ CHR ''/'' # i))) = i"
proof -
  have drop: "dropWhile (\<lambda>c. c = CHR ''/'') (s @ t) = s @ t" if "CHR ''/'' \<notin> set s" "s \<noteq> []" for s t
    using that by (cases s) auto
  have tail: "rev (dropWhile (\<lambda>c. c = CHR ''/'') (rev (s @ i))) = s @ i" for s
    using drop [of "rev i" "rev s"] assms(2,3) by simp
  show ?thesis
  proof (cases "az = []")
    case True
    with drop [of i "[]"] tail [of "[]"] assms show ?thesis by (simp add: trim_by_def Split_single)
  next
    case False
    with drop [of az "CHR ''/'' # i"] tail [of "az @ [CHR ''/'']"] assms show ?thesis
      by (simp add: trim_by_def Split_append_sep Split_single)
  qed
qed

lemma MapToAWSInstanceID_path:
  assumes name: "(if \<not> HasPrefix name ''aws://'' then ''aws://'' @ ''/'' @ ''/'' @ name else name)
      = ''aws://'' @ CHR ''/'' # az @ CHR ''/'' # i"
    and "list_all plain_url_char az" "list_all plain_url_char i" "CHR ''/'' \<notin> set az" "resource_id i"
  shows "MapToAWSInstanceID name = Inr i"
proof -
  let ?path = "CHR ''/'' # az @ CHR ''/'' # i"
  have "url_Parse (''aws://'' @ ?path) = Inr \<lparr>url_Scheme = ''aws'', url_Opaque = '''', url_Host = '''',
      url_Path = ?path, url_RawQuery = '''', url_Fragment = ''''\<rparr>"
    by (rule url_Parse_aws) (use assms in \<open>auto simp: plain_url_char_def is_ctl_def HasPrefix_def\<close>)
  moreover have "last (Split (CHR ''/'') (trim_by (\<lambda>c. c = CHR ''/'') ?path)) = i"
    using assms resource_id_not_Nil by (intro trim_slashes) (auto simp: resource_id_def)
  moreover have "i \<noteq> ''''" "awsInstanceRegMatch i \<or> IsVariantNode i"
    using assms(5) resource_id_not_Nil by (auto simp: IsVariantNode_iff awsInstanceRegMatch_def resource_id_def)
  ultimately show ?thesis
    unfolding MapToAWSInstanceID_def Let_def name by simp
qed

lemma MapToAWSInstanceID_full:
  assumes "list_all plain_url_char az" "list_all plain_url_char i" "CHR ''/'' \<notin> set az" "resource_id i"
  shows "MapToAWSInstanceID (''aws:///'' @ az @ ''/'' @ i) = Inr i"
  by (rule MapToAWSInstanceID_path) (use assms in \<open>simp_all add: HasPrefix_def\<close>)

lemma MapToAWSInstanceID_bare:
  assumes "list_all plain_url_char i" "resource_id i"
  shows "MapToAWSInstanceID i = Inr i"
proof -
  have "\<not> HasPrefix i ''aws://''" using assms(2) by (auto simp: resource_id_def HasPrefix_iff)
  then show ?thesis
    by (intro MapToAWSInstanceID_path [of i "''''"]) (use assms in simp_all)
qed

lemma last_Split_no_sep: "CHR ''/'' \<notin> set (last (Split (CHR ''/'') s))"
  by (rule Split_no_sep) (rule last_in_set, simp)

lemma MapToAWSInstanceID_sound: "MapToAWSInstanceID s = Inr i \<Longrightarrow> resource_id i"
  using last_Split_no_sep
  by (auto simp: MapToAWSInstanceID_def Let_def IsVariantNode_iff resource_id_def awsInstanceRegMatch_def
      split: sum.splits if_splits)

end
