(* ===== verification/Batcher.thy ===== *)
theory Batcher
  imports Tagging "HOL-Library.Multiset"
begin

text \<open>
  The request batcher of \<^verbatim>\<open>batcher/batcher.go\<close> and its three users (\<^verbatim>\<open>create_tags_batch.go\<close>,
  \<^verbatim>\<open>delete_tags_batch.go\<close>, \<^verbatim>\<open>describe_instance_batch.go\<close>).

  The batcher is a state machine: goroutines that call \<^verbatim>\<open>Add\<close> interleave with the \<^verbatim>\<open>run\<close> loop and with
  the workers that execute batches, and every interleaving is a sequence of the steps below. The lemmas
  show that no request is lost or answered twice, that a batch has requests of one hash only, that no
  wake-up is lost, and that without new calls the machine answers every caller after finitely many
  steps.
\<close>

section \<open>The batcher\<close>

text \<open>\<^verbatim>\<open>Result\<close>: output and error, either may be nil.\<close>

record 'u Result =
  Output :: "'u option"
  Err :: "go_error option"

text \<open>The request's channel is named by the number of its \<^verbatim>\<open>Add\<close> call.\<close>

record 't request =
  req_caller :: nat
  req_hash :: nat
  req_input :: 't

type_synonym ('w, 't, 'u) BatchExecutor = "'t list \<Rightarrow> 'w \<Rightarrow> 'u Result list \<times> 'w"

text \<open>\<^verbatim>\<open>Options\<close>; the timeouts only bound how long the batcher waits and are not part of the model.\<close>

record ('w, 't, 'u) Options =
  MaxItems :: nat
  MaxRequestWorkers :: nat
  RequestHasher :: "'t \<Rightarrow> nat"
  BatchExecutor :: "('w, 't, 'u) BatchExecutor"

definition workers_limit :: "('w, 't, 'u) Options \<Rightarrow> nat" where
  "workers_limit opts = (if MaxRequestWorkers opts \<noteq> 0 then MaxRequestWorkers opts else 100)"

definition OneBucketHasher :: "'t \<Rightarrow> nat" where
  "OneBucketHasher inp = 0"

text \<open>Where the \<^verbatim>\<open>run\<close> loop is: at its \<^verbatim>\<open>select\<close>, in \<^verbatim>\<open>waitForIdle\<close> with the number of triggers it has
  seen, in the loop that hands the copied requests to workers, or returned.\<close>

datatype 't phase = Waiting | Collecting nat | Dispatching "'t request list list" | Stopped

text \<open>\<open>b_trigger\<close> tells whether the trigger channel (capacity one) is full; \<open>b_sending\<close> are the callers
  that have added their request and not yet sent the trigger; \<open>b_workers\<close> are the batches that workers
  execute; \<open>b_results\<close> are the answers written to the callers' channels; \<open>b_next\<close> numbers the calls;
  \<open>b_world\<close> is the state behind the executor.\<close>

record ('w, 't, 'u) Batcher =
  b_requests :: "(nat, 't request list) gomap"
  b_trigger :: bool
  b_sending :: "nat list"
  b_phase :: "'t phase"
  b_workers :: "'t request list list"
  b_results :: "(nat \<times> 'u Result) list"
  b_next :: nat
  b_world :: 'w

definition NewBatcher :: "'w \<Rightarrow> ('w, 't, 'u) Batcher" where
  "NewBatcher w = \<lparr>b_requests = [], b_trigger = False, b_sending = [], b_phase = Waiting, b_workers = [],
     b_results = [], b_next = 0, b_world = w\<rparr>"

text \<open>The first part of \<^verbatim>\<open>Add\<close>, under the lock: the request joins the bucket of its hash.\<close>

definition Add :: "('w, 't, 'u) Options \<Rightarrow> 't \<Rightarrow> ('w, 't, 'u) Batcher \<Rightarrow> ('w, 't, 'u) Batcher" where
  "Add opts inp b =
     (let h = RequestHasher opts inp;
          r = \<lparr>req_caller = b_next b, req_hash = h, req_input = inp\<rparr>;
          bucket = (case map_of (b_requests b) h of None \<Rightarrow> [] | Some rs \<Rightarrow> rs)
      in b\<lparr>b_requests := mput h (bucket @ [r]) (b_requests b), b_sending := b_next b # b_sending b,
           b_next := Suc (b_next b)\<rparr>)"

definition callError :: "'u Result" where
  "callError = \<lparr>Output = None, Err = Some (Errorf ''error making call'' [])\<rparr>"

text \<open>\<^verbatim>\<open>runCalls\<close>: the answer to each caller; more results than requests are an index out of range.\<close>

definition runCalls ::
  "('w, 't, 'u) Options \<Rightarrow> 't request list \<Rightarrow> ('w, (nat \<times> 'u Result) list) aws" where
  "runCalls opts requests w =
     (let (results, w') = BatchExecutor opts (map req_input requests) w in
      if length results > length requests then (Inl (Panic ''index out of range''), w')
      else (Inr (zip (map req_caller requests)
             (results @ replicate (length requests - length results) callError)), w'))"

text \<open>The steps that happen without a new call and without a shutdown.\<close>

inductive internal :: "('w, 't, 'u) Options \<Rightarrow> ('w, 't, 'u) Batcher \<Rightarrow> ('w, 't, 'u) Batcher \<Rightarrow> bool"
  for opts where
  send_trigger: "\<lbrakk>b_sending b = ps @ i # qs; \<not> b_trigger b\<rbrakk> \<Longrightarrow>
     internal opts b (b\<lparr>b_trigger := True, b_sending := ps @ qs\<rparr>)"
| run_trigger: "\<lbrakk>b_phase b = Waiting; b_trigger b\<rbrakk> \<Longrightarrow>
     internal opts b (b\<lparr>b_trigger := False, b_phase := Collecting 1\<rparr>)"
| wait_trigger: "\<lbrakk>b_phase b = Collecting n; MaxItems opts = 0 \<or> n < MaxItems opts; b_trigger b\<rbrakk> \<Longrightarrow>
     internal opts b (b\<lparr>b_trigger := False, b_phase := Collecting (Suc n)\<rparr>)"
| wait_end: "b_phase b = Collecting n \<Longrightarrow>
     internal opts b (b\<lparr>b_phase := Dispatching (map snd (b_requests b)), b_requests := []\<rparr>)"
| dispatch: "\<lbrakk>b_phase b = Dispatching (ps @ req # qs); length (b_workers b) < workers_limit opts\<rbrakk> \<Longrightarrow>
     internal opts b (b\<lparr>b_phase := Dispatching (ps @ qs), b_workers := req # b_workers b\<rparr>)"
| dispatch_end: "b_phase b = Dispatching [] \<Longrightarrow> internal opts b (b\<lparr>b_phase := Waiting\<rparr>)"
| work: "\<lbrakk>b_workers b = ps @ req # qs; runCalls opts req (b_world b) = (Inr answers, w')\<rbrakk> \<Longrightarrow>
     internal opts b (b\<lparr>b_workers := ps @ qs, b_results := b_results b @ answers, b_world := w'\<rparr>)"

text \<open>With calls of \<^verbatim>\<open>Add\<close>, and the end of the context, which \<^verbatim>\<open>run\<close> notices at its \<^verbatim>\<open>select\<close> and
  \<^verbatim>\<open>waitForIdle\<close> as one more reason to stop waiting (\<open>wait_end\<close>).\<close>

inductive step :: "('w, 't, 'u) Options \<Rightarrow> ('w, 't, 'u) Batcher \<Rightarrow> ('w, 't, 'u) Batcher \<Rightarrow> bool"
  for opts where
  internal: "internal opts b b' \<Longrightarrow> step opts b b'"
| call: "step opts b (Add opts inp b)"
| shutdown: "b_phase b = Waiting \<Longrightarrow> step opts b (b\<lparr>b_phase := Stopped\<rparr>)"

inductive reachable :: "('w, 't, 'u) Options \<Rightarrow> ('w, 't, 'u) Batcher \<Rightarrow> bool"
  for opts where
  start: "reachable opts (NewBatcher w)"
| next_step: "reachable opts b \<Longrightarrow> step opts b b' \<Longrightarrow> reachable opts b'"

inductive_cases stepE: "step opts b b'"

section \<open>The users of the batcher\<close>

text \<open>Calls that run in goroutines of their own: \<open>order\<close> is the order in which they take place, and
  each writes its result at its index.\<close>

definition concurrently :: "nat list \<Rightarrow> ('t \<Rightarrow> 'w \<Rightarrow> 'u Result \<times> 'w) \<Rightarrow> ('w, 't, 'u) BatchExecutor" where
  "concurrently order call inputs w =
     fold (\<lambda>idx (results, w). case call (inputs ! idx) w of (r, w) \<Rightarrow> (results[idx := r], w))
       order (replicate (length inputs) \<lparr>Output = None, Err = None\<rparr>, w)"

text \<open>The input of \<^verbatim>\<open>CreateTags\<close> and \<^verbatim>\<open>DeleteTags\<close>: resources and tags.\<close>

type_synonym tags_input = "string list \<times> ec2_tag list"

definition tag_call :: "(string list \<Rightarrow> ec2_tag list \<Rightarrow> ('w, unit) aws) \<Rightarrow> tags_input \<Rightarrow> 'w \<Rightarrow> unit Result \<times> 'w" where
  "tag_call api = (\<lambda>(resources, tags) w. case api resources tags w of
     (Inl err, w) \<Rightarrow> (\<lparr>Output = None, Err = Some err\<rparr>, w) | (Inr u, w) \<Rightarrow> (\<lparr>Output = Some u, Err = None\<rparr>, w))"

text \<open>The body that \<^verbatim>\<open>execCreateTagsBatch\<close> and \<^verbatim>\<open>execDeleteTagsBatch\<close> share. The first input is mutated:
  after the aggregation its resources are those of all inputs, also in the individual calls.\<close>

definition exec_tags_batch ::
  "(string list \<Rightarrow> ec2_tag list \<Rightarrow> ('w, unit) aws) \<Rightarrow> nat list \<Rightarrow> ('w, tags_input, unit) BatchExecutor" where
  "exec_tags_batch api order inputs w =
     (let firstInput = (concat (map fst inputs), snd (hd inputs)) in
      case api (fst firstInput) (snd firstInput) w of
        (Inl err, w) \<Rightarrow> concurrently order (tag_call api) (firstInput # tl inputs) w
      | (Inr out, w) \<Rightarrow> (map (\<lambda>_. \<lparr>Output = Some out, Err = None\<rparr>) inputs, w))"

definition execCreateTagsBatch :: "'w ec2_client \<Rightarrow> nat list \<Rightarrow> ('w, tags_input, unit) BatchExecutor" where
  "execCreateTagsBatch ec2api order = exec_tags_batch (CreateTags ec2api) order"

definition execDeleteTagsBatch :: "'w ec2_client \<Rightarrow> nat list \<Rightarrow> ('w, tags_input, unit) BatchExecutor" where
  "execDeleteTagsBatch ec2api order = exec_tags_batch (DeleteTags ec2api) order"

text \<open>\<open>hash\<close> stands for \<^verbatim>\<open>hashstructure.Hash\<close> with slices as sets, a third-party package.\<close>

definition createTagsHasher :: "(ec2_tag set \<Rightarrow> nat) \<Rightarrow> tags_input \<Rightarrow> nat" where
  "createTagsHasher hash inp = hash (set (snd inp))"

definition deleteTagsHasher :: "(ec2_tag set \<Rightarrow> nat) \<Rightarrow> tags_input \<Rightarrow> nat" where
  "deleteTagsHasher hash inp = hash (set (snd inp))"

definition newCreateTagsBatcher ::
  "(ec2_tag set \<Rightarrow> nat) \<Rightarrow> 'w ec2_client \<Rightarrow> nat list \<Rightarrow> ('w, tags_input, unit) Options" where
  "newCreateTagsBatcher hash ec2api order = \<lparr>MaxItems = 50, MaxRequestWorkers = 0,
     RequestHasher = createTagsHasher hash, BatchExecutor = execCreateTagsBatch ec2api order\<rparr>"

definition newDeleteTagsBatcher ::
  "(ec2_tag set \<Rightarrow> nat) \<Rightarrow> 'w ec2_client \<Rightarrow> nat list \<Rightarrow> ('w, tags_input, unit) Options" where
  "newDeleteTagsBatcher hash ec2api order = \<lparr>MaxItems = 50, MaxRequestWorkers = 0,
     RequestHasher = deleteTagsHasher hash, BatchExecutor = execDeleteTagsBatch ec2api order\<rparr>"

text \<open>Callers of the batcher. \<open>add\<close> stands for what \<^verbatim>\<open>Add\<close> returns to the caller.\<close>

definition batch_createTags :: "(tags_input \<Rightarrow> ('w, unit) aws) \<Rightarrow> tags_input \<Rightarrow> ('w, unit) aws" where
  "batch_createTags add inp =
     (if length (fst inp) \<noteq> 1 then
        throwM (Errorf ''expected to receive a single instance only, found %d'' [Itoa (int (length (fst inp)))])
      else add inp)"

definition batch_deleteTags :: "(tags_input \<Rightarrow> ('w, unit) aws) \<Rightarrow> tags_input \<Rightarrow> ('w, unit) aws" where
  "batch_deleteTags add inp =
     (if length (fst inp) \<noteq> 1 then
        throwM (Errorf ''expected to receive a single instance only, found %d'' [Itoa (int (length (fst inp)))])
      else add inp)"

definition TagResourceBatch ::
  "(tags_input \<Rightarrow> ('w, unit) aws) \<Rightarrow> string \<Rightarrow> (string, string) gomap \<Rightarrow> ('w, unit) aws" where
  "TagResourceBatch add resourceID tags = batch_createTags add ([resourceID], buildAwsTags tags)"

definition UntagResourceBatch ::
  "(tags_input \<Rightarrow> ('w, unit) aws) \<Rightarrow> string \<Rightarrow> (string, string) gomap \<Rightarrow> ('w, unit) aws" where
  "UntagResourceBatch add resourceID tags =
     tryM (batch_deleteTags add ([resourceID], buildAwsTags tags))
       (\<lambda>Inl err \<Rightarrow> if IsAWSErrorInstanceNotFound err then returnM () else throwM err
        | Inr _ \<Rightarrow> returnM ())"

text \<open>Describing instances. The input is ids and filters; the batched call has no filters.\<close>

type_synonym describe_input = "string list \<times> ec2_filter list"

definition describe_call :: "'w ec2_client \<Rightarrow> describe_input \<Rightarrow> 'w \<Rightarrow> ec2_instance Result \<times> 'w" where
  "describe_call ec2api = (\<lambda>(ids, filters) w. case DescribeInstances ec2api ids filters w of
     (Inl err, w) \<Rightarrow> (\<lparr>Output = None, Err = Some err\<rparr>, w)
   | (Inr [], w) \<Rightarrow> (\<lparr>Output = None, Err = None\<rparr>, w)
   | (Inr (inst # _), w) \<Rightarrow> (\<lparr>Output = Some inst, Err = None\<rparr>, w))"

definition execDescribeInstanceBatch ::
  "'w ec2_client \<Rightarrow> nat list \<Rightarrow> ('w, describe_input, ec2_instance) BatchExecutor" where
  "execDescribeInstanceBatch ec2api order inputs w =
     (case DescribeInstances ec2api (concat (map fst inputs)) [] w of
        (Inl err, w) \<Rightarrow> concurrently order (describe_call ec2api) inputs w
      | (Inr out, w) \<Rightarrow>
          (let instanceIDToOutputMap = mput_all (map (\<lambda>i. (ToString (inst_InstanceId i), i)) out) [] in
           (map (\<lambda>(ids, _). \<lparr>Output = map_of instanceIDToOutputMap (hd ids), Err = None\<rparr>) inputs, w)))"

definition describeInstanceHasher :: "(ec2_filter set \<Rightarrow> nat) \<Rightarrow> describe_input \<Rightarrow> nat" where
  "describeInstanceHasher hash inp = hash (set (snd inp))"

definition newdescribeInstanceBatcher ::
  "(ec2_filter set \<Rightarrow> nat) \<Rightarrow> 'w ec2_client \<Rightarrow> nat list \<Rightarrow> ('w, describe_input, ec2_instance) Options" where
  "newdescribeInstanceBatcher hash ec2api order = \<lparr>MaxItems = 500, MaxRequestWorkers = 0,
     RequestHasher = describeInstanceHasher hash, BatchExecutor = execDescribeInstanceBatch ec2api order\<rparr>"

text \<open>\<^verbatim>\<open>DescribeInstances\<close> of the batcher. \<open>add\<close> stands for the \<^verbatim>\<open>Add\<close> calls, which are concurrent when
  there are several ids; it gives their results in the order in which they return.\<close>

definition batch_DescribeInstances ::
  "('w, describe_input, ec2_instance) BatchExecutor \<Rightarrow> describe_input \<Rightarrow> 'w
     \<Rightarrow> (ec2_instance list \<times> go_error option) \<times> 'w" where
  "batch_DescribeInstances add inp w =
     (case inp of
        ([], _) \<Rightarrow> (([], Some (Errorf ''expected at least one instance ID, found 0'' [])), w)
      | ([i], filters) \<Rightarrow>
          (case add [([i], filters)] w of (rs, w) \<Rightarrow>
             ((case Output (hd rs) of None \<Rightarrow> [] | Some inst \<Rightarrow> [inst], Err (hd rs)), w))
      | (ids, filters) \<Rightarrow>
          (case add (map (\<lambda>i. ([i], filters)) ids) w of (rs, w) \<Rightarrow>
             (let errs = List.map_filter Err rs; instances = List.map_filter Output rs in
              ((instances, if errs \<noteq> [] then Some (Joined errs) else None), w))))"

section \<open>The contract of an executor\<close>

text \<open>What \<^verbatim>\<open>BatchExecutor\<close> asks of its implementations: as many results as inputs.\<close>

locale batch_executor =
  fixes exec :: "('w, 't, 'u) BatchExecutor"
  assumes length_exec: "inputs \<noteq> [] \<Longrightarrow> length (fst (exec inputs w)) = length inputs"
begin

lemma runCalls_answers:
  assumes "BatchExecutor opts = exec" and "requests \<noteq> []"
  shows "\<exists>answers w'. runCalls opts requests w = (Inr answers, w') \<and> map fst answers = map req_caller requests
     \<and> map snd answers = fst (exec (map req_input requests) w) \<and> w' = snd (exec (map req_input requests) w)"
  using assms length_exec [of "map req_input requests" w]
  by (auto simp: runCalls_def Let_def split: prod.split)

end

lemma length_fold_update:
  "length (fst (fold (\<lambda>idx (results, w). case call (inputs ! idx) w of (r, w) \<Rightarrow> (results[idx := r], w)) order (rs, w)))
     = length rs"
  by (induction order arbitrary: rs w) (simp_all split: prod.split)

lemma length_concurrently: "length (fst (concurrently order call inputs w)) = length inputs"
  by (simp add: concurrently_def length_fold_update)

lemma length_exec_tags_batch: "inputs \<noteq> [] \<Longrightarrow> length (fst (exec_tags_batch api order inputs w)) = length inputs"
  by (cases inputs)
    (auto simp: exec_tags_batch_def Let_def length_concurrently split: prod.split sum.split)

interpretation create_exec: batch_executor "execCreateTagsBatch ec2api order" for ec2api order
  by unfold_locales (simp add: execCreateTagsBatch_def length_exec_tags_batch)

interpretation delete_exec: batch_executor "execDeleteTagsBatch ec2api order" for ec2api order
  by unfold_locales (simp add: execDeleteTagsBatch_def length_exec_tags_batch)

interpretation describe_exec: batch_executor "execDescribeInstanceBatch ec2api order" for ec2api order
  by unfold_locales
    (auto simp: execDescribeInstanceBatch_def Let_def length_concurrently split: prod.split sum.split)

section \<open>Invariants of the machine\<close>

fun dispatching :: "'t phase \<Rightarrow> 't request list list" where
  "dispatching (Dispatching bs) = bs"
| "dispatching _ = []"

text \<open>The batches that exist: buckets, batches to hand out, batches at work.\<close>

definition batches :: "('w, 't, 'u) Batcher \<Rightarrow> 't request list list" where
  "batches b = map snd (b_requests b) @ dispatching (b_phase b) @ b_workers b"

text \<open>Every call is in exactly one batch or has exactly one answer.\<close>

definition conserved :: "('w, 't, 'u) Batcher \<Rightarrow> bool" where
  "conserved b \<longleftrightarrow> mset (map req_caller (concat (batches b))) + mset (map fst (b_results b)) = mset [0..<b_next b]"

text \<open>A batch is not empty and its requests have the hash of the batch.\<close>

definition one_hash :: "('w, 't, 'u) Options \<Rightarrow> 't request list \<Rightarrow> bool" where
  "one_hash opts rs \<longleftrightarrow> rs \<noteq> [] \<and> (\<exists>h. \<forall>r \<in> set rs. req_hash r = h \<and> RequestHasher opts (req_input r) = h)"

definition buckets_ok :: "('w, 't, 'u) Options \<Rightarrow> ('w, 't, 'u) Batcher \<Rightarrow> bool" where
  "buckets_ok opts b \<longleftrightarrow> wf_map (b_requests b)
     \<and> (\<forall>(h, rs) \<in> set (b_requests b). \<forall>r \<in> set rs. req_hash r = h) \<and> (\<forall>rs \<in> set (batches b). one_hash opts rs)"

text \<open>No wake-up is lost: when the loop is not collecting and requests have arrived, the trigger is set
  or a caller is about to set it.\<close>

definition wakes :: "('w, 't, 'u) Batcher \<Rightarrow> bool" where
  "wakes b \<longleftrightarrow> (\<forall>n. b_phase b \<noteq> Collecting n) \<and> b_requests b \<noteq> [] \<longrightarrow> b_trigger b \<or> b_sending b \<noteq> []"

definition batcher_inv :: "('w, 't, 'u) Options \<Rightarrow> ('w, 't, 'u) Batcher \<Rightarrow> bool" where
  "batcher_inv opts b \<longleftrightarrow> conserved b \<and> buckets_ok opts b \<and> wakes b"

lemma runCalls_callers:
  "runCalls opts req w = (Inr answers, w') \<Longrightarrow> map fst answers = map req_caller req"
  by (auto simp: runCalls_def Let_def split: prod.splits if_splits)

lemma concat_mput:
  assumes "wf_map m"
  shows "mset (concat (map snd (mput h rs m))) + mset (case map_of m h of None \<Rightarrow> [] | Some old \<Rightarrow> old)
    = mset (concat (map snd m)) + mset rs"
  using assms
proof (induction m)
  case (Cons kv m)
  obtain k v where kv: "kv = (k, v)" by (cases kv)
  show ?case
  proof (cases "k = h")
    case True
    with Cons.prems kv show ?thesis by (simp add: wf_map_def)
  next
    case False
    with Cons kv show ?thesis by (simp add: wf_map_def)
  qed
qed simp

lemma inv_Add:
  assumes "batcher_inv opts b"
  shows "batcher_inv opts (Add opts inp b)"
proof -
  let ?h = "RequestHasher opts inp"
  let ?r = "\<lparr>req_caller = b_next b, req_hash = ?h, req_input = inp\<rparr>"
  let ?old = "case map_of (b_requests b) ?h of None \<Rightarrow> [] | Some rs \<Rightarrow> rs"
  let ?m = "mput ?h (?old @ [?r]) (b_requests b)"
  from assms have wf: "wf_map (b_requests b)"
    and keys: "\<forall>(h, rs) \<in> set (b_requests b). \<forall>r \<in> set rs. req_hash r = h"
    and hash: "\<forall>rs \<in> set (batches b). one_hash opts rs"
    by (auto simp: batcher_inv_def buckets_ok_def)
  have "mset (concat (map snd ?m)) = mset (concat (map snd (b_requests b))) + {#?r#}"
    using concat_mput [OF wf, of ?h "?old @ [?r]"] by simp
  then have "conserved (Add opts inp b)"
    using assms by (simp add: batcher_inv_def conserved_def batches_def Add_def Let_def ac_simps)
  moreover have "buckets_ok opts (Add opts inp b)"
  proof -
    have old: "\<forall>r \<in> set ?old. req_hash r = ?h \<and> RequestHasher opts (req_input r) = ?h"
    proof (cases "map_of (b_requests b) ?h")
      case (Some rs)
      then have mem: "(?h, rs) \<in> set (b_requests b)" by (rule map_of_SomeD)
      then have "one_hash opts rs" using hash by (force simp: batches_def)
      with mem keys Some show ?thesis by (fastforce simp: one_hash_def)
    qed simp
    then have new: "one_hash opts (?old @ [?r])" by (auto simp: one_hash_def)
    have m: "set ?m \<subseteq> insert (?h, ?old @ [?r]) (set (b_requests b))"
    proof -
      have "(k, v) \<in> set ?m \<Longrightarrow> (k, v) = (?h, ?old @ [?r]) \<or> (k, v) \<in> set (b_requests b)" for k v
        using wf by (auto simp: wf_map_in_set update_conv' split: if_splits)
      then show ?thesis by auto
    qed
    have "\<forall>rs \<in> set (batches (Add opts inp b)). one_hash opts rs"
    proof -
      have bucket: "one_hash opts rs" if "(k, rs) \<in> set ?m" for k rs
        using subsetD [OF m that] new hash by (force simp: batches_def)
      then have "\<forall>rs \<in> snd ` set ?m. one_hash opts rs" by force
      with hash show ?thesis by (auto simp: batches_def Add_def Let_def)
    qed
    moreover have "\<forall>(h, rs) \<in> set ?m. \<forall>r \<in> set rs. req_hash r = h"
    proof (intro ballI, clarify)
      fix h rs r
      assume "(h, rs) \<in> set ?m" and r: "r \<in> set rs"
      from subsetD [OF m this(1)] show "req_hash r = h"
      proof
        assume "(h, rs) = (?h, ?old @ [?r])"
        with r old show ?thesis by auto
      qed (use keys r in blast)
    qed
    ultimately show ?thesis using wf by (simp add: buckets_ok_def Add_def Let_def)
  qed
  moreover have "wakes (Add opts inp b)" by (simp add: wakes_def Add_def Let_def)
  ultimately show ?thesis by (simp add: batcher_inv_def)
qed

lemma inv_internal:
  assumes "internal opts b b'" and "batcher_inv opts b"
  shows "batcher_inv opts b'"
  using assms
proof (cases rule: internal.cases)
  case (work ps req qs answers w')
  with assms(2) runCalls_callers [OF work(3)] show ?thesis
    by (simp add: batcher_inv_def conserved_def batches_def buckets_ok_def wakes_def ac_simps)
qed (auto simp: batcher_inv_def conserved_def batches_def buckets_ok_def wakes_def ac_simps)

lemma inv_step: "step opts b b' \<Longrightarrow> batcher_inv opts b \<Longrightarrow> batcher_inv opts b'"
proof (erule stepE)
  assume "b_phase b = Waiting" and "b' = b\<lparr>b_phase := Stopped\<rparr>" and "batcher_inv opts b"
  then show "batcher_inv opts b'"
    by (simp add: batcher_inv_def conserved_def batches_def buckets_ok_def wakes_def)
qed (auto intro: inv_internal inv_Add)

lemma inv_reachable: "reachable opts b \<Longrightarrow> batcher_inv opts b"
proof (induction rule: reachable.induct)
  case (start w)
  show ?case by (simp add: batcher_inv_def conserved_def batches_def buckets_ok_def wakes_def NewBatcher_def)
qed (rule inv_step)

section \<open>Every caller is answered\<close>

fun phase_weight :: "'t phase \<Rightarrow> nat" where
  "phase_weight Waiting = 0"
| "phase_weight (Collecting n) = 4"
| "phase_weight (Dispatching bs) = 1 + 2 * length bs"
| "phase_weight Stopped = 0"

definition weight :: "('w, 't, 'u) Batcher \<Rightarrow> nat" where
  "weight b = 10 * length (b_sending b) + (if b_trigger b then 6 else 0) + phase_weight (b_phase b)
     + 3 * length (concat (map snd (b_requests b))) + length (b_workers b)"

lemma length_le_concat: "\<forall>xs \<in> set xss. xs \<noteq> [] \<Longrightarrow> length xss \<le> length (concat xss)"
proof (induction xss)
  case (Cons xs xss)
  then show ?case by (cases xs) auto
qed simp

lemma internal_weight:
  assumes "internal opts b b'" and "batcher_inv opts b"
  shows "weight b' < weight b"
  using assms(1)
proof (cases rule: internal.cases)
  case (wait_end n)
  have "\<forall>rs \<in> set (map snd (b_requests b)). rs \<noteq> []"
    using assms(2) by (force simp: batcher_inv_def buckets_ok_def batches_def one_hash_def)
  then have "length (b_requests b) \<le> length (concat (map snd (b_requests b)))"
    using length_le_concat [of "map snd (b_requests b)"] by simp
  with wait_end show ?thesis by (simp add: weight_def)
qed (auto simp: weight_def)

lemma internal_next: "internal opts b b' \<Longrightarrow> b_next b' = b_next b"
  by (cases rule: internal.cases) auto

lemma internal_phase: "internal opts b b' \<Longrightarrow> b_phase b \<noteq> Stopped \<Longrightarrow> b_phase b' \<noteq> Stopped"
  by (cases rule: internal.cases) auto

lemma workers_limit_pos: "0 < workers_limit opts"
  by (simp add: workers_limit_def)

lemma runCalls_total:
  assumes "\<forall>inputs w. inputs \<noteq> [] \<longrightarrow> length (fst (BatchExecutor opts inputs w)) = length inputs" and "req \<noteq> []"
  shows "\<exists>answers w'. runCalls opts req w = (Inr answers, w')"
proof -
  have "batch_executor (BatchExecutor opts)" using assms(1) by unfold_locales blast
  from batch_executor.runCalls_answers [OF this refl assms(2)] show ?thesis by blast
qed

lemma stuck_is_idle:
  assumes exec: "\<forall>inputs w. inputs \<noteq> [] \<longrightarrow> length (fst (BatchExecutor opts inputs w)) = length inputs"
    and inv: "batcher_inv opts b" and phase: "b_phase b \<noteq> Stopped" and stuck: "\<nexists>b'. internal opts b b'"
  shows "batches b = []"
proof -
  have workers: "b_workers b = []"
  proof (cases "b_workers b")
    case (Cons req qs)
    with inv have "req \<noteq> []" by (auto simp: batcher_inv_def buckets_ok_def batches_def one_hash_def)
    with runCalls_total [OF exec] obtain answers w' where "runCalls opts req (b_world b) = (Inr answers, w')" by blast
    with Cons stuck internal.work [of b "[]" req qs opts] show ?thesis by auto
  qed
  show ?thesis
  proof (cases "b_phase b")
    case Waiting
    then have "\<not> b_trigger b" using stuck internal.run_trigger by blast
    moreover have "b_sending b = []"
    proof (cases "b_sending b")
      case (Cons i qs)
      with \<open>\<not> b_trigger b\<close> stuck internal.send_trigger [of b "[]" i qs opts] show ?thesis by auto
    qed
    ultimately have "b_requests b = []" using inv Waiting by (auto simp: batcher_inv_def wakes_def)
    with Waiting workers show ?thesis by (simp add: batches_def)
  next
    case (Collecting n)
    with stuck internal.wait_end show ?thesis by blast
  next
    case (Dispatching bs)
    show ?thesis
    proof (cases bs)
      case Nil
      with Dispatching stuck internal.dispatch_end show ?thesis by blast
    next
      case (Cons req qs)
      with Dispatching workers stuck workers_limit_pos [of opts] internal.dispatch [of b "[]" req qs opts]
      show ?thesis by auto
    qed
  next
    case Stopped
    with phase show ?thesis by simp
  qed
qed

lemma internal_run:
  assumes "(internal opts ^^ n) b b'" and "batcher_inv opts b"
  shows "n + weight b' \<le> weight b \<and> batcher_inv opts b' \<and> b_next b' = b_next b
    \<and> (b_phase b \<noteq> Stopped \<longrightarrow> b_phase b' \<noteq> Stopped)"
  using assms
proof (induction n arbitrary: b')
  case (Suc n)
  then obtain c where c: "(internal opts ^^ n) b c" and s: "internal opts c b'" by auto
  from Suc.IH [OF c Suc.prems(2)] internal_weight [OF s] inv_internal [OF s] internal_next [OF s]
    internal_phase [OF s]
  show ?case by fastforce
qed simp

text \<open>C5: The batcher answers everyone. From any reachable state that is not shut down, however the
  callers, the loop and the workers interleave, they can make only finitely many steps without a new
  call (at most \<open>weight b\<close>), and when none is left every call that was ever made has exactly one
  answer. The executor must return as many results as it gets inputs.\<close>

theorem batcher_answers_everyone:
  assumes "\<forall>inputs w. inputs \<noteq> [] \<longrightarrow> length (fst (BatchExecutor opts inputs w)) = length inputs"
    and "reachable opts b" and "b_phase b \<noteq> Stopped" and "(internal opts ^^ n) b b'"
  shows "n \<le> weight b \<and> ((\<nexists>b''. internal opts b' b'') \<longrightarrow> mset (map fst (b_results b')) = mset [0..<b_next b])"
proof -
  note run = internal_run [OF assms(4) inv_reachable [OF assms(2)]]
  have "mset (map fst (b_results b')) = mset [0..<b_next b]" if "\<nexists>b''. internal opts b' b''"
    using stuck_is_idle [OF assms(1) _ _ that] run assms(3)
    by (auto simp: batcher_inv_def conserved_def)
  with run show ?thesis by simp
qed

text \<open>C6: A batch never mixes requests of different hashes and is never empty, and no request is lost or
  answered twice, in every reachable state.\<close>

theorem batcher_conserves_requests:
  assumes "reachable opts b"
  shows "(\<forall>rs \<in> set (batches b). one_hash opts rs)
    \<and> distinct (map req_caller (concat (batches b)) @ map fst (b_results b))
    \<and> set (map req_caller (concat (batches b)) @ map fst (b_results b)) = {0..<b_next b}"
proof -
  have inv: "batcher_inv opts b" using assms by (rule inv_reachable)
  then have "mset (map req_caller (concat (batches b)) @ map fst (b_results b)) = mset [0..<b_next b]"
    by (simp add: batcher_inv_def conserved_def)
  from mset_eq_setD [OF this] mset_eq_imp_distinct_iff [OF this] inv show ?thesis
    by (simp add: batcher_inv_def buckets_ok_def)
qed

text \<open>One call of the create-tags batcher, served from start to end.\<close>

abbreviation sample_batcher :: "(unit, tags_input, unit) Options" where
  "sample_batcher \<equiv> newCreateTagsBatcher (\<lambda>_. 7) idle_client [0]"

lemma sample_batcher_run:
  "\<exists>b'. (internal sample_batcher ^^ 6) (Add sample_batcher ([''i-1''], []) (NewBatcher ())) b'
     \<and> b_results b' = [(0, \<lparr>Output = Some (), Err = None\<rparr>)] \<and> (\<nexists>b''. internal sample_batcher b' b'')"
proof -
  let ?i = "internal sample_batcher"
  let ?r = "\<lparr>req_caller = 0, req_hash = 7, req_input = ([''i-1''], [])\<rparr>"
  let ?b = "\<lambda>rs t s p ws res. \<lparr>b_requests = rs, b_trigger = t, b_sending = s, b_phase = p, b_workers = ws,
     b_results = res, b_next = 1, b_world = ()\<rparr>"
  have add: "Add sample_batcher ([''i-1''], []) (NewBatcher ()) = ?b [(7, [?r])] False [0] Waiting [] []"
    by (simp add: Add_def NewBatcher_def newCreateTagsBatcher_def createTagsHasher_def Let_def)
  have 1: "?i (?b [(7, [?r])] False [0] Waiting [] []) (?b [(7, [?r])] True [] Waiting [] [])"
    using internal.send_trigger [of "?b [(7, [?r])] False [0] Waiting [] []" "[]" 0 "[]" sample_batcher] by simp
  have 2: "?i (?b [(7, [?r])] True [] Waiting [] []) (?b [(7, [?r])] False [] (Collecting 1) [] [])"
    using internal.run_trigger [of "?b [(7, [?r])] True [] Waiting [] []" sample_batcher] by simp
  have 3: "?i (?b [(7, [?r])] False [] (Collecting 1) [] []) (?b [] False [] (Dispatching [[?r]]) [] [])"
    using internal.wait_end [of "?b [(7, [?r])] False [] (Collecting 1) [] []" 1 sample_batcher] by simp
  have 4: "?i (?b [] False [] (Dispatching [[?r]]) [] []) (?b [] False [] (Dispatching []) [[?r]] [])"
    using internal.dispatch [of "?b [] False [] (Dispatching [[?r]]) [] []" "[]" "[?r]" "[]" sample_batcher]
    by (simp add: workers_limit_def newCreateTagsBatcher_def)
  have 5: "?i (?b [] False [] (Dispatching []) [[?r]] []) (?b [] False [] Waiting [[?r]] [])"
    using internal.dispatch_end [of "?b [] False [] (Dispatching []) [[?r]] []" sample_batcher] by simp
  have "runCalls sample_batcher [?r] () = (Inr [(0, \<lparr>Output = Some (), Err = None\<rparr>)], ())"
    by (simp add: runCalls_def newCreateTagsBatcher_def execCreateTagsBatch_def exec_tags_batch_def
        idle_client_def returnM_def)
  then have 6: "?i (?b [] False [] Waiting [[?r]] []) (?b [] False [] Waiting [] [(0, \<lparr>Output = Some (), Err = None\<rparr>)])"
    using internal.work [of "?b [] False [] Waiting [[?r]] []" "[]" "[?r]" "[]" sample_batcher] by simp
  have "(?i ^^ 6) (?b [(7, [?r])] False [0] Waiting [] []) (?b [] False [] Waiting [] [(0, \<lparr>Output = Some (), Err = None\<rparr>)])"
    using 1 2 3 4 5 6 by (simp add: eval_nat_numeral) blast
  moreover have "\<nexists>b''. ?i (?b [] False [] Waiting [] res) b''" for res
    by (auto elim: internal.cases)
  ultimately show ?thesis by (auto simp: add)
qed

lemma sample_reachable: "reachable sample_batcher (Add sample_batcher ([''i-1''], []) (NewBatcher ()))"
  by (rule reachable.next_step [OF reachable.start step.call])

theorem batcher_answers_everyone_witness:
  "\<exists>b'. (internal sample_batcher ^^ 6) (Add sample_batcher ([''i-1''], []) (NewBatcher ())) b'
     \<and> mset (map fst (b_results b')) = mset [0..<1]"
proof -
  let ?b = "Add sample_batcher ([''i-1''], []) (NewBatcher ())"
  obtain b' where b': "(internal sample_batcher ^^ 6) ?b b'" "\<nexists>b''. internal sample_batcher b' b''"
    using sample_batcher_run by blast
  have "\<forall>inputs w. inputs \<noteq> [] \<longrightarrow> length (fst (BatchExecutor sample_batcher inputs w)) = length inputs"
    by (simp add: newCreateTagsBatcher_def create_exec.length_exec)
  moreover have "b_phase ?b \<noteq> Stopped" "b_next ?b = 1"
    by (simp_all add: Add_def NewBatcher_def Let_def)
  ultimately show ?thesis
    using batcher_answers_everyone [OF _ sample_reachable, of 6 b'] b' by auto
qed

theorem batcher_conserves_requests_witness:
  "set (map req_caller (concat (batches (Add sample_batcher ([''i-1''], []) (NewBatcher ()))))) = {0..<1}"
  using batcher_conserves_requests [OF sample_reachable]
  by (simp add: Add_def NewBatcher_def Let_def)

section \<open>What the callers of a tag batch get\<close>

lemma concurrently_pure:
  assumes call: "\<And>i. i < length inputs \<Longrightarrow> call (inputs ! i) w = (f (inputs ! i), w)"
    and order: "set order = {..<length inputs}"
  shows "concurrently order call inputs w = (map f inputs, w)"
proof -
  let ?g = "\<lambda>idx (results, w). case call (inputs ! idx) w of (r, w) \<Rightarrow> (results[idx := r], w)"
  have run: "\<exists>rs'. fold ?g is (rs, w) = (rs', w) \<and> length rs' = length inputs
      \<and> (\<forall>i < length inputs. rs' ! i = (if i \<in> set is then f (inputs ! i) else rs ! i))"
    if "set is \<subseteq> {..<length inputs}" "length rs = length inputs" for "is" rs
    using that
  proof (induction "is" arbitrary: rs)
    case (Cons i "is")
    then have i: "?g i (rs, w) = (rs[i := f (inputs ! i)], w)" by (simp add: call)
    from Cons.IH [of "rs[i := f (inputs ! i)]"] Cons.prems obtain rs' where
      "fold ?g is (rs[i := f (inputs ! i)], w) = (rs', w)" "length rs' = length inputs"
      "\<forall>j < length inputs. rs' ! j = (if j \<in> set is then f (inputs ! j) else rs[i := f (inputs ! i)] ! j)"
      by auto
    with i Cons.prems show ?case by (intro exI [of _ rs']) (simp add: nth_list_update)
  qed simp
  obtain rs' where "concurrently order call inputs w = (rs', w)" "length rs' = length inputs"
    "\<forall>i < length inputs. rs' ! i = f (inputs ! i)"
    using run [of order "replicate (length inputs) \<lparr>Output = None, Err = None\<rparr>"] order
    by (auto simp: concurrently_def)
  then show ?thesis by (simp add: list_eq_iff_nth_eq)
qed

text \<open>What the callers of one batch get, when the API's answer depends only on the request. If the
  batched call succeeds, everyone gets success. If it fails, every caller but the first gets the result
  of a call for its own resource alone. The first one, whose input was extended with the resources of
  the others, repeats the whole batch and fails even if a call for its own resource would succeed.\<close>

lemma execCreateTagsBatch_results:
  assumes api: "\<forall>resources tags. CreateTags ec2api resources tags w = (answer resources tags, w)"
    and "inputs \<noteq> []" and "set order = {..<length inputs}"
  shows "\<exists>results. execCreateTagsBatch ec2api order inputs w = (results, w) \<and> length results = length inputs
     \<and> (case answer (concat (map fst inputs)) (snd (hd inputs)) of
          Inr u \<Rightarrow> (\<forall>r \<in> set results. r = \<lparr>Output = Some u, Err = None\<rparr>)
        | Inl err \<Rightarrow> results ! 0 = \<lparr>Output = None, Err = Some err\<rparr>
            \<and> (\<forall>k. 0 < k \<and> k < length inputs \<longrightarrow>
                 results ! k = fst (tag_call (CreateTags ec2api) (inputs ! k) w)))"
proof -
  obtain first rest where inputs: "inputs = first # rest" using assms(2) by (cases inputs) auto
  let ?all = "(concat (map fst inputs), snd first)"
  let ?call = "tag_call (CreateTags ec2api)"
  have pure: "?call x w = (fst (?call x w), w)" for x
    using api by (cases x) (auto simp: tag_call_def split: sum.split)
  show ?thesis
  proof (cases "answer (concat (map fst inputs)) (snd (hd inputs))")
    case (Inl err)
    have "concurrently order ?call (?all # rest) w = (map (\<lambda>x. fst (?call x w)) (?all # rest), w)"
      by (rule concurrently_pure) (use pure assms(3) inputs in \<open>auto simp del: fst_conv snd_conv\<close>)
    moreover have "fst (?call ?all w) = \<lparr>Output = None, Err = Some err\<rparr>"
      using Inl api inputs by (simp add: tag_call_def)
    ultimately show ?thesis
      using Inl api inputs
      by (auto simp: execCreateTagsBatch_def exec_tags_batch_def nth_Cons')
  next
    case (Inr u)
    with api inputs show ?thesis
      by (simp add: execCreateTagsBatch_def exec_tags_batch_def)
  qed
qed

text \<open>An API that rejects calls for the resource \<^verbatim>\<open>i-bad\<close>.\<close>

definition picky_client :: "unit ec2_client" where
  "picky_client = idle_client\<lparr>CreateTags := (\<lambda>resources tags w.
     (if ''i-bad'' \<in> set resources then Inl (APIError ''InvalidInstanceID.NotFound'' '''') else Inr (), w))\<rparr>"

lemma execCreateTagsBatch_results_example:
  "\<exists>results. execCreateTagsBatch picky_client [1, 0] [([''i-1''], []), ([''i-bad''], [])] () = (results, ())
     \<and> Err (results ! 0) \<noteq> None \<and> fst (CreateTags picky_client [''i-1''] [] ()) = Inr ()"
proof -
  let ?answer = "\<lambda>resources (tags :: ec2_tag list). if ''i-bad'' \<in> set resources
     then Inl (APIError ''InvalidInstanceID.NotFound'' '''') else Inr ()"
  have "\<forall>resources tags. CreateTags picky_client resources tags () = (?answer resources tags, ())"
    by (simp add: picky_client_def)
  moreover have "set [1, 0] = {..<length [([''i-1''], [] :: ec2_tag list), ([''i-bad''], [])]}" by auto
  ultimately show ?thesis
    using execCreateTagsBatch_results [of picky_client "()" ?answer "[([''i-1''], []), ([''i-bad''], [])]" "[1, 0]"]
    by (auto simp: picky_client_def)
qed

end
