(* ===== verification/Instances.thy ===== *)
theory Instances
  imports InstanceIDs Batcher IpAddr
begin

text \<open>
  Looking up instances and what the node controllers ask about them: \<^verbatim>\<open>aws.go\<close> (addresses, existence,
  shutdown, provider id, type and zone of a node), \<^verbatim>\<open>aws_instance.go\<close>, and the instance cache of
  \<^verbatim>\<open>instances.go\<close>.

  The lemmas show that a provider id names the instance it was made for, when an instance counts as
  existing or shut down, which addresses a node gets, and what the instance cache promises.
\<close>

section \<open>Finding instances\<close>

definition describeInstance :: "'w ec2_client \<Rightarrow> instance_id \<Rightarrow> ('w, ec2_instance) aws" where
  "describeInstance ec2Client instanceID =
     bindM (DescribeInstances ec2Client [instanceID] []) (\<lambda>instances. case instances of
       [] \<Rightarrow> throwM (Errorf ''no instances found for instance: %s'' [instanceID])
     | [i] \<Rightarrow> returnM i
     | _ \<Rightarrow> throwM (Errorf ''multiple instances found for instance: %s'' [instanceID]))"

text \<open>The batcher that describes instances; the requests of one call travel in one batch.\<close>

definition describeInstanceBatcher :: "'w Cloud \<Rightarrow> string list \<Rightarrow> ('w, ec2_instance list) aws" where
  "describeInstanceBatcher c instanceIDs w =
     (case batch_DescribeInstances (execDescribeInstanceBatch (c_ec2 c) [0..<length instanceIDs]) (instanceIDs, []) w of
        ((instances, Some err), w) \<Rightarrow> (Inl err, w)
      | ((instances, None), w) \<Rightarrow> (Inr instances, w))"

definition getInstancesByIDs :: "'w Cloud \<Rightarrow> string list \<Rightarrow> ('w, (string, ec2_instance) gomap) aws" where
  "getInstancesByIDs c instanceIDs =
     (if instanceIDs = [] then returnM []
      else bindM (describeInstanceBatcher c instanceIDs) (\<lambda>instances.
        returnM (mput_all (map (\<lambda>i. (ToString (inst_InstanceId i), i))
          (filter (\<lambda>i. ToString (inst_InstanceId i) \<noteq> '''') instances)) [])))"

definition getInstanceByID :: "'w Cloud \<Rightarrow> string \<Rightarrow> ('w, ec2_instance option) aws" where
  "getInstanceByID c instanceID =
     tryM (getInstancesByIDs c [instanceID]) (\<lambda>Inl err \<Rightarrow>
         if IsAWSErrorInstanceNotFound err then throwM InstanceNotFound else throwM err
       | Inr instances \<Rightarrow>
         if instances = [] then throwM InstanceNotFound
         else if length instances > 1 then throwM (Errorf ''multiple instances found for instance: %s'' [instanceID])
         else returnM (map_of instances instanceID))"

definition describeInstances :: "'w Cloud \<Rightarrow> ec2_filter list \<Rightarrow> ('w, ec2_instance list) aws" where
  "describeInstances c filters =
     bindM (DescribeInstances (c_ec2 c) [] filters)
       (\<lambda>response. returnM (filter (\<lambda>i. hasClusterTag (c_tagging c) (inst_Tags i)) response))"

definition filterNodeLimit :: nat where
  "filterNodeLimit = 150"

definition getInstancesByNodeNames ::
  "'w Cloud \<Rightarrow> string list \<Rightarrow> string list \<Rightarrow> ('w, ec2_instance list) aws" where
  "getInstancesByNodeNames c nodeNames states =
     foldM (\<lambda>nameSlice ec2Instances.
        bindM (describeInstances c (newEc2Filter ''private-dns-name'' nameSlice
                 # (if states \<noteq> [] then [newEc2Filter ''instance-state-name'' states] else [])))
          (\<lambda>instances. returnM (ec2Instances @ instances)))
       (chunks filterNodeLimit nodeNames) []"

definition mapNodeNameToPrivateDNSName :: "string \<Rightarrow> string" where
  "mapNodeNameToPrivateDNSName nodeName = nodeName"

definition mapInstanceToNodeName :: "ec2_instance \<Rightarrow> string" where
  "mapInstanceToNodeName i = ToString (inst_PrivateDnsName i)"

definition aliveFilter :: "string list" where
  "aliveFilter = [''pending'', ''running'', ''shutting-down'', ''stopping'', ''stopped'']"

definition findInstanceByNodeName :: "'w Cloud \<Rightarrow> string \<Rightarrow> ('w, ec2_instance option) aws" where
  "findInstanceByNodeName c nodeName =
     bindM (describeInstances c [newEc2Filter ''private-dns-name'' [mapNodeNameToPrivateDNSName nodeName],
              newEc2Filter ''instance-state-name'' aliveFilter])
       (\<lambda>instances. case instances of
          [] \<Rightarrow> returnM None
        | [i] \<Rightarrow> returnM (Some i)
        | _ \<Rightarrow> throwM (Errorf ''multiple instances found for name: %s'' [nodeName]))"

definition getInstanceByNodeName :: "'w Cloud \<Rightarrow> string \<Rightarrow> ('w, ec2_instance) aws" where
  "getInstanceByNodeName c nodeName =
     bindM (case nodeNameToInstanceID c nodeName of
              Inl err \<Rightarrow> findInstanceByNodeName c nodeName
            | Inr awsID \<Rightarrow> getInstanceByID c awsID)
       (\<lambda>inst. case inst of None \<Rightarrow> throwM InstanceNotFound | Some i \<Rightarrow> returnM i)"

definition newAWSInstance :: "ec2_instance \<Rightarrow> awsInstance" where
  "newAWSInstance inst = \<lparr>self_awsID = ToString (inst_InstanceId inst), self_nodeName = mapInstanceToNodeName inst,
     self_availabilityZone = (case inst_Placement inst of None \<Rightarrow> '''' | Some az \<Rightarrow> ToString az),
     self_vpcID = ToString (inst_VpcId inst), self_subnetID = ToString (inst_SubnetId inst),
     self_instanceType = inst_InstanceType inst\<rparr>"

definition self_describeInstance :: "'w ec2_client \<Rightarrow> awsInstance \<Rightarrow> ('w, ec2_instance) aws" where
  "self_describeInstance ec2Client i = describeInstance ec2Client (self_awsID i)"

definition getFullInstance :: "'w Cloud \<Rightarrow> string \<Rightarrow> ('w, awsInstance \<times> ec2_instance option) aws" where
  "getFullInstance c nodeName =
     (if nodeName = '''' then
        bindM (getInstanceByID c (self_awsID (c_selfAWSInstance c)))
          (\<lambda>inst. returnM (c_selfAWSInstance c, inst))
      else bindM (getInstanceByNodeName c nodeName) (\<lambda>inst. returnM (newAWSInstance inst, Some inst)))"

section \<open>Addresses\<close>

text \<open>Interfaces without an attachment sort after those with one.\<close>

definition eni_less :: "network_interface \<Rightarrow> network_interface \<Rightarrow> bool" where
  "eni_less a b = (case (eni_Attachment a, eni_Attachment b) of
       (None, _) \<Rightarrow> False
     | (Some _, None) \<Rightarrow> True
     | (Some x, Some y) \<Rightarrow> ToInt32 (attachment_DeviceIndex x) < ToInt32 (attachment_DeviceIndex y))"

definition interface_addresses :: "ec2_instance \<Rightarrow> network_interface \<Rightarrow> node_address list result" where
  "interface_addresses inst eni =
     (if eni_Status eni \<noteq> ''in-use'' then Inr []
      else foldR (\<lambda>internalIP addresses.
        let ipAddress = ToString internalIP in
        if ipAddress = '''' then Inr addresses
        else (case ParseIPSloppy ipAddress of
            None \<Rightarrow> Inl (Errorf ''EC2 instance had invalid private address: %s (%q)''
                      [ToString (inst_InstanceId inst), ipAddress])
          | Some ip \<Rightarrow> Inr (addresses @ [(''InternalIP'', ip_String ip)]))) (eni_PrivateIpAddresses eni) [])"

text \<open>The function sorts the interfaces of the instance in place, so it also returns the instance.\<close>

definition extractIPv4NodeAddresses :: "ec2_instance \<Rightarrow> (node_address list \<times> ec2_instance) result" where
  "extractIPv4NodeAddresses inst =
     (let inst = inst\<lparr>inst_NetworkInterfaces := sort_slice eni_less (inst_NetworkInterfaces inst)\<rparr>;
          publicIPAddress = ToString (inst_PublicIpAddress inst);
          privateDNSName = ToString (inst_PrivateDnsName inst);
          publicDNSName = ToString (inst_PublicDnsName inst)
      in bindR (foldR (\<lambda>eni addresses. bindR (interface_addresses inst eni) (\<lambda>as. Inr (addresses @ as)))
                 (inst_NetworkInterfaces inst) []) (\<lambda>addresses.
         bindR (if publicIPAddress = '''' then Inr addresses
                else (case ParseIPSloppy publicIPAddress of
                    None \<Rightarrow> Inl (Errorf ''EC2 instance had invalid public address: %s (%s)''
                              [ToString (inst_InstanceId inst), publicIPAddress])
                  | Some ip \<Rightarrow> Inr (addresses @ [(''ExternalIP'', ip_String ip)]))) (\<lambda>addresses.
         Inr (addresses
              @ (if privateDNSName \<noteq> '''' then [(''InternalDNS'', privateDNSName), (''Hostname'', privateDNSName)] else [])
              @ (if publicDNSName \<noteq> '''' then [(''ExternalDNS'', publicDNSName)] else []), inst))))"

definition extractIPv6NodeAddresses :: "ec2_instance \<Rightarrow> node_address list result" where
  "extractIPv6NodeAddresses inst = foldR (\<lambda>eni addresses.
     if eni_Status eni \<noteq> ''in-use'' \<or> eni_Ipv6Addresses eni = [] then Inr addresses
     else
       (let internalIPv6 = ToString (hd (eni_Ipv6Addresses eni)) in
        case ParseIP internalIPv6 of
          None \<Rightarrow> Inl (Errorf ''EC2 instance had invalid IPv6 address: %s (%q)''
                    [ToString (inst_InstanceId inst), internalIPv6])
        | Some ip \<Rightarrow> Inr (addresses @ [(''InternalIP'', ip_String ip)]))) (inst_NetworkInterfaces inst) []"

definition getInstanceNodeAddress :: "'w Cloud \<Rightarrow> ec2_instance \<Rightarrow> node_address list result" where
  "getInstanceNodeAddress c inst =
     bindR (foldR (\<lambda>family (addresses, inst).
       if family = ''ipv4'' then
         bindR (extractIPv4NodeAddresses inst) (\<lambda>(ipv4addr, inst). Inr (addresses @ ipv4addr, inst))
       else if family = ''ipv6'' then
         bindR (extractIPv6NodeAddresses inst) (\<lambda>ipv6addr. Inr (addresses @ ipv6addr, inst))
       else Inr (addresses, inst)) (NodeIPFamilies (c_global c)) ([], inst)) (\<lambda>(addresses, _). Inr addresses)"

definition NodeAddressesByProviderID :: "'w Cloud \<Rightarrow> string \<Rightarrow> ('w, node_address list) aws" where
  "NodeAddressesByProviderID c providerID =
     bindM (liftM (MapToAWSInstanceID providerID)) (\<lambda>instanceID. case GetVariant c instanceID of
       Some v \<Rightarrow> v_NodeAddresses v instanceID (c_vpcID c)
     | None \<Rightarrow> bindM (describeInstance (c_ec2 c) instanceID) (\<lambda>inst. liftM (getInstanceNodeAddress c inst)))"

definition NodeAddresses :: "'w Cloud \<Rightarrow> string \<Rightarrow> ('w, node_address list) aws" where
  "NodeAddresses c name =
     (case nodeNameToInstanceID c name of
        Inl err \<Rightarrow> throwM (Errorf ''could not look up instance ID for node %q: %v'' [name, Error err])
      | Inr instanceID \<Rightarrow> NodeAddressesByProviderID c instanceID)"

section \<open>Existence and shutdown\<close>

definition InstanceExistsByProviderID :: "'w Cloud \<Rightarrow> string \<Rightarrow> ('w, bool) aws" where
  "InstanceExistsByProviderID c providerID =
     bindM (liftM (MapToAWSInstanceID providerID)) (\<lambda>instanceID. case GetVariant c instanceID of
       Some v \<Rightarrow> v_InstanceExists v instanceID (c_vpcID c)
     | None \<Rightarrow>
         tryM (describeInstanceBatcher c [instanceID]) (\<lambda>Inl err \<Rightarrow>
             if IsAWSErrorInstanceNotFound err then returnM False else throwM err
           | Inr instances \<Rightarrow> (case instances of
               [] \<Rightarrow> returnM False
             | [i] \<Rightarrow> (case inst_State i of
                 None \<Rightarrow> returnM False
               | Some state \<Rightarrow> returnM (state \<noteq> ''terminated''))
             | _ \<Rightarrow> throwM (Errorf ''multiple instances found for instance: %s'' [instanceID]))))"

definition InstanceShutdownByProviderID :: "'w Cloud \<Rightarrow> string \<Rightarrow> ('w, bool) aws" where
  "InstanceShutdownByProviderID c providerID =
     bindM (liftM (MapToAWSInstanceID providerID)) (\<lambda>instanceID. case GetVariant c instanceID of
       Some v \<Rightarrow> v_InstanceShutdown v instanceID (c_vpcID c)
     | None \<Rightarrow>
         bindM (describeInstanceBatcher c [instanceID]) (\<lambda>instances. case instances of
             [] \<Rightarrow> returnM False
           | [i] \<Rightarrow> (case inst_State i of
               None \<Rightarrow> returnM False
             | Some state \<Rightarrow> returnM (state = ''stopped''))
           | _ \<Rightarrow> throwM (Errorf ''multiple instances found for instance: %s'' [instanceID])))"

section \<open>Provider id, type and zone of a node\<close>

definition placement_zone :: "ec2_instance \<Rightarrow> string option result" where
  "placement_zone inst = (case inst_Placement inst of
     None \<Rightarrow> Inl (Panic ''nil pointer dereference'') | Some az \<Rightarrow> Inr az)"

definition InstanceID :: "'w Cloud \<Rightarrow> string \<Rightarrow> ('w, string) aws" where
  "InstanceID c nodeName =
     (if self_nodeName (c_selfAWSInstance c) = nodeName then
        returnM (''/'' @ self_availabilityZone (c_selfAWSInstance c) @ ''/'' @ self_awsID (c_selfAWSInstance c))
      else
        tryM (getInstanceByNodeName c nodeName) (\<lambda>Inl err \<Rightarrow>
            if err = InstanceNotFound then throwM err
            else throwM (Errorf ''getInstanceByNodeName failed for %q with %q'' [nodeName, Error err])
          | Inr inst \<Rightarrow> bindM (liftM (placement_zone inst))
              (\<lambda>az. returnM (''/'' @ ToString az @ ''/'' @ ToString (inst_InstanceId inst)))))"

definition getInstanceType :: "ec2_instance \<Rightarrow> string" where
  "getInstanceType inst = inst_InstanceType inst"

definition InstanceTypeByProviderID :: "'w Cloud \<Rightarrow> string \<Rightarrow> ('w, string) aws" where
  "InstanceTypeByProviderID c providerID =
     bindM (liftM (MapToAWSInstanceID providerID)) (\<lambda>instanceID. case GetVariant c instanceID of
       Some v \<Rightarrow> liftM (v_InstanceTypeByProviderID v instanceID)
     | None \<Rightarrow> bindM (describeInstance (c_ec2 c) instanceID) (\<lambda>inst. returnM (getInstanceType inst)))"

definition InstanceType :: "'w Cloud \<Rightarrow> string \<Rightarrow> ('w, string) aws" where
  "InstanceType c nodeName =
     (if self_nodeName (c_selfAWSInstance c) = nodeName then returnM (self_instanceType (c_selfAWSInstance c))
      else bindM (wrapM (\<lambda>err. Errorf ''getInstanceByNodeName failed for %q with %q'' [nodeName, Error err])
                    (getInstanceByNodeName c nodeName)) (\<lambda>inst. returnM (inst_InstanceType inst)))"

definition GetZone :: "'w Cloud \<Rightarrow> zone" where
  "GetZone c = \<lparr>FailureDomain = self_availabilityZone (c_selfAWSInstance c), zone_Region = c_region c\<rparr>"

definition getInstanceZone :: "'w Cloud \<Rightarrow> ec2_instance option \<Rightarrow> zone result" where
  "getInstanceZone c inst = (case inst of
     None \<Rightarrow> Inl (Panic ''nil pointer dereference'')
   | Some i \<Rightarrow> (case inst_Placement i of
       Some (Some az) \<Rightarrow> Inr \<lparr>FailureDomain = az, zone_Region = c_region c\<rparr>
     | _ \<Rightarrow> Inl (Panic ''nil pointer dereference'')))"

definition GetZoneByProviderID :: "'w Cloud \<Rightarrow> string \<Rightarrow> ('w, zone) aws" where
  "GetZoneByProviderID c providerID =
     bindM (liftM (MapToAWSInstanceID providerID)) (\<lambda>instanceID. case GetVariant c instanceID of
       Some v \<Rightarrow> v_GetZone v instanceID (c_vpcID c) (c_region c)
     | None \<Rightarrow> bindM (getInstanceByID c instanceID) (\<lambda>inst. liftM (getInstanceZone c inst)))"

definition GetZoneByNodeName :: "'w Cloud \<Rightarrow> string \<Rightarrow> ('w, zone) aws" where
  "GetZoneByNodeName c nodeName =
     bindM (getInstanceByNodeName c nodeName) (\<lambda>inst. liftM (getInstanceZone c (Some inst)))"

definition getProviderID :: "'w Cloud \<Rightarrow> node \<Rightarrow> ('w, string) aws" where
  "getProviderID c n =
     (if node_ProviderID n \<noteq> '''' then returnM (node_ProviderID n)
      else bindM (InstanceID c (node_Name n)) (\<lambda>instanceID. returnM (ProviderName @ ''://'' @ instanceID)))"

definition InstanceExists :: "'w Cloud \<Rightarrow> node \<Rightarrow> ('w, bool) aws" where
  "InstanceExists c n =
     tryM (getProviderID c n) (\<lambda>Inl err \<Rightarrow> if is_instance_not_found err then returnM False else throwM err
       | Inr providerID \<Rightarrow> InstanceExistsByProviderID c providerID)"

definition InstanceShutdown :: "'w Cloud \<Rightarrow> node \<Rightarrow> ('w, bool) aws" where
  "InstanceShutdown c n =
     tryM (getProviderID c n) (\<lambda>Inl err \<Rightarrow> if is_instance_not_found err then returnM False else throwM err
       | Inr providerID \<Rightarrow> InstanceShutdownByProviderID c providerID)"

section \<open>The instance cache\<close>

text \<open>Times are integers. \<open>now\<close> is the time a function reads; \<^verbatim>\<open>MaxAge\<close> is a duration. A lookup in the cache reads the
  clock when it checks the age of the snapshot and once more when it fetches a new one.\<close>

type_synonym cache_times = "int \<times> int"

record allInstancesSnapshot =
  timestamp :: int
  instances :: "(string, ec2_instance) gomap"

record cacheCriteria =
  MaxAge :: int
  HasInstances :: "instance_id list"

definition olderThan :: "allInstancesSnapshot \<Rightarrow> allInstancesSnapshot \<Rightarrow> bool" where
  "olderThan s other \<longleftrightarrow> timestamp other > timestamp s"

definition MeetsCriteria :: "int \<Rightarrow> allInstancesSnapshot \<Rightarrow> cacheCriteria \<Rightarrow> bool" where
  "MeetsCriteria now s criteria \<longleftrightarrow>
     \<not> (MaxAge criteria > 0 \<and> now - timestamp s > MaxAge criteria)
     \<and> list_all (mhas (instances s)) (HasInstances criteria)"

definition FindInstances :: "allInstancesSnapshot \<Rightarrow> instance_id list \<Rightarrow> (string, ec2_instance) gomap" where
  "FindInstances s ids = fold (\<lambda>i m. case map_of (instances s) i of None \<Rightarrow> m | Some inst \<Rightarrow> mput i inst m) ids []"

text \<open>The cache is the snapshot; both operations run under its lock.\<close>

definition describeAllInstancesUncached ::
  "'w Cloud \<Rightarrow> int \<Rightarrow> ('w \<times> allInstancesSnapshot option, allInstancesSnapshot) aws" where
  "describeAllInstancesUncached c now = (\<lambda>(w, cached).
     case describeInstances c [] w of
       (Inl err, w) \<Rightarrow> (Inl err, (w, cached))
     | (Inr insts, w) \<Rightarrow>
         (let snapshot = \<lparr>timestamp = now,
                instances = mput_all (map (\<lambda>i. (ToString (inst_InstanceId i), i)) insts) []\<rparr>
          in (Inr snapshot, (w, case cached of
                None \<Rightarrow> Some snapshot
              | Some old \<Rightarrow> if olderThan snapshot old then cached else Some snapshot))))"

definition describeAllInstancesCached ::
  "'w Cloud \<Rightarrow> cache_times \<Rightarrow> cacheCriteria \<Rightarrow> ('w \<times> allInstancesSnapshot option, allInstancesSnapshot) aws" where
  "describeAllInstancesCached c now criteria = (\<lambda>(w, cached).
     case cached of
       Some s \<Rightarrow> if MeetsCriteria (fst now) s criteria then (Inr s, (w, cached))
                 else describeAllInstancesUncached c (snd now) (w, cached)
     | None \<Rightarrow> describeAllInstancesUncached c (snd now) (w, cached))"

section \<open>The provider id of a node names its instance\<close>

text \<open>C8: The provider id that \<^verbatim>\<open>getProviderID\<close> makes for a node from the instance found under its name is
  read back by \<^verbatim>\<open>MapToAWSInstanceID\<close> as the id of that instance, and whatever \<^verbatim>\<open>MapToAWSInstanceID\<close>
  accepts is the id of an EC2 instance or a fargate node without a slash. Ids and zones consist of
  characters that need no escaping in a URL.\<close>

theorem getProviderID_roundtrip:
  assumes "node_ProviderID n = ''''" and "self_nodeName (c_selfAWSInstance c) \<noteq> node_Name n"
    and "getInstanceByNodeName c (node_Name n) w = (Inr inst, w')"
    and "inst_InstanceId inst = Some i" and "inst_Placement inst = Some (Some az)"
    and "resource_id i" and "list_all plain_url_char (i @ az)" and "CHR ''/'' \<notin> set az"
  shows "\<exists>providerID. getProviderID c n w = (Inr providerID, w') \<and> MapToAWSInstanceID providerID = Inr i
     \<and> (\<forall>s j. MapToAWSInstanceID s = Inr j \<longrightarrow> resource_id j)"
proof -
  have "getProviderID c n w = (Inr (''aws:///'' @ az @ ''/'' @ i), w')"
    using assms by (simp add: getProviderID_def InstanceID_def run_simps placement_zone_def ProviderName_def)
  moreover have "MapToAWSInstanceID (''aws:///'' @ az @ ''/'' @ i) = Inr i"
    by (rule MapToAWSInstanceID_full) (use assms in simp_all)
  ultimately show ?thesis using MapToAWSInstanceID_sound by blast
qed

definition sample_instance :: ec2_instance where
  "sample_instance = \<lparr>inst_InstanceId = Some ''i-1'', inst_InstanceType = ''m5.large'', inst_State = Some ''running'',
     inst_Placement = Some (Some ''us-east-1a''), inst_PrivateDnsName = Some ''node-1'', inst_PublicDnsName = None,
     inst_PublicIpAddress = None, inst_VpcId = Some ''vpc-1'', inst_SubnetId = Some ''subnet-1'', inst_Tags = [],
     inst_SecurityGroups = [], inst_NetworkInterfaces = []\<rparr>"

definition instance_cloud :: "unit Cloud" where
  "instance_cloud = sample_cloud\<lparr>c_ec2 := idle_client\<lparr>DescribeInstances := (\<lambda>ids fs. returnM [sample_instance])\<rparr>\<rparr>"

abbreviation sample_node :: node where
  "sample_node \<equiv> \<lparr>node_Name = ''i-1.compute.internal'', node_ProviderID = '''', node_Labels = []\<rparr>"

lemma describe_one:
  assumes "\<forall>w. DescribeInstances (c_ec2 c) [i] [] w = (answer, w)"
  shows "describeInstanceBatcher c [i] w = (case answer of Inl err \<Rightarrow> Inl err
    | Inr insts \<Rightarrow> Inr (case find_last (\<lambda>x. ToString (inst_InstanceId x) = i) insts of None \<Rightarrow> [] | Some x \<Rightarrow> [x]), w)"
proof (cases answer)
  case (Inl err)
  with assms show ?thesis
    by (simp add: describeInstanceBatcher_def batch_DescribeInstances_def execDescribeInstanceBatch_def
        concurrently_def describe_call_def)
next
  case (Inr insts)
  have "map_of (rev (map (\<lambda>x. (ToString (inst_InstanceId x), x)) insts)) i
      = find_last (\<lambda>x. ToString (inst_InstanceId x) = i) insts"
  proof -
    have "map_of (map (\<lambda>x. (ToString (inst_InstanceId x), x)) xs) i = find (\<lambda>x. ToString (inst_InstanceId x) = i) xs" for xs
      by (induction xs) auto
    then show ?thesis by (simp add: find_last_def rev_map)
  qed
  with assms Inr show ?thesis
    by (simp add: describeInstanceBatcher_def batch_DescribeInstances_def execDescribeInstanceBatch_def
        map_of_mput_all split: option.split)
qed

lemma get_by_id_found:
  assumes "\<forall>w. DescribeInstances (c_ec2 c) [i] [] w = (Inr [inst], w)" and "inst_InstanceId inst = Some i" and "i \<noteq> ''''"
  shows "getInstanceByID c i w = (Inr (Some inst), w)"
  using describe_one [OF assms(1)] assms(2,3)
  by (simp add: getInstanceByID_def getInstancesByIDs_def run_simps find_last_def mput_all_def)

theorem getProviderID_roundtrip_witness:
  "\<exists>providerID. getProviderID instance_cloud sample_node () = (Inr providerID, ())
     \<and> MapToAWSInstanceID providerID = Inr ''i-1''"
proof -
  have "getInstanceByID instance_cloud ''i-1'' w = (Inr (Some sample_instance), w)" for w
    by (rule get_by_id_found) (simp_all add: instance_cloud_def run_simps sample_instance_def)
  moreover have "nodeNameToInstanceID instance_cloud (node_Name sample_node) = Inr ''i-1''"
    by (simp add: nodeNameToInstanceID_def rbnNamePrefix_def HasPrefix_def)
  ultimately have "getInstanceByNodeName instance_cloud (node_Name sample_node) () = (Inr sample_instance, ())"
    by (simp add: getInstanceByNodeName_def run_simps)
  moreover have "self_nodeName (c_selfAWSInstance instance_cloud) \<noteq> node_Name sample_node"
    by (simp add: instance_cloud_def sample_cloud_def)
  moreover have "list_all plain_url_char (''i-1'' @ ''us-east-1a'')" "resource_id ''i-1''"
    by (simp_all add: plain_url_char_def is_ctl_def resource_id_def HasPrefix_def)
  ultimately show ?thesis
    using getProviderID_roundtrip [of sample_node instance_cloud "()" sample_instance "()" "''i-1''" "''us-east-1a''"]
    by (auto simp: sample_instance_def)
qed

section \<open>Existence and shutdown\<close>

lemma no_variant: "GetVariant c i = None \<longleftrightarrow> \<not> HasPrefix i ''fargate-''"
  by (simp add: GetVariant_def variants_def RegisterVariant_def mhas_def fargateVariant_def
      fargate_IsSupportedNode_def fargateNodeNamePrefix_def)

text \<open>C9: For a node that is an EC2 instance (not a fargate node), when EC2 answers a request for this instance
  without side effects: the instance exists exactly if EC2 returns it in a state other than terminated (a not-found
  error means no), and it is shut down exactly if EC2 returns it stopped; every other error is reported. A
  terminated instance is not shut down, unlike the comment of \<^verbatim>\<open>InstanceShutdownByProviderID\<close> says: it does not exist.\<close>

theorem instance_state_by_provider_id:
  assumes "MapToAWSInstanceID providerID = Inr i" and "\<not> HasPrefix i ''fargate-''"
    and "\<forall>w. DescribeInstances (c_ec2 c) [i] [] w = (answer, w)"
    and "\<forall>err. answer = Inl err \<longrightarrow> \<not> is_panic err"
  shows "InstanceExistsByProviderID c providerID w = (case answer of
       Inl err \<Rightarrow> if IsAWSErrorInstanceNotFound err then Inr False else Inl err
     | Inr insts \<Rightarrow> Inr (case find_last (\<lambda>x. ToString (inst_InstanceId x) = i) insts of
         None \<Rightarrow> False | Some x \<Rightarrow> inst_State x \<noteq> None \<and> inst_State x \<noteq> Some ''terminated''), w)
    \<and> InstanceShutdownByProviderID c providerID w = (case answer of
       Inl err \<Rightarrow> Inl err
     | Inr insts \<Rightarrow> Inr (case find_last (\<lambda>x. ToString (inst_InstanceId x) = i) insts of
         None \<Rightarrow> False | Some x \<Rightarrow> inst_State x = Some ''stopped''), w)"
  using assms(1,2,4) no_variant [of c i] describe_one [OF assms(3)]
  by (auto simp: InstanceExistsByProviderID_def InstanceShutdownByProviderID_def run_simps
      split: sum.split option.split)

text \<open>The provider of an instance in a given state.\<close>

definition state_cloud :: "string \<Rightarrow> unit Cloud" where
  "state_cloud state = sample_cloud\<lparr>c_ec2 := idle_client\<lparr>DescribeInstances :=
     (\<lambda>ids fs. returnM [sample_instance\<lparr>inst_State := Some state\<rparr>])\<rparr>\<rparr>"

theorem instance_state_by_provider_id_witness:
  "map (\<lambda>state. (fst (InstanceExistsByProviderID (state_cloud state) ''aws:///us-east-1a/i-1'' ()),
       fst (InstanceShutdownByProviderID (state_cloud state) ''aws:///us-east-1a/i-1'' ())))
     [''running'', ''stopped'', ''terminated'']
   = [(Inr True, Inr False), (Inr True, Inr True), (Inr False, Inr False)]"
proof -
  have id: "MapToAWSInstanceID (''aws:///'' @ ''us-east-1a'' @ ''/'' @ ''i-1'') = Inr ''i-1''"
    by (rule MapToAWSInstanceID_full) (simp_all add: plain_url_char_def is_ctl_def resource_id_def HasPrefix_def)
  have "InstanceExistsByProviderID (state_cloud state) ''aws:///us-east-1a/i-1'' () = (Inr (state \<noteq> ''terminated''), ())
      \<and> InstanceShutdownByProviderID (state_cloud state) ''aws:///us-east-1a/i-1'' () = (Inr (state = ''stopped''), ())" for state
    using id instance_state_by_provider_id [of "''aws:///us-east-1a/i-1''" "''i-1''" "state_cloud state"
        "Inr [sample_instance\<lparr>inst_State := Some state\<rparr>]" "()"]
    by (simp add: HasPrefix_def find_last_def sample_instance_def state_cloud_def returnM_def)
  then show ?thesis by simp
qed

text \<open>A defect of the fargate variant: a node whose network interface exists counts as shut down.\<close>

lemma fargate_running_is_shutdown: "fargate_InstanceShutdown = fargate_InstanceExists"
  by (intro ext) (simp add: fargate_InstanceShutdown_def fargate_InstanceExists_def)

section \<open>Addresses of the primary interface come first\<close>

text \<open>The private addresses of one interface that is in use, in the canonical form of the address.\<close>

definition internal_ips :: "network_interface \<Rightarrow> string list" where
  "internal_ips eni = (if eni_Status eni = ''in-use''
     then map (\<lambda>a. ip_String (the (ParseIPSloppy (ToString a))))
       (filter (\<lambda>a. ToString a \<noteq> '''') (eni_PrivateIpAddresses eni)) else [])"

lemma eni_less_weak_order: "weak_order eni_less"
  by (auto simp: weak_order_def eni_less_def split: option.splits)

text \<open>The loop over the private addresses of an interface.\<close>

definition add_internal :: "ec2_instance \<Rightarrow> string option \<Rightarrow> node_address list \<Rightarrow> node_address list result" where
  "add_internal inst internalIP addresses =
     (let ipAddress = ToString internalIP in
      if ipAddress = '''' then Inr addresses
      else (case ParseIPSloppy ipAddress of
          None \<Rightarrow> Inl (Errorf ''EC2 instance had invalid private address: %s (%q)''
                    [ToString (inst_InstanceId inst), ipAddress])
        | Some ip \<Rightarrow> Inr (addresses @ [(''InternalIP'', ip_String ip)])))"

lemma add_internal_fold:
  "foldR (add_internal inst) ips acc = Inr as \<Longrightarrow>
   as = acc @ map (\<lambda>a. (''InternalIP'', ip_String (the (ParseIPSloppy (ToString a)))))
      (filter (\<lambda>a. ToString a \<noteq> '''') ips)"
proof (induction ips arbitrary: acc)
  case (Cons ip ips)
  from Cons.prems obtain acc' where step: "add_internal inst ip acc = Inr acc'"
    and rest: "foldR (add_internal inst) ips acc' = Inr as"
    by (auto simp: bindR_Inr_iff)
  from step have "acc' = acc @ (if ToString ip = '''' then []
      else [(''InternalIP'', ip_String (the (ParseIPSloppy (ToString ip))))])"
    by (auto simp: add_internal_def Let_def split: if_splits option.splits)
  with Cons.IH [OF rest] show ?case by simp
qed simp

lemma interface_addresses_Inr:
  assumes "interface_addresses inst eni = Inr as"
  shows "as = map (Pair ''InternalIP'') (internal_ips eni)"
proof (cases "eni_Status eni = ''in-use''")
  case True
  then have "foldR (add_internal inst) (eni_PrivateIpAddresses eni) [] = Inr as"
    using assms by (simp add: interface_addresses_def add_internal_def [abs_def])
  from add_internal_fold [OF this] True show ?thesis by (simp add: internal_ips_def comp_def)
next
  case False
  with assms show ?thesis by (simp add: interface_addresses_def internal_ips_def)
qed

lemma interfaces_fold:
  assumes "foldR (\<lambda>eni addresses. bindR (interface_addresses inst eni) (\<lambda>as. Inr (addresses @ as))) enis acc = Inr as"
  shows "as = acc @ map (Pair ''InternalIP'') (concat (map internal_ips enis))"
  using assms
proof (induction enis arbitrary: acc)
  case (Cons eni enis)
  from Cons.prems obtain bs where "interface_addresses inst eni = Inr bs"
    and rest: "foldR (\<lambda>eni addresses. bindR (interface_addresses inst eni) (\<lambda>as. Inr (addresses @ as))) enis (acc @ bs) = Inr as"
    by (auto simp: bindR_Inr_iff)
  with Cons.IH [OF rest] interface_addresses_Inr show ?case by simp
qed simp

text \<open>The position of an interface: the device index of its attachment, none when it is detached.\<close>

definition device_index :: "network_interface \<Rightarrow> int option" where
  "device_index eni = map_option (\<lambda>a. ToInt32 (attachment_DeviceIndex a)) (eni_Attachment eni)"

text \<open>\<open>a\<close> may come before \<open>b\<close>: \<open>b\<close> is detached, or both are attached and \<open>a\<close> has no larger index.\<close>

definition device_order :: "network_interface \<Rightarrow> network_interface \<Rightarrow> bool" where
  "device_order a b \<longleftrightarrow> (case (device_index a, device_index b) of
     (_, None) \<Rightarrow> True | (None, Some j) \<Rightarrow> False | (Some i, Some j) \<Rightarrow> i \<le> j)"

lemma device_order_eni_less: "\<not> eni_less b a \<longleftrightarrow> device_order a b"
  by (auto simp: eni_less_def device_order_def device_index_def split: option.split)

lemma mset_fold_sink: "mset (fold (sink lt) xs acc) = mset xs + mset acc"
proof (induction xs arbitrary: acc)
  case (Cons x xs)
  have "mset (sink lt x ys) = add_mset x (mset ys)" for ys by (induction ys) auto
  with Cons show ?case by simp
qed simp

lemma mset_sort_slice: "mset (sort_slice lt xs) = mset xs"
  by (simp add: sort_slice_def mset_fold_sink)

text \<open>C10: The addresses of a node are, in this order: the private addresses of its interfaces in use, the
  public address, and the DNS names. The interfaces are a permutation of those EC2 reported in the order of their device
  index with the detached ones last, so the address of the primary interface comes first; they are also left in this order
  for the IPv6 addresses.\<close>

theorem extractIPv4NodeAddresses_order:
  assumes "extractIPv4NodeAddresses inst = Inr (addresses, inst')"
  shows "\<exists>enis. inst' = inst\<lparr>inst_NetworkInterfaces := enis\<rparr>
     \<and> mset enis = mset (inst_NetworkInterfaces inst) \<and> sorted_wrt device_order enis
     \<and> addresses = map (Pair ''InternalIP'') (concat (map internal_ips enis))
         @ map (\<lambda>a. (''ExternalIP'', ip_String (the (ParseIPSloppy a)))) (filter ((\<noteq>) []) [ToString (inst_PublicIpAddress inst)])
         @ concat (map (\<lambda>name. [(''InternalDNS'', name), (''Hostname'', name)]) (filter ((\<noteq>) []) [ToString (inst_PrivateDnsName inst)]))
         @ map (Pair ''ExternalDNS'') (filter ((\<noteq>) []) [ToString (inst_PublicDnsName inst)])"
proof -
  let ?enis = "sort_slice eni_less (inst_NetworkInterfaces inst)"
  let ?inst = "inst\<lparr>inst_NetworkInterfaces := ?enis\<rparr>"
  obtain as where fold:
    "foldR (\<lambda>eni addresses. bindR (interface_addresses ?inst eni) (\<lambda>as. Inr (addresses @ as))) ?enis [] = Inr as"
    and "inst' = ?inst" and "addresses = as
         @ map (\<lambda>a. (''ExternalIP'', ip_String (the (ParseIPSloppy a)))) (filter ((\<noteq>) []) [ToString (inst_PublicIpAddress inst)])
         @ concat (map (\<lambda>name. [(''InternalDNS'', name), (''Hostname'', name)]) (filter ((\<noteq>) []) [ToString (inst_PrivateDnsName inst)]))
         @ map (Pair ''ExternalDNS'') (filter ((\<noteq>) []) [ToString (inst_PublicDnsName inst)])"
    using assms
    by (fastforce simp: extractIPv4NodeAddresses_def Let_def bindR_Inr_iff split: if_splits option.splits)
  with interfaces_fold [OF fold] sort_slice_sorted [OF eni_less_weak_order] show ?thesis
    by (auto simp: mset_sort_slice device_order_eni_less)
qed

definition two_eni_instance :: ec2_instance where
  "two_eni_instance = sample_instance\<lparr>inst_NetworkInterfaces :=
     [\<lparr>eni_Attachment = Some \<lparr>attachment_DeviceIndex = Some 1\<rparr>, eni_Status = ''in-use'',
       eni_PrivateIpAddresses = [Some ''10.0.0.2''], eni_Ipv6Addresses = [], eni_PrivateDnsName = None,
       eni_PrivateIpAddress = None, eni_AvailabilityZone = None\<rparr>,
      \<lparr>eni_Attachment = Some \<lparr>attachment_DeviceIndex = Some 0\<rparr>, eni_Status = ''in-use'',
       eni_PrivateIpAddresses = [Some ''10.0.0.1''], eni_Ipv6Addresses = [], eni_PrivateDnsName = None,
       eni_PrivateIpAddress = None, eni_AvailabilityZone = None\<rparr>]\<rparr>"

theorem extractIPv4NodeAddresses_order_witness:
  "\<exists>addresses inst'. extractIPv4NodeAddresses two_eni_instance = Inr (addresses, inst')
     \<and> addresses = [(''InternalIP'', ''10.0.0.1''), (''InternalIP'', ''10.0.0.2''), (''InternalDNS'', ''node-1''), (''Hostname'', ''node-1'')]
     \<and> sorted_wrt device_order (inst_NetworkInterfaces inst')
     \<and> mset (inst_NetworkInterfaces inst') = mset (inst_NetworkInterfaces two_eni_instance)"
proof -
  let ?run = "extractIPv4NodeAddresses two_eni_instance"
  have eval: "map_sum id fst ?run = Inr [(''InternalIP'', ''10.0.0.1''), (''InternalIP'', ''10.0.0.2''),
      (''InternalDNS'', ''node-1''), (''Hostname'', ''node-1'')]"
    by code_simp
  then obtain addresses inst' where run: "?run = Inr (addresses, inst')" by (cases ?run) auto
  with eval extractIPv4NodeAddresses_order [OF run] show ?thesis by auto
qed

section \<open>The instance cache\<close>

text \<open>A snapshot that a lookup may return without asking EC2: it is not older than the maximal age, if there is one, and it
  has every instance that is asked for.\<close>

definition usable_snapshot :: "int \<Rightarrow> cacheCriteria \<Rightarrow> allInstancesSnapshot \<Rightarrow> bool" where
  "usable_snapshot now criteria s \<longleftrightarrow> (0 < MaxAge criteria \<longrightarrow> now \<le> timestamp s + MaxAge criteria)
     \<and> (\<forall>i \<in> set (HasInstances criteria). map_of (instances s) i \<noteq> None)"

text \<open>A snapshot of what EC2 answered: every instance of the answer under its id, the last one when an id is repeated.\<close>

definition snapshot_of :: "int \<Rightarrow> ec2_instance list \<Rightarrow> allInstancesSnapshot \<Rightarrow> bool" where
  "snapshot_of now insts s \<longleftrightarrow> timestamp s = now
     \<and> (\<forall>i. map_of (instances s) i = find_last (\<lambda>x. ToString (inst_InstanceId x) = i) insts)"

lemma MeetsCriteria_usable: "MeetsCriteria now s criteria \<longleftrightarrow> usable_snapshot now criteria s"
  by (auto simp: MeetsCriteria_def usable_snapshot_def list_all_iff mhas_def)

lemma map_of_ids: "map_of (map (\<lambda>x. (f x, x)) xs) i = find (\<lambda>x. f x = i) xs"
  by (induction xs) auto

lemma describeAllInstancesUncached_ok:
  assumes "describeAllInstancesUncached c now (w, cached) = (r, (w', cached'))"
  shows "case describeInstances c [] w of
      (Inl err, w1) \<Rightarrow> r = Inl err \<and> w' = w1 \<and> cached' = cached
    | (Inr insts, w1) \<Rightarrow> w' = w1 \<and> (\<exists>s. r = Inr s \<and> snapshot_of now insts s
        \<and> cached' = Some (case cached of None \<Rightarrow> s | Some old \<Rightarrow> if now < timestamp old then old else s))"
  using assms
  by (auto simp: describeAllInstancesUncached_def Let_def olderThan_def snapshot_of_def map_of_mput_all find_last_def
      rev_map map_of_ids split: option.splits if_splits prod.splits sum.splits)

text \<open>C11: \<^verbatim>\<open>describeAllInstancesCached\<close> returns the cached snapshot, without asking EC2, exactly when there is one that is
  young enough and has all the instances that are asked for. Otherwise it asks EC2 for the instances of the cluster, reports its error
  without touching the cache, or returns a snapshot with exactly the instances of the answer, stamped with the time of the request, which replaces
  the cached one unless that is newer.\<close>

theorem describeAllInstancesCached_fresh:
  assumes "describeAllInstancesCached c (checked, fetched) criteria (w, cached) = (r, (w', cached'))"
  shows "(\<exists>s. cached = Some s \<and> usable_snapshot checked criteria s \<and> r = Inr s \<and> w' = w \<and> cached' = cached)
    \<or> (\<forall>s. cached = Some s \<longrightarrow> \<not> usable_snapshot checked criteria s) \<and> (case describeInstances c [] w of
          (Inl err, w1) \<Rightarrow> r = Inl err \<and> w' = w1 \<and> cached' = cached
        | (Inr insts, w1) \<Rightarrow> w' = w1 \<and> (\<exists>s. r = Inr s \<and> snapshot_of fetched insts s
            \<and> cached' = Some (case cached of None \<Rightarrow> s | Some old \<Rightarrow> if fetched < timestamp old then old else s)))"
proof (cases "\<exists>s. cached = Some s \<and> usable_snapshot checked criteria s")
  case True
  with assms show ?thesis by (auto simp: describeAllInstancesCached_def MeetsCriteria_usable)
next
  case False
  then have "describeAllInstancesUncached c fetched (w, cached) = (r, (w', cached'))"
    using assms by (auto simp: describeAllInstancesCached_def MeetsCriteria_usable split: option.splits)
  from describeAllInstancesUncached_ok [OF this] False show ?thesis by blast
qed

text \<open>A snapshot of time 2 is too old at time 5 when it may be 2 units old, and good enough when it may be 3 units old, unless it
  lacks an instance that is asked for.\<close>

definition tagged_instance :: ec2_instance where
  "tagged_instance = sample_instance\<lparr>inst_Tags := [\<lparr>tag_Key = Some TagNameKubernetesClusterLegacy, tag_Value = Some ''c1''\<rparr>]\<rparr>"

definition tagged_cloud :: "unit Cloud" where
  "tagged_cloud = sample_cloud\<lparr>c_ec2 := idle_client\<lparr>DescribeInstances := (\<lambda>ids fs. returnM [tagged_instance])\<rparr>\<rparr>"

abbreviation old_snapshot :: allInstancesSnapshot where
  "old_snapshot \<equiv> \<lparr>timestamp = 2, instances = []\<rparr>"

theorem describeAllInstancesCached_fresh_witness:
  "describeAllInstancesCached tagged_cloud (5, 6) \<lparr>MaxAge = 3, HasInstances = []\<rparr> ((), Some old_snapshot)
     = (Inr old_snapshot, ((), Some old_snapshot))
   \<and> list_all (\<lambda>criteria. \<exists>s. describeAllInstancesCached tagged_cloud (5, 6) criteria ((), Some old_snapshot) = (Inr s, ((), Some s))
          \<and> timestamp s = 6 \<and> map_of (instances s) ''i-1'' = Some tagged_instance)
        [\<lparr>MaxAge = 2, HasInstances = []\<rparr>, \<lparr>MaxAge = 3, HasInstances = [''i-1'']\<rparr>]"
proof
  obtain r cached' where "describeAllInstancesCached tagged_cloud (5, 6) \<lparr>MaxAge = 3, HasInstances = []\<rparr> ((), Some old_snapshot)
      = (r, ((), cached'))"
    by (metis surj_pair old.unit.exhaust)
  with describeAllInstancesCached_fresh [OF this]
  show "describeAllInstancesCached tagged_cloud (5, 6) \<lparr>MaxAge = 3, HasInstances = []\<rparr> ((), Some old_snapshot)
      = (Inr old_snapshot, ((), Some old_snapshot))"
    by (simp add: usable_snapshot_def)
next
  have all: "describeInstances tagged_cloud [] () = (Inr [tagged_instance], ())"
    by (simp add: describeInstances_def tagged_cloud_def tagged_instance_def sample_cloud_def hasClusterTag_def run_simps)
  have "\<exists>s. describeAllInstancesCached tagged_cloud (5, 6) criteria ((), Some old_snapshot) = (Inr s, ((), Some s))
      \<and> timestamp s = 6 \<and> map_of (instances s) ''i-1'' = Some tagged_instance"
    if "\<not> usable_snapshot 5 criteria old_snapshot" for criteria
  proof -
    obtain r cached' where "describeAllInstancesCached tagged_cloud (5, 6) criteria ((), Some old_snapshot) = (r, ((), cached'))"
      by (metis surj_pair old.unit.exhaust)
    with describeAllInstancesCached_fresh [OF this] that all show ?thesis
      by (auto simp: snapshot_of_def find_last_def tagged_instance_def sample_instance_def)
  qed
  then show "list_all (\<lambda>criteria. \<exists>s. describeAllInstancesCached tagged_cloud (5, 6) criteria ((), Some old_snapshot) = (Inr s, ((), Some s))
          \<and> timestamp s = 6 \<and> map_of (instances s) ''i-1'' = Some tagged_instance)
        [\<lparr>MaxAge = 2, HasInstances = []\<rparr>, \<lparr>MaxAge = 3, HasInstances = [''i-1'']\<rparr>]"
    by (simp add: usable_snapshot_def)
qed

end
