(* ===== verification/ClassicELB.thy ===== *)
theory ClassicELB
  imports TargetGroups Instances
begin

text \<open>
  Classic load balancers (\<^verbatim>\<open>aws_loadbalancer.go\<close> from \<^verbatim>\<open>ensureLoadBalancer\<close> on, \<^verbatim>\<open>describeLoadBalancer\<close> and
  \<^verbatim>\<open>addLoadBalancerTags\<close> of \<^verbatim>\<open>aws.go\<close>). The lemmas show that the plan for the listeners leads to the wanted
  listeners without a port conflict, that exactly the nodes are registered, and that a load balancer that
  already is as wanted is not changed. Go sets are lists here: where the code passes the elements of a set
  to an API in no particular order, the list has them in the order of their first occurrence.
\<close>

section \<open>Sets of strings\<close>

definition set_difference :: "string list \<Rightarrow> string list \<Rightarrow> string list" where
  "set_difference xs ys = filter (\<lambda>x. x \<notin> set ys) (remdups xs)"

lemma set_set_difference [simp]: "set (set_difference xs ys) = set xs - set ys"
  by (auto simp: set_difference_def)

lemma set_difference_empty: "set_difference xs ys = [] \<longleftrightarrow> set xs \<subseteq> set ys"
  by (auto simp: set_difference_def filter_empty_conv)

section \<open>Describing and tagging\<close>

definition ProxyProtocolPolicyName :: string where
  "ProxyProtocolPolicyName = ''k8s-proxyprotocol-enabled''"

definition SSLNegotiationPolicyNameFormat :: string where
  "SSLNegotiationPolicyNameFormat = ''k8s-SSLNegotiationPolicy-%s''"

definition TagNameKubernetesService :: string where
  "TagNameKubernetesService = ''kubernetes.io/service-name''"

text \<open>The last load balancer of the answer, if there is one.\<close>

definition describeLoadBalancer :: "'w Cloud \<Rightarrow> string \<Rightarrow> ('w, elb_description option) aws" where
  "describeLoadBalancer c name =
     tryM (elb_Describe (c_elb c) [name]) (\<lambda>r. case r of
         Inl err \<Rightarrow> if as_api_error err = Some ''LoadBalancerNotFound'' then returnM None else throwM err
       | Inr lbs \<Rightarrow> returnM (if lbs = [] then None else Some (last lbs)))"

definition addLoadBalancerTags :: "'w Cloud \<Rightarrow> string \<Rightarrow> (string, string) gomap \<Rightarrow> ('w, unit) aws" where
  "addLoadBalancerTags c loadBalancerName requested =
     wrapM (\<lambda>err. Errorf ''error adding tags to load balancer: %v'' [Error err])
       (elb_AddTags (c_elb c) loadBalancerName (elb_tags requested))"

section \<open>Listeners\<close>

definition elbProtocolsAreEqual :: "string option \<Rightarrow> string option \<Rightarrow> bool" where
  "elbProtocolsAreEqual l r = (case (l, r) of (Some a, Some b) \<Rightarrow> EqualFold a b | _ \<Rightarrow> l = None \<and> r = None)"

definition awsArnEquals :: "string option \<Rightarrow> string option \<Rightarrow> bool" where
  "awsArnEquals l r = (case (l, r) of (Some a, Some b) \<Rightarrow> EqualFold a b | _ \<Rightarrow> l = None \<and> r = None)"

definition elbListenersAreEqual :: "elb_listener \<Rightarrow> elb_listener \<Rightarrow> bool" where
  "elbListenersAreEqual actual expected \<longleftrightarrow>
     elbProtocolsAreEqual (l_Protocol actual) (l_Protocol expected)
     \<and> elbProtocolsAreEqual (l_InstanceProtocol actual) (l_InstanceProtocol expected)
     \<and> ToInt32 (l_InstancePort actual) = ToInt32 (l_InstancePort expected)
     \<and> l_LoadBalancerPort actual = l_LoadBalancerPort expected
     \<and> awsArnEquals (l_SSLCertificateId actual) (l_SSLCertificateId expected)"

text \<open>The body of the loop over the listeners of the load balancer: the indices found and the ports to remove.\<close>

definition sync_listener :: "elb_listener list \<Rightarrow> elb_listener option \<Rightarrow> nat list \<times> int list \<Rightarrow> nat list \<times> int list" where
  "sync_listener listeners desc acc = (case desc of
     None \<Rightarrow> acc
   | Some actual \<Rightarrow>
       (case find (\<lambda>i. elbListenersAreEqual actual (listeners ! i)) [0..<length listeners] of
          Some i \<Rightarrow> (List.insert i (fst acc), snd acc)
        | None \<Rightarrow> (fst acc, snd acc @ [l_LoadBalancerPort actual])))"

definition syncElbListeners :: "elb_listener list \<Rightarrow> elb_listener option list \<Rightarrow> elb_listener list \<times> int list" where
  "syncElbListeners listeners listenerDescriptions =
     (let (foundSet, removals) = fold (sync_listener listeners) listenerDescriptions ([], [])
      in (map (\<lambda>i. listeners ! i) (filter (\<lambda>i. i \<notin> set foundSet) [0..<length listeners]), removals))"

section \<open>Policies\<close>

definition createProxyProtocolPolicy :: "'w Cloud \<Rightarrow> string \<Rightarrow> ('w, unit) aws" where
  "createProxyProtocolPolicy c loadBalancerName =
     wrapM (\<lambda>err. Errorf ''error creating proxy protocol policy on load balancer: %q'' [Error err])
       (elb_CreatePolicy (c_elb c) (Some loadBalancerName) ProxyProtocolPolicyName ''ProxyProtocolPolicyType''
          (''ProxyProtocol'', ''true''))"

definition setBackendPolicies :: "'w Cloud \<Rightarrow> string \<Rightarrow> int option \<Rightarrow> string list \<Rightarrow> ('w, unit) aws" where
  "setBackendPolicies c loadBalancerName instancePort policies =
     wrapM (\<lambda>err. Errorf ''error adjusting AWS loadbalancer backend policies: %q'' [Error err])
       (elb_SetBackendPolicies (c_elb c) loadBalancerName instancePort policies)"

definition proxyProtocolEnabled :: "backend_server \<Rightarrow> bool" where
  "proxyProtocolEnabled backend = list_ex (\<lambda>policy. policy = ProxyProtocolPolicyName) (bs_PolicyNames backend)"

definition getLoadBalancerTLSPorts :: "elb_description \<Rightarrow> int list result" where
  "getLoadBalancerTLSPorts lb =
     foldR (\<lambda>desc ports. case desc of
         None \<Rightarrow> Inl (Panic ''nil pointer dereference'')
       | Some l \<Rightarrow> Inr (if ToString (l_Protocol l) = ''SSL'' \<or> ToString (l_Protocol l) = ''HTTPS''
                        then ports @ [l_LoadBalancerPort l] else ports))
       (lbd_ListenerDescriptions lb) []"

text \<open>A policy that is not found is created; any other error of the description is returned.\<close>

definition ensureSSLNegotiationPolicy :: "'w Cloud \<Rightarrow> elb_description \<Rightarrow> string \<Rightarrow> ('w, unit) aws" where
  "ensureSSLNegotiationPolicy c lb policyName =
     (let name = sprintf SSLNegotiationPolicyNameFormat [policyName] in
      bindM (tryM (elb_DescribePolicies (c_elb c) (lbd_LoadBalancerName lb) [name]) (\<lambda>r. case r of
          Inl err \<Rightarrow> if as_api_error err = Some ''PolicyNotFound'' then returnM []
                     else throwM (Errorf ''error describing security policies on load balancer: %q'' [Error err])
        | Inr policies \<Rightarrow> returnM policies)) (\<lambda>policies.
      if policies \<noteq> [] then returnM ()
      else wrapM (\<lambda>err. Errorf ''error creating security policy on load balancer: %q'' [Error err])
             (elb_CreatePolicy (c_elb c) (lbd_LoadBalancerName lb) name ''SSLNegotiationPolicyType''
                (''Reference-Security-Policy'', policyName))))"

definition setSSLNegotiationPolicy :: "'w Cloud \<Rightarrow> string \<Rightarrow> string \<Rightarrow> int \<Rightarrow> ('w, unit) aws" where
  "setSSLNegotiationPolicy c loadBalancerName sslPolicyName port =
     (let policyName = sprintf SSLNegotiationPolicyNameFormat [sslPolicyName] in
      wrapM (\<lambda>err. Errorf ''error setting SSL negotiation policy '%s' on load balancer: %q'' [policyName, Error err])
        (elb_SetListenerPolicies (c_elb c) loadBalancerName (to_int32 port) [policyName]))"

section \<open>Creating and updating\<close>

text \<open>The parts of \<^verbatim>\<open>ensureLoadBalancer\<close>. Each returns whether it changed something, the variable \<^verbatim>\<open>dirty\<close>.\<close>

definition create_classic ::
  "'w Cloud \<Rightarrow> namespaced_name \<Rightarrow> string \<Rightarrow> elb_listener list \<Rightarrow> string list \<Rightarrow> string list \<Rightarrow> bool \<Rightarrow> bool
     \<Rightarrow> (string, string) gomap \<Rightarrow> ('w, bool) aws" where
  "create_classic c namespacedName loadBalancerName listeners subnetIDs securityGroupIDs internalELB proxyProtocol annotations =
     (let tags = buildTags (c_tagging c) ResourceLifecycleOwned (mput TagNameKubernetesService (nn_String namespacedName)
            (getKeyValuePropertiesFromAnnotation annotations ServiceAnnotationLoadBalancerAdditionalTags))
      in bindM (elb_Create (c_elb c) \<lparr>cli_LoadBalancerName = loadBalancerName, cli_Listeners = listeners,
                  cli_Scheme = (if internalELB then Some ''internal'' else None), cli_Subnets = subnetIDs,
                  cli_SecurityGroups = securityGroupIDs, cli_Tags = elb_tags tags\<rparr>) (\<lambda>_.
         if proxyProtocol then
           bindM (createProxyProtocolPolicy c loadBalancerName) (\<lambda>_.
           bindM (forM (\<lambda>l. case l_InstancePort l of
                      None \<Rightarrow> throwM (Panic ''nil pointer dereference'')
                    | Some p \<Rightarrow> setBackendPolicies c loadBalancerName (Some p) [ProxyProtocolPolicyName]) listeners)
             (\<lambda>_. returnM True))
         else returnM True))"

definition sync_subnets :: "'w Cloud \<Rightarrow> string \<Rightarrow> string list \<Rightarrow> string list \<Rightarrow> ('w, bool) aws" where
  "sync_subnets c loadBalancerName expected actual =
     (let additions = set_difference expected actual; removals = set_difference actual expected in
      bindM (if removals \<noteq> []
             then wrapM (\<lambda>err. Errorf ''error detaching AWS loadbalancer from subnets: %q'' [Error err])
                    (elb_DetachSubnets (c_elb c) loadBalancerName removals)
             else returnM ()) (\<lambda>_.
      bindM (if additions \<noteq> []
             then wrapM (\<lambda>err. Errorf ''error attaching AWS loadbalancer to subnets: %q'' [Error err])
                    (elb_AttachSubnets (c_elb c) loadBalancerName additions)
             else returnM ()) (\<lambda>_. returnM (removals \<noteq> [] \<or> additions \<noteq> []))))"

definition sync_security_groups :: "nat \<Rightarrow> 'w Cloud \<Rightarrow> string \<Rightarrow> string list \<Rightarrow> string list \<Rightarrow> ('w, bool) aws" where
  "sync_security_groups polls c loadBalancerName securityGroupIDs actual =
     (if set securityGroupIDs = set actual then returnM False
      else
        bindM (wrapM (\<lambda>err. Errorf ''error applying AWS loadbalancer security groups: %q'' [Error err])
                 (elb_ApplySecurityGroups (c_elb c) loadBalancerName securityGroupIDs)) (\<lambda>_.
        bindM (removeOwnedSecurityGroups polls c loadBalancerName (set_difference actual securityGroupIDs)) (\<lambda>errs.
          if errs = [] then returnM True
          else throwM (Errorf ''error removing owned security groups: %v'' [Join (map Error errs) '' '']))))"

definition sync_listeners :: "'w Cloud \<Rightarrow> string \<Rightarrow> elb_listener list \<Rightarrow> elb_listener option list \<Rightarrow> ('w, bool) aws" where
  "sync_listeners c loadBalancerName listeners listenerDescriptions =
     (let (additions, removals) = syncElbListeners listeners listenerDescriptions in
      bindM (if removals \<noteq> []
             then wrapM (\<lambda>err. Errorf ''error deleting AWS loadbalancer listeners: %q'' [Error err])
                    (elb_DeleteListeners (c_elb c) loadBalancerName removals)
             else returnM ()) (\<lambda>_.
      bindM (if additions \<noteq> []
             then wrapM (\<lambda>err. Errorf ''error creating AWS loadbalancer listeners: %q'' [Error err])
                    (elb_CreateListeners (c_elb c) loadBalancerName additions)
             else returnM ()) (\<lambda>_. returnM (removals \<noteq> [] \<or> additions \<noteq> []))))"

text \<open>One wanted listener: its backend gets or loses the policy when its state is not the wanted one. The
  variables are the backends found, and \<^verbatim>\<open>dirty\<close>.\<close>

definition sync_backend ::
  "'w Cloud \<Rightarrow> string \<Rightarrow> bool \<Rightarrow> (int, bool) gomap \<Rightarrow> elb_listener \<Rightarrow> (int, bool) gomap \<times> bool
     \<Rightarrow> ('w, (int, bool) gomap \<times> bool) aws" where
  "sync_backend c loadBalancerName proxyProtocol proxyProtocolBackends listener acc =
     (case l_InstancePort listener of
        None \<Rightarrow> throwM (Panic ''nil pointer dereference'')
      | Some instancePort \<Rightarrow>
          (let (foundBackends, setPolicy) = (case map_of proxyProtocolBackends instancePort of
                 None \<Rightarrow> (fst acc, proxyProtocol)
               | Some currentState \<Rightarrow> (mput instancePort True (fst acc), currentState \<noteq> proxyProtocol))
           in if setPolicy then
                bindM (setBackendPolicies c loadBalancerName (Some instancePort)
                         (if proxyProtocol then [ProxyProtocolPolicyName] else []))
                  (\<lambda>_. returnM (foundBackends, True))
              else returnM (foundBackends, snd acc)))"

definition sync_proxy_protocol ::
  "'w Cloud \<Rightarrow> string \<Rightarrow> bool \<Rightarrow> backend_server list \<Rightarrow> elb_listener list \<Rightarrow> ('w, bool) aws" where
  "sync_proxy_protocol c loadBalancerName proxyProtocol backends listeners =
     bindM (if proxyProtocol then createProxyProtocolPolicy c loadBalancerName else returnM ()) (\<lambda>_.
     let foundBackends = mput_all (map (\<lambda>b. (ToInt32 (bs_InstancePort b), False)) backends) [];
         proxyProtocolBackends = mput_all (map (\<lambda>b. (ToInt32 (bs_InstancePort b), proxyProtocolEnabled b)) backends) []
     in bindM (foldM (sync_backend c loadBalancerName proxyProtocol proxyProtocolBackends) listeners (foundBackends, False))
          (\<lambda>(foundBackends, dirty).
            foldM (\<lambda>(instancePort, found) dirty.
                if found then returnM dirty
                else bindM (setBackendPolicies c loadBalancerName (Some instancePort) []) (\<lambda>_. returnM True))
              foundBackends dirty))"

definition sync_tags :: "'w Cloud \<Rightarrow> string \<Rightarrow> (string, string) gomap \<Rightarrow> ('w, unit) aws" where
  "sync_tags c loadBalancerName annotations =
     (let tags = getKeyValuePropertiesFromAnnotation annotations ServiceAnnotationLoadBalancerAdditionalTags in
      if tags \<noteq> [] then wrapM (\<lambda>err. Errorf ''unable to create additional load balancer tags: %v'' [Error err])
                           (addLoadBalancerTags c loadBalancerName tags)
      else returnM ())"

definition sync_attributes :: "'w Cloud \<Rightarrow> string \<Rightarrow> elb_attributes \<Rightarrow> ('w, bool) aws" where
  "sync_attributes c loadBalancerName loadBalancerAttributes =
     bindM (elb_DescribeAttributes (c_elb c) loadBalancerName) (\<lambda>foundAttributes.
       if loadBalancerAttributes = foundAttributes then returnM False
       else bindM (wrapM (\<lambda>err. Errorf ''Unable to update load balancer attributes during attribute sync: %q'' [Error err])
                     (elb_ModifyAttributes (c_elb c) loadBalancerName loadBalancerAttributes)) (\<lambda>_. returnM True))"

definition update_classic ::
  "nat \<Rightarrow> 'w Cloud \<Rightarrow> string \<Rightarrow> elb_description \<Rightarrow> elb_listener list \<Rightarrow> string list \<Rightarrow> string list \<Rightarrow> bool
     \<Rightarrow> (string, string) gomap \<Rightarrow> ('w, bool) aws" where
  "update_classic polls c loadBalancerName lb listeners subnetIDs securityGroupIDs proxyProtocol annotations =
     bindM (sync_subnets c loadBalancerName subnetIDs (lbd_Subnets lb)) (\<lambda>d1.
     bindM (sync_security_groups polls c loadBalancerName securityGroupIDs (lbd_SecurityGroups lb)) (\<lambda>d2.
     bindM (sync_listeners c loadBalancerName listeners (lbd_ListenerDescriptions lb)) (\<lambda>d3.
     bindM (sync_proxy_protocol c loadBalancerName proxyProtocol (lbd_BackendServerDescriptions lb) listeners) (\<lambda>d4.
     bindM (sync_tags c loadBalancerName annotations) (\<lambda>_. returnM (d1 \<or> d2 \<or> d3 \<or> d4))))))"

definition ensureLoadBalancer ::
  "nat \<Rightarrow> 'w Cloud \<Rightarrow> namespaced_name \<Rightarrow> string \<Rightarrow> elb_listener list \<Rightarrow> string list \<Rightarrow> string list \<Rightarrow> bool \<Rightarrow> bool
     \<Rightarrow> elb_attributes \<Rightarrow> (string, string) gomap \<Rightarrow> ('w, elb_description option) aws" where
  "ensureLoadBalancer polls c namespacedName loadBalancerName listeners subnetIDs securityGroupIDs internalELB proxyProtocol
       loadBalancerAttributes annotations =
     bindM (describeLoadBalancer c loadBalancerName) (\<lambda>lb.
     bindM (case lb of
              None \<Rightarrow> create_classic c namespacedName loadBalancerName listeners subnetIDs securityGroupIDs internalELB
                        proxyProtocol annotations
            | Some d \<Rightarrow> update_classic polls c loadBalancerName d listeners subnetIDs securityGroupIDs proxyProtocol annotations)
       (\<lambda>dirty.
     bindM (sync_attributes c loadBalancerName loadBalancerAttributes) (\<lambda>changed.
       if dirty \<or> changed then describeLoadBalancer c loadBalancerName else returnM lb)))"

section \<open>Health check and instances\<close>

definition ensureLoadBalancerHealthCheck ::
  "'w Cloud \<Rightarrow> elb_description \<Rightarrow> string \<Rightarrow> int \<Rightarrow> string \<Rightarrow> (string, string) gomap \<Rightarrow> ('w, unit) aws" where
  "ensureLoadBalancerHealthCheck c lb protocol port path annotations =
     (let name = ToString (lbd_LoadBalancerName lb);
          protocol = (case map_of annotations ServiceAnnotationLoadBalancerHealthCheckProtocol of
             None \<Rightarrow> protocol | Some s \<Rightarrow> s)
      in bindM (liftM (case map_of annotations ServiceAnnotationLoadBalancerHealthCheckPort of
             None \<Rightarrow> Inr port
           | Some s \<Rightarrow> if s = defaultHealthCheckPort then Inr port
                       else (case ParseInt 0 s of
                           None \<Rightarrow> Inl (Errorf ''strconv.ParseInt: parsing %q'' [s])
                         | Some p \<Rightarrow> Inr (to_int32 p)))) (\<lambda>port.
         let path = (if ToUpper protocol \<in> {''HTTP'', ''HTTPS''} then
                       (let p = (if path = '''' then defaultHealthCheckPath else path);
                            s = mstr annotations ServiceAnnotationLoadBalancerHealthCheckPath
                        in if s \<noteq> '''' then s else p)
                     else '''')
         in bindM (wrapM (\<lambda>err. Errorf ''cannot update health check for load balancer %q: %q'' [name, Error err])
                     (liftM (getExpectedHealthCheck (protocol @ '':'' @ Itoa port @ path) annotations))) (\<lambda>expected.
            case lbd_HealthCheck lb of
              None \<Rightarrow> throwM (Panic ''nil pointer dereference'')
            | Some actual \<Rightarrow>
                if ToString (hc_Target expected) = ToString (hc_Target actual)
                  \<and> ToInt32 (hc_HealthyThreshold expected) = ToInt32 (hc_HealthyThreshold actual)
                  \<and> ToInt32 (hc_UnhealthyThreshold expected) = ToInt32 (hc_UnhealthyThreshold actual)
                  \<and> ToInt32 (hc_Interval expected) = ToInt32 (hc_Interval actual)
                  \<and> ToInt32 (hc_Timeout expected) = ToInt32 (hc_Timeout actual)
                then returnM ()
                else wrapM (\<lambda>err. Errorf ''error configuring load balancer health check for %q: %q'' [name, Error err])
                       (elb_ConfigureHealthCheck (c_elb c) (lbd_LoadBalancerName lb) expected))))"

definition ensureLoadBalancerInstances ::
  "'w Cloud \<Rightarrow> string \<Rightarrow> string option list \<Rightarrow> (instance_id, ec2_instance) gomap \<Rightarrow> ('w, unit) aws" where
  "ensureLoadBalancerInstances c loadBalancerName lbInstances instanceIDs =
     (let expected = mkeys instanceIDs; actual = map ToString lbInstances;
          additions = sort (set_difference expected actual); removals = sort (set_difference actual expected)
      in bindM (if additions \<noteq> [] then elb_RegisterInstances (c_elb c) loadBalancerName additions else returnM ()) (\<lambda>_.
         if removals \<noteq> [] then elb_DeregisterInstances (c_elb c) loadBalancerName removals else returnM ()))"

definition filterTargetNodes :: "node list \<Rightarrow> (string, string) gomap \<Rightarrow> node list" where
  "filterTargetNodes nodes annotations =
     (let targetNodeLabels = getKeyValuePropertiesFromAnnotation annotations ServiceAnnotationLoadBalancerTargetNodeLabels in
      if targetNodeLabels = [] then nodes
      else filter (\<lambda>n. node_Labels n \<noteq> [] \<and> list_all (\<lambda>(targetLabelKey, targetLabelValue).
               case map_of (node_Labels n) targetLabelKey of
                 None \<Rightarrow> False
               | Some v \<Rightarrow> \<not> (v \<noteq> targetLabelValue \<and> targetLabelValue \<noteq> '''')) targetNodeLabels) nodes)"

section \<open>The plan for the listeners\<close>

lemma elbListenersAreEqual_refl [simp]: "elbListenersAreEqual l l"
  by (simp add: elbListenersAreEqual_def elbProtocolsAreEqual_def awsArnEquals_def split: option.split)

lemma elbListenersAreEqual_port: "elbListenersAreEqual a e \<Longrightarrow> l_LoadBalancerPort a = l_LoadBalancerPort e"
  by (simp add: elbListenersAreEqual_def)

text \<open>The listeners that the load balancer has.\<close>

abbreviation present_listeners :: "elb_listener option list \<Rightarrow> elb_listener list" where
  "present_listeners descs \<equiv> List.map_filter (\<lambda>d. d) descs"

abbreviation wanted_listener :: "elb_listener list \<Rightarrow> elb_listener \<Rightarrow> bool" where
  "wanted_listener listeners a \<equiv> \<exists>e \<in> set listeners. elbListenersAreEqual a e"

lemma find_index_wanted:
  "(find (\<lambda>i. elbListenersAreEqual a (listeners ! i)) [0..<length listeners] = None) \<longleftrightarrow> \<not> wanted_listener listeners a"
  by (fastforce simp: find_None_iff in_set_conv_nth)

text \<open>What the loop computes.\<close>

lemma sync_listener_fold:
  "fold (sync_listener listeners) descs (found, removals) = (f, r) \<Longrightarrow>
     set f = set found \<union> {i. \<exists>a \<in> set (present_listeners descs).
               find (\<lambda>i. elbListenersAreEqual a (listeners ! i)) [0..<length listeners] = Some i}
     \<and> r = removals @ map l_LoadBalancerPort (filter (\<lambda>a. \<not> wanted_listener listeners a) (present_listeners descs))"
proof (induction descs arbitrary: found removals)
  case Nil
  then show ?case by simp
next
  case (Cons d descs)
  show ?case
  proof (cases d)
    case None
    with Cons show ?thesis by (simp add: sync_listener_def)
  next
    case (Some a)
    show ?thesis
    proof (cases "find (\<lambda>i. elbListenersAreEqual a (listeners ! i)) [0..<length listeners]")
      case None
      with Some Cons.prems Cons.IH [of found "removals @ [l_LoadBalancerPort a]"] show ?thesis
        using find_index_wanted [of a listeners] by (simp add: sync_listener_def)
    next
      case (Some i)
      then have "wanted_listener listeners a" using find_index_wanted [of a listeners] by simp
      with Some \<open>d = Some a\<close> Cons.prems Cons.IH [of "List.insert i found" removals] show ?thesis
        by (auto simp: sync_listener_def)
    qed
  qed
qed

lemma syncElbListeners_eq:
  assumes "distinct (map l_LoadBalancerPort listeners)" and "syncElbListeners listeners descs = (additions, removals)"
  shows "removals = map l_LoadBalancerPort (filter (\<lambda>a. \<not> wanted_listener listeners a) (present_listeners descs))"
    and "additions = filter (\<lambda>e. \<not> (\<exists>a \<in> set (present_listeners descs). elbListenersAreEqual a e)) listeners"
proof -
  obtain f r where fold: "fold (sync_listener listeners) descs ([], []) = (f, r)" by fastforce
  note facts = sync_listener_fold [OF fold]
  from assms(2) fold have res: "additions = map (\<lambda>i. listeners ! i) (filter (\<lambda>i. i \<notin> set f) [0..<length listeners])"
    "removals = r" by (simp_all add: syncElbListeners_def)
  then show "removals = map l_LoadBalancerPort (filter (\<lambda>a. \<not> wanted_listener listeners a) (present_listeners descs))"
    using facts by simp
  have unique: "find (\<lambda>i. elbListenersAreEqual a (listeners ! i)) [0..<length listeners] = Some i"
    if "i < length listeners" "elbListenersAreEqual a (listeners ! i)" for a i
  proof -
    from that have "wanted_listener listeners a" by (meson nth_mem)
    then obtain j where j: "find (\<lambda>i. elbListenersAreEqual a (listeners ! i)) [0..<length listeners] = Some j"
      using find_index_wanted [of a listeners] by blast
    then have "j < length listeners" "elbListenersAreEqual a (listeners ! j)"
      by (auto simp: find_Some_iff)
    with that assms(1) have "j = i"
      by (metis elbListenersAreEqual_port distinct_conv_nth length_map nth_map)
    with j show ?thesis by simp
  qed
  have sound: "elbListenersAreEqual a (listeners ! i)"
    if "find (\<lambda>i. elbListenersAreEqual a (listeners ! i)) [0..<length listeners] = Some i" for a i
    using that by (auto simp: find_Some_iff)
  have "i \<in> set f \<longleftrightarrow> (\<exists>a \<in> set (present_listeners descs). elbListenersAreEqual a (listeners ! i))"
    if "i < length listeners" for i
  proof -
    have "i \<in> set f \<longleftrightarrow> (\<exists>a \<in> set (present_listeners descs).
        find (\<lambda>i. elbListenersAreEqual a (listeners ! i)) [0..<length listeners] = Some i)"
      using facts by simp
    then show ?thesis using unique [OF that] sound [of _ i] by (meson)
  qed
  then have "filter (\<lambda>i. i \<notin> set f) [0..<length listeners]
      = filter ((\<lambda>e. \<not> (\<exists>a \<in> set (present_listeners descs). elbListenersAreEqual a e)) \<circ> (!) listeners) [0..<length listeners]"
    by (intro filter_cong) auto
  with res(1) show "additions = filter (\<lambda>e. \<not> (\<exists>a \<in> set (present_listeners descs). elbListenersAreEqual a e)) listeners"
    by (simp add: filter_map [symmetric] map_nth)
qed

text \<open>C27: The plan for the listeners. Removing the listeners on the ports that \<^verbatim>\<open>syncElbListeners\<close> returns and
  then adding the listeners it returns leaves listeners that are, up to the comparison of the code, exactly
  the wanted ones, and no port is used twice on the way; a load balancer that has the wanted listeners gets
  an empty plan. The wanted listeners have different ports, and so have those of the load balancer.\<close>

theorem syncElbListeners_plan:
  assumes wanted: "distinct (map l_LoadBalancerPort listeners)"
    and present: "distinct (map l_LoadBalancerPort (present_listeners descs))"
    and plan: "syncElbListeners listeners descs = (additions, removals)"
    and kept: "kept = filter (\<lambda>a. l_LoadBalancerPort a \<notin> set removals) (present_listeners descs)"
  shows "(\<forall>e \<in> set listeners. \<exists>l \<in> set (kept @ additions). elbListenersAreEqual l e)
     \<and> (\<forall>l \<in> set (kept @ additions). \<exists>e \<in> set listeners. elbListenersAreEqual l e)
     \<and> distinct (map l_LoadBalancerPort (kept @ additions))
     \<and> ((\<forall>e \<in> set listeners. \<exists>a \<in> set (present_listeners descs). elbListenersAreEqual a e)
        \<and> (\<forall>a \<in> set (present_listeners descs). wanted_listener listeners a) \<longrightarrow> additions = [] \<and> removals = [])"
proof -
  note eqs = syncElbListeners_eq [OF wanted plan]
  have kept_eq: "kept = filter (wanted_listener listeners) (present_listeners descs)"
    unfolding kept eqs(1)
    by (intro filter_cong refl) (use present in \<open>auto simp: distinct_map inj_on_def\<close>)
  have "\<exists>l \<in> set (kept @ additions). elbListenersAreEqual l e" if "e \<in> set listeners" for e
    using that elbListenersAreEqual_refl [of e]
    by (cases "\<exists>a \<in> set (present_listeners descs). elbListenersAreEqual a e") (auto simp: kept_eq eqs(2) simp del: elbListenersAreEqual_refl)
  moreover have "\<exists>e \<in> set listeners. elbListenersAreEqual l e" if "l \<in> set (kept @ additions)" for l
    using that elbListenersAreEqual_refl [of l] by (auto simp: kept_eq eqs(2) simp del: elbListenersAreEqual_refl)
  moreover have "distinct (map l_LoadBalancerPort (kept @ additions))"
  proof -
    have "distinct (map l_LoadBalancerPort kept)" "distinct (map l_LoadBalancerPort additions)"
      using wanted present by (simp_all add: kept_eq eqs(2) distinct_map_filter)
    moreover have "l_LoadBalancerPort a \<noteq> l_LoadBalancerPort e" if a: "a \<in> set kept" and e: "e \<in> set additions" for a e
    proof
      assume port: "l_LoadBalancerPort a = l_LoadBalancerPort e"
      obtain e' where "e' \<in> set listeners" "elbListenersAreEqual a e'" using a by (auto simp: kept_eq)
      moreover from this port e wanted have "e' = e"
        by (metis (no_types, lifting) elbListenersAreEqual_port distinct_map eqs(2) filter_is_subset inj_onD subsetD)
      ultimately show False using a e by (auto simp: kept_eq eqs(2))
    qed
    ultimately show ?thesis by auto
  qed
  moreover have "additions = [] \<and> removals = []"
    if "\<forall>e \<in> set listeners. \<exists>a \<in> set (present_listeners descs). elbListenersAreEqual a e"
      "\<forall>a \<in> set (present_listeners descs). wanted_listener listeners a"
    using that by (simp add: eqs)
  ultimately show ?thesis by blast
qed

definition port_listener :: "string \<Rightarrow> int \<Rightarrow> elb_listener" where
  "port_listener protocol port = \<lparr>l_InstancePort = Some (30000 + port), l_InstanceProtocol = Some ''tcp'',
     l_LoadBalancerPort = port, l_Protocol = Some protocol, l_SSLCertificateId = None\<rparr>"

lemma listener_equality [simp]: "elbListenersAreEqual (port_listener p m) (port_listener q n) \<longleftrightarrow> EqualFold p q \<and> m = n"
  by (auto simp: elbListenersAreEqual_def port_listener_def elbProtocolsAreEqual_def awsArnEquals_def)

theorem syncElbListeners_plan_witness:
  "syncElbListeners [port_listener ''TCP'' 80, port_listener ''TCP'' 443]
       [Some (port_listener ''tcp'' 80), None, Some (port_listener ''tcp'' 8080)] = ([port_listener ''TCP'' 443], [8080])
     \<and> distinct (map l_LoadBalancerPort [port_listener ''tcp'' 80, port_listener ''TCP'' 443])"
proof -
  let ?want = "[port_listener ''TCP'' 80, port_listener ''TCP'' 443]"
  let ?have = "[Some (port_listener ''tcp'' 80), None, Some (port_listener ''tcp'' 8080)]"
  have fold: "EqualFold ''tcp'' ''TCP''" by code_simp
  have plan: "syncElbListeners ?want ?have = ([port_listener ''TCP'' 443], [8080])"
    using fold by (simp add: syncElbListeners_def sync_listener_def upt_rec) (simp add: port_listener_def)
  from syncElbListeners_plan [OF _ _ plan refl] plan show ?thesis
    by (simp add: port_listener_def List.map_filter_def)
qed

section \<open>A load balancer that is as wanted is left alone\<close>

lemma sync_listeners_same:
  assumes "distinct (map l_LoadBalancerPort listeners)"
    and "\<forall>e \<in> set listeners. \<exists>a \<in> set (present_listeners descs). elbListenersAreEqual a e"
    and "\<forall>a \<in> set (present_listeners descs). wanted_listener listeners a"
  shows "sync_listeners c name listeners descs w = (Inr False, w)"
proof -
  obtain additions removals where plan: "syncElbListeners listeners descs = (additions, removals)" by fastforce
  with assms syncElbListeners_eq [OF assms(1) plan] have "additions = []" "removals = []" by simp_all
  with plan show ?thesis by (simp add: sync_listeners_def run_simps)
qed

text \<open>The ports that the loop over the listeners marks as found.\<close>

definition mark_found :: "(int, bool) gomap \<Rightarrow> elb_listener list \<Rightarrow> (int, bool) gomap \<Rightarrow> (int, bool) gomap" where
  "mark_found backends = fold (\<lambda>l m. if mhas backends (the (l_InstancePort l)) then mput (the (l_InstancePort l)) True m else m)"

lemma mark_found_lookup:
  "map_of (mark_found backends listeners m) p =
     (if p \<in> (\<lambda>l. the (l_InstancePort l)) ` set listeners \<and> mhas backends p then Some True else map_of m p)"
  unfolding mark_found_def by (induction listeners arbitrary: m) (auto simp: update_conv')

lemma wf_mark_found: "wf_map m \<Longrightarrow> wf_map (mark_found backends listeners m)"
  unfolding mark_found_def by (induction listeners arbitrary: m) simp_all

lemma sync_backend_off:
  assumes "\<forall>l \<in> set listeners. l_InstancePort l \<noteq> None" and "\<forall>p. map_of backends p \<noteq> Some True"
  shows "foldM (sync_backend c name False backends) listeners (found, d) w = (Inr (mark_found backends listeners found, d), w)"
  using assms(1)
proof (induction listeners arbitrary: found)
  case (Cons l listeners)
  then obtain p where "l_InstancePort l = Some p" by auto
  with Cons assms(2) show ?case
    by (cases "map_of backends p") (auto simp: sync_backend_def run_simps mark_found_def mhas_def)
qed (simp add: run_simps mark_found_def)

lemma foldM_skip: "(\<And>x s w. x \<in> set xs \<Longrightarrow> f x s w = (Inr s, w)) \<Longrightarrow> foldM f xs s w = (Inr s, w)"
  by (induction xs) (simp_all add: run_simps)

lemma sync_proxy_protocol_off:
  assumes ports: "\<forall>l \<in> set listeners. l_InstancePort l \<noteq> None"
    and backends: "\<forall>b \<in> set backends. \<not> proxyProtocolEnabled b
      \<and> ToInt32 (bs_InstancePort b) \<in> (\<lambda>l. the (l_InstancePort l)) ` set listeners"
  shows "sync_proxy_protocol c name False backends listeners w = (Inr False, w)"
proof -
  let ?found = "mput_all (map (\<lambda>b. (ToInt32 (bs_InstancePort b), False)) backends) []"
  let ?proxy = "mput_all (map (\<lambda>b. (ToInt32 (bs_InstancePort b), proxyProtocolEnabled b)) backends) []"
  have off: "\<forall>p. map_of ?proxy p \<noteq> Some True"
    using backends by (auto simp: map_of_mput_all dest!: map_of_SomeD)
  have keys: "mhas ?proxy p \<longleftrightarrow> mhas ?found p" for p
    by (simp add: mhas_iff mkeys_mput_all comp_def del: set_map)
  have all: "b" if "(p, b) \<in> set (mark_found ?proxy listeners ?found)" for p b
  proof -
    have look: "map_of (mark_found ?proxy listeners ?found) p = Some b"
      using that wf_map_in_set [OF wf_mark_found [of ?found ?proxy listeners]] by simp
    show ?thesis
    proof (cases "mhas ?found p")
      case True
      then have "p \<in> (\<lambda>l. the (l_InstancePort l)) ` set listeners"
        using backends by (auto simp: mhas_iff mkeys_mput_all simp del: set_map) auto
      with look True keys show ?thesis by (simp add: mark_found_lookup)
    next
      case False
      with look keys show ?thesis by (auto simp: mark_found_lookup mhas_def)
    qed
  qed
  have "foldM (\<lambda>(instancePort, found) dirty. if found then returnM dirty
      else bindM (setBackendPolicies c name (Some instancePort) []) (\<lambda>_. returnM True))
    (mark_found ?proxy listeners ?found) False w = (Inr False, w)"
    by (rule foldM_skip) (use all in \<open>fastforce simp: run_simps\<close>)
  then show ?thesis
    by (simp add: sync_proxy_protocol_def run_simps sync_backend_off [OF ports off] Let_def)
qed

text \<open>C28: Idempotence. When the load balancer has the wanted subnets, security groups, listeners and
  attributes, no proxy protocol is asked for or left on a backend and no additional tags are given,
  \<^verbatim>\<open>ensureLoadBalancer\<close> returns it and makes no call that could change anything: nothing is assumed of
  those calls.\<close>

theorem ensureLoadBalancer_idempotent:
  assumes "describeLoadBalancer c name w = (Inr (Some lb), w)"
    and "elb_DescribeAttributes (c_elb c) name w = (Inr attributes, w)"
    and "set subnetIDs = set (lbd_Subnets lb)" and "set securityGroupIDs = set (lbd_SecurityGroups lb)"
    and "distinct (map l_LoadBalancerPort listeners)"
    and "\<forall>e \<in> set listeners. \<exists>a \<in> set (present_listeners (lbd_ListenerDescriptions lb)). elbListenersAreEqual a e"
    and "\<forall>a \<in> set (present_listeners (lbd_ListenerDescriptions lb)). wanted_listener listeners a"
    and "\<forall>l \<in> set listeners. l_InstancePort l \<noteq> None"
    and "\<forall>b \<in> set (lbd_BackendServerDescriptions lb). \<not> proxyProtocolEnabled b
           \<and> ToInt32 (bs_InstancePort b) \<in> (\<lambda>l. the (l_InstancePort l)) ` set listeners"
    and "getKeyValuePropertiesFromAnnotation annotations ServiceAnnotationLoadBalancerAdditionalTags = []"
  shows "ensureLoadBalancer polls c namespacedName name listeners subnetIDs securityGroupIDs internalELB False attributes
           annotations w = (Inr (Some lb), w)"
proof -
  have "sync_subnets c name subnetIDs (lbd_Subnets lb) w = (Inr False, w)"
    using assms(3) set_difference_empty by (simp add: sync_subnets_def run_simps Let_def)
  moreover have "sync_security_groups polls c name securityGroupIDs (lbd_SecurityGroups lb) w = (Inr False, w)"
    using assms(4) by (simp add: sync_security_groups_def run_simps)
  ultimately have "update_classic polls c name lb listeners subnetIDs securityGroupIDs False annotations w = (Inr False, w)"
    using sync_listeners_same [OF assms(5-7), of c name w] sync_proxy_protocol_off [OF assms(8,9), of c name w] assms(10)
    by (simp add: update_classic_def run_simps sync_tags_def)
  with assms(1,2) show ?thesis
    by (simp add: ensureLoadBalancer_def run_simps sync_attributes_def)
qed

definition elb_cloud :: "unit Cloud" where
  "elb_cloud = sample_cloud\<lparr>c_elb := idle_elb\<lparr>elb_Describe := (\<lambda>_. returnM
     [\<lparr>lbd_LoadBalancerName = Some ''lb'', lbd_DNSName = Some ''lb.aws'', lbd_Subnets = [''subnet-1'', ''subnet-2''],
       lbd_SecurityGroups = [''sg-1''], lbd_ListenerDescriptions = [Some (port_listener ''TCP'' 80)],
       lbd_BackendServerDescriptions = [\<lparr>bs_InstancePort = Some 30080, bs_PolicyNames = []\<rparr>],
       lbd_HealthCheck = None, lbd_Instances = []\<rparr>]),
     elb_CreateListeners := (\<lambda>_ _. throwM NotImplemented), elb_DeleteListeners := (\<lambda>_ _. throwM NotImplemented)\<rparr>\<rparr>"

abbreviation no_attributes :: elb_attributes where
  "no_attributes \<equiv> \<lparr>attr_AccessLog = None, attr_AdditionalAttributes = None, attr_ConnectionDraining = None,
     attr_ConnectionSettings = None, attr_CrossZoneLoadBalancing = None\<rparr>"

theorem ensureLoadBalancer_idempotent_witness:
  "\<exists>lb. describeLoadBalancer elb_cloud ''lb'' () = (Inr (Some lb), ())
     \<and> ensureLoadBalancer 1 elb_cloud \<lparr>nn_Namespace = ''ns'', nn_Name = ''svc''\<rparr> ''lb'' [port_listener ''tcp'' 80]
         [''subnet-2'', ''subnet-1''] [''sg-1''] False False no_attributes [] () = (Inr (Some lb), ())"
proof -
  have fold: "EqualFold ''TCP'' ''tcp''" by code_simp
  define lb where "lb = last (projr (fst (elb_Describe (c_elb elb_cloud) [''lb''] ())))"
  have lb: "lb = \<lparr>lbd_LoadBalancerName = Some ''lb'', lbd_DNSName = Some ''lb.aws'', lbd_Subnets = [''subnet-1'', ''subnet-2''],
       lbd_SecurityGroups = [''sg-1''], lbd_ListenerDescriptions = [Some (port_listener ''TCP'' 80)],
       lbd_BackendServerDescriptions = [\<lparr>bs_InstancePort = Some 30080, bs_PolicyNames = []\<rparr>],
       lbd_HealthCheck = None, lbd_Instances = []\<rparr>"
    by (simp add: lb_def elb_cloud_def returnM_run)
  have describe: "describeLoadBalancer elb_cloud ''lb'' () = (Inr (Some lb), ())"
    by (simp add: lb describeLoadBalancer_def elb_cloud_def run_simps)
  have "ensureLoadBalancer 1 elb_cloud \<lparr>nn_Namespace = ''ns'', nn_Name = ''svc''\<rparr> ''lb'' [port_listener ''tcp'' 80]
      [''subnet-2'', ''subnet-1''] [''sg-1''] False False no_attributes [] () = (Inr (Some lb), ())"
    by (rule ensureLoadBalancer_idempotent [OF describe])
      (use fold EqualFold_sym [OF fold] in \<open>auto simp: lb elb_cloud_def idle_elb_def returnM_run port_listener_def
        proxyProtocolEnabled_def getKeyValuePropertiesFromAnnotation_def List.map_filter_def elbListenersAreEqual_def
        elbProtocolsAreEqual_def awsArnEquals_def\<close>)
  with describe show ?thesis by blast
qed

section \<open>The registered instances\<close>

text \<open>Registering and deregistering, as the API documents it, makes the nodes of the service the registered instances.\<close>

lemma ensureLoadBalancerInstances_exact:
  assumes "\<forall>w ids. \<exists>w'. elb_RegisterInstances (c_elb c) name ids w = (Inr (), w') \<and> registered w' = registered w \<union> set ids"
    and "\<forall>w ids. \<exists>w'. elb_DeregisterInstances (c_elb c) name ids w = (Inr (), w') \<and> registered w' = registered w - set ids"
    and "registered w = ToString ` set lbInstances"
  shows "\<exists>w'. ensureLoadBalancerInstances c name lbInstances instanceIDs w = (Inr (), w')
    \<and> registered w' = set (mkeys instanceIDs)"
proof -
  let ?A = "sort (set_difference (mkeys instanceIDs) (map ToString lbInstances))"
  let ?R = "sort (set_difference (map ToString lbInstances) (mkeys instanceIDs))"
  have reg: "\<exists>w'. (if xs \<noteq> [] then elb_RegisterInstances (c_elb c) name xs else returnM ()) v = (Inr (), w')
      \<and> registered w' = registered v \<union> set xs"
    and dereg: "\<exists>w'. (if xs \<noteq> [] then elb_DeregisterInstances (c_elb c) name xs else returnM ()) v = (Inr (), w')
      \<and> registered w' = registered v - set xs" for xs v
    using assms(1,2) by (cases "xs = []"; simp add: returnM_run)+
  obtain w1 where w1: "(if ?A \<noteq> [] then elb_RegisterInstances (c_elb c) name ?A else returnM ()) w = (Inr (), w1)"
    "registered w1 = registered w \<union> set ?A" using reg by blast
  obtain w2 where w2: "(if ?R \<noteq> [] then elb_DeregisterInstances (c_elb c) name ?R else returnM ()) w1 = (Inr (), w2)"
    "registered w2 = registered w1 - set ?R" using dereg by blast
  have "ensureLoadBalancerInstances c name lbInstances instanceIDs w = (Inr (), w2)"
    using w1(1) w2(1) unfolding ensureLoadBalancerInstances_def Let_def by (simp add: bindM_run)
  moreover have "registered w2 = set (mkeys instanceIDs)"
    using w1(2) w2(2) assms(3) by auto
  ultimately show ?thesis by blast
qed

end
