(* ===== verification/NLB.thy ===== *)
theory NLB
  imports ClassicELB
begin

text \<open>
  Network load balancers (\<^verbatim>\<open>aws_loadbalancer.go\<close>: \<^verbatim>\<open>ensureLoadBalancerv2\<close>, \<^verbatim>\<open>reconcileLBAttributes\<close>,
  \<^verbatim>\<open>createListenerV2\<close>, \<^verbatim>\<open>deleteListenerV2\<close>, \<^verbatim>\<open>createSubnetMappings\<close>; \<^verbatim>\<open>describeLoadBalancerv2\<close> of \<^verbatim>\<open>aws.go\<close>).
  The lemmas show that a load balancer ends up with exactly the listeners of the service, whether it is
  created or updated, and when a change of the node ports is not noticed.
\<close>

section \<open>Describing and attributes\<close>

definition describeLoadBalancerv2 :: "'w Cloud \<Rightarrow> string \<Rightarrow> ('w, load_balancer option) aws" where
  "describeLoadBalancerv2 c name =
     tryM (nlb_Describe (c_elbv2 c) [name] []) (\<lambda>r. case r of
         Inl err \<Rightarrow> if as_api_error err = Some ''LoadBalancerNotFound'' then returnM None
                    else throwM (Errorf ''error describing load balancer: %q'' [Error err])
       | Inr lbs \<Rightarrow> (case find (\<lambda>lb. lb_Type lb = ''network'') lbs of
             Some lb \<Rightarrow> returnM (Some lb)
           | None \<Rightarrow> throwM (Errorf ''NLB '%s' could not be found'' [name])))"

definition lbAttrLoadBalancingCrossZoneEnabled :: string where
  "lbAttrLoadBalancingCrossZoneEnabled = ''load_balancing.cross_zone.enabled''"

definition lbAttrAccessLogsS3Enabled :: string where
  "lbAttrAccessLogsS3Enabled = ''access_logs.s3.enabled''"

definition lbAttrAccessLogsS3Bucket :: string where
  "lbAttrAccessLogsS3Bucket = ''access_logs.s3.bucket''"

definition lbAttrAccessLogsS3Prefix :: string where
  "lbAttrAccessLogsS3Prefix = ''access_logs.s3.prefix''"

text \<open>A boolean annotation; absent and empty count as false.\<close>

definition bool_annotation :: "(string, string) gomap \<Rightarrow> string \<Rightarrow> bool result" where
  "bool_annotation annotations name =
     (let v = mstr annotations name in
      if v = '''' then Inr False
      else (case ParseBool v of
          None \<Rightarrow> Inl (Errorf ''error parsing service annotation: %s=%s'' [name, v])
        | Some b \<Rightarrow> Inr b))"

definition attribute_change :: "string \<Rightarrow> string \<Rightarrow> (string, string) gomap \<Rightarrow> attribute list" where
  "attribute_change key desired current = (if desired \<noteq> mstr current key then [(Some key, Some desired)] else [])"

definition reconcileLBAttributes :: "'w Cloud \<Rightarrow> string \<Rightarrow> (string, string) gomap \<Rightarrow> ('w, unit) aws" where
  "reconcileLBAttributes c loadBalancerArn annotations =
     bindM (liftM (bool_annotation annotations ServiceAnnotationLoadBalancerCrossZoneLoadBalancingEnabled)) (\<lambda>crossZoneEnabled.
     bindM (liftM (bool_annotation annotations ServiceAnnotationLoadBalancerAccessLogEnabled)) (\<lambda>accessLogsS3Enabled.
     bindM (wrapM (\<lambda>err. Errorf ''unable to retrieve load balancer attributes during attribute sync: %q'' [Error err])
              (nlb_DescribeAttributes (c_elbv2 c) loadBalancerArn)) (\<lambda>attrs.
     let current = mput_all (map (\<lambda>(k, v). (ToString k, ToString v)) attrs) [];
         text = (\<lambda>b. if b then ''true'' else ''false'');
         changed = attribute_change lbAttrLoadBalancingCrossZoneEnabled (text crossZoneEnabled) current
           @ attribute_change lbAttrAccessLogsS3Enabled (text accessLogsS3Enabled) current
           @ (if accessLogsS3Enabled then
                attribute_change lbAttrAccessLogsS3Bucket
                  (mstr annotations ServiceAnnotationLoadBalancerAccessLogS3BucketName) current
                @ attribute_change lbAttrAccessLogsS3Prefix
                  (mstr annotations ServiceAnnotationLoadBalancerAccessLogS3BucketPrefix) current
              else [])
     in if changed \<noteq> [] then
          wrapM (\<lambda>err. Errorf ''unable to update load balancer attributes during attribute sync: %q'' [Error err])
            (nlb_ModifyAttributes (c_elbv2 c) loadBalancerArn changed)
        else returnM ())))"

section \<open>Subnet mappings and listeners\<close>

text \<open>A list of addresses that is not empty has to be as long as the list of subnets.\<close>

definition createSubnetMappings :: "string list \<Rightarrow> string list \<Rightarrow> string list \<Rightarrow> subnet_mapping list result" where
  "createSubnetMappings subnetIDs allocationIDs privateIPv4Addresses =
     foldR (\<lambda>(index, i) response.
        if allocationIDs \<noteq> [] \<and> index \<ge> length allocationIDs
          \<or> privateIPv4Addresses \<noteq> [] \<and> index \<ge> length privateIPv4Addresses
        then Inl (Panic ''index out of range'')
        else Inr (response @ [\<lparr>sm_SubnetId = i,
          sm_AllocationId = (if allocationIDs \<noteq> [] then Some (allocationIDs ! index) else None),
          sm_PrivateIPv4Address = (if privateIPv4Addresses \<noteq> [] then Some (privateIPv4Addresses ! index) else None)\<rparr>]))
       (enumerate 0 subnetIDs) []"

text \<open>The listener that a mapping asks for, forwarding to a target group.\<close>

definition listener_input_of :: "nlbPortMapping \<Rightarrow> string option \<Rightarrow> ec2_tag list \<Rightarrow> listener_input" where
  "listener_input_of mapping targetGroupArn tags =
     (let tls = pm_FrontendProtocol mapping = ''TLS'' in
      \<lparr>li_Port = pm_FrontendPort mapping, li_Protocol = pm_FrontendProtocol mapping, li_TargetGroupArn = targetGroupArn,
       li_SslPolicy = (if tls \<and> pm_SSLPolicy mapping \<noteq> '''' then Some (pm_SSLPolicy mapping) else None),
       li_Certificates = (if tls then [pm_SSLCertificateARN mapping] else []),
       li_AlpnPolicy = (if tls \<and> pm_ALPNPolicy mapping \<noteq> '''' then [pm_ALPNPolicy mapping] else []),
       li_Tags = tags\<rparr>)"

definition createListenerV2 ::
  "'w Cloud \<Rightarrow> string option \<Rightarrow> nlbPortMapping \<Rightarrow> namespaced_name \<Rightarrow> string list \<Rightarrow> string \<Rightarrow> (string, string) gomap
     \<Rightarrow> string \<Rightarrow> ('w, lb_listener) aws" where
  "createListenerV2 c loadBalancerArn mapping namespacedName instanceIDs vpcID tags ipAddressType =
     bindM (ensureTargetGroup c None namespacedName mapping instanceIDs vpcID tags ipAddressType) (\<lambda>target.
     bindM (wrapM (\<lambda>err. Errorf ''error creating load balancer listener: %q'' [Error err])
              (nlb_CreateListener (c_elbv2 c) loadBalancerArn
                 (listener_input_of mapping (tg_TargetGroupArn target) (elb_tags tags)))) (\<lambda>ls.
       case ls of [] \<Rightarrow> throwM (Panic ''index out of range'') | l # _ \<Rightarrow> returnM l))"

definition first_action :: "lb_listener \<Rightarrow> string option result" where
  "first_action l = (case ln_DefaultActions l of [] \<Rightarrow> Inl (Panic ''index out of range'') | a # _ \<Rightarrow> Inr a)"

definition deleteListenerV2 :: "'w Cloud \<Rightarrow> lb_listener \<Rightarrow> ('w, unit) aws" where
  "deleteListenerV2 c listener =
     bindM (wrapM (\<lambda>err. Errorf ''error deleting load balancer listener: %q'' [Error err])
              (nlb_DeleteListener (c_elbv2 c) (ln_ListenerArn listener))) (\<lambda>_.
     bindM (liftM (first_action listener)) (\<lambda>targetGroupArn.
       wrapM (\<lambda>err. Errorf ''error deleting load balancer target group: %q'' [Error err])
         (nlb_DeleteTargetGroup (c_elbv2 c) targetGroupArn)))"

section \<open>Creating\<close>

definition split_annotation :: "(string, string) gomap \<Rightarrow> string \<Rightarrow> nat \<Rightarrow> string \<Rightarrow> string list result" where
  "split_annotation annotations annotation subnets what = (case map_of annotations annotation of
     None \<Rightarrow> Inr []
   | Some s \<Rightarrow>
       (let ids = Split (CHR '','') s in
        if length ids \<noteq> subnets then
          Inl (Errorf (''error creating load balancer: Must have same number of '' @ what @ '' (%d) and SubnetIDs (%d)'')
                 [Itoa (int (length ids)), Itoa (int subnets)])
        else Inr ids))"

definition create_nlb ::
  "'w Cloud \<Rightarrow> namespaced_name \<Rightarrow> string \<Rightarrow> nlbPortMapping list \<Rightarrow> string list \<Rightarrow> string list \<Rightarrow> bool
     \<Rightarrow> (string, string) gomap \<Rightarrow> string list \<Rightarrow> service \<Rightarrow> (string, string) gomap \<Rightarrow> ('w, load_balancer) aws" where
  "create_nlb c namespacedName loadBalancerName mappings instanceIDs discoveredSubnetIDs internalELB annotations securityGroups
       svc tags =
     bindM (liftM (split_annotation annotations ServiceAnnotationLoadBalancerEIPAllocations (length discoveredSubnetIDs)
                     ''EIP AllocationIDs'')) (\<lambda>allocationIDs.
     bindM (liftM (split_annotation annotations ServiceAnnotationLoadBalancerPrivateIPv4Addresses (length discoveredSubnetIDs)
                     ''Private IPv4Addresses'')) (\<lambda>privateIPv4Addresses.
     bindM (liftM (createSubnetMappings discoveredSubnetIDs allocationIDs privateIPv4Addresses)) (\<lambda>subnetMappings.
     bindM (wrapM (\<lambda>err. Errorf ''error creating load balancer: %q'' [Error err])
              (nlb_Create (c_elbv2 c) \<lparr>cnlb_Name = loadBalancerName,
                 cnlb_IpAddressType = getLoadBalancerIPAddressTypeFromService svc, cnlb_Internal = internalELB,
                 cnlb_SubnetMappings = subnetMappings, cnlb_SecurityGroups = securityGroups, cnlb_Tags = elb_tags tags\<rparr>))
       (\<lambda>lbs. case lbs of
          [] \<Rightarrow> throwM (Panic ''index out of range'')
        | lb # _ \<Rightarrow>
            bindM (forM (\<lambda>mapping. case lb_VpcId lb of
                       None \<Rightarrow> throwM (Panic ''nil pointer dereference'')
                     | Some vpcID \<Rightarrow>
                         wrapM (\<lambda>err. Errorf ''error creating listener: %q'' [Error err])
                           (bindM (createListenerV2 c (lb_LoadBalancerArn lb) mapping namespacedName instanceIDs vpcID tags
                                     (getTargetGroupIPAddressTypeFromService svc)) (\<lambda>_. returnM ()))) mappings) (\<lambda>_.
            bindM (reconcileLBAttributes c (ToString (lb_LoadBalancerArn lb)) annotations) (\<lambda>_. returnM lb))))))"

section \<open>Updating\<close>

text \<open>The listeners by port and protocol, and the target groups by port, as the maps \<^verbatim>\<open>actual\<close> and
  \<^verbatim>\<open>nodePortTargetGroup\<close> have them: the last one wins.\<close>

definition listeners_by_port :: "lb_listener list \<Rightarrow> (int \<times> string, lb_listener) gomap result" where
  "listeners_by_port ls = foldR (\<lambda>l m. case ln_Port l of
       None \<Rightarrow> Inl (Panic ''nil pointer dereference'')
     | Some p \<Rightarrow> Inr (mput (p, ln_Protocol l) l m)) ls []"

definition groups_by_port :: "target_group list \<Rightarrow> (int, target_group) gomap result" where
  "groups_by_port tgs = foldR (\<lambda>g m. case tg_Port g of
       None \<Rightarrow> Inl (Panic ''nil pointer dereference'')
     | Some p \<Rightarrow> Inr (mput p g m)) tgs []"

text \<open>Whether the listener has to be modified, and the mapping with the ALPN policy that resets the listener.\<close>

definition listener_changed :: "nlbPortMapping \<Rightarrow> lb_listener \<Rightarrow> bool \<times> nlbPortMapping" where
  "listener_changed mapping listener =
     (let protocolChanged = ln_Protocol listener \<noteq> pm_FrontendProtocol mapping in
      if pm_FrontendProtocol mapping = ''TLS'' then
        (let currentALPN = (case ln_AlpnPolicy listener of [] \<Rightarrow> '''' | a # _ \<Rightarrow> a);
             mapping' = (if pm_ALPNPolicy mapping = '''' \<and> currentALPN \<noteq> '''' then mapping\<lparr>pm_ALPNPolicy := ''None''\<rparr> else mapping)
         in (protocolChanged \<or> ToString (ln_SslPolicy listener) \<noteq> pm_SSLPolicy mapping
             \<or> (case ln_Certificates listener of [] \<Rightarrow> True | a # _ \<Rightarrow> ToString a \<noteq> pm_SSLCertificateARN mapping)
             \<or> currentALPN \<noteq> pm_ALPNPolicy mapping', mapping'))
      else if pm_FrontendProtocol mapping = ''TCP'' then
        (protocolChanged \<or> ToString (ln_SslPolicy listener) \<noteq> '''' \<or> ln_Certificates listener \<noteq> [], mapping)
      else (protocolChanged, mapping))"

text \<open>Whether the target group on the node port cannot be used.\<close>

definition group_unusable :: "nlbPortMapping \<Rightarrow> string \<Rightarrow> target_group option \<Rightarrow> bool" where
  "group_unusable mapping targetGroupIPAddressType tg = (case tg of
     None \<Rightarrow> True
   | Some g \<Rightarrow> tg_Protocol g \<noteq> pm_TrafficProtocol mapping
       \<or> \<not> EqualFold (hcc_Protocol (pm_HealthCheckConfig mapping)) (tg_HealthCheckProtocol g)
       \<or> hcc_Interval (pm_HealthCheckConfig mapping) \<noteq> ToInt32 (tg_HealthCheckIntervalSeconds g)
       \<or> tg_IpAddressType g \<noteq> targetGroupIPAddressType)"

text \<open>A mapping that has a listener. Without a change the target group on the node port is brought up to date;
  the listener's own target group is not compared with it.\<close>

definition modify_listener ::
  "'w Cloud \<Rightarrow> (int, target_group) gomap \<Rightarrow> namespaced_name \<Rightarrow> string list \<Rightarrow> string option \<Rightarrow> (string, string) gomap
     \<Rightarrow> string \<Rightarrow> nlbPortMapping \<Rightarrow> lb_listener \<Rightarrow> ('w, unit) aws" where
  "modify_listener c nodePortTargetGroup namespacedName instanceIDs vpc tags targetGroupIPAddressType mapping listener =
     (case listener_changed mapping listener of (changed, mapping) \<Rightarrow>
      (let existing = map_of nodePortTargetGroup (pm_TrafficPort mapping);
           recreate = group_unusable mapping targetGroupIPAddressType existing;
           ensure = (\<lambda>tg. case vpc of
               None \<Rightarrow> throwM (Panic ''nil pointer dereference'')
             | Some vpcID \<Rightarrow> ensureTargetGroup c tg namespacedName mapping instanceIDs vpcID tags targetGroupIPAddressType)
       in bindM (if recreate then ensure None else returnM (the existing)) (\<lambda>targetGroup.
          bindM (if changed \<or> recreate
                 then wrapM (\<lambda>err. Errorf ''error updating load balancer listener: %q'' [Error err])
                        (nlb_ModifyListener (c_elbv2 c) (ln_ListenerArn listener)
                           (listener_input_of mapping (tg_TargetGroupArn targetGroup) []))
                 else returnM ()) (\<lambda>_.
          if recreate then
            bindM (liftM (first_action listener)) (\<lambda>old.
              wrapM (\<lambda>err. Errorf ''error deleting old target group: %q'' [Error err])
                (nlb_DeleteTargetGroup (c_elbv2 c) old))
          else bindM (ensure (Some targetGroup)) (\<lambda>_. returnM ())))))"

definition sync_mapping ::
  "'w Cloud \<Rightarrow> load_balancer \<Rightarrow> (int \<times> string, lb_listener) gomap \<Rightarrow> (int, target_group) gomap \<Rightarrow> namespaced_name
     \<Rightarrow> string list \<Rightarrow> (string, string) gomap \<Rightarrow> string \<Rightarrow> nlbPortMapping \<Rightarrow> ('w, unit) aws" where
  "sync_mapping c lb actual nodePortTargetGroup namespacedName instanceIDs tags targetGroupIPAddressType mapping =
     (case map_of actual (pm_FrontendPort mapping, pm_FrontendProtocol mapping) of
        Some listener \<Rightarrow> modify_listener c nodePortTargetGroup namespacedName instanceIDs (lb_VpcId lb) tags
                           targetGroupIPAddressType mapping listener
      | None \<Rightarrow> (case lb_VpcId lb of
            None \<Rightarrow> throwM (Panic ''nil pointer dereference'')
          | Some vpcID \<Rightarrow> bindM (createListenerV2 c (lb_LoadBalancerArn lb) mapping namespacedName instanceIDs vpcID tags
                                   targetGroupIPAddressType) (\<lambda>_. returnM ())))"

abbreviation mapping_key :: "nlbPortMapping \<Rightarrow> int \<times> string" where
  "mapping_key m \<equiv> (pm_FrontendPort m, pm_FrontendProtocol m)"

text \<open>The listeners: additions and modifications, then deletions. The result is \<^verbatim>\<open>dirty\<close>.\<close>

definition sync_nlb_listeners ::
  "'w Cloud \<Rightarrow> load_balancer \<Rightarrow> namespaced_name \<Rightarrow> nlbPortMapping list \<Rightarrow> string list \<Rightarrow> (string, string) gomap \<Rightarrow> string
     \<Rightarrow> ('w, bool) aws" where
  "sync_nlb_listeners c lb namespacedName mappings instanceIDs tags targetGroupIPAddressType =
     bindM (wrapM (\<lambda>err. Errorf ''error describing listeners: %q'' [Error err])
              (nlb_DescribeListeners (c_elbv2 c) (lb_LoadBalancerArn lb))) (\<lambda>ls.
     bindM (liftM (listeners_by_port ls)) (\<lambda>actual.
     bindM (wrapM (\<lambda>err. Errorf ''error listing target groups: %q'' [Error err])
              (nlb_DescribeTargetGroups (c_elbv2 c) (lb_LoadBalancerArn lb) [])) (\<lambda>tgs.
     bindM (liftM (groups_by_port tgs)) (\<lambda>nodePortTargetGroup.
     bindM (forM (sync_mapping c lb actual nodePortTargetGroup namespacedName instanceIDs tags targetGroupIPAddressType)
              mappings) (\<lambda>_.
     let obsolete = filter (\<lambda>(key, listener). key \<notin> mapping_key ` set mappings) actual in
     bindM (forM (\<lambda>(key, listener). deleteListenerV2 c listener) obsolete)
       (\<lambda>_. returnM (mappings \<noteq> [] \<or> obsolete \<noteq> [])))))))"

definition update_nlb ::
  "'w Cloud \<Rightarrow> load_balancer \<Rightarrow> namespaced_name \<Rightarrow> nlbPortMapping list \<Rightarrow> string list
     \<Rightarrow> (string, string) gomap \<Rightarrow> string list \<Rightarrow> service \<Rightarrow> (string, string) gomap \<Rightarrow> ('w, load_balancer) aws" where
  "update_nlb c lb namespacedName mappings instanceIDs annotations securityGroups svc tags =
     (let groupsChanged = (set securityGroups \<noteq> set (slice (lb_SecurityGroups lb)) \<and> length securityGroups > 0);
          desiredIPAddressType = getLoadBalancerIPAddressTypeFromService svc;
          typeChanged = lb_IpAddressType lb \<noteq> desiredIPAddressType
      in bindM (if groupsChanged
                then wrapM (Wrapf ''error setting security groups on load balancer: %w'' [])
                       (nlb_SetSecurityGroups (c_elbv2 c) (lb_LoadBalancerArn lb) securityGroups)
                else returnM ()) (\<lambda>_.
         bindM (if typeChanged
                then wrapM (\<lambda>err. Errorf ''error updating load balancer IpAddressType: %q'' [Error err])
                       (nlb_SetIpAddressType (c_elbv2 c) (lb_LoadBalancerArn lb) desiredIPAddressType)
                else returnM ()) (\<lambda>_.
         bindM (sync_nlb_listeners c lb namespacedName mappings instanceIDs tags (getTargetGroupIPAddressTypeFromService svc))
           (\<lambda>changed.
         bindM (reconcileLBAttributes c (ToString (lb_LoadBalancerArn lb)) annotations) (\<lambda>_.
         if groupsChanged \<or> typeChanged \<or> changed then
           bindM (wrapM (\<lambda>err. Errorf ''error retrieving load balancer after update: %q'' [Error err])
                    (nlb_Describe (c_elbv2 c) [] [ToString (lb_LoadBalancerArn lb)])) (\<lambda>lbs.
             case lbs of [] \<Rightarrow> throwM (Panic ''index out of range'') | x # _ \<Rightarrow> returnM x)
         else returnM lb)))))"

definition ensureLoadBalancerv2 ::
  "'w Cloud \<Rightarrow> namespaced_name \<Rightarrow> string \<Rightarrow> nlbPortMapping list \<Rightarrow> string list \<Rightarrow> string list \<Rightarrow> bool
     \<Rightarrow> (string, string) gomap \<Rightarrow> string list \<Rightarrow> service \<Rightarrow> ('w, load_balancer) aws" where
  "ensureLoadBalancerv2 c namespacedName loadBalancerName mappings instanceIDs discoveredSubnetIDs internalELB annotations
       securityGroups svc =
     bindM (describeLoadBalancerv2 c loadBalancerName) (\<lambda>lb.
     let tags = buildTags (c_tagging c) ResourceLifecycleOwned (mput TagNameKubernetesService (nn_String namespacedName)
           (getKeyValuePropertiesFromAnnotation annotations ServiceAnnotationLoadBalancerAdditionalTags))
     in bindM (liftM (validateIPFamilyInfo svc (serviceRequestsIPv6 svc))) (\<lambda>_.
        bindM (case lb of
                 None \<Rightarrow> create_nlb c namespacedName loadBalancerName mappings instanceIDs discoveredSubnetIDs internalELB
                           annotations securityGroups svc tags
               | Some l \<Rightarrow> update_nlb c l namespacedName mappings instanceIDs annotations securityGroups svc tags) (\<lambda>lb.
        bindM (if mhas annotations ServiceAnnotationLoadBalancerTargetGroupAttributes
               then wrapM (\<lambda>err. Errorf ''error reconciling target group attributes: %q'' [Error err])
                      (reconcileTargetGroupsAttributes c (ToString (lb_LoadBalancerArn lb)) annotations)
               else returnM ()) (\<lambda>_. returnM lb))))"

section \<open>The listeners of a load balancer\<close>

text \<open>Calls that have nothing to do with listeners keep an assertion.\<close>

definition quiet :: "'w elbv2_client \<Rightarrow> ('w \<Rightarrow> bool) \<Rightarrow> bool" where
  "quiet api I \<longleftrightarrow> (\<forall>x. keeps I (nlb_CreateTargetGroup api x)) \<and> (\<forall>x y. keeps I (nlb_DescribeTargetGroups api x y))
     \<and> (\<forall>x. keeps I (nlb_ModifyTargetGroup api x)) \<and> (\<forall>x. keeps I (nlb_DeleteTargetGroup api x))
     \<and> (\<forall>x. keeps I (nlb_DescribeTargetHealth api x)) \<and> (\<forall>x y. keeps I (nlb_RegisterTargets api x y))
     \<and> (\<forall>x y. keeps I (nlb_DeregisterTargets api x y)) \<and> (\<forall>x y. keeps I (nlb_SetSecurityGroups api x y))
     \<and> (\<forall>x y. keeps I (nlb_SetIpAddressType api x y)) \<and> (\<forall>x y. keeps I (nlb_ModifyAttributes api x y))
     \<and> (\<forall>x. keeps I (nlb_DescribeAttributes api x)) \<and> (\<forall>x y. keeps I (nlb_Describe api x y))
     \<and> (\<forall>x. keeps I (nlb_DescribeTargetGroupAttributes api x)) \<and> (\<forall>x y. keeps I (nlb_ModifyTargetGroupAttributes api x y))"

lemma keeps_case_list [keeps_intros]:
  "keeps I m \<Longrightarrow> (\<And>x xs. keeps I (f x xs)) \<Longrightarrow> keeps I (case l of [] \<Rightarrow> m | x # xs \<Rightarrow> f x xs)"
  by (cases l) simp_all

lemma keeps_ensureTargetGroupTargets:
  "quiet (c_elbv2 c) I \<Longrightarrow> keeps I (ensureTargetGroupTargets c arn es as)"
  unfolding ensureTargetGroupTargets_def quiet_def by (auto simp: split_beta Let_def intro!: keeps_intros)

lemma keeps_ensureTargetGroup:
  "quiet (c_elbv2 c) I \<Longrightarrow> keeps I (ensureTargetGroup c tg n m ids vpc tags t)"
  unfolding ensureTargetGroup_def obtainTargetGroupActualTargets_def Let_def
  by (auto split: option.split list.split intro!: keeps_intros keeps_ensureTargetGroupTargets simp: quiet_def)

lemma keeps_reconcileLBAttributes: "quiet (c_elbv2 c) I \<Longrightarrow> keeps I (reconcileLBAttributes c arn annotations)"
  unfolding reconcileLBAttributes_def Let_def by (auto intro!: keeps_intros simp: quiet_def)

lemma keeps_reconcileTargetGroupsAttributes:
  "quiet (c_elbv2 c) I \<Longrightarrow> keeps I (reconcileTargetGroupsAttributes c arn annotations)"
  unfolding reconcileTargetGroupsAttributes_def ensureTargetGroupAttributes_def
  by (auto split: sum.split intro!: keeps_intros simp: quiet_def)

text \<open>What ELBv2 documents of the listeners of the load balancer \<open>arn\<close>. \<open>listeners\<close> reads them as ARN, port and
  protocol: ARNs are unique and so are ports with their protocol. Creating adds one, deleting removes it,
  modifying sets port and protocol; a call that fails changes nothing. A new load balancer has no listeners.\<close>

definition listener_api ::
  "'w elbv2_client \<Rightarrow> string option \<Rightarrow> ('w \<Rightarrow> (string option \<times> int \<times> string) set) \<Rightarrow> bool" where
  "listener_api api arn listeners \<longleftrightarrow>
     (\<forall>L. quiet api (\<lambda>w. listeners w = L))
     \<and> (\<forall>w. inj_on fst (listeners w) \<and> inj_on snd (listeners w))
     \<and> (\<forall>w r w'. nlb_DescribeListeners api arn w = (r, w') \<longrightarrow> listeners w' = listeners w
          \<and> (\<forall>ls. r = Inr ls \<longrightarrow> (\<lambda>l. (ln_ListenerArn l, ToInt32 (ln_Port l), ln_Protocol l)) ` set ls = listeners w))
     \<and> (\<forall>inp w r w'. nlb_CreateListener api arn inp w = (r, w') \<longrightarrow> (case r of
            Inl _ \<Rightarrow> listeners w' = listeners w
          | Inr _ \<Rightarrow> \<exists>a. a \<notin> fst ` listeners w \<and> listeners w' = insert (a, li_Port inp, li_Protocol inp) (listeners w)))
     \<and> (\<forall>a w r w'. nlb_DeleteListener api a w = (r, w') \<longrightarrow>
          listeners w' = (case r of Inl _ \<Rightarrow> listeners w | Inr _ \<Rightarrow> {x \<in> listeners w. fst x \<noteq> a}))
     \<and> (\<forall>a inp w r w'. nlb_ModifyListener api a inp w = (r, w') \<longrightarrow>
          listeners w' = (case r of Inl _ \<Rightarrow> listeners w
            | Inr _ \<Rightarrow> (\<lambda>x. if fst x = a then (a, li_Port inp, li_Protocol inp) else x) ` listeners w))
     \<and> (\<forall>inp w lb rest w'. nlb_Create api inp w = (Inr (lb # rest), w') \<longrightarrow> lb_LoadBalancerArn lb = arn \<and> listeners w' = {})"

lemma listener_apiD:
  assumes "listener_api api arn listeners"
  shows "quiet api (\<lambda>w. listeners w = L)" and "inj_on fst (listeners w)" and "inj_on snd (listeners w)"
    and "nlb_DescribeListeners api arn w = (Inr ls, w') \<Longrightarrow> listeners w' = listeners w
      \<and> (\<lambda>l. (ln_ListenerArn l, ToInt32 (ln_Port l), ln_Protocol l)) ` set ls = listeners w"
    and "nlb_CreateListener api arn inp w = (Inr ls, w') \<Longrightarrow>
      \<exists>a. a \<notin> fst ` listeners w \<and> listeners w' = insert (a, li_Port inp, li_Protocol inp) (listeners w)"
    and "nlb_DeleteListener api a w = (Inr (), w') \<Longrightarrow> listeners w' = {x \<in> listeners w. fst x \<noteq> a}"
    and "nlb_ModifyListener api a inp w = (Inr (), w') \<Longrightarrow>
      listeners w' = (\<lambda>x. if fst x = a then (a, li_Port inp, li_Protocol inp) else x) ` listeners w"
    and "nlb_Create api cinp w = (Inr (lb # rest), w') \<Longrightarrow> lb_LoadBalancerArn lb = arn \<and> listeners w' = {}"
proof -
  note unfolded = assms [unfolded listener_api_def]
  note later = unfolded [THEN conjunct2, THEN conjunct2]
  note change = later [THEN conjunct2]
  show "quiet api (\<lambda>w. listeners w = L)" "inj_on fst (listeners w)" "inj_on snd (listeners w)"
    using unfolded by simp_all
  show "nlb_DescribeListeners api arn w = (Inr ls, w') \<Longrightarrow> listeners w' = listeners w
      \<and> (\<lambda>l. (ln_ListenerArn l, ToInt32 (ln_Port l), ln_Protocol l)) ` set ls = listeners w"
    using later [THEN conjunct1, rule_format, of w "Inr ls" w'] by simp
  show "nlb_CreateListener api arn inp w = (Inr ls, w') \<Longrightarrow>
      \<exists>a. a \<notin> fst ` listeners w \<and> listeners w' = insert (a, li_Port inp, li_Protocol inp) (listeners w)"
    using change [THEN conjunct1, rule_format, of inp w "Inr ls" w'] by simp
  show "nlb_DeleteListener api a w = (Inr (), w') \<Longrightarrow> listeners w' = {x \<in> listeners w. fst x \<noteq> a}"
    "nlb_ModifyListener api a inp w = (Inr (), w') \<Longrightarrow>
      listeners w' = (\<lambda>x. if fst x = a then (a, li_Port inp, li_Protocol inp) else x) ` listeners w"
    using change [THEN conjunct2, THEN conjunct1, rule_format, of a w "Inr ()" w']
      change [THEN conjunct2, THEN conjunct2, THEN conjunct1, rule_format, of a inp w "Inr ()" w'] by simp_all
  show "nlb_Create api cinp w = (Inr (lb # rest), w') \<Longrightarrow> lb_LoadBalancerArn lb = arn \<and> listeners w' = {}"
    using change [THEN conjunct2, THEN conjunct2, THEN conjunct2, rule_format, of cinp w lb rest w'] by simp
qed

lemma quiet_same:
  assumes "listener_api api arn listeners" and "\<And>I. quiet api I \<Longrightarrow> keeps I m" and "m w = (r, w')"
  shows "listeners w' = listeners w"
  by (rule keepsD [OF assms(2) [OF listener_apiD(1) [OF assms(1)]] refl assms(3)])

lemma listener_input_of_simps [simp]:
  "li_Port (listener_input_of m a ts) = pm_FrontendPort m" "li_Protocol (listener_input_of m a ts) = pm_FrontendProtocol m"
  by (simp_all add: listener_input_of_def Let_def)

text \<open>Creating a listener for a mapping.\<close>

lemma createListenerV2_adds:
  assumes api: "listener_api (c_elbv2 c) arn listeners"
    and run: "createListenerV2 c arn mapping n ids vpc tags t w = (Inr l, w')"
  shows "\<exists>a. a \<notin> fst ` listeners w \<and> listeners w' = insert (a, mapping_key mapping) (listeners w)"
proof -
  obtain tg w1 where tg: "ensureTargetGroup c None n mapping ids vpc tags t w = (Inr tg, w1)"
    and rest: "bindM (wrapM (\<lambda>err. Errorf ''error creating load balancer listener: %q'' [Error err])
              (nlb_CreateListener (c_elbv2 c) arn (listener_input_of mapping (tg_TargetGroupArn tg) (elb_tags tags))))
         (\<lambda>ls. case ls of [] \<Rightarrow> throwM (Panic ''index out of range'') | l # _ \<Rightarrow> returnM l) w1 = (Inr l, w')"
    using run unfolding createListenerV2_def by (auto elim: bindM_InrE)
  from rest obtain ls w2 where "wrapM (\<lambda>err. Errorf ''error creating load balancer listener: %q'' [Error err])
      (nlb_CreateListener (c_elbv2 c) arn (listener_input_of mapping (tg_TargetGroupArn tg) (elb_tags tags))) w1 = (Inr ls, w2)"
    "(case ls of [] \<Rightarrow> throwM (Panic ''index out of range'') | l # _ \<Rightarrow> returnM l) w2 = (Inr l, w')"
    by (rule bindM_InrE)
  then have ls: "nlb_CreateListener (c_elbv2 c) arn (listener_input_of mapping (tg_TargetGroupArn tg) (elb_tags tags)) w1
      = (Inr ls, w')"
    by (cases ls) (simp_all add: wrapM_Inr_iff returnM_run throwM_run)
  have same: "listeners w1 = listeners w"
    by (rule quiet_same [OF api keeps_ensureTargetGroup tg])
  from listener_apiD(5) [OF api ls] show ?thesis by (simp add: same)
qed

text \<open>A mapping that has a listener leaves the listeners as they are: the listener keeps its port and protocol.\<close>

lemma listener_changed_mapping [simp]:
  "pm_FrontendPort (snd (listener_changed m l)) = pm_FrontendPort m"
  "pm_FrontendProtocol (snd (listener_changed m l)) = pm_FrontendProtocol m"
  by (simp_all add: listener_changed_def Let_def)

lemma modify_same:
  assumes api: "listener_api (c_elbv2 c) arn listeners" and "(a, k) \<in> listeners w"
    and run: "wrapM g (nlb_ModifyListener (c_elbv2 c) a inp) w = (Inr (), w')" and "k = (li_Port inp, li_Protocol inp)"
  shows "listeners w' = listeners w"
proof -
  have "nlb_ModifyListener (c_elbv2 c) a inp w = (Inr (), w')" using run by (simp add: wrapM_Inr_iff)
  from listener_apiD(7) [OF api this] have
    "listeners w' = (\<lambda>x. if fst x = a then (a, li_Port inp, li_Protocol inp) else x) ` listeners w" .
  also have "\<dots> = listeners w"
  proof -
    have "(if fst x = a then (a, li_Port inp, li_Protocol inp) else x) = x" if "x \<in> listeners w" for x
      using that assms(2,4) listener_apiD(2) [OF api, of w] by (auto simp: inj_on_def)
    then show ?thesis by simp
  qed
  finally show ?thesis .
qed

lemma modify_listener_same:
  assumes api: "listener_api (c_elbv2 c) arn listeners"
    and old: "(ln_ListenerArn listener, mapping_key mapping) \<in> listeners w"
    and run: "modify_listener c groups n ids vpc tags t mapping listener w = (Inr (), w')"
  shows "listeners w' = listeners w"
proof -
  obtain changed m where m: "listener_changed mapping listener = (changed, m)" by fastforce
  have key: "mapping_key m = mapping_key mapping" using listener_changed_mapping [of mapping listener] m by simp
  define existing where "existing = map_of groups (pm_TrafficPort m)"
  define recreate where "recreate = group_unusable m t existing"
  define ensure where "ensure = (\<lambda>tg. case vpc of
        None \<Rightarrow> throwM (Panic ''nil pointer dereference'')
      | Some vpcID \<Rightarrow> ensureTargetGroup c tg n m ids vpcID tags t)"
  have quiet_ensure: "keeps I (ensure tg)" if "quiet (c_elbv2 c) I" for I tg
    using that by (auto simp: ensure_def split: option.split intro!: keeps_intros keeps_ensureTargetGroup)
  from run have "bindM (if recreate then ensure None else returnM (the existing)) (\<lambda>targetGroup.
      bindM (if changed \<or> recreate
             then wrapM (\<lambda>err. Errorf ''error updating load balancer listener: %q'' [Error err])
                    (nlb_ModifyListener (c_elbv2 c) (ln_ListenerArn listener)
                       (listener_input_of m (tg_TargetGroupArn targetGroup) []))
             else returnM ()) (\<lambda>_.
      if recreate then bindM (liftM (first_action listener)) (\<lambda>old.
              wrapM (\<lambda>err. Errorf ''error deleting old target group: %q'' [Error err])
                (nlb_DeleteTargetGroup (c_elbv2 c) old))
      else bindM (ensure (Some targetGroup)) (\<lambda>_. returnM ()))) w = (Inr (), w')"
    unfolding modify_listener_def m existing_def recreate_def ensure_def by (simp add: Let_def)
  then obtain tg w1 u w2 where one: "(if recreate then ensure None else returnM (the existing)) w = (Inr tg, w1)"
    and two: "(if changed \<or> recreate
             then wrapM (\<lambda>err. Errorf ''error updating load balancer listener: %q'' [Error err])
                    (nlb_ModifyListener (c_elbv2 c) (ln_ListenerArn listener) (listener_input_of m (tg_TargetGroupArn tg) []))
             else returnM ()) w1 = (Inr u, w2)"
    and three: "(if recreate then bindM (liftM (first_action listener)) (\<lambda>old.
              wrapM (\<lambda>err. Errorf ''error deleting old target group: %q'' [Error err])
                (nlb_DeleteTargetGroup (c_elbv2 c) old))
      else bindM (ensure (Some tg)) (\<lambda>_. returnM ())) w2 = (Inr (), w')"
    by (elim bindM_InrE) blast
  have "listeners w1 = listeners w"
    using quiet_same [OF api, of "if recreate then ensure None else returnM (the existing)"] one
    by (auto intro!: keeps_intros quiet_ensure)
  moreover have "listeners w2 = listeners w1"
  proof (cases "changed \<or> recreate")
    case True
    with two have "wrapM (\<lambda>err. Errorf ''error updating load balancer listener: %q'' [Error err])
        (nlb_ModifyListener (c_elbv2 c) (ln_ListenerArn listener) (listener_input_of m (tg_TargetGroupArn tg) [])) w1 = (Inr (), w2)"
      by simp
    moreover have "(ln_ListenerArn listener, mapping_key mapping) \<in> listeners w1" using old \<open>listeners w1 = listeners w\<close> by simp
    moreover have "mapping_key mapping = (li_Port (listener_input_of m (tg_TargetGroupArn tg) []),
        li_Protocol (listener_input_of m (tg_TargetGroupArn tg) []))"
      using key by simp
    ultimately show ?thesis by (metis modify_same [OF api])
  next
    case False
    with two show ?thesis by (simp add: returnM_run)
  qed
  moreover have "listeners w' = listeners w2"
  proof -
    have "keeps I (if recreate then bindM (liftM (first_action listener)) (\<lambda>old.
              wrapM (\<lambda>err. Errorf ''error deleting old target group: %q'' [Error err])
                (nlb_DeleteTargetGroup (c_elbv2 c) old))
      else bindM (ensure (Some tg)) (\<lambda>_. returnM ()))" if "quiet (c_elbv2 c) I" for I
      using that by (auto intro!: keeps_intros quiet_ensure simp: quiet_def)
    from quiet_same [OF api this three] show ?thesis .
  qed
  ultimately show ?thesis by simp
qed

abbreviation listener_key :: "lb_listener \<Rightarrow> int \<times> string" where
  "listener_key l \<equiv> (ToInt32 (ln_Port l), ln_Protocol l)"

lemma listeners_by_port_entries:
  assumes "listeners_by_port ls = Inr actual"
  shows "wf_map actual" and "map_of actual key = Some l \<Longrightarrow> l \<in> set ls \<and> key = listener_key l"
    and "set (mkeys actual) = listener_key ` set ls"
proof -
  have "wf_map m' \<and> (\<forall>key l. map_of m' key = Some l \<longrightarrow> map_of m key = Some l \<or> l \<in> set xs \<and> key = listener_key l)
      \<and> set (mkeys m') = set (mkeys m) \<union> listener_key ` set xs"
    if "foldR (\<lambda>l m. case ln_Port l of None \<Rightarrow> Inl (Panic ''nil pointer dereference'')
         | Some p \<Rightarrow> Inr (mput (p, ln_Protocol l) l m)) xs m = Inr m'" "wf_map m" for xs m m'
    using that
  proof (induction xs arbitrary: m)
    case (Cons x xs)
    then obtain p where "ln_Port x = Some p" by (cases "ln_Port x") auto
    with Cons.prems Cons.IH [of "mput (listener_key x) x m"] have ih: "wf_map m'"
      "\<forall>key l. map_of m' key = Some l \<longrightarrow> map_of (mput (listener_key x) x m) key = Some l \<or> l \<in> set xs \<and> key = listener_key l"
      "set (mkeys m') = set (mkeys (mput (listener_key x) x m)) \<union> listener_key ` set xs"
      by simp_all
    have "map_of m key = Some l \<or> l \<in> set (x # xs) \<and> key = listener_key l" if "map_of m' key = Some l" for key l
      using ih(2) [rule_format, OF that] by (cases "key = listener_key x") (auto simp: update_conv')
    with ih(1,3) show ?case by (simp add: mkeys_mput del: set_map)
  qed simp
  from this [of ls "[]" actual] assms
  show "wf_map actual" "map_of actual key = Some l \<Longrightarrow> l \<in> set ls \<and> key = listener_key l"
    "set (mkeys actual) = listener_key ` set ls"
    by (cases key; auto simp: listeners_by_port_def)+
qed

lemma sync_mapping_adds:
  assumes api: "listener_api (c_elbv2 c) arn listeners" and lb: "lb_LoadBalancerArn lb = arn"
    and actual: "\<And>key l. map_of actual key = Some l \<Longrightarrow> (ln_ListenerArn l, key) \<in> listeners w"
    and run: "sync_mapping c lb actual groups n ids tags t mapping w = (Inr (), w')"
  shows "listeners w \<subseteq> listeners w' \<and> snd ` listeners w' = insert (mapping_key mapping) (snd ` listeners w)"
proof (cases "map_of actual (mapping_key mapping)")
  case (Some l)
  have old: "(ln_ListenerArn l, mapping_key mapping) \<in> listeners w" using actual [OF Some] .
  with Some run have "listeners w' = listeners w"
    by (intro modify_listener_same [OF api old]) (simp add: sync_mapping_def)
  with old show ?thesis by force
next
  case None
  with run lb obtain vpc l where "createListenerV2 c arn mapping n ids vpc tags t w = (Inr l, w')"
    by (auto simp: sync_mapping_def bindM_Inr_iff returnM_run throwM_run split: option.splits)
  from createListenerV2_adds [OF api this] show ?thesis by auto
qed

lemma sync_mappings_add:
  assumes api: "listener_api (c_elbv2 c) arn listeners" and lb: "lb_LoadBalancerArn lb = arn"
    and actual: "\<And>key l. map_of actual key = Some l \<Longrightarrow> (ln_ListenerArn l, key) \<in> listeners w"
    and run: "forM (sync_mapping c lb actual groups n ids tags t) mappings w = (Inr (), w')"
  shows "listeners w \<subseteq> listeners w' \<and> snd ` listeners w' = snd ` listeners w \<union> mapping_key ` set mappings"
  using actual run
proof (induction mappings arbitrary: w)
  case (Cons m mappings)
  from Cons.prems(2) obtain w1 where one: "sync_mapping c lb actual groups n ids tags t m w = (Inr (), w1)"
    and rest: "forM (sync_mapping c lb actual groups n ids tags t) mappings w1 = (Inr (), w')"
    by (auto elim: bindM_InrE)
  note first = sync_mapping_adds [OF api lb Cons.prems(1) one]
  have "\<And>key l. map_of actual key = Some l \<Longrightarrow> (ln_ListenerArn l, key) \<in> listeners w1"
    using Cons.prems(1) first by blast
  from Cons.IH [OF this rest] first show ?case by auto
qed (simp add: returnM_run)

lemma delete_listeners:
  assumes api: "listener_api (c_elbv2 c) arn listeners"
    and run: "forM (\<lambda>(key, l). deleteListenerV2 c l) obsolete w = (Inr (), w')"
  shows "listeners w' = {x \<in> listeners w. fst x \<notin> (\<lambda>(key, l). ln_ListenerArn l) ` set obsolete}"
  using run
proof (induction obsolete arbitrary: w)
  case (Cons d obsolete)
  obtain key l where d: "d = (key, l)" by (cases d)
  from Cons.prems d obtain w1 where one: "deleteListenerV2 c l w = (Inr (), w1)"
    and rest: "forM (\<lambda>(key, l). deleteListenerV2 c l) obsolete w1 = (Inr (), w')"
    by (auto elim: bindM_InrE)
  from one obtain w2 where del: "nlb_DeleteListener (c_elbv2 c) (ln_ListenerArn l) w = (Inr (), w2)"
    and tg: "bindM (liftM (first_action l)) (\<lambda>targetGroupArn.
       wrapM (\<lambda>err. Errorf ''error deleting load balancer target group: %q'' [Error err])
         (nlb_DeleteTargetGroup (c_elbv2 c) targetGroupArn)) w2 = (Inr (), w1)"
    unfolding deleteListenerV2_def by (rule bindM_InrE) (simp add: wrapM_Inr_iff)
  have "keeps I (bindM (liftM (first_action l)) (\<lambda>targetGroupArn.
       wrapM (\<lambda>err. Errorf ''error deleting load balancer target group: %q'' [Error err])
         (nlb_DeleteTargetGroup (c_elbv2 c) targetGroupArn)))" if "quiet (c_elbv2 c) I" for I
    using that by (auto intro!: keeps_intros simp: quiet_def)
  from quiet_same [OF api this tg] listener_apiD(6) [OF api del] Cons.IH [OF rest] show ?case
    by (auto simp: d)
qed (simp add: returnM_run)

lemma sync_nlb_listeners_exact:
  assumes api: "listener_api (c_elbv2 c) arn listeners" and lb: "lb_LoadBalancerArn lb = arn"
    and run: "sync_nlb_listeners c lb n mappings ids tags t w = (Inr d, w')"
  shows "snd ` listeners w' = mapping_key ` set mappings"
proof -
  obtain ls w1 where ls: "nlb_DescribeListeners (c_elbv2 c) arn w = (Inr ls, w1)"
    and run1: "bindM (liftM (listeners_by_port ls)) (\<lambda>actual.
     bindM (wrapM (\<lambda>err. Errorf ''error listing target groups: %q'' [Error err])
              (nlb_DescribeTargetGroups (c_elbv2 c) (lb_LoadBalancerArn lb) [])) (\<lambda>tgs.
     bindM (liftM (groups_by_port tgs)) (\<lambda>nodePortTargetGroup.
     bindM (forM (sync_mapping c lb actual nodePortTargetGroup n ids tags t) mappings) (\<lambda>_.
     let obsolete = filter (\<lambda>(key, listener). key \<notin> mapping_key ` set mappings) actual in
     bindM (forM (\<lambda>(key, listener). deleteListenerV2 c listener) obsolete)
       (\<lambda>_. returnM (mappings \<noteq> [] \<or> obsolete \<noteq> [])))))) w1 = (Inr d, w')"
    using run unfolding sync_nlb_listeners_def lb by (rule bindM_InrE) (simp add: wrapM_Inr_iff)
  obtain actual tgs groups w2 w3 u v where actual: "listeners_by_port ls = Inr actual"
    and tgs: "nlb_DescribeTargetGroups (c_elbv2 c) (lb_LoadBalancerArn lb) [] w1 = (Inr tgs, w2)"
    and adds: "forM (sync_mapping c lb actual groups n ids tags t) mappings w2 = (Inr u, w3)"
    and dels: "forM (\<lambda>(key, l). deleteListenerV2 c l) (filter (\<lambda>(key, l). key \<notin> mapping_key ` set mappings) actual) w3 = (Inr v, w')"
    using run1 unfolding bindM_Inr_iff wrapM_Inr_iff liftM_run returnM_run Let_def prod.inject by fast
  have add: "forM (sync_mapping c lb actual groups n ids tags t) mappings w2 = (Inr (), w3)"
    and del: "forM (\<lambda>(key, l). deleteListenerV2 c l) (filter (\<lambda>(key, l). key \<notin> mapping_key ` set mappings) actual) w3 = (Inr (), w')"
    using adds dels by simp_all
  note entries = listeners_by_port_entries [OF actual]
  have w1: "listeners w1 = listeners w" and L: "(\<lambda>l. (ln_ListenerArn l, listener_key l)) ` set ls = listeners w"
    using listener_apiD(4) [OF api ls] by simp_all
  have w2: "listeners w2 = listeners w"
    using quiet_same [OF api, of "nlb_DescribeTargetGroups (c_elbv2 c) (lb_LoadBalancerArn lb) []" w1] tgs w1
    by (simp add: quiet_def)
  have old: "(ln_ListenerArn l, key) \<in> listeners w2" if "map_of actual key = Some l" for key l
    using entries(2) [OF that] L w2 by auto
  note grown = sync_mappings_add [OF api lb old add]
  define gone where "gone = (\<lambda>(key, l). ln_ListenerArn l) ` set (filter (\<lambda>(key, l). key \<notin> mapping_key ` set mappings) actual)"
  have final: "listeners w' = {x \<in> listeners w3. fst x \<notin> gone}"
    unfolding gone_def by (rule delete_listeners [OF api del])
  have gone: "\<exists>key. key \<notin> mapping_key ` set mappings \<and> (a, key) \<in> listeners w3" if "a \<in> gone" for a
    using that old grown wf_map_in_set [OF entries(1)] unfolding gone_def by fastforce
  show ?thesis
  proof (intro set_eqI iffI)
    fix k assume "k \<in> snd ` listeners w'"
    then obtain a where a: "(a, k) \<in> listeners w3" "a \<notin> gone" using final by force
    show "k \<in> mapping_key ` set mappings"
    proof (rule ccontr)
      assume k: "k \<notin> mapping_key ` set mappings"
      with a grown have "k \<in> snd ` listeners w2" by force
      with L w2 entries(3) have "k \<in> set (mkeys actual)" by force
      then obtain l where l: "map_of actual k = Some l" using mhas_iff [of actual k] by (auto simp: mhas_def)
      with old grown have "(ln_ListenerArn l, k) \<in> listeners w3" by blast
      with inj_onD [OF listener_apiD(3) [OF api, of w3], of "(ln_ListenerArn l, k)" "(a, k)"] a(1)
      have "ln_ListenerArn l = a" by simp
      moreover have "ln_ListenerArn l \<in> gone"
        using l k wf_map_in_set [OF entries(1), of k l] unfolding gone_def by force
      ultimately show False using a(2) by simp
    qed
  next
    fix k assume k: "k \<in> mapping_key ` set mappings"
    then have "k \<in> snd ` listeners w3" using grown by blast
    then obtain a where a: "(a, k) \<in> listeners w3" by force
    have "a \<notin> gone"
    proof
      assume "a \<in> gone"
      then obtain key where key: "key \<notin> mapping_key ` set mappings" "(a, key) \<in> listeners w3" using gone by blast
      with inj_onD [OF listener_apiD(2) [OF api, of w3], of "(a, key)" "(a, k)"] a have "key = k" by simp
      with key(1) k show False by simp
    qed
    with a final show "k \<in> snd ` listeners w'" by force
  qed
qed

lemma create_listeners_exact:
  assumes api: "listener_api (c_elbv2 c) arn listeners"
    and run: "forM (\<lambda>mapping. case vpc of None \<Rightarrow> throwM (Panic ''nil pointer dereference'')
        | Some vpcID \<Rightarrow> wrapM g (bindM (createListenerV2 c arn mapping n ids vpcID tags t) (\<lambda>_. returnM ()))) mappings w = (Inr (), w')"
  shows "snd ` listeners w' = snd ` listeners w \<union> mapping_key ` set mappings"
  using run
proof (induction mappings arbitrary: w)
  case (Cons m mappings)
  from Cons.prems obtain w1 where
    one: "(case vpc of None \<Rightarrow> throwM (Panic ''nil pointer dereference'')
        | Some vpcID \<Rightarrow> wrapM g (bindM (createListenerV2 c arn m n ids vpcID tags t) (\<lambda>_. returnM ()))) w = (Inr (), w1)"
    and rest: "forM (\<lambda>mapping. case vpc of None \<Rightarrow> throwM (Panic ''nil pointer dereference'')
        | Some vpcID \<Rightarrow> wrapM g (bindM (createListenerV2 c arn mapping n ids vpcID tags t) (\<lambda>_. returnM ()))) mappings w1 = (Inr (), w')"
    by (auto elim: bindM_InrE)
  from one obtain vpcID l where "createListenerV2 c arn m n ids vpcID tags t w = (Inr l, w1)"
    by (cases vpc) (auto simp: wrapM_Inr_iff bindM_Inr_iff returnM_run throwM_run)
  from createListenerV2_adds [OF api this] Cons.IH [OF rest] show ?case by auto
qed (simp add: returnM_run)

lemma create_nlb_exact:
  assumes api: "listener_api (c_elbv2 c) arn listeners"
    and run: "create_nlb c n name mappings ids subnets internalELB annotations sgs svc tags w = (Inr lb, w')"
  shows "snd ` listeners w' = mapping_key ` set mappings"
proof -
  obtain inp lbs w1 where create: "nlb_Create (c_elbv2 c) inp w = (Inr lbs, w1)"
    and rest: "(case lbs of [] \<Rightarrow> throwM (Panic ''index out of range'')
        | lb # _ \<Rightarrow>
            bindM (forM (\<lambda>mapping. case lb_VpcId lb of
                       None \<Rightarrow> throwM (Panic ''nil pointer dereference'')
                     | Some vpcID \<Rightarrow>
                         wrapM (\<lambda>err. Errorf ''error creating listener: %q'' [Error err])
                           (bindM (createListenerV2 c (lb_LoadBalancerArn lb) mapping n ids vpcID tags
                                     (getTargetGroupIPAddressTypeFromService svc)) (\<lambda>_. returnM ()))) mappings) (\<lambda>_.
            bindM (reconcileLBAttributes c (ToString (lb_LoadBalancerArn lb)) annotations) (\<lambda>_. returnM lb))) w1 = (Inr lb, w')"
    using run unfolding create_nlb_def bindM_Inr_iff [of "liftM _"] bindM_Inr_iff [of "wrapM _ _"] wrapM_Inr_iff liftM_run
    by blast
  then obtain l more where lbs: "lbs = l # more" by (cases lbs) (auto simp: throwM_run)
  have arn: "lb_LoadBalancerArn l = arn" and none: "listeners w1 = {}"
    using listener_apiD(8) [OF api create [unfolded lbs]] by simp_all
  from rest obtain u w2 v where add: "forM (\<lambda>mapping. case lb_VpcId l of
                       None \<Rightarrow> throwM (Panic ''nil pointer dereference'')
                     | Some vpcID \<Rightarrow>
                         wrapM (\<lambda>err. Errorf ''error creating listener: %q'' [Error err])
                           (bindM (createListenerV2 c arn mapping n ids vpcID tags
                                     (getTargetGroupIPAddressTypeFromService svc)) (\<lambda>_. returnM ()))) mappings w1 = (Inr (), w2)"
    and attrs: "reconcileLBAttributes c (ToString arn) annotations w2 = (Inr v, w')"
    unfolding lbs list.case arn by (auto simp: bindM_Inr_iff [of "forM _ _"] bindM_Inr_iff [of "reconcileLBAttributes _ _ _"] returnM_run)
  have "listeners w' = listeners w2"
    by (rule quiet_same [OF api keeps_reconcileLBAttributes attrs])
  with create_listeners_exact [OF api add] none show ?thesis by simp
qed

lemma update_nlb_exact:
  assumes api: "listener_api (c_elbv2 c) arn listeners" and lb: "lb_LoadBalancerArn lb = arn"
    and run: "update_nlb c lb n mappings ids annotations sgs svc tags w = (Inr lb', w')"
  shows "snd ` listeners w' = mapping_key ` set mappings"
proof -
  define after where "after = (\<lambda>changed. bindM (reconcileLBAttributes c (ToString (lb_LoadBalancerArn lb)) annotations) (\<lambda>_.
         if (set sgs \<noteq> set (slice (lb_SecurityGroups lb)) \<and> length sgs > 0)
           \<or> lb_IpAddressType lb \<noteq> getLoadBalancerIPAddressTypeFromService svc \<or> changed then
           bindM (wrapM (\<lambda>err. Errorf ''error retrieving load balancer after update: %q'' [Error err])
                    (nlb_Describe (c_elbv2 c) [] [ToString (lb_LoadBalancerArn lb)])) (\<lambda>lbs.
             case lbs of [] \<Rightarrow> throwM (Panic ''index out of range'') | x # _ \<Rightarrow> returnM x)
         else returnM lb))"
  obtain changed w1 w2 where "sync_nlb_listeners c lb n mappings ids tags (getTargetGroupIPAddressTypeFromService svc) w1 = (Inr changed, w2)"
    and final: "after changed w2 = (Inr lb', w')"
    using run unfolding update_nlb_def Let_def after_def bindM_Inr_iff [of "if _ then _ else _"]
      bindM_Inr_iff [of "sync_nlb_listeners _ _ _ _ _ _ _"] by blast
  moreover have "keeps I (after changed)" if "quiet (c_elbv2 c) I" for I
    unfolding after_def by (intro keeps_intros keeps_reconcileLBAttributes that) (use that in \<open>simp add: quiet_def\<close>)
  ultimately show ?thesis
    using sync_nlb_listeners_exact [OF api lb] quiet_same [OF api, of "after changed" w2] by simp
qed

text \<open>The listeners of a network load balancer. When \<^verbatim>\<open>ensureLoadBalancerv2\<close> succeeds, whether it created the
  load balancer or found one with any listeners, the load balancer has a listener for the port and protocol
  of every mapping and no other one. Of ELBv2 only the documented effect of the listener calls is assumed.\<close>

lemma ensureLoadBalancerv2_listeners:
  assumes api: "listener_api (c_elbv2 c) arn listeners"
    and found: "describeLoadBalancerv2 c name w = (Inr lb, w1)" and lb: "\<forall>l. lb = Some l \<longrightarrow> lb_LoadBalancerArn l = arn"
    and run: "ensureLoadBalancerv2 c namespacedName name mappings instanceIDs subnets internalELB annotations securityGroups svc w
       = (Inr lb', w')"
  shows "snd ` listeners w' = mapping_key ` set mappings"
proof -
  define tags where "tags = buildTags (c_tagging c) ResourceLifecycleOwned (mput TagNameKubernetesService (nn_String namespacedName)
           (getKeyValuePropertiesFromAnnotation annotations ServiceAnnotationLoadBalancerAdditionalTags))"
  define after where "after = (\<lambda>lb :: load_balancer. bindM (if mhas annotations ServiceAnnotationLoadBalancerTargetGroupAttributes
               then wrapM (\<lambda>err. Errorf ''error reconciling target group attributes: %q'' [Error err])
                      (reconcileTargetGroupsAttributes c (ToString (lb_LoadBalancerArn lb)) annotations)
               else returnM ()) (\<lambda>_. returnM lb))"
  obtain l w2 where body: "(case lb of
                 None \<Rightarrow> create_nlb c namespacedName name mappings instanceIDs subnets internalELB
                           annotations securityGroups svc tags
               | Some l \<Rightarrow> update_nlb c l namespacedName mappings instanceIDs annotations securityGroups svc tags) w1 = (Inr l, w2)"
    and final: "after l w2 = (Inr lb', w')"
    using run found unfolding ensureLoadBalancerv2_def Let_def bindM_Inr_iff [of "describeLoadBalancerv2 _ _"]
      bindM_Inr_iff [of "liftM _"] liftM_run tags_def [symmetric] after_def
    by (auto elim: bindM_InrE)
  have "snd ` listeners w2 = mapping_key ` set mappings"
  proof (cases lb)
    case None
    with body show ?thesis by (intro create_nlb_exact [OF api]) simp
  next
    case (Some l0)
    with body lb show ?thesis by (intro update_nlb_exact [OF api, of l0]) simp_all
  qed
  moreover have "keeps I (after l)" if "quiet (c_elbv2 c) I" for I
    using that unfolding after_def by (auto intro!: keeps_intros keeps_reconcileTargetGroupsAttributes)
  from quiet_same [OF api this final] have "listeners w' = listeners w2" .
  ultimately show ?thesis by simp
qed

text \<open>A load balancer whose state is the list of the ports and protocols of its listeners; the ARN of a listener is
  its protocol and port.\<close>

definition key_arn :: "int \<times> string \<Rightarrow> string option" where
  "key_arn k = Some (targetUID \<lparr>target_Id = Some (snd k), target_Port = Some (fst k)\<rparr>)"

definition sample_nlb :: load_balancer where
  "sample_nlb = \<lparr>lb_LoadBalancerArn = Some ''arn'', lb_Type = ''network'', lb_DNSName = Some ''nlb.aws'', lb_VpcId = Some ''vpc-1'',
     lb_SecurityGroups = None, lb_IpAddressType = ''ipv4'', lb_State = Some ''active'', lb_AvailabilityZones = [Some ''subnet-1'']\<rparr>"

definition nlb_client :: "(int \<times> string) list elbv2_client" where
  "nlb_client = idle_elbv2\<lparr>
     nlb_Describe := (\<lambda>_ _. returnM [sample_nlb]),
     nlb_Create := (\<lambda>_ _. (Inr [sample_nlb], [])),
     nlb_CreateTargetGroup := (\<lambda>inp. returnM [\<lparr>tg_TargetGroupArn = Some ''tg'', tg_Port = Some (ctg_Port inp),
        tg_Protocol = ctg_Protocol inp, tg_IpAddressType = ''ipv4'', tg_HealthCheckProtocol = ctg_HealthCheckProtocol inp,
        tg_HealthCheckPort = None, tg_HealthCheckIntervalSeconds = None, tg_HealthyThresholdCount = None\<rparr>]),
     nlb_DescribeListeners := (\<lambda>_ w. (Inr (map (\<lambda>k. \<lparr>ln_ListenerArn = key_arn k, ln_Port = Some (fst k), ln_Protocol = snd k,
        ln_SslPolicy = None, ln_Certificates = [], ln_AlpnPolicy = [], ln_DefaultActions = [Some ''tg-old'']\<rparr>) w), w)),
     nlb_CreateListener := (\<lambda>_ inp w. if (li_Port inp, li_Protocol inp) \<in> set w then (Inl (APIError ''DuplicateListener'' ''''), w)
        else (Inr [\<lparr>ln_ListenerArn = None, ln_Port = None, ln_Protocol = '''', ln_SslPolicy = None, ln_Certificates = [],
                    ln_AlpnPolicy = [], ln_DefaultActions = []\<rparr>], (li_Port inp, li_Protocol inp) # w)),
     nlb_DeleteListener := (\<lambda>a w. (Inr (), filter (\<lambda>k. key_arn k \<noteq> a) w)),
     nlb_ModifyListener := (\<lambda>a inp w. if a = key_arn (li_Port inp, li_Protocol inp) then (Inr (), w)
        else (Inl (APIError ''ListenerNotFound'' ''''), w))\<rparr>"

definition nlb_cloud :: "(int \<times> string) list Cloud" where
  "nlb_cloud = sample_cloud\<lparr>c_elbv2 := nlb_client\<rparr>"

lemma key_arn_inj: "key_arn k = key_arn k' \<longleftrightarrow> k = k'"
  by (auto simp: key_arn_def targetUID_eq_iff target_key_def prod_eq_iff)

lemma nlb_client_api: "listener_api nlb_client (Some ''arn'') (\<lambda>w. (\<lambda>k. (key_arn k, k)) ` set w)"
proof -
  have q: "quiet nlb_client (\<lambda>w. (\<lambda>k. (key_arn k, k)) ` set w = L)" for L
    unfolding quiet_def nlb_client_def idle_elbv2_def by (simp add: keeps_intros)
  have d: "(\<lambda>l. (ln_ListenerArn l, listener_key l)) ` set ls = (\<lambda>k. (key_arn k, k)) ` set w"
    if "nlb_DescribeListeners nlb_client a w = (Inr ls, w')" for a w ls w'
    using that by (auto simp: nlb_client_def image_image)
  show ?thesis
    unfolding listener_api_def
  proof (intro conjI allI impI)
    fix inp :: listener_input and w r w'
    assume "nlb_CreateListener nlb_client (Some ''arn'') inp w = (r, w')"
    then show "case r of Inl _ \<Rightarrow> (\<lambda>k. (key_arn k, k)) ` set w' = (\<lambda>k. (key_arn k, k)) ` set w
        | Inr _ \<Rightarrow> \<exists>a. a \<notin> fst ` (\<lambda>k. (key_arn k, k)) ` set w
            \<and> (\<lambda>k. (key_arn k, k)) ` set w' = insert (a, li_Port inp, li_Protocol inp) ((\<lambda>k. (key_arn k, k)) ` set w)"
      by (auto simp: nlb_client_def image_iff key_arn_inj split: if_splits
          intro!: exI [of _ "key_arn (li_Port inp, li_Protocol inp)"])
  next
    fix a inp w r w'
    assume "nlb_ModifyListener nlb_client a inp w = (r, w')"
    then show "(\<lambda>k. (key_arn k, k)) ` set w' = (case r of Inl _ \<Rightarrow> (\<lambda>k. (key_arn k, k)) ` set w
        | Inr _ \<Rightarrow> (\<lambda>x. if fst x = a then (a, li_Port inp, li_Protocol inp) else x) ` (\<lambda>k. (key_arn k, k)) ` set w)"
      by (auto simp: nlb_client_def image_iff key_arn_inj split: if_splits)
  next
    fix w
    show "inj_on fst ((\<lambda>k. (key_arn k, k)) ` set w)" "inj_on snd ((\<lambda>k. (key_arn k, k)) ` set w)"
      by (auto simp: inj_on_def key_arn_inj)
  next
    fix inp w lb rest w'
    assume "nlb_Create nlb_client inp w = (Inr (lb # rest), w')"
    then show "lb_LoadBalancerArn lb = Some ''arn''" "(\<lambda>k. (key_arn k, k)) ` set w' = {}"
      by (auto simp: nlb_client_def sample_nlb_def)
  next
    fix a w r w'
    assume "nlb_DeleteListener nlb_client a w = (r, w')"
    then show "(\<lambda>k. (key_arn k, k)) ` set w' = (case r of Inl _ \<Rightarrow> (\<lambda>k. (key_arn k, k)) ` set w
        | Inr _ \<Rightarrow> {x \<in> (\<lambda>k. (key_arn k, k)) ` set w. fst x \<noteq> a})"
      by (auto simp: nlb_client_def)
  next
    fix w r w'
    assume run: "nlb_DescribeListeners nlb_client (Some ''arn'') w = (r, w')"
    then show "(\<lambda>k. (key_arn k, k)) ` set w' = (\<lambda>k. (key_arn k, k)) ` set w" by (simp add: nlb_client_def)
    show "(\<lambda>l. (ln_ListenerArn l, listener_key l)) ` set ls = (\<lambda>k. (key_arn k, k)) ` set w" if "r = Inr ls" for ls
      using d run that by simp
  qed (rule q)
qed

text \<open>A run on it: the listener of a removed port is replaced by the one of the mapping.\<close>

lemma nlb_client_update:
  assumes client: "c_elbv2 c = nlb_client" and attrs: "\<And>w. reconcileLBAttributes c ''arn'' annotations w = (Inr (), w)"
    and none: "\<not> mhas annotations ServiceAnnotationLoadBalancerTargetGroupAttributes"
    and svc: "getLoadBalancerIPAddressTypeFromService svc = ''ipv4''" "validateIPFamilyInfo svc (serviceRequestsIPv6 svc) = Inr ()"
  shows "\<exists>w'. ensureLoadBalancerv2 c n name [tcp_mapping] ids subnets internalELB annotations [] svc [(8080, ''TCP'')] = (Inr sample_nlb, w')"
proof -
  have idle: "forM (\<lambda>chunk. wrapM g (returnM ())) cs w = (Inr (), w)" for g cs and w :: 'x
    by (induction cs) (simp_all add: run_simps)
  have group: "ensureTargetGroup c None n tcp_mapping ids v ts t w
      = (Inr \<lparr>tg_TargetGroupArn = Some ''tg'', tg_Port = Some 30080, tg_Protocol = ''TCP'', tg_IpAddressType = ''ipv4'',
           tg_HealthCheckProtocol = ''TCP'', tg_HealthCheckPort = None, tg_HealthCheckIntervalSeconds = None,
           tg_HealthyThresholdCount = None\<rparr>, w)" for v ts t w
    by (simp add: idle ensureTargetGroup_def client nlb_client_def idle_elbv2_def run_simps create_target_group_input_def
        Let_def ensureTargetGroupTargets_def split_beta)
  have create: "\<exists>l. createListenerV2 c (Some ''arn'') tcp_mapping n ids v ts t [(8080, ''TCP'')]
      = (Inr l, [(80, ''TCP''), (8080, ''TCP'')])" for v ts t
    by (simp add: createListenerV2_def group run_simps) (simp add: client nlb_client_def returnM_run)
  have sync: "\<exists>w'. sync_nlb_listeners c sample_nlb n [tcp_mapping] ids ts t [(8080, ''TCP'')] = (Inr True, w')" for ts t
  proof -
    let ?old = "\<lparr>ln_ListenerArn = key_arn (8080, ''TCP''), ln_Port = Some 8080, ln_Protocol = ''TCP'', ln_SslPolicy = None,
        ln_Certificates = [], ln_AlpnPolicy = [], ln_DefaultActions = [Some ''tg-old'']\<rparr>"
    have describes: "nlb_DescribeListeners (c_elbv2 c) (Some ''arn'') [(8080, ''TCP'')] = (Inr [?old], [(8080, ''TCP'')])"
      "nlb_DescribeTargetGroups (c_elbv2 c) (Some ''arn'') [] [(8080, ''TCP'')] = (Inr [], [(8080, ''TCP'')])"
      by (simp_all add: client nlb_client_def idle_elbv2_def returnM_run)
    have "\<exists>w'. deleteListenerV2 c ?old w = (Inr (), w')" for w
      by (simp add: deleteListenerV2_def first_action_def run_simps) (simp add: client nlb_client_def idle_elbv2_def run_simps)
    then obtain w' where delete: "deleteListenerV2 c ?old [(80, ''TCP''), (8080, ''TCP'')] = (Inr (), w')" by blast
    have add: "sync_mapping c sample_nlb [((8080, ''TCP''), ?old)] [] n ids ts t tcp_mapping [(8080, ''TCP'')]
        = (Inr (), [(80, ''TCP''), (8080, ''TCP'')])"
      using create [of "''vpc-1''" ts t] by (auto simp: sync_mapping_def sample_nlb_def run_simps)
    have "lb_LoadBalancerArn sample_nlb = Some ''arn''" by (simp add: sample_nlb_def)
    with describes delete add show ?thesis
      by (simp add: sync_nlb_listeners_def run_simps listeners_by_port_def groups_by_port_def Let_def)
  qed
  have describe: "describeLoadBalancerv2 c name w = (Inr (Some sample_nlb), w)"
    "nlb_Describe (c_elbv2 c) [] [a] w = (Inr [sample_nlb], w)" for a w
    by (simp_all add: describeLoadBalancerv2_def client nlb_client_def run_simps sample_nlb_def)
  have same: "lb_IpAddressType sample_nlb = getLoadBalancerIPAddressTypeFromService svc" "ToString (lb_LoadBalancerArn sample_nlb) = ''arn''"
    using svc by (simp_all add: sample_nlb_def)
  have "\<exists>w'. update_nlb c sample_nlb n [tcp_mapping] ids annotations [] svc ts [(8080, ''TCP'')] = (Inr sample_nlb, w')" for ts
    using sync [of ts "getTargetGroupIPAddressTypeFromService svc"] same
    by (auto simp: update_nlb_def run_simps attrs describe Let_def)
  then obtain w' where "update_nlb c sample_nlb n [tcp_mapping] ids annotations [] svc
      (buildTags (c_tagging c) ResourceLifecycleOwned (mput TagNameKubernetesService (nn_String n)
         (getKeyValuePropertiesFromAnnotation annotations ServiceAnnotationLoadBalancerAdditionalTags))) [(8080, ''TCP'')]
      = (Inr sample_nlb, w')"
    by blast
  then show ?thesis
    using none svc by (simp add: ensureLoadBalancerv2_def run_simps describe Let_def)
qed

section \<open>A change that is not noticed\<close>

text \<open>When the listener needs no change and the target group on the mapping's node port is usable, the target group is
  updated and the listener is left as it is, whatever target group it forwards to. So when the node ports of
  two ports of a service are exchanged, both listeners keep forwarding to the old node port.\<close>

lemma modify_listener_ignores_action:
  assumes "listener_changed mapping listener = (False, m)" and "map_of groups (pm_TrafficPort m) = Some g"
    and "\<not> group_unusable m t (Some g)"
  shows "modify_listener c groups n ids (Some vpc) tags t mapping listener =
     bindM (ensureTargetGroup c (Some g) n m ids vpc tags t) (\<lambda>_. returnM ())"
  using assms by (simp add: modify_listener_def Let_def) (simp add: bindM_def returnM_def)

end
