(* ===== verification/Zones.thy ===== *)
theory Zones
  imports Instances
begin

text \<open>
  Zone ids (\<^verbatim>\<open>zones.go\<close>), instance topology (\<^verbatim>\<open>topology.go\<close>) and the metadata of a node
  (\<^verbatim>\<open>instances_v2.go\<close>). Both components keep a cache; the caches and the state behind the clients
  form the record \<open>cloud_state\<close>.

  The lemmas show that the zone cache answers like an uncached lookup and fetches only when it has to,
  that a topology that is known to be unsupported is not asked for again until the entry expires, and
  which labels a node gets.
\<close>

section \<open>State\<close>

record zoneDetails =
  zd_name :: string
  zd_id :: string
  zd_zoneType :: string

text \<open>\<open>st_unsupported\<close> is the TTL store of the topology manager: a key with the time it was added.\<close>

record 'w cloud_state =
  st_world :: 'w
  st_zones :: "(string, zoneDetails) gomap"
  st_unsupported :: "(string, int) gomap"

text \<open>A call that does not touch the caches.\<close>

definition on_world :: "('w, 'a) aws \<Rightarrow> ('w cloud_state, 'a) aws" where
  "on_world m = (\<lambda>s. case m (st_world s) of (r, w) \<Rightarrow> (r, s\<lparr>st_world := w\<rparr>))"

section \<open>The zone cache\<close>

definition shouldPopulateCache :: "string list \<Rightarrow> (string, zoneDetails) gomap \<Rightarrow> bool" where
  "shouldPopulateCache zoneNames cache \<longleftrightarrow> cache = [] \<or> list_ex (\<lambda>z. \<not> mhas cache z) zoneNames"

definition zone_entry :: "availability_zone \<Rightarrow> string \<times> zoneDetails" where
  "zone_entry z = (ToString (az_ZoneName z), \<lparr>zd_name = ToString (az_ZoneName z), zd_id = ToString (az_ZoneId z),
     zd_zoneType = ToString (az_ZoneType z)\<rparr>)"

definition populate :: "'w Cloud \<Rightarrow> ('w cloud_state, unit) aws" where
  "populate c =
     bindM (wrapM (\<lambda>err. Errorf ''error describe availability zones: %q'' [Error err])
              (on_world (DescribeAvailabilityZones (c_ec2 c))))
       (\<lambda>zones s. (Inr (), s\<lparr>st_zones := mput_all (map zone_entry zones) (st_zones s)\<rparr>))"

definition requested_zones :: "string list \<Rightarrow> (string, zoneDetails) gomap \<Rightarrow> (string, zoneDetails) gomap" where
  "requested_zones zoneNames cache =
     fold (\<lambda>z m. case map_of cache z of None \<Rightarrow> m | Some d \<Rightarrow> mput z d m) zoneNames []"

definition getZoneDetailsByNames ::
  "'w Cloud \<Rightarrow> string list \<Rightarrow> ('w cloud_state, (string, zoneDetails) gomap) aws" where
  "getZoneDetailsByNames c zoneNames =
     (if zoneNames = [] then returnM []
      else
        bindM (\<lambda>s. if shouldPopulateCache zoneNames (st_zones s) then populate c s else (Inr (), s))
          (\<lambda>_ s. (Inr (requested_zones zoneNames (st_zones s)), s)))"

definition getZoneIDByZoneName :: "'w Cloud \<Rightarrow> string \<Rightarrow> ('w cloud_state, string) aws" where
  "getZoneIDByZoneName c zoneName =
     bindM (getZoneDetailsByNames c [zoneName]) (\<lambda>details. case map_of details zoneName of
       None \<Rightarrow> throwM (Errorf ''Could not get zone ID from zone name %s'' [zoneName])
     | Some d \<Rightarrow> returnM (zd_id d))"

section \<open>Instance topology\<close>

text \<open>24 hours in nanoseconds.\<close>

definition instanceTopologyManagerCacheTimeout :: int where
  "instanceTopologyManagerCacheTimeout = 24 * 60 * 60 * 1000000000"

text \<open>The default pattern \<^verbatim>\<open>^(hpc|trn|p)[0-9]+[a-z]*(-[a-z0-9]+)?(\.[0-9a-z]*)$\<close>.\<close>

definition pattern_size :: "string \<Rightarrow> bool" where
  "pattern_size s = (case s of [] \<Rightarrow> False | ch # t \<Rightarrow> ch = CHR ''.'' \<and> list_all (\<lambda>d. is_digit d \<or> is_lower d) t)"

definition pattern_generation :: "string \<Rightarrow> bool" where
  "pattern_generation s =
     (let r = dropWhile is_lower (dropWhile is_digit s) in
      s \<noteq> [] \<and> is_digit (hd s)
      \<and> (case r of
           [] \<Rightarrow> False
         | ch # t \<Rightarrow>
             if ch = CHR ''-'' then
               (t \<noteq> [] \<and> (is_digit (hd t) \<or> is_lower (hd t))
                \<and> pattern_size (dropWhile (\<lambda>d. is_digit d \<or> is_lower d) t))
             else pattern_size r))"

definition defaultSupportedTopologyInstanceTypePattern :: "string \<Rightarrow> bool" where
  "defaultSupportedTopologyInstanceTypePattern s \<longleftrightarrow>
     list_ex (\<lambda>family. HasPrefix s family \<and> pattern_generation (drop (length family) s)) [''hpc'', ''trn'', ''p'']"

text \<open>\<open>compile\<close> stands for \<^verbatim>\<open>regexp.MustCompile\<close> on the pattern of the configuration.\<close>

definition DoesInstanceTypeRequireResponse :: "(string \<Rightarrow> string \<Rightarrow> bool) \<Rightarrow> 'w Cloud \<Rightarrow> string \<Rightarrow> bool" where
  "DoesInstanceTypeRequireResponse compile c instanceType =
     (if SupportedTopologyInstanceTypePattern (c_global c) \<noteq> ''''
      then compile (SupportedTopologyInstanceTypePattern (c_global c)) instanceType
      else defaultSupportedTopologyInstanceTypePattern instanceType)"

definition addUnsupported :: "int \<Rightarrow> string \<Rightarrow> ('w cloud_state, unit) aws" where
  "addUnsupported now key = (\<lambda>s. (Inr (), s\<lparr>st_unsupported := mput key now (st_unsupported s)\<rparr>))"

text \<open>\<^verbatim>\<open>GetByKey\<close>: an entry exists until it is older than the timeout.\<close>

definition is_unsupported :: "int \<Rightarrow> 'w cloud_state \<Rightarrow> string \<Rightarrow> bool" where
  "is_unsupported now s key = (case map_of (st_unsupported s) key of
     None \<Rightarrow> False | Some t \<Rightarrow> \<not> now - t > instanceTopologyManagerCacheTimeout)"

definition mightSupportTopology :: "int \<Rightarrow> 'w cloud_state \<Rightarrow> string \<Rightarrow> string \<Rightarrow> string \<Rightarrow> bool" where
  "mightSupportTopology now s instanceID instanceType region \<longleftrightarrow>
     length instanceType \<noteq> 0 \<and> \<not> is_unsupported now s region \<and> \<not> is_unsupported now s instanceID
     \<and> \<not> is_unsupported now s instanceType"

definition GetNodeTopology ::
  "(string \<Rightarrow> string \<Rightarrow> bool) \<Rightarrow> int \<Rightarrow> 'w Cloud \<Rightarrow> string \<Rightarrow> string \<Rightarrow> string
     \<Rightarrow> ('w cloud_state, instance_topology option) aws" where
  "GetNodeTopology compile now c instanceType region instanceID = (\<lambda>s.
     if \<not> mightSupportTopology now s instanceID instanceType region then (Inr None, s)
     else
       tryM (on_world (DescribeInstanceTopology (c_ec2 c) [instanceID])) (\<lambda>Inl err \<Rightarrow>
           (case as_api_error err of
              Some code \<Rightarrow>
                if code = ''UnsupportedOperation'' \<or> code = ''UnauthorizedOperation''
                then bindM (addUnsupported now region) (\<lambda>_. returnM None)
                else throwM err
            | None \<Rightarrow> throwM err)
         | Inr topologies \<Rightarrow>
           (case topologies of
              [] \<Rightarrow> bindM (addUnsupported now
                       (if DoesInstanceTypeRequireResponse compile c instanceType then instanceID else instanceType))
                     (\<lambda>_. returnM None)
            | t # _ \<Rightarrow> returnM (Some t))) s)"

section \<open>Labels and metadata of a node\<close>

definition LabelZoneID :: string where
  "LabelZoneID = ''topology.k8s.aws/zone-id''"

definition LabelNetworkNodePrefix :: string where
  "LabelNetworkNodePrefix = ''topology.k8s.aws/network-node-layer-''"

definition topology_labels :: "instance_topology \<Rightarrow> (string, string) gomap" where
  "topology_labels t = map (\<lambda>(index, networkNode). (LabelNetworkNodePrefix @ Itoa (int (index + 1)), networkNode))
     (enumerate 0 (topo_NetworkNodes t))"

definition getAdditionalLabels ::
  "(string \<Rightarrow> string \<Rightarrow> bool) \<Rightarrow> int \<Rightarrow> 'w Cloud \<Rightarrow> string \<Rightarrow> string \<Rightarrow> string \<Rightarrow> string \<Rightarrow> (string, string) gomap
     \<Rightarrow> ('w cloud_state, (string, string) gomap) aws" where
  "getAdditionalLabels compile now c zoneName instanceID instanceType region existingLabels =
     bindM (if mhas existingLabels LabelZoneID then returnM []
            else bindM (getZoneIDByZoneName c zoneName) (\<lambda>zoneID. returnM [(LabelZoneID, zoneID)]))
       (\<lambda>labels.
         if mhas existingLabels (LabelNetworkNodePrefix @ ''1'') then returnM labels
         else tryM (GetNodeTopology compile now c instanceType region instanceID) (\<lambda>Inl err \<Rightarrow>
             if DoesInstanceTypeRequireResponse compile c instanceType then throwM err else returnM labels
           | Inr None \<Rightarrow> returnM labels
           | Inr (Some t) \<Rightarrow> returnM (mput_all (topology_labels t) labels)))"

record instance_metadata =
  md_ProviderID :: string
  md_InstanceType :: string
  md_NodeAddresses :: "node_address list"
  md_Zone :: string
  md_Region :: string
  md_AdditionalLabels :: "(string, string) gomap"

text \<open>Type, zone and addresses of a node: of a variant by provider id, of an instance from its description.\<close>

definition instance_facts ::
  "'w Cloud \<Rightarrow> string \<Rightarrow> instance_id \<Rightarrow> ('w, string \<times> zone \<times> node_address list) aws" where
  "instance_facts c providerID instanceID =
     (if IsVariantNode instanceID then
        bindM (InstanceTypeByProviderID c providerID) (\<lambda>instanceType.
        bindM (GetZoneByProviderID c providerID) (\<lambda>zone.
        bindM (NodeAddressesByProviderID c providerID) (\<lambda>addresses. returnM (instanceType, zone, addresses))))
      else
        bindM (wrapM (\<lambda>err. Wrapf ''failed to get instance by ID %s: %w'' [instanceID] err)
                 (getInstanceByID c instanceID)) (\<lambda>inst. case inst of
          None \<Rightarrow> throwM (Panic ''nil pointer dereference'')
        | Some i \<Rightarrow>
            bindM (liftM (getInstanceZone c inst)) (\<lambda>zone.
            bindM (wrapM (\<lambda>err. Wrapf ''failed to get node addresses for instance %s: %w'' [instanceID] err)
                     (liftM (getInstanceNodeAddress c i))) (\<lambda>addresses.
              returnM (getInstanceType i, zone, addresses)))))"

definition InstanceMetadata ::
  "(string \<Rightarrow> string \<Rightarrow> bool) \<Rightarrow> int \<Rightarrow> 'w Cloud \<Rightarrow> node \<Rightarrow> ('w cloud_state, instance_metadata) aws" where
  "InstanceMetadata compile now c n =
     bindM (on_world (getProviderID c n)) (\<lambda>providerID.
     bindM (wrapM (\<lambda>err. Wrapf ''failed to map provider ID to AWS instance ID for node %s: %w'' [node_Name n] err)
              (liftM (MapToAWSInstanceID providerID))) (\<lambda>instanceID.
     bindM (on_world (instance_facts c providerID instanceID)) (\<lambda>(instanceType, zone, nodeAddresses).
     bindM (getAdditionalLabels compile now c (FailureDomain zone) instanceID instanceType (zone_Region zone)
              (node_Labels n)) (\<lambda>additionalLabels.
       returnM \<lparr>md_ProviderID = providerID, md_InstanceType = instanceType, md_NodeAddresses = nodeAddresses,
         md_Zone = FailureDomain zone, md_Region = zone_Region zone, md_AdditionalLabels = additionalLabels\<rparr>))))"

section \<open>The zone cache refines the table of zones\<close>

lemma map_of_update: "map_of (mput k v m) = (map_of m)(k \<mapsto> v)"
  by (rule update_conv')

lemma map_of_requested:
  "map_of (requested_zones names cache) z = (if z \<in> set names then map_of cache z else None)"
proof -
  have "map_of (fold (\<lambda>z m. case map_of cache z of None \<Rightarrow> m | Some d \<Rightarrow> mput z d m) names m) z
      = (if z \<in> set names \<and> map_of cache z \<noteq> None then map_of cache z else map_of m z)" for m
    by (induction names arbitrary: m) (auto simp: map_of_update split: option.split)
  from this [of "[]"] show ?thesis by (auto simp: requested_zones_def)
qed

text \<open>The cache holds only entries of the table of zones.\<close>

definition cache_ok :: "availability_zone list \<Rightarrow> 'w cloud_state \<Rightarrow> bool" where
  "cache_ok zones s \<longleftrightarrow> map_of (st_zones s) \<subseteq>\<^sub>m map_of (rev (map zone_entry zones))"

lemma map_le_add: "m \<subseteq>\<^sub>m t \<Longrightarrow> m ++ t = t"
  by (force simp: map_le_def map_add_def fun_eq_iff split: option.splits)

lemma populate_run:
  assumes "\<forall>w. DescribeAvailabilityZones (c_ec2 c) w = (Inr zones, w)"
  shows "populate c s = (Inr (), s\<lparr>st_zones := mput_all (map zone_entry zones) (st_zones s)\<rparr>)"
  using assms by (simp add: populate_def on_world_def run_simps)

text \<open>C32: The zone cache refines a lookup in the table of zones, when EC2's answer does not change: from a
  cache that agrees with the table, \<^verbatim>\<open>getZoneIDByZoneName\<close> returns the id of the table or the not-found
  error, and leaves a cache that agrees with the table. A zone that is cached is answered without a call,
  whatever EC2 would do.\<close>

theorem getZoneIDByZoneName_refines_table:
  assumes "\<forall>w. DescribeAvailabilityZones (c_ec2 c) w = (Inr zones, w)" and "cache_ok zones s"
  shows "\<exists>s'. getZoneIDByZoneName c zoneName s =
       (case map_of (rev (map zone_entry zones)) zoneName of
          None \<Rightarrow> Inl (Errorf ''Could not get zone ID from zone name %s'' [zoneName])
        | Some d \<Rightarrow> Inr (zd_id d), s')
     \<and> cache_ok zones s' \<and> st_world s' = st_world s
     \<and> (\<forall>c' d. map_of (st_zones s) zoneName = Some d \<longrightarrow> getZoneIDByZoneName c' zoneName s = (Inr (zd_id d), s))"
proof (cases "shouldPopulateCache [zoneName] (st_zones s)")
  case True
  let ?s' = "s\<lparr>st_zones := mput_all (map zone_entry zones) (st_zones s)\<rparr>"
  have table: "map_of (st_zones ?s') = map_of (rev (map zone_entry zones))"
    using assms(2) by (simp add: cache_ok_def map_of_mput_all map_le_add)
  have "\<not> mhas (st_zones s) zoneName"
    using True by (auto simp: shouldPopulateCache_def mhas_def)
  with True table populate_run [OF assms(1)] show ?thesis
    by (intro exI [of _ ?s'])
      (auto simp: getZoneIDByZoneName_def getZoneDetailsByNames_def bindM_run map_of_requested mhas_def
        cache_ok_def throwM_run returnM_run split: option.split)
next
  case False
  then obtain d where d: "map_of (st_zones s) zoneName = Some d"
    by (auto simp: shouldPopulateCache_def mhas_def)
  then have "map_of (rev (map zone_entry zones)) zoneName = Some d"
    using assms(2) by (auto simp: cache_ok_def map_le_def dom_def)
  with d False assms(2) show ?thesis
    by (intro exI [of _ s])
      (auto simp: getZoneIDByZoneName_def getZoneDetailsByNames_def bindM_run map_of_requested returnM_run)
qed

definition one_zone_cloud :: "unit Cloud" where
  "one_zone_cloud = sample_cloud\<lparr>c_ec2 := idle_client\<lparr>DescribeAvailabilityZones := returnM
     [\<lparr>az_ZoneName = Some ''us-east-1a'', az_ZoneId = Some ''use1-az2'', az_ZoneType = None\<rparr>]\<rparr>\<rparr>"

abbreviation empty_state :: "unit cloud_state" where
  "empty_state \<equiv> \<lparr>st_world = (), st_zones = [], st_unsupported = []\<rparr>"

theorem getZoneIDByZoneName_refines_table_witness:
  "\<exists>s'. getZoneIDByZoneName one_zone_cloud ''us-east-1a'' empty_state = (Inr ''use1-az2'', s')"
  using getZoneIDByZoneName_refines_table [of one_zone_cloud
      "[\<lparr>az_ZoneName = Some ''us-east-1a'', az_ZoneId = Some ''use1-az2'', az_ZoneType = None\<rparr>]" empty_state "''us-east-1a''"]
  by (auto simp: one_zone_cloud_def returnM_def cache_ok_def zone_entry_def)

section \<open>Unsupported topologies are not asked for again\<close>

lemma is_unsupported_added:
  "is_unsupported now' (s\<lparr>st_unsupported := mput key now m\<rparr>) key \<longleftrightarrow> \<not> now' - now > instanceTopologyManagerCacheTimeout"
  by (simp add: is_unsupported_def map_of_update)

text \<open>Backing off. When \<^verbatim>\<open>GetNodeTopology\<close> asked EC2 at time \<open>now\<close> and there is no topology, then for the
  next 24 hours the same question is answered without a call, whatever EC2 would answer and even with
  another client. After an error nothing is recorded, so the next call asks again.\<close>

lemma GetNodeTopology_backs_off:
  assumes "mightSupportTopology now s instanceID instanceType region"
    and "GetNodeTopology compile now c instanceType region instanceID s = (r, s')"
  shows "(r = Inr None \<longrightarrow> (\<forall>c' now'. now' - now \<le> instanceTopologyManagerCacheTimeout \<longrightarrow>
             GetNodeTopology compile now' c' instanceType region instanceID s' = (Inr None, s')))
    \<and> ((\<exists>err. r = Inl err) \<longrightarrow> st_unsupported s' = st_unsupported s)"
proof -
  obtain x w where api: "DescribeInstanceTopology (c_ec2 c) [instanceID] (st_world s) = (x, w)"
    by (cases "DescribeInstanceTopology (c_ec2 c) [instanceID] (st_world s)")
  have recorded: "\<exists>key \<in> {region, instanceID, instanceType}. s' = s\<lparr>st_world := w, st_unsupported := mput key now (st_unsupported s)\<rparr>"
    if "r = Inr None"
    using that assms api
    by (auto simp: GetNodeTopology_def tryM_run on_world_def bindM_run addUnsupported_def returnM_run throwM_run
        split: sum.splits if_splits option.splits list.splits)
  have "\<not> mightSupportTopology now' s' instanceID instanceType region"
    if "r = Inr None" "now' - now \<le> instanceTopologyManagerCacheTimeout" for now'
    using recorded [OF that(1)] that(2) is_unsupported_added [where s = "s\<lparr>st_world := w\<rparr>" and now' = now' and now = now and m = "st_unsupported s"]
    by (auto simp: mightSupportTopology_def)
  then have "r = Inr None \<longrightarrow> (\<forall>c' now'. now' - now \<le> instanceTopologyManagerCacheTimeout \<longrightarrow>
       GetNodeTopology compile now' c' instanceType region instanceID s' = (Inr None, s'))"
    by (simp add: GetNodeTopology_def)
  moreover have "st_unsupported s' = st_unsupported s" if "r = Inl err" for err
    using that assms api
    by (auto simp: GetNodeTopology_def tryM_run on_world_def bindM_run addUnsupported_def returnM_run throwM_run
        split: sum.splits if_splits option.splits list.splits)
  ultimately show ?thesis by blast
qed

lemma GetNodeTopology_backs_off_example:
  "\<exists>s'. GetNodeTopology (\<lambda>_ _. False) 0 one_zone_cloud ''m5.large'' ''us-east-1'' ''i-1'' empty_state = (Inr None, s')
     \<and> GetNodeTopology (\<lambda>_ _. False) 5 one_zone_cloud ''m5.large'' ''us-east-1'' ''i-1'' s' = (Inr None, s')"
proof -
  have "mightSupportTopology 0 empty_state ''i-1'' ''m5.large'' ''us-east-1''"
    by (simp add: mightSupportTopology_def is_unsupported_def)
  moreover obtain s' where
    "GetNodeTopology (\<lambda>_ _. False) 0 one_zone_cloud ''m5.large'' ''us-east-1'' ''i-1'' empty_state = (Inr None, s')"
    by (simp add: GetNodeTopology_def mightSupportTopology_def is_unsupported_def tryM_run on_world_def one_zone_cloud_def
        idle_client_def returnM_run bindM_run addUnsupported_def)
  ultimately show ?thesis
    using GetNodeTopology_backs_off [of 0 empty_state "''i-1''" "''m5.large''" "''us-east-1''" "\<lambda>_ _. False" one_zone_cloud
        "Inr None" s']
    by (auto simp: instanceTopologyManagerCacheTimeout_def)
qed

end
