(* ===== verification/Subnets.thy ===== *)
theory Subnets
  imports Zones Annotations "HOL-Library.List_Lexorder" "HOL-Library.Char_ord" "HOL-Library.Product_Lexorder"
begin

text \<open>
  The subnets of a load balancer (\<^verbatim>\<open>aws.go\<close>): subnets of the cluster, public subnets, the choice of one
  subnet in each zone, and subnets that an annotation names. The lemmas show that the choice is the best
  subnet of each zone in a total order of preference, so that it does not depend on the order in which
  EC2 lists the subnets.
\<close>

section \<open>Definitions\<close>

definition TagNameSubnetInternalELB :: string where
  "TagNameSubnetInternalELB = ''kubernetes.io/role/internal-elb''"

definition TagNameSubnetPublicELB :: string where
  "TagNameSubnetPublicELB = ''kubernetes.io/role/elb''"

definition regularAvailabilityZoneType :: string where
  "regularAvailabilityZoneType = ''availability-zone''"

fun findTag :: "ec2_tag list \<Rightarrow> string \<Rightarrow> string \<times> bool" where
  "findTag [] key = ('''', False)"
| "findTag (t # ts) key = (if ToString (tag_Key t) = key then (ToString (tag_Value t), True) else findTag ts key)"

definition findSubnets :: "'w Cloud \<Rightarrow> ('w, ec2_subnet list) aws" where
  "findSubnets c =
     bindM (wrapM (\<lambda>err. Errorf ''error describing subnets: %q'' [Error err])
              (DescribeSubnets (c_ec2 c) [] [newEc2Filter ''vpc-id'' [c_vpcID c]])) (\<lambda>subnets.
       let matches = filter (\<lambda>s. hasClusterTag (c_tagging c) (subnet_Tags s) \<or> hasNoClusterPrefixTag (subnet_Tags s)) subnets
       in if matches \<noteq> [] then returnM matches
          else wrapM (\<lambda>err. Errorf ''error describing subnets: %q'' [Error err])
                 (DescribeSubnets (c_ec2 c) [] [newEc2Filter ''subnet-id'' [self_subnetID (c_selfAWSInstance c)]]))"

text \<open>The loops leave only the inner loop when they find an association, so the last table counts.\<close>

definition isSubnetPublic :: "route_table list \<Rightarrow> string \<Rightarrow> bool result" where
  "isSubnetPublic rt subnetID =
     (let explicit = find_last (\<lambda>t. list_ex (\<lambda>a. ToString (assoc_SubnetId a) = subnetID) (rt_Associations t)) rt;
          subnetTable = (case explicit of
             Some t \<Rightarrow> Some t
           | None \<Rightarrow> find_last (\<lambda>t. list_ex (\<lambda>a. ToBool (assoc_Main a)) (rt_Associations t)) rt)
      in case subnetTable of
           None \<Rightarrow> Inl (Errorf ''could not locate routing table for subnet %s'' [subnetID])
         | Some t \<Rightarrow> Inr (list_ex (\<lambda>r. HasPrefix (ToString (route_GatewayId r)) ''igw'') (rt_Routes t)))"

text \<open>Whether a subnet replaces the one chosen so far in its zone: by role tag, then by cluster tag, then by id.\<close>

definition replaces :: "awsTagging \<Rightarrow> bool \<Rightarrow> ec2_subnet \<Rightarrow> ec2_subnet \<Rightarrow> bool" where
  "replaces tagging internalELB subnet existing =
     (let tagName = (if internalELB then TagNameSubnetInternalELB else TagNameSubnetPublicELB);
          existingHasTag = snd (findTag (subnet_Tags existing) tagName);
          subnetHasTag = snd (findTag (subnet_Tags subnet) tagName);
          existingHasClusterTag = hasClusterTag tagging (subnet_Tags existing);
          subnetHasClusterTag = hasClusterTag tagging (subnet_Tags subnet)
      in if existingHasTag \<noteq> subnetHasTag then subnetHasTag
         else if existingHasClusterTag \<noteq> subnetHasClusterTag then subnetHasClusterTag
         else ToString (subnet_SubnetId existing) > ToString (subnet_SubnetId subnet))"

text \<open>The body of the loop that chooses one subnet for each zone.\<close>

definition choose_subnet ::
  "awsTagging \<Rightarrow> bool \<Rightarrow> route_table list \<Rightarrow> ec2_subnet \<Rightarrow> (string, ec2_subnet) gomap \<Rightarrow> (string, ec2_subnet) gomap result" where
  "choose_subnet tagging internalELB rt subnet subnetsByAZ =
     (let az = ToString (subnet_AvailabilityZone subnet); i = ToString (subnet_SubnetId subnet) in
      if az = '''' \<or> i = '''' then Inr subnetsByAZ
      else bindR (isSubnetPublic rt i) (\<lambda>isPublic.
        if \<not> internalELB \<and> \<not> isPublic then Inr subnetsByAZ
        else (case map_of subnetsByAZ az of
            None \<Rightarrow> Inr (mput az subnet subnetsByAZ)
          | Some existing \<Rightarrow>
              Inr (if replaces tagging internalELB subnet existing then mput az subnet subnetsByAZ else subnetsByAZ))))"

text \<open>The subnets of the zones that can have a load balancer, in the order of the zone names.\<close>

definition regular_subnets ::
  "(string, zoneDetails) gomap \<Rightarrow> (string, ec2_subnet) gomap \<Rightarrow> string list \<Rightarrow> string list" where
  "regular_subnets zoneNameToDetails subnetsByAZ azNames =
     map (\<lambda>z. ToString (subnet_SubnetId (the (map_of subnetsByAZ z))))
       (filter (\<lambda>z. case map_of zoneNameToDetails z of
            None \<Rightarrow> True | Some d \<Rightarrow> zd_zoneType d = regularAvailabilityZoneType) azNames)"

definition findELBSubnets :: "'w Cloud \<Rightarrow> bool \<Rightarrow> ('w cloud_state, string list) aws" where
  "findELBSubnets c internalELB =
     bindM (on_world (findSubnets c)) (\<lambda>subnets.
     bindM (wrapM (\<lambda>err. Errorf ''error describe route table: %q'' [Error err])
              (on_world (DescribeRouteTables (c_ec2 c) [newEc2Filter ''vpc-id'' [c_vpcID c]]))) (\<lambda>rt.
     bindM (liftM (foldR (choose_subnet (c_tagging c) internalELB rt) subnets [])) (\<lambda>subnetsByAZ.
     let azNames = sort (mkeys subnetsByAZ) in
     bindM (wrapM (\<lambda>err. Errorf ''error get availability zone types: %q'' [Error err])
              (getZoneDetailsByNames c azNames)) (\<lambda>zoneNameToDetails.
       returnM (regular_subnets zoneNameToDetails subnetsByAZ azNames)))))"

definition resolveSubnetNameOrIDs :: "'w Cloud \<Rightarrow> string list \<Rightarrow> ('w, string list) aws" where
  "resolveSubnetNameOrIDs c subnetNameOrIDs =
     (let subnetIDs = filter (\<lambda>s. HasPrefix s ''subnet-'') subnetNameOrIDs;
          subnetNames = filter (\<lambda>s. \<not> HasPrefix s ''subnet-'') subnetNameOrIDs
      in if subnetNameOrIDs = [] then throwM (Errorf ''unable to resolve empty subnet slice'' [])
         else
           bindM (if subnetIDs \<noteq> [] then DescribeSubnets (c_ec2 c) subnetIDs [] else returnM []) (\<lambda>byID.
           bindM (if subnetNames \<noteq> []
                  then DescribeSubnets (c_ec2 c) [] [newEc2Filter ''tag:Name'' subnetNames, newEc2Filter ''vpc-id'' [c_vpcID c]]
                  else returnM []) (\<lambda>byName.
             let resolvedSubnets = byID @ byName in
             if length resolvedSubnets \<noteq> length subnetNameOrIDs then
               throwM (Errorf ''expected to find %v, but found %v subnets''
                         [Itoa (int (length subnetNameOrIDs)), Itoa (int (length resolvedSubnets))])
             else returnM (map (\<lambda>s. ToString (subnet_SubnetId s)) resolvedSubnets))))"

definition getLoadBalancerSubnets :: "'w Cloud \<Rightarrow> service \<Rightarrow> bool \<Rightarrow> ('w cloud_state, string list) aws" where
  "getLoadBalancerSubnets c svc internalELB =
     (case parseStringSliceAnnotation (svc_Annotations svc) ServiceAnnotationLoadBalancerSubnets [] of
        (True, rawSubnetNameOrIDs) \<Rightarrow> on_world (resolveSubnetNameOrIDs c rawSubnetNameOrIDs)
      | (False, _) \<Rightarrow> findELBSubnets c internalELB)"

definition getSubnetCidrs :: "'w Cloud \<Rightarrow> string list \<Rightarrow> ('w, string list) aws" where
  "getSubnetCidrs c subnetIDs =
     bindM (wrapM (\<lambda>err. Errorf ''error querying Subnet for ELB: %q'' [Error err])
              (DescribeSubnets (c_ec2 c) subnetIDs [])) (\<lambda>subnets.
       if length subnets \<noteq> length subnetIDs then
         throwM (Errorf ''error querying Subnet for ELB, got %d subnets for %v''
                   [Itoa (int (length subnets)), Join subnetIDs '' ''])
       else returnM (concat (map (\<lambda>s. ToString (subnet_CidrBlock s)
              # map (\<lambda>(cidr, _). ToString cidr)
                  (filter (\<lambda>(_, state). state = Some ''associated'') (subnet_Ipv6CidrBlocks s))) subnets)))"

section \<open>The choice of a subnet in each zone\<close>

text \<open>The order of preference: smaller is better.\<close>

definition subnet_key :: "awsTagging \<Rightarrow> bool \<Rightarrow> ec2_subnet \<Rightarrow> bool \<times> bool \<times> string" where
  "subnet_key tagging internalELB s =
     (\<not> snd (findTag (subnet_Tags s) (if internalELB then TagNameSubnetInternalELB else TagNameSubnetPublicELB)),
      \<not> hasClusterTag tagging (subnet_Tags s), ToString (subnet_SubnetId s))"

lemma replaces_iff: "replaces tagging internalELB s e \<longleftrightarrow> subnet_key tagging internalELB s < subnet_key tagging internalELB e"
  by (auto simp: replaces_def subnet_key_def Let_def less_prod_def')

text \<open>The subnets of a zone that the load balancer can use.\<close>

definition usable :: "bool \<Rightarrow> route_table list \<Rightarrow> ec2_subnet \<Rightarrow> bool" where
  "usable internalELB rt s \<longleftrightarrow> ToString (subnet_AvailabilityZone s) \<noteq> '''' \<and> ToString (subnet_SubnetId s) \<noteq> ''''
     \<and> (internalELB \<or> isSubnetPublic rt (ToString (subnet_SubnetId s)) = Inr True)"

definition candidates :: "bool \<Rightarrow> route_table list \<Rightarrow> ec2_subnet list \<Rightarrow> string \<Rightarrow> ec2_subnet set" where
  "candidates internalELB rt subnets az =
     {s \<in> set subnets. usable internalELB rt s \<and> ToString (subnet_AvailabilityZone s) = az}"

definition best_in_zone :: "awsTagging \<Rightarrow> bool \<Rightarrow> ec2_subnet set \<Rightarrow> ec2_subnet option \<Rightarrow> bool" where
  "best_in_zone tagging internalELB S chosen = (case chosen of
     None \<Rightarrow> S = {}
   | Some s \<Rightarrow> s \<in> S \<and> (\<forall>t \<in> S. subnet_key tagging internalELB s \<le> subnet_key tagging internalELB t))"

lemma candidates_Nil [simp]: "candidates internalELB rt [] az = {}"
  by (simp add: candidates_def)

lemma candidates_snoc:
  "candidates internalELB rt (ss @ [s]) az = (if usable internalELB rt s \<and> ToString (subnet_AvailabilityZone s) = az
     then insert s (candidates internalELB rt ss az) else candidates internalELB rt ss az)"
  by (auto simp: candidates_def)

lemma best_in_zone_insert:
  assumes "best_in_zone tagging internalELB S chosen"
  shows "best_in_zone tagging internalELB (insert s S) (case chosen of
     None \<Rightarrow> Some s | Some e \<Rightarrow> if replaces tagging internalELB s e then Some s else Some e)"
  using assms by (auto simp: best_in_zone_def replaces_iff split: option.splits)

lemma choose_subnet_Inr:
  assumes "choose_subnet tagging internalELB rt s m = Inr m'"
  shows "m' = (if usable internalELB rt s then
      (case map_of m (ToString (subnet_AvailabilityZone s)) of
         None \<Rightarrow> mput (ToString (subnet_AvailabilityZone s)) s m
       | Some e \<Rightarrow> if replaces tagging internalELB s e then mput (ToString (subnet_AvailabilityZone s)) s m else m)
     else m)"
  using assms by (auto simp: choose_subnet_def usable_def Let_def bindR_Inr_iff split: if_splits option.splits)

lemma choose_subnets_best:
  assumes "foldR (choose_subnet tagging internalELB rt) subnets [] = Inr m"
  shows "wf_map m \<and> (\<forall>az. best_in_zone tagging internalELB (candidates internalELB rt subnets az) (map_of m az))"
proof -
  let ?I = "\<lambda>ss m. wf_map m \<and> (\<forall>az. best_in_zone tagging internalELB (candidates internalELB rt ss az) (map_of m az))"
  have step: "?I (ss @ [s]) m'" if "?I ss m" "choose_subnet tagging internalELB rt s m = Inr m'" for ss s m m'
  proof (cases "usable internalELB rt s")
    case True
    let ?az = "ToString (subnet_AvailabilityZone s)"
    have m': "m' = (case map_of m ?az of None \<Rightarrow> mput ?az s m
        | Some e \<Rightarrow> if replaces tagging internalELB s e then mput ?az s m else m)"
      using choose_subnet_Inr [OF that(2)] True by simp
    then have "wf_map m'" using that(1) by (simp split: option.splits)
    moreover have "map_of m' ?az = (case map_of m ?az of None \<Rightarrow> Some s
        | Some e \<Rightarrow> if replaces tagging internalELB s e then Some s else Some e)"
      using m' by (simp add: map_of_update split: option.splits)
    moreover have "map_of m' az = map_of m az" if "az \<noteq> ?az" for az
      using m' that by (simp add: map_of_update split: option.splits)
    moreover have "best_in_zone tagging internalELB (insert s (candidates internalELB rt ss ?az))
        (case map_of m ?az of None \<Rightarrow> Some s | Some e \<Rightarrow> if replaces tagging internalELB s e then Some s else Some e)"
      using that(1) by (intro best_in_zone_insert) simp
    ultimately show ?thesis using that(1) True by (auto simp: candidates_snoc)
  next
    case False
    with choose_subnet_Inr [OF that(2)] that(1) show ?thesis by (simp add: candidates_snoc)
  qed
  have "?I (done @ ss) m'" if "?I done m" "foldR (choose_subnet tagging internalELB rt) ss m = Inr m'" for ss "done" m m'
    using that
  proof (induction ss arbitrary: "done" m)
    case (Cons s ss)
    from Cons.prems(2) obtain m1 where m1: "choose_subnet tagging internalELB rt s m = Inr m1"
      and rest: "foldR (choose_subnet tagging internalELB rt) ss m1 = Inr m'"
      by (auto simp: bindR_Inr_iff)
    from Cons.IH [OF step [OF Cons.prems(1) m1] rest] show ?case by simp
  qed simp
  from this [of "[]" "[]" subnets m] assms show ?thesis by (simp add: best_in_zone_def)
qed

definition regular_zone :: "(string, zoneDetails) gomap \<Rightarrow> string \<Rightarrow> bool" where
  "regular_zone zones az = (case map_of zones az of None \<Rightarrow> True | Some d \<Rightarrow> zd_zoneType d = regularAvailabilityZoneType)"

lemma getZoneDetails_cached:
  assumes "getZoneDetailsByNames c names s = (Inr details, s')" and "z \<in> set names"
  shows "map_of details z = map_of (st_zones s') z"
  using assms
  by (auto simp: getZoneDetailsByNames_def bindM_Inr_iff map_of_requested split: if_splits)

lemma regular_subnets_eq:
  assumes "\<And>z. z \<in> set zs \<Longrightarrow> map_of details z = map_of zones z"
  shows "regular_subnets details m zs =
    map (\<lambda>s. ToString (subnet_SubnetId s)) (map (\<lambda>z. the (map_of m z)) (filter (regular_zone zones) zs))"
proof -
  have "filter (\<lambda>z. case map_of details z of None \<Rightarrow> True | Some d \<Rightarrow> zd_zoneType d = regularAvailabilityZoneType) zs
      = filter (regular_zone zones) zs"
    using assms by (intro filter_cong) (auto simp: regular_zone_def)
  then show ?thesis by (simp add: regular_subnets_def comp_def)
qed

lemma map_fst_keys:
  assumes "\<And>z. z \<in> set zs \<Longrightarrow> \<exists>s. map_of m z = Some s \<and> f s = z"
  shows "map f (map (\<lambda>z. the (map_of m z)) zs) = zs"
  using assms by (induction zs) force+

text \<open>C30: When \<^verbatim>\<open>findELBSubnets\<close> succeeds, its subnets are in different zones, ordered by zone name; each one
  is usable and is the best of its zone in the order of preference (role tag, then cluster tag, then
  smallest id), however EC2 lists them; and every regular zone that has a usable subnet is present.\<close>

theorem findELBSubnets_best:
  assumes "findSubnets c (st_world s) = (Inr subnets, w1)"
    and "DescribeRouteTables (c_ec2 c) [newEc2Filter ''vpc-id'' [c_vpcID c]] w1 = (Inr rt, w2)"
    and "findELBSubnets c internalELB s = (Inr ids, s')"
  shows "\<exists>chosen. ids = map (\<lambda>t. ToString (subnet_SubnetId t)) chosen
     \<and> sorted_wrt (<) (map (\<lambda>t. ToString (subnet_AvailabilityZone t)) chosen)
     \<and> (\<forall>t \<in> set chosen. best_in_zone (c_tagging c) internalELB
          (candidates internalELB rt subnets (ToString (subnet_AvailabilityZone t))) (Some t))
     \<and> (\<lambda>t. ToString (subnet_AvailabilityZone t)) ` set chosen
         = {az. candidates internalELB rt subnets az \<noteq> {} \<and> regular_zone (st_zones s') az}"
proof -
  let ?az = "\<lambda>t. ToString (subnet_AvailabilityZone t)"
  from assms obtain m details where m: "foldR (choose_subnet (c_tagging c) internalELB rt) subnets [] = Inr m"
    and det: "getZoneDetailsByNames c (sort (mkeys m)) (s\<lparr>st_world := w2\<rparr>) = (Inr details, s')"
    and ids: "ids = regular_subnets details m (sort (mkeys m))"
    by (auto simp: findELBSubnets_def on_world_def bindM_Inr_iff wrapM_Inr_iff Let_def liftM_run returnM_run)
  note best = choose_subnets_best [OF m]
  let ?zs = "filter (regular_zone (st_zones s')) (sort (mkeys m))"
  let ?chosen = "map (\<lambda>z. the (map_of m z)) ?zs"
  have found: "\<exists>t. map_of m z = Some t \<and> ?az t = z" if "z \<in> set (mkeys m)" for z
  proof -
    from that obtain t where t: "map_of m z = Some t" by (metis mhas_def mhas_iff not_Some_eq)
    with best show ?thesis by (auto simp: best_in_zone_def candidates_def dest!: conjunct2 spec [of _ z])
  qed
  have zones: "map ?az ?chosen = ?zs"
    by (rule map_fst_keys) (use found in auto)
  have "ids = map (\<lambda>t. ToString (subnet_SubnetId t)) ?chosen"
    unfolding ids by (rule regular_subnets_eq) (rule getZoneDetails_cached [OF det])
  moreover have "sorted_wrt (<) (map ?az ?chosen)"
    unfolding zones using best by (auto simp: wf_map_def strict_sorted_iff sorted_filter [of "\<lambda>x. x", simplified])
  moreover have "best_in_zone (c_tagging c) internalELB (candidates internalELB rt subnets (?az t)) (Some t)"
    if "t \<in> set ?chosen" for t
  proof -
    from that obtain z where z: "z \<in> set (mkeys m)" "t = the (map_of m z)" by auto
    with found obtain u where "map_of m z = Some u" "?az u = z" by blast
    with z best show ?thesis by (metis option.sel)
  qed
  moreover have "?az ` set ?chosen = {az. candidates internalELB rt subnets az \<noteq> {} \<and> regular_zone (st_zones s') az}"
  proof -
    have "?az ` set ?chosen = set ?zs" using zones by (metis set_map)
    moreover have "z \<in> set (mkeys m) \<longleftrightarrow> candidates internalELB rt subnets z \<noteq> {}" for z
    proof -
      have "best_in_zone (c_tagging c) internalELB (candidates internalELB rt subnets z) (map_of m z)"
        using best by blast
      then have "map_of m z \<noteq> None \<longleftrightarrow> candidates internalELB rt subnets z \<noteq> {}"
        by (cases "map_of m z") (auto simp: best_in_zone_def)
      then show ?thesis using mhas_iff [of m z] by (simp only: mhas_def)
    qed
    ultimately show ?thesis by auto
  qed
  ultimately show ?thesis by blast
qed

text \<open>Two public subnets in one zone, listed in either order.\<close>

definition subnet_of :: "string \<Rightarrow> ec2_subnet" where
  "subnet_of i = \<lparr>subnet_SubnetId = Some i, subnet_AvailabilityZone = Some ''us-east-1a'', subnet_CidrBlock = None,
     subnet_Ipv6CidrBlocks = [], subnet_Tags = []\<rparr>"

definition public_table :: route_table where
  "public_table = \<lparr>rt_RouteTableId = Some ''rtb-1'', rt_Associations = [\<lparr>assoc_SubnetId = None, assoc_Main = Some True\<rparr>],
     rt_Routes = [\<lparr>route_DestinationCidrBlock = Some ''0.0.0.0/0'', route_GatewayId = Some ''igw-1'',
       route_InstanceId = None, route_State = ''active''\<rparr>], rt_Tags = []\<rparr>"

definition subnet_cloud :: "unit Cloud" where
  "subnet_cloud = sample_cloud\<lparr>c_ec2 := idle_client\<lparr>
     DescribeSubnets := (\<lambda>ids fs. returnM [subnet_of ''subnet-b'', subnet_of ''subnet-a'']),
     DescribeRouteTables := (\<lambda>fs. returnM [public_table])\<rparr>\<rparr>"

theorem findELBSubnets_best_witness:
  "\<exists>s'. findELBSubnets subnet_cloud False empty_state = (Inr [''subnet-a''], s')
     \<and> (\<exists>t. ToString (subnet_SubnetId t) = ''subnet-a'' \<and> best_in_zone (c_tagging subnet_cloud) False
          (candidates False [public_table] [subnet_of ''subnet-b'', subnet_of ''subnet-a'']
             (ToString (subnet_AvailabilityZone t))) (Some t))"
proof -
  let ?subnets = "[subnet_of ''subnet-b'', subnet_of ''subnet-a'']"
  have sub: "findSubnets subnet_cloud (st_world empty_state) = (Inr ?subnets, ())"
    by (simp add: findSubnets_def subnet_cloud_def run_simps Let_def subnet_of_def hasNoClusterPrefixTag_def)
  have rt: "DescribeRouteTables (c_ec2 subnet_cloud) [newEc2Filter ''vpc-id'' [c_vpcID subnet_cloud]] ()
      = (Inr [public_table], ())"
    by (simp add: subnet_cloud_def returnM_def)
  have public: "isSubnetPublic [public_table] i = Inr True" if "i \<noteq> ''''" for i
    using that by (simp add: isSubnetPublic_def public_table_def find_last_def Let_def HasPrefix_def)
  have "foldR (choose_subnet (c_tagging subnet_cloud) False [public_table]) ?subnets [] = Inr [(''us-east-1a'', subnet_of ''subnet-a'')]"
    by (simp add: choose_subnet_def public subnet_of_def Let_def replaces_def)
  then obtain s' where run: "findELBSubnets subnet_cloud False empty_state = (Inr [''subnet-a''], s')"
    using sub rt
    by (simp add: findELBSubnets_def on_world_def run_simps getZoneDetailsByNames_def shouldPopulateCache_def populate_def
        regular_subnets_def requested_zones_def mput_all_def)
      (simp add: subnet_cloud_def idle_client_def returnM_def subnet_of_def)
  from findELBSubnets_best [OF sub rt run] obtain chosen :: "ec2_subnet list" where
    ids: "[''subnet-a''] = map (\<lambda>t. ToString (subnet_SubnetId t)) chosen"
    and chosen: "\<forall>t \<in> set chosen. best_in_zone (c_tagging subnet_cloud) False
       (candidates False [public_table] ?subnets (ToString (subnet_AvailabilityZone t))) (Some t)"
    by (elim exE conjE) (rule that)
  from ids obtain t where "chosen = [t]" "ToString (subnet_SubnetId t) = ''subnet-a''" by (cases chosen) auto
  with run chosen show ?thesis by auto
qed

end
