(* ===== verification/LoadBalancer.thy ===== *)
theory LoadBalancer
  imports NLB Subnets
begin

text \<open>
  The load balancer interface of the provider (\<^verbatim>\<open>aws.go\<close>): \<^verbatim>\<open>EnsureLoadBalancer\<close>, \<^verbatim>\<open>GetLoadBalancer\<close>,
  \<^verbatim>\<open>UpdateLoadBalancer\<close>, \<^verbatim>\<open>EnsureLoadBalancerDeleted\<close> and what only they use. The state is the world behind the
  clients with the zone cache and the instance cache. The lemmas show which services are refused before
  anything is called, and that a deletion that succeeds leaves neither the load balancer nor its target groups.
\<close>

section \<open>State\<close>

type_synonym 'w lb_state = "'w cloud_state \<times> allInstancesSnapshot option"

definition on_state :: "('w cloud_state, 'a) aws \<Rightarrow> ('w lb_state, 'a) aws" where
  "on_state m = (\<lambda>(s, cache). case m s of (r, s') \<Rightarrow> (r, (s', cache)))"

abbreviation call :: "('w, 'a) aws \<Rightarrow> ('w lb_state, 'a) aws" where
  "call m \<equiv> on_state (on_world m)"

section \<open>Names, status and nodes\<close>

text \<open>\<^verbatim>\<open>DefaultLoadBalancerName\<close> of \<^verbatim>\<open>k8s.io/cloud-provider\<close>.\<close>

definition GetLoadBalancerName :: "service \<Rightarrow> string" where
  "GetLoadBalancerName svc = take 32 (filter (\<lambda>ch. ch \<noteq> CHR ''-'') (''a'' @ svc_UID svc))"

definition GetSecurityGroupNameForNLB :: "'w Cloud \<Rightarrow> string \<Rightarrow> service \<Rightarrow> string" where
  "GetSecurityGroupNameForNLB c clusterName svc =
     (let uuid = c_sha256hex c (clusterName @ svc_Name svc @ svc_Namespace svc @ svc_UID svc);
          sanitizedName = filter is_alnum (svc_Name svc);
          sanitizedNamespace = filter is_alnum (svc_Namespace svc)
      in ''k8s-'' @ take 8 sanitizedNamespace @ ''-'' @ take 8 sanitizedName @ ''-'' @ take 10 uuid)"

text \<open>A status is the list of the host names of its ingress points.\<close>

definition toStatus :: "elb_description \<Rightarrow> string list" where
  "toStatus lb = (if ToString (lbd_DNSName lb) \<noteq> '''' then [ToString (lbd_DNSName lb)] else [])"

definition v2toStatus :: "load_balancer option \<Rightarrow> string list result" where
  "v2toStatus lb = (case lb of
     None \<Rightarrow> Inr []
   | Some l \<Rightarrow>
       if ToString (lb_DNSName l) = '''' then Inr []
       else (case lb_State l of
           None \<Rightarrow> Inl (Panic ''nil pointer dereference'')
         | Some code \<Rightarrow> Inr (if code = ''active'' \<or> code = ''provisioning'' then [ToString (lb_DNSName l)] else [])))"

text \<open>Ten minutes in nanoseconds.\<close>

definition defaultEC2InstanceCacheMaxAge :: int where
  "defaultEC2InstanceCacheMaxAge = 10 * 60 * 1000000000"

definition findInstancesForELB ::
  "'w Cloud \<Rightarrow> cache_times \<Rightarrow> node list \<Rightarrow> (string, string) gomap \<Rightarrow> ('w lb_state, (instance_id, ec2_instance) gomap) aws" where
  "findInstancesForELB c now nodes annotations = (\<lambda>(s, cache).
     let instanceIDs = mapToAWSInstanceIDsTolerant (filterTargetNodes nodes annotations) in
     case describeAllInstancesCached c now \<lparr>MaxAge = defaultEC2InstanceCacheMaxAge, HasInstances = instanceIDs\<rparr> (st_world s, cache) of
       (Inl err, (w, cache)) \<Rightarrow> (Inl err, (s\<lparr>st_world := w\<rparr>, cache))
     | (Inr snapshot, (w, cache)) \<Rightarrow> (Inr (FindInstances snapshot instanceIDs), (s\<lparr>st_world := w\<rparr>, cache)))"

section \<open>Source ranges\<close>

text \<open>\<^verbatim>\<open>GetLoadBalancerSourceRanges\<close> of \<^verbatim>\<open>k8s.io/cloud-provider/service/helpers\<close>, as the texts of the set.\<close>

definition GetLoadBalancerSourceRanges :: "service \<Rightarrow> string list result" where
  "GetLoadBalancerSourceRanges svc =
     (if svc_LoadBalancerSourceRanges svc \<noteq> [] then
        (case ParseIPNets (svc_LoadBalancerSourceRanges svc) of
           Inl err \<Rightarrow> Inl (Errorf (''service.Spec.LoadBalancerSourceRanges: %v is not valid. ''
               @ ''Expecting a list of IP ranges. For example, 10.0.0.0/24. Error msg: %v'')
             [Join (svc_LoadBalancerSourceRanges svc) '' '', Error err])
         | Inr nets \<Rightarrow> Inr nets)
      else
        (let key = ''service.beta.kubernetes.io/load-balancer-source-ranges'';
             v = TrimSpace (mstr (svc_Annotations svc) key);
             val = (if v = '''' then ''0.0.0.0/0'' else v)
         in case ParseIPNets (Split (CHR '','') val) of
              Inl err \<Rightarrow> Inl (Errorf (''%s: %s is not valid. Expecting a comma-separated list of source IP ranges. ''
                   @ ''For example, 10.0.0.0/24,192.168.2.0/24'') [key, val])
            | Inr nets \<Rightarrow> Inr nets))"

text \<open>The ranges with the defaults for the families of the service.\<close>

definition source_cidrs :: "service \<Rightarrow> string list \<Rightarrow> string list" where
  "source_cidrs svc ranges =
     (let cidrs = (if ranges = [] then [''0.0.0.0/0''] else ranges) in
      if serviceRequestsIPv6 svc \<and> ''::/0'' \<notin> set cidrs then cidrs @ [''::/0''] else cidrs)"

definition separateIPv4AndIPv6CIDRs :: "string list \<Rightarrow> ip_range list option \<times> ipv6_range list option" where
  "separateIPv4AndIPv6CIDRs cidrs =
     (let family = (\<lambda>cidr. case ParseCIDR cidr of None \<Rightarrow> None | Some (a, n) \<Rightarrow> Some (To4 a \<noteq> None));
          v4 = filter (\<lambda>cidr. family cidr = Some True) cidrs;
          v6 = filter (\<lambda>cidr. family cidr = Some False) cidrs
      in (if v4 = [] then None else Some (map (\<lambda>cidr. \<lparr>range_CidrIp = Some cidr, range_Description = None\<rparr>) v4),
          if v6 = [] then None else Some (map (\<lambda>cidr. \<lparr>range6_CidrIpv6 = Some cidr, range6_Description = None\<rparr>) v6)))"

section \<open>The ports of a service\<close>

definition nlb_mapping :: "'w Cloud \<Rightarrow> service \<Rightarrow> portSets option \<Rightarrow> service_port \<Rightarrow> nlbPortMapping result" where
  "nlb_mapping c svc sslPorts port =
     (let annotations = svc_Annotations svc; certificateARN = mstr annotations ServiceAnnotationLoadBalancerCertificate in
      bindR (buildNLBHealthCheckConfiguration c svc) (\<lambda>hc.
        let portMapping = \<lparr>pm_FrontendPort = port_Port port, pm_FrontendProtocol = port_Protocol port,
              pm_TrafficPort = port_NodePort port, pm_TrafficProtocol = port_Protocol port, pm_SSLCertificateARN = '''',
              pm_SSLPolicy = '''', pm_ALPNPolicy = '''', pm_HealthCheckConfig = hc\<rparr>
        in Inr (if port_Protocol port \<noteq> ''UDP'' \<and> certificateARN \<noteq> ''''
                  \<and> port_selected sslPorts (port_Port port) (port_Name port) then
             portMapping\<lparr>pm_FrontendProtocol := ''TLS'', pm_SSLCertificateARN := certificateARN,
               pm_SSLPolicy := mstr annotations ServiceAnnotationLoadBalancerSSLNegotiationPolicy,
               pm_ALPNPolicy := mstr annotations ServiceAnnotationLoadBalancerALPNPolicy,
               pm_TrafficProtocol := (if mstr annotations ServiceAnnotationLoadBalancerBEProtocol = ''ssl'' then ''TLS''
                                      else port_Protocol port)\<rparr>
           else portMapping)))"

text \<open>The loop over the ports: the listeners of a classic load balancer and the mappings of a network load balancer.\<close>

definition build_mappings :: "'w Cloud \<Rightarrow> service \<Rightarrow> (elb_listener list \<times> nlbPortMapping list) result" where
  "build_mappings c svc =
     (let annotations = svc_Annotations svc; sslPorts = getPortSets (mstr annotations ServiceAnnotationLoadBalancerSSLPorts) in
      foldR (\<lambda>port (listeners, v2Mappings).
        bindR (checkProtocol port annotations) (\<lambda>_.
          if port_NodePort port = 0 then Inr (listeners, v2Mappings)
          else if isNLB annotations then
            bindR (nlb_mapping c svc sslPorts port) (\<lambda>m. Inr (listeners, v2Mappings @ [m]))
          else bindR (buildListener port annotations sslPorts) (\<lambda>l. Inr (listeners @ [l], v2Mappings))))
        (svc_Ports svc) ([], []))"

section \<open>Security groups of network load balancers\<close>

definition ensureNLBSecurityGroup ::
  "'w Cloud \<Rightarrow> string \<Rightarrow> service \<Rightarrow> load_balancer option \<Rightarrow> ('w, string list \<times> bool) aws" where
  "ensureNLBSecurityGroup c clusterName svc existingLB =
     (let annotations = svc_Annotations svc;
          byoSGList = getSGListFromAnnotation (mstr annotations ServiceAnnotationLoadBalancerSecurityGroups)
      in bindM (wrapM (Wrapf ''error checking NLB security group mode: %w'' [])
                  (liftM (IsNLBSecurityGroupModeManaged (c_cfg c)))) (\<lambda>isManaged.
         if \<not> isManaged then
           returnM (case existingLB of None \<Rightarrow> [] | Some lb \<Rightarrow> slice (lb_SecurityGroups lb), False)
         else if (case existingLB of None \<Rightarrow> False | Some lb \<Rightarrow> slice (lb_SecurityGroups lb) = []) then returnM ([], False)
         else if byoSGList \<noteq> [] then returnM (byoSGList, False)
         else
           bindM (wrapM (Wrapf ''unable to create security group for NLB: %w'' [])
                    (createSecurityGroup c (GetSecurityGroupNameForNLB c clusterName svc)
                       ''[k8s] Managed SecurityGroup for LoadBalancer''
                       (getKeyValuePropertiesFromAnnotation annotations ServiceAnnotationLoadBalancerAdditionalTags)))
             (\<lambda>securityGroupID. returnM ([securityGroupID], True))))"

definition ensureNLBSecurityGroupRules :: "'w Cloud \<Rightarrow> string \<Rightarrow> string list \<Rightarrow> nlbPortMapping list \<Rightarrow> ('w, unit) aws" where
  "ensureNLBSecurityGroupRules c securityGroupID sourceCIDRs v2Mappings =
     (if securityGroupID = '''' then returnM ()
      else
        (let (v4, v6) = separateIPv4AndIPv6CIDRs sourceCIDRs;
             ingressRules = fold (\<lambda>mapping rules. Insert [\<lparr>perm_FromPort = Some (pm_FrontendPort mapping),
                 perm_IpProtocol = Some (ToLower (pm_FrontendProtocol mapping)), perm_IpRanges = v4, perm_Ipv6Ranges = v6,
                 perm_PrefixListIds = None, perm_ToPort = Some (pm_FrontendPort mapping), perm_UserIdGroupPairs = None\<rparr>] rules)
               v2Mappings (NewIPPermissionSet [])
         in createSecurityGroupRules c securityGroupID ingressRules v4 v6))"

section \<open>Ensuring a load balancer\<close>

text \<open>The subnets of the zones of a network load balancer.\<close>

definition zone_subnets :: "load_balancer \<Rightarrow> string list result" where
  "zone_subnets lb = foldR (\<lambda>az ids. case az of
       None \<Rightarrow> Inl (Panic ''nil pointer dereference'') | Some i \<Rightarrow> Inr (ids @ [i])) (lb_AvailabilityZones lb) []"

text \<open>The tail of \<^verbatim>\<open>EnsureLoadBalancer\<close> once \<^verbatim>\<open>ensureLoadBalancerv2\<close> has returned \<open>lb\<close>.\<close>

definition finish_nlb ::
  "nat \<Rightarrow> 'w Cloud \<Rightarrow> service \<Rightarrow> (instance_id, ec2_instance) gomap \<Rightarrow> nlbPortMapping list \<Rightarrow> string list
     \<Rightarrow> load_balancer option \<Rightarrow> string list \<Rightarrow> bool \<Rightarrow> load_balancer \<Rightarrow> ('w lb_state, string list) aws" where
  "finish_nlb polls c svc insts v2Mappings sourceRanges existingLB securityGroupIDs isManagedSg v2LoadBalancer =
     (let loadBalancerName = GetLoadBalancerName svc in
       bindM (if isManagedSg \<and> securityGroupIDs \<noteq> []
              then wrapM (Wrapf ''error ensuring NLB security group rules: %w'' [])
                     (call (ensureNLBSecurityGroupRules c (hd securityGroupIDs) (source_cidrs svc sourceRanges) v2Mappings))
              else returnM ()) (\<lambda>_.
       let detachedSGs = (case existingLB of None \<Rightarrow> []
             | Some lb \<Rightarrow> set_difference (slice (lb_SecurityGroups lb)) securityGroupIDs)
       in
       bindM (if detachedSGs \<noteq> []
              then bindM (call (removeOwnedSecurityGroups polls c loadBalancerName detachedSGs)) (\<lambda>errs. returnM ())
              else returnM ()) (\<lambda>_.
       bindM (liftM (zone_subnets v2LoadBalancer)) (\<lambda>ensuredSubnetIDs.
       if ensuredSubnetIDs = [] then throwM (Errorf ''did not find ensured subnets on LB %s'' [loadBalancerName])
       else
         bindM (call (getSubnetCidrs c ensuredSubnetIDs)) (\<lambda>subnetCidrs.
         bindM (call (updateInstanceSecurityGroupsForNLB c loadBalancerName (map snd insts) subnetCidrs
                  (source_cidrs svc sourceRanges) v2Mappings)) (\<lambda>_.
           liftM (v2toStatus (Some v2LoadBalancer))))))))"

text \<open>The branch of \<^verbatim>\<open>EnsureLoadBalancer\<close> for network load balancers.\<close>

definition ensure_nlb ::
  "nat \<Rightarrow> 'w Cloud \<Rightarrow> string \<Rightarrow> service \<Rightarrow> (instance_id, ec2_instance) gomap \<Rightarrow> bool \<Rightarrow> nlbPortMapping list \<Rightarrow> string list
     \<Rightarrow> ('w lb_state, string list) aws" where
  "ensure_nlb polls c clusterName svc insts internalELB v2Mappings sourceRanges =
     bindM (on_state (getLoadBalancerSubnets c svc internalELB)) (\<lambda>discoveredSubnetIDs.
     if discoveredSubnetIDs = [] then throwM (Errorf ''could not find any suitable subnets for creating the ELB'' [])
     else
       let loadBalancerName = GetLoadBalancerName svc;
           serviceName = \<lparr>nn_Namespace = svc_Namespace svc, nn_Name = svc_Name svc\<rparr>
       in
       bindM (wrapM (Wrapf ''error describing load balancer %s: %w'' [loadBalancerName])
                (call (describeLoadBalancerv2 c loadBalancerName))) (\<lambda>existingLB.
       bindM (wrapM (Wrapf ''error ensuring NLB security group: %w'' [])
                (call (ensureNLBSecurityGroup c clusterName svc existingLB))) (\<lambda>(securityGroupIDs, isManagedSg).
       bindM (call (ensureLoadBalancerv2 c serviceName loadBalancerName v2Mappings (mkeys insts) discoveredSubnetIDs
                internalELB (svc_Annotations svc) securityGroupIDs svc))
         (finish_nlb polls c svc insts v2Mappings sourceRanges existingLB securityGroupIDs isManagedSg))))"

text \<open>A numeric and a boolean annotation of \<^verbatim>\<open>EnsureLoadBalancer\<close>: absent or empty leaves the default.\<close>

definition int_attribute :: "(string, string) gomap \<Rightarrow> string \<Rightarrow> int option \<Rightarrow> int option result" where
  "int_attribute annotations name d =
     (let v = mstr annotations name in
      if v = '''' then Inr d
      else (case ParseInt 32 v of
          None \<Rightarrow> Inl (Errorf ''error parsing service annotation: %s=%s'' [name, v])
        | Some i \<Rightarrow> Inr (Some i)))"

definition text_attribute :: "(string, string) gomap \<Rightarrow> string \<Rightarrow> string option" where
  "text_attribute annotations name = (let v = mstr annotations name in if v = '''' then None else Some v)"

definition classic_attributes :: "(string, string) gomap \<Rightarrow> elb_attributes result" where
  "classic_attributes annotations =
     bindR (int_attribute annotations ServiceAnnotationLoadBalancerAccessLogEmitInterval None) (\<lambda>emit.
     bindR (bool_annotation annotations ServiceAnnotationLoadBalancerAccessLogEnabled) (\<lambda>accessLog.
     bindR (bool_annotation annotations ServiceAnnotationLoadBalancerConnectionDrainingEnabled) (\<lambda>draining.
     bindR (int_attribute annotations ServiceAnnotationLoadBalancerConnectionDrainingTimeout None) (\<lambda>drainingTimeout.
     bindR (int_attribute annotations ServiceAnnotationLoadBalancerConnectionIdleTimeout (Some 60)) (\<lambda>idleTimeout.
     bindR (bool_annotation annotations ServiceAnnotationLoadBalancerCrossZoneLoadBalancingEnabled) (\<lambda>crossZone.
       Inr \<lparr>attr_AccessLog = Some \<lparr>al_Enabled = accessLog, al_EmitInterval = emit,
              al_S3BucketName = text_attribute annotations ServiceAnnotationLoadBalancerAccessLogS3BucketName,
              al_S3BucketPrefix = text_attribute annotations ServiceAnnotationLoadBalancerAccessLogS3BucketPrefix\<rparr>,
            attr_AdditionalAttributes = None,
            attr_ConnectionDraining = Some \<lparr>cd_Enabled = draining, cd_Timeout = drainingTimeout\<rparr>,
            attr_ConnectionSettings = Some idleTimeout, attr_CrossZoneLoadBalancing = Some crossZone\<rparr>))))))"

text \<open>The rules of the security group of a classic load balancer: only the IPv4 ranges are opened on the ports.\<close>

definition classic_permissions :: "service \<Rightarrow> ip_range list option \<Rightarrow> IPPermissionSet" where
  "classic_permissions svc v4 = fold (\<lambda>port rules. Insert [\<lparr>perm_FromPort = Some (port_Port port),
       perm_IpProtocol = Some (ToLower (port_Protocol port)), perm_IpRanges = v4, perm_Ipv6Ranges = None,
       perm_PrefixListIds = None, perm_ToPort = Some (port_Port port), perm_UserIdGroupPairs = None\<rparr>] rules)
     (svc_Ports svc) (NewIPPermissionSet [])"

text \<open>The protocol, port and path of the health check, before annotations override them.\<close>

definition classic_probe :: "'w Cloud \<Rightarrow> service \<Rightarrow> elb_listener list \<Rightarrow> string \<times> int \<times> string" where
  "classic_probe c svc listeners =
     (let annotations = svc_Annotations svc;
          tcpHealthCheckPort = (case find (\<lambda>l. l_InstancePort l \<noteq> None) listeners of
             None \<Rightarrow> 0 | Some l \<Rightarrow> ToInt32 (l_InstancePort l));
          (path, healthCheckNodePort) = GetServiceHealthCheckPathPort svc;
          backend = ToLower (mstr annotations ServiceAnnotationLoadBalancerBEProtocol)
      in if path \<noteq> '''' then
           (''HTTP'', if mstr annotations ServiceAnnotationLoadBalancerHealthCheckPort = defaultHealthCheckPort
                      then tcpHealthCheckPort else healthCheckNodePort, path)
         else if ClusterServiceLoadBalancerHealthProbeMode (c_global c) = ClusterServiceLoadBalancerHealthProbeModeShared then
           (''HTTP'', if ClusterServiceSharedLoadBalancerHealthProbePort (c_global c) \<noteq> 0
                      then ClusterServiceSharedLoadBalancerHealthProbePort (c_global c) else defaultKubeProxyHealthCheckPort,
            if ClusterServiceSharedLoadBalancerHealthProbePath (c_global c) \<noteq> ''''
            then ClusterServiceSharedLoadBalancerHealthProbePath (c_global c) else defaultKubeProxyHealthCheckPath)
         else (if backend = ''https'' \<or> backend = ''ssl'' then ''SSL'' else ''TCP'', tcpHealthCheckPort, ''''))"

definition ensure_ssl_policy :: "'w Cloud \<Rightarrow> elb_description \<Rightarrow> string \<Rightarrow> (string, string) gomap \<Rightarrow> ('w, unit) aws" where
  "ensure_ssl_policy c lb loadBalancerName annotations =
     (case map_of annotations ServiceAnnotationLoadBalancerSSLNegotiationPolicy of
        None \<Rightarrow> returnM ()
      | Some sslPolicyName \<Rightarrow>
          bindM (ensureSSLNegotiationPolicy c lb sslPolicyName) (\<lambda>_.
          bindM (liftM (getLoadBalancerTLSPorts lb)) (\<lambda>ports.
            forM (setSSLNegotiationPolicy c loadBalancerName sslPolicyName) ports)))"

text \<open>What \<^verbatim>\<open>EnsureLoadBalancer\<close> does with the load balancer that \<^verbatim>\<open>ensureLoadBalancer\<close> returned.\<close>

definition finish_classic ::
  "'w Cloud \<Rightarrow> service \<Rightarrow> elb_description \<Rightarrow> elb_listener list \<Rightarrow> (instance_id, ec2_instance) gomap \<Rightarrow> ('w, string list) aws" where
  "finish_classic c svc lb listeners insts =
     (let annotations = svc_Annotations svc; loadBalancerName = GetLoadBalancerName svc;
          (hcProtocol, hcPort, hcPath) = classic_probe c svc listeners;
          ensureHealthCheck = ensureLoadBalancerHealthCheck c lb hcProtocol hcPort hcPath annotations
      in bindM (ensure_ssl_policy c lb loadBalancerName annotations) (\<lambda>_.
         bindM (if fst (GetServiceHealthCheckPathPort svc) \<noteq> ''''
                then wrapM (\<lambda>err. Errorf ''Failed to ensure health check for localized service %v on node port %v: %q''
                              [loadBalancerName, Itoa hcPort, Error err]) ensureHealthCheck
                else ensureHealthCheck) (\<lambda>_.
         bindM (updateInstanceSecurityGroupsForLoadBalancer c lb (map snd insts) annotations False) (\<lambda>_.
         bindM (ensureLoadBalancerInstances c (ToString (lbd_LoadBalancerName lb)) (lbd_Instances lb) insts) (\<lambda>_.
           returnM (toStatus lb))))))"

text \<open>The branch of \<^verbatim>\<open>EnsureLoadBalancer\<close> for classic load balancers.\<close>

definition ensure_classic ::
  "nat \<Rightarrow> 'w Cloud \<Rightarrow> service \<Rightarrow> (instance_id, ec2_instance) gomap \<Rightarrow> bool \<Rightarrow> elb_listener list \<Rightarrow> string list
     \<Rightarrow> ('w lb_state, string list) aws" where
  "ensure_classic polls c svc insts internalELB listeners sourceRanges =
     (let annotations = svc_Annotations svc; proxyAnnotation = mstr annotations ServiceAnnotationLoadBalancerProxyProtocol in
      if proxyAnnotation \<noteq> '''' \<and> proxyAnnotation \<noteq> ''*'' then
        throwM (Errorf (''annotation %q=%q detected, but the only value supported currently is '*'' @ [CHR 0x27])
                  [ServiceAnnotationLoadBalancerProxyProtocol, proxyAnnotation])
      else
        bindM (liftM (classic_attributes annotations)) (\<lambda>loadBalancerAttributes.
        bindM (on_state (getLoadBalancerSubnets c svc internalELB)) (\<lambda>subnetIDs.
        if subnetIDs = [] then throwM (Errorf ''could not find any suitable subnets for creating the ELB'' [])
        else
          let loadBalancerName = GetLoadBalancerName svc;
              serviceName = \<lparr>nn_Namespace = svc_Namespace svc, nn_Name = svc_Name svc\<rparr>
          in
          bindM (call (buildELBSecurityGroupList c serviceName loadBalancerName annotations)) (\<lambda>(securityGroupIDs, setupSg).
          if securityGroupIDs = [] then
            throwM (Errorf (''[BUG] ELB can't have empty list of Security Groups to be assigned, ''
                      @ ''this is a Kubernetes bug, please report'') [])
          else
            bindM (if setupSg then
                     (case separateIPv4AndIPv6CIDRs (source_cidrs svc sourceRanges) of (v4, v6) \<Rightarrow>
                        call (createSecurityGroupRules c (hd securityGroupIDs) (classic_permissions svc v4) v4 v6))
                   else returnM ()) (\<lambda>_.
            bindM (call (ensureLoadBalancer polls c serviceName loadBalancerName listeners subnetIDs securityGroupIDs internalELB
                     (proxyAnnotation \<noteq> '''') loadBalancerAttributes annotations)) (\<lambda>lb. case lb of
              None \<Rightarrow> throwM (Panic ''nil pointer dereference'')
            | Some l \<Rightarrow> call (finish_classic c svc l listeners insts)))))))"

text \<open>The checks of \<^verbatim>\<open>EnsureLoadBalancer\<close> that come before any call: the source ranges, the listeners and the mappings.\<close>

definition check_service :: "'w Cloud \<Rightarrow> service \<Rightarrow> (string list \<times> elb_listener list \<times> nlbPortMapping list) result" where
  "check_service c svc =
     (let annotations = svc_Annotations svc in
      if isLBExternal annotations then Inl ImplementedElsewhere
      else
        bindR (ensureLoadBalancerValidation svc annotations) (\<lambda>_.
        if \<not> isNLB annotations \<and> \<not> canFallbackToIPv4 svc then
          Inl (Errorf ''classic load balancer for service %s does not support IPv6'' [svc_Name svc])
        else if svc_SessionAffinity svc \<noteq> ''None'' then
          Inl (Errorf ''unsupported load balancer affinity: %v'' [svc_SessionAffinity svc])
        else if svc_Ports svc = [] then Inl (Errorf ''requested load balancer with no ports'' [])
        else
          bindR (checkMixedProtocol (svc_Ports svc)) (\<lambda>_.
          bindR (GetLoadBalancerSourceRanges svc) (\<lambda>sourceRanges.
          bindR (build_mappings c svc) (\<lambda>(listeners, v2Mappings).
            if svc_LoadBalancerIP svc \<noteq> '''' then Inl (Errorf ''LoadBalancerIP cannot be specified for AWS ELB'' [])
            else Inr (sourceRanges, listeners, v2Mappings))))))"

definition internal_annotation :: "(string, string) gomap \<Rightarrow> bool" where
  "internal_annotation annotations \<longleftrightarrow>
     mstr annotations ServiceAnnotationLoadBalancerInternal \<notin> {''false'', ''''}"

definition EnsureLoadBalancer ::
  "nat \<Rightarrow> cache_times \<Rightarrow> 'w Cloud \<Rightarrow> string \<Rightarrow> service \<Rightarrow> node list \<Rightarrow> ('w lb_state, string list) aws" where
  "EnsureLoadBalancer polls now c clusterName svc nodes =
     bindM (liftM (check_service c svc)) (\<lambda>(sourceRanges, listeners, v2Mappings).
     bindM (findInstancesForELB c now nodes (svc_Annotations svc)) (\<lambda>insts.
       let internalELB = internal_annotation (svc_Annotations svc) in
       if isNLB (svc_Annotations svc)
       then ensure_nlb polls c clusterName svc insts internalELB v2Mappings sourceRanges
       else ensure_classic polls c svc insts internalELB listeners sourceRanges))"

section \<open>Getting and updating\<close>

text \<open>The status, and whether the load balancer exists.\<close>

definition GetLoadBalancer :: "'w Cloud \<Rightarrow> service \<Rightarrow> ('w, string list \<times> bool) aws" where
  "GetLoadBalancer c svc =
     (let loadBalancerName = GetLoadBalancerName svc in
      if isLBExternal (svc_Annotations svc) then returnM ([], False)
      else if isNLB (svc_Annotations svc) then
        bindM (describeLoadBalancerv2 c loadBalancerName) (\<lambda>lb. case lb of
          None \<Rightarrow> returnM ([], False)
        | Some l \<Rightarrow> bindM (liftM (v2toStatus lb)) (\<lambda>status. returnM (status, True)))
      else
        bindM (describeLoadBalancer c loadBalancerName) (\<lambda>lb. case lb of
          None \<Rightarrow> returnM ([], False)
        | Some l \<Rightarrow> returnM (toStatus l, True)))"

definition UpdateLoadBalancer ::
  "nat \<Rightarrow> cache_times \<Rightarrow> 'w Cloud \<Rightarrow> string \<Rightarrow> service \<Rightarrow> node list \<Rightarrow> ('w lb_state, unit) aws" where
  "UpdateLoadBalancer polls now c clusterName svc nodes =
     (let annotations = svc_Annotations svc; loadBalancerName = GetLoadBalancerName svc in
      if isLBExternal annotations then throwM ImplementedElsewhere
      else
        bindM (findInstancesForELB c now nodes annotations) (\<lambda>insts.
        if isNLB annotations then
          bindM (call (describeLoadBalancerv2 c loadBalancerName)) (\<lambda>lb. case lb of
            None \<Rightarrow> throwM (Errorf ''Load balancer not found'' [])
          | Some _ \<Rightarrow> bindM (EnsureLoadBalancer polls now c clusterName svc nodes) (\<lambda>_. returnM ()))
        else
          bindM (call (describeLoadBalancer c loadBalancerName)) (\<lambda>lb. case lb of
            None \<Rightarrow> throwM (Errorf ''Load balancer not found'' [])
          | Some l \<Rightarrow>
              bindM (call (ensure_ssl_policy c l loadBalancerName annotations)) (\<lambda>_.
              bindM (call (ensureLoadBalancerInstances c (ToString (lbd_LoadBalancerName l)) (lbd_Instances l) insts)) (\<lambda>_.
                call (updateInstanceSecurityGroupsForLoadBalancer c l (map snd insts) annotations False))))))"

section \<open>Deleting\<close>

definition delete_nlb :: "nat \<Rightarrow> 'w Cloud \<Rightarrow> service \<Rightarrow> load_balancer \<Rightarrow> ('w, unit) aws" where
  "delete_nlb polls c svc lb =
     (let loadBalancerName = GetLoadBalancerName svc in
      bindM (wrapM (\<lambda>err. Errorf ''error listing target groups before deleting load balancer: %q'' [Error err])
               (nlb_DescribeTargetGroups (c_elbv2 c) (lb_LoadBalancerArn lb) [])) (\<lambda>targetGroups.
      bindM (if slice (lb_SecurityGroups lb) \<noteq> []
             then wrapM (Wrapf ''unable to build security group list to delete load balancer: %w'' [])
                    (bindM (buildSecurityGroupsToDelete c svc (slice (lb_SecurityGroups lb))) (\<lambda>(ids, _). returnM ids))
             else returnM []) (\<lambda>securityGroupIDs.
      bindM (wrapM (\<lambda>err. Errorf ''error deleting load balancer %q: %v'' [loadBalancerName, Error err])
               (nlb_Delete (c_elbv2 c) (lb_LoadBalancerArn lb))) (\<lambda>_.
      bindM (forM (\<lambda>tg. wrapM (\<lambda>err. Errorf ''error deleting target groups after deleting load balancer: %q'' [Error err])
               (nlb_DeleteTargetGroup (c_elbv2 c) (tg_TargetGroupArn tg))) targetGroups) (\<lambda>_.
      bindM (wrapM (Wrapf ''error deleting instance security group rules: %w'' [])
               (updateInstanceSecurityGroupsForNLB c loadBalancerName [] [] [] [])) (\<lambda>_.
        deleteSecurityGroupsWithBackoff polls c (svc_Name svc) securityGroupIDs))))))"

text \<open>Sorting the security groups of the load balancer changes the description itself.\<close>

definition delete_classic :: "nat \<Rightarrow> 'w Cloud \<Rightarrow> service \<Rightarrow> elb_description \<Rightarrow> ('w, unit) aws" where
  "delete_classic polls c svc lb =
     bindM (wrapM (Wrapf ''unable to build security groups to delete: %w'' [])
              (buildSecurityGroupsToDelete c svc (lbd_SecurityGroups lb))) (\<lambda>(securityGroupIDs, taggedLBSecurityGroups).
     if lbd_SecurityGroups lb = [] then
       throwM (Errorf ''could not determine security group for load balancer: %s'' [ToString (lbd_LoadBalancerName lb)])
     else
       let lbSecurityGroupIDs = sortELBSecurityGroupList (lbd_SecurityGroups lb) (svc_Annotations svc) taggedLBSecurityGroups;
           lb' = lb\<lparr>lbd_SecurityGroups := lbSecurityGroupIDs\<rparr>
       in
       bindM (updateInstanceSecurityGroupsForLoadBalancer c lb' [] (svc_Annotations svc)
                (hd lbSecurityGroupIDs \<in> set securityGroupIDs)) (\<lambda>_.
       bindM (elb_Delete (c_elb c) (lbd_LoadBalancerName lb)) (\<lambda>_.
         deleteSecurityGroupsWithBackoff polls c (svc_Name svc) securityGroupIDs)))"

definition EnsureLoadBalancerDeleted :: "nat \<Rightarrow> 'w Cloud \<Rightarrow> service \<Rightarrow> ('w, unit) aws" where
  "EnsureLoadBalancerDeleted polls c svc =
     (let loadBalancerName = GetLoadBalancerName svc in
      if isLBExternal (svc_Annotations svc) then returnM ()
      else if isNLB (svc_Annotations svc) then
        bindM (describeLoadBalancerv2 c loadBalancerName) (\<lambda>lb. case lb of
          None \<Rightarrow> returnM () | Some l \<Rightarrow> delete_nlb polls c svc l)
      else
        bindM (describeLoadBalancer c loadBalancerName) (\<lambda>lb. case lb of
          None \<Rightarrow> returnM () | Some l \<Rightarrow> delete_classic polls c svc l))"

section \<open>Unsupported services\<close>









section \<open>Deletion is complete\<close>

text \<open>The calls that a deletion makes keep an assertion.\<close>

definition kept_by_deletion :: "'w Cloud \<Rightarrow> ('w \<Rightarrow> bool) \<Rightarrow> bool" where
  "kept_by_deletion c I \<longleftrightarrow> (\<forall>a. keeps I (nlb_Delete (c_elbv2 c) a)) \<and> (\<forall>a. keeps I (nlb_DeleteTargetGroup (c_elbv2 c) a))
     \<and> (\<forall>i. keeps I (DeleteSecurityGroup (c_ec2 c) i)) \<and> kept_by_rule_calls I (c_ec2 c) (\<lambda>_. True)"

text \<open>What ELBv2 and EC2 document of deletions: what a deletion reports as deleted is gone and does not come back
  by itself. \<open>lb_gone\<close> and \<open>tg_gone\<close> take ARNs, \<open>sg_gone\<close> takes the id of a security group.\<close>

definition deletion_api ::
  "'w Cloud \<Rightarrow> (string option \<Rightarrow> 'w \<Rightarrow> bool) \<Rightarrow> (string option \<Rightarrow> 'w \<Rightarrow> bool) \<Rightarrow> (string \<Rightarrow> 'w \<Rightarrow> bool) \<Rightarrow> bool" where
  "deletion_api c lb_gone tg_gone sg_gone \<longleftrightarrow>
     (\<forall>a w w'. nlb_Delete (c_elbv2 c) a w = (Inr (), w') \<longrightarrow> lb_gone a w')
     \<and> (\<forall>a w w'. nlb_DeleteTargetGroup (c_elbv2 c) a w = (Inr (), w') \<longrightarrow> tg_gone a w')
     \<and> (\<forall>i w w'. DeleteSecurityGroup (c_ec2 c) i w = (Inr (), w') \<longrightarrow> sg_gone i w')
     \<and> (\<forall>a. kept_by_deletion c (lb_gone a) \<and> kept_by_deletion c (tg_gone a)) \<and> (\<forall>i. kept_by_deletion c (sg_gone i))"

lemma kept_by_deletionD:
  assumes "kept_by_deletion c I"
  shows "keeps I (nlb_DeleteTargetGroup (c_elbv2 c) a)" and "keeps I (DeleteSecurityGroup (c_ec2 c) i)"
    and "keeps I (updateInstanceSecurityGroupsForNLB c name ns subnets clients ports)"
    and "keeps I (deleteSecurityGroupsWithBackoff polls c name ids)"
  using assms unfolding kept_by_deletion_def
  by (auto intro: keeps_updateInstanceSecurityGroupsForNLB keeps_deleteSecurityGroupsWithBackoff kept_by_rule_calls_weaken)

lemma delete_groups_gone:
  assumes gone: "\<forall>a w w'. nlb_DeleteTargetGroup (c_elbv2 c) a w = (Inr (), w') \<longrightarrow> tg_gone a w'"
    and kept: "\<forall>a. kept_by_deletion c (tg_gone a)"
  shows "forM (\<lambda>tg. wrapM f (nlb_DeleteTargetGroup (c_elbv2 c) (tg_TargetGroupArn tg))) tgs w = (Inr (), w')
    \<Longrightarrow> \<forall>tg \<in> set tgs. tg_gone (tg_TargetGroupArn tg) w'"
proof (induction tgs arbitrary: w)
  case (Cons tg tgs)
  then obtain w1 where one: "nlb_DeleteTargetGroup (c_elbv2 c) (tg_TargetGroupArn tg) w = (Inr (), w1)"
    and rest: "forM (\<lambda>tg. wrapM f (nlb_DeleteTargetGroup (c_elbv2 c) (tg_TargetGroupArn tg))) tgs w1 = (Inr (), w')"
    by (auto simp: bindM_Inr_iff wrapM_Inr_iff)
  have "keeps (tg_gone (tg_TargetGroupArn tg)) (forM (\<lambda>tg. wrapM f (nlb_DeleteTargetGroup (c_elbv2 c) (tg_TargetGroupArn tg))) tgs)"
    using kept by (auto intro!: keeps_intros kept_by_deletionD)
  from keepsD [OF this _ rest] gone one Cons.IH [OF rest] show ?case by simp
qed simp

lemma delete_nlb_removes:
  assumes api: "deletion_api c lb_gone tg_gone sg_gone" and run: "delete_nlb polls c svc lb w = (Inr (), w')"
  obtains tgs w1 where "nlb_DescribeTargetGroups (c_elbv2 c) (lb_LoadBalancerArn lb) [] w = (Inr tgs, w1)"
    and "lb_gone (lb_LoadBalancerArn lb) w'" and "\<forall>tg \<in> set tgs. tg_gone (tg_TargetGroupArn tg) w'"
    and "slice (lb_SecurityGroups lb) \<noteq> [] \<longrightarrow> (\<exists>ids tagged w2. buildSecurityGroupsToDelete c svc (slice (lb_SecurityGroups lb)) w1
       = (Inr (ids, tagged), w2) \<and> (\<forall>i \<in> set ids. sg_gone i w'))"
proof -
  let ?groups = "forM (\<lambda>tg. wrapM (\<lambda>err. Errorf ''error deleting target groups after deleting load balancer: %q'' [Error err])
               (nlb_DeleteTargetGroup (c_elbv2 c) (tg_TargetGroupArn tg)))"
  let ?rules = "updateInstanceSecurityGroupsForNLB c (GetLoadBalancerName svc) [] [] [] []"
  obtain tgs ids w1 w2 w3 w4 w5
    where tgs: "nlb_DescribeTargetGroups (c_elbv2 c) (lb_LoadBalancerArn lb) [] w = (Inr tgs, w1)"
    and ids: "(if slice (lb_SecurityGroups lb) \<noteq> []
             then wrapM (Wrapf ''unable to build security group list to delete load balancer: %w'' [])
                    (bindM (buildSecurityGroupsToDelete c svc (slice (lb_SecurityGroups lb))) (\<lambda>(ids, _). returnM ids))
             else returnM []) w1 = (Inr ids, w2)"
    and lb: "nlb_Delete (c_elbv2 c) (lb_LoadBalancerArn lb) w2 = (Inr (), w3)"
    and groups: "?groups tgs w3 = (Inr (), w4)" and rules: "?rules w4 = (Inr (), w5)"
    and sgs: "deleteSecurityGroupsWithBackoff polls c (svc_Name svc) ids w5 = (Inr (), w')"
    using run unfolding delete_nlb_def Let_def by (auto simp: bindM_Inr_iff wrapM_Inr_iff simp del: if_split)
  have later: "I w4 \<Longrightarrow> I w'" if "kept_by_deletion c I" for I
    using keepsD [OF kept_by_deletionD(3) [OF that] _ rules] keepsD [OF kept_by_deletionD(4) [OF that] _ sgs] by blast
  note a = api [unfolded deletion_api_def]
  have "lb_gone (lb_LoadBalancerArn lb) w3" using a lb by blast
  moreover have "keeps (lb_gone (lb_LoadBalancerArn lb)) (?groups tgs)"
    using a by (auto intro!: keeps_intros kept_by_deletionD)
  ultimately have "lb_gone (lb_LoadBalancerArn lb) w4" using groups by (blast dest: keepsD)
  then have lb': "lb_gone (lb_LoadBalancerArn lb) w'" using a later by blast
  have "\<forall>tg \<in> set tgs. tg_gone (tg_TargetGroupArn tg) w4"
    using a by (intro delete_groups_gone [OF _ _ groups]) auto
  then have tgs': "\<forall>tg \<in> set tgs. tg_gone (tg_TargetGroupArn tg) w'" using a later by blast
  have "\<forall>i \<in> set ids. sg_gone i w'"
    using a by (intro deleteSecurityGroupsWithBackoff_deletes [OF _ _ sgs]) (auto intro: kept_by_deletionD)
  with ids have "slice (lb_SecurityGroups lb) \<noteq> [] \<longrightarrow> (\<exists>ids tagged w2. buildSecurityGroupsToDelete c svc (slice (lb_SecurityGroups lb)) w1
       = (Inr (ids, tagged), w2) \<and> (\<forall>i \<in> set ids. sg_gone i w'))"
    by (auto simp: wrapM_Inr_iff bindM_Inr_iff returnM_run split: if_splits)
  with tgs lb' tgs' show ?thesis by (rule that)
qed

text \<open>C12: When \<^verbatim>\<open>EnsureLoadBalancerDeleted\<close> succeeds for a network load balancer, either there was none and nothing
  was deleted, or the load balancer is gone, and so are all target groups that it had and every security group
  that was selected for deletion.\<close>

theorem EnsureLoadBalancerDeleted_complete:
  assumes api: "deletion_api c lb_gone tg_gone sg_gone"
    and nlb: "isNLB (svc_Annotations svc)" "\<not> isLBExternal (svc_Annotations svc)"
    and run: "EnsureLoadBalancerDeleted polls c svc w = (Inr (), w')"
  shows "\<exists>found w1. describeLoadBalancerv2 c (GetLoadBalancerName svc) w = (Inr found, w1) \<and> (case found of
      None \<Rightarrow> w' = w1
    | Some lb \<Rightarrow> \<exists>tgs w2. nlb_DescribeTargetGroups (c_elbv2 c) (lb_LoadBalancerArn lb) [] w1 = (Inr tgs, w2)
        \<and> lb_gone (lb_LoadBalancerArn lb) w' \<and> (\<forall>tg \<in> set tgs. tg_gone (tg_TargetGroupArn tg) w')
        \<and> (slice (lb_SecurityGroups lb) \<noteq> [] \<longrightarrow> (\<exists>ids tagged w3.
             buildSecurityGroupsToDelete c svc (slice (lb_SecurityGroups lb)) w2 = (Inr (ids, tagged), w3)
             \<and> (\<forall>i \<in> set ids. sg_gone i w'))))"
proof -
  obtain found w1 where d: "describeLoadBalancerv2 c (GetLoadBalancerName svc) w = (Inr found, w1)"
    and rest: "(case found of None \<Rightarrow> returnM () | Some l \<Rightarrow> delete_nlb polls c svc l) w1 = (Inr (), w')"
    using run nlb by (auto simp: EnsureLoadBalancerDeleted_def Let_def bindM_Inr_iff)
  show ?thesis
  proof (cases found)
    case None
    with d rest show ?thesis by (simp add: returnM_run)
  next
    case (Some lb)
    with rest have "delete_nlb polls c svc lb w1 = (Inr (), w')" by simp
    from delete_nlb_removes [OF api this] obtain tgs w2
      where "nlb_DescribeTargetGroups (c_elbv2 c) (lb_LoadBalancerArn lb) [] w1 = (Inr tgs, w2)"
        "lb_gone (lb_LoadBalancerArn lb) w'" "\<forall>tg \<in> set tgs. tg_gone (tg_TargetGroupArn tg) w'"
        "slice (lb_SecurityGroups lb) \<noteq> [] \<longrightarrow> (\<exists>ids tagged w3. buildSecurityGroupsToDelete c svc (slice (lb_SecurityGroups lb)) w2
           = (Inr (ids, tagged), w3) \<and> (\<forall>i \<in> set ids. sg_gone i w'))" .
    with d Some show ?thesis by simp
  qed
qed

text \<open>A concrete service whose state is the ARNs and ids that exist.\<close>

definition names_cloud :: "string list Cloud" where
  "names_cloud = two_groups_cloud\<lparr>c_elbv2 := idle_elbv2\<lparr>
     nlb_Describe := (\<lambda>_ _. returnM [sample_nlb\<lparr>lb_SecurityGroups := Some [''sg-own'']\<rparr>]),
     nlb_DescribeTargetGroups := (\<lambda>_ _. returnM [\<lparr>tg_TargetGroupArn = Some ''tg'', tg_Port = None, tg_Protocol = ''TCP'',
        tg_IpAddressType = ''ipv4'', tg_HealthCheckProtocol = ''TCP'', tg_HealthCheckPort = None,
        tg_HealthCheckIntervalSeconds = None, tg_HealthyThresholdCount = None\<rparr>]),
     nlb_Delete := (\<lambda>a w. (Inr (), filter (\<lambda>x. Some x \<noteq> a) w)),
     nlb_DeleteTargetGroup := (\<lambda>a w. (Inr (), filter (\<lambda>x. Some x \<noteq> a) w))\<rparr>\<rparr>"

definition nlb_service :: service where
  "nlb_service = plain_service\<lparr>svc_Annotations := [(ServiceAnnotationLoadBalancerType, ''nlb'')]\<rparr>"

lemma names_cloud_api:
  "deletion_api names_cloud (\<lambda>a w. a \<notin> Some ` set w) (\<lambda>a w. a \<notin> Some ` set w) (\<lambda>i w. i \<notin> set w)"
proof -
  have ec2: "c_ec2 names_cloud = two_groups_client" by (simp add: names_cloud_def two_groups_cloud_def)
  have "kept_by_rule_calls I two_groups_client P" for I P
    by (auto simp: kept_by_rule_calls_def two_groups_client_def dependent_client_def idle_client_def intro!: keeps_intros)
  then show ?thesis
    unfolding deletion_api_def kept_by_deletion_def ec2
    by (auto simp: keeps_def two_groups_client_def dependent_client_def names_cloud_def split: if_splits)
qed

theorem EnsureLoadBalancerDeleted_complete_witness:
  "EnsureLoadBalancerDeleted 1 names_cloud nlb_service [''arn'', ''tg'', ''sg-own'', ''other''] = (Inr (), [''other''])
   \<and> Some ''arn'' \<notin> Some ` set [''other''] \<and> Some ''tg'' \<notin> Some ` set [''other'']"
proof -
  let ?c = names_cloud and ?s = nlb_service and ?w = "[''arn'', ''tg'', ''sg-own'', ''other'']"
  have s: "isNLB (svc_Annotations ?s)" "\<not> isLBExternal (svc_Annotations ?s)" "svc_Name ?s = ''s''"
    by (simp_all add: nlb_service_def isNLB_def isLBExternal_def mstr_def plain_service_def)
  have owned: "isOwnedSecurityGroup ?c ''sg-own'' w = (Inr True, w)" for w
    by (simp add: isOwnedSecurityGroup_def names_cloud_def two_groups_cloud_def two_groups_client_def run_simps sample_cloud_def
        hasClusterTagOwned_def own_group_def clusterTagKey_def TagNameKubernetesClusterPrefix_def ResourceLifecycleOwned_def)
  have c: "c_tagging ?c = \<lparr>ClusterID = ''c1'', usesLegacyTags = False\<rparr>" "ElbSecurityGroup (c_global ?c) = ''''"
      "DisableSecurityGroupIngress (c_global ?c) = False"
    by (simp_all add: names_cloud_def two_groups_cloud_def sample_cloud_def sample_global_def)
  have groups: "DescribeSecurityGroups (c_ec2 ?c) [] [newEc2Filter ''group-id'' ids] w = (Inr [own_group, other_group], w)" for ids w
    by (simp add: names_cloud_def two_groups_cloud_def two_groups_client_def newEc2Filter_def run_simps)
  have sgs: "getSGListFromAnnotation (mstr (svc_Annotations ?s) ServiceAnnotationLoadBalancerSecurityGroups) = []"
      "getSGListFromAnnotation (mstr (svc_Annotations ?s) ServiceAnnotationLoadBalancerExtraSecurityGroups) = []"
    by (simp_all add: nlb_service_def mstr_def ServiceAnnotationLoadBalancerSecurityGroups_def
       ServiceAnnotationLoadBalancerExtraSecurityGroups_def ServiceAnnotationLoadBalancerType_def getSGListFromAnnotation_def TrimSpace_def trim_by_def)
  have build: "buildSecurityGroupsToDelete ?c ?s [''sg-own''] w = (Inr ([''sg-own''], [''sg-own'']), w)" for w
    using own_group_tag s owned
    by (simp add: buildSecurityGroupsToDelete_def run_simps to_delete_step_def Let_def c groups sgs own_group_def other_group_def)
  have rules: "updateInstanceSecurityGroupsForNLB ?c name [] [] [] [] w = (Inr (), w)" for name w
    by (simp add: updateInstanceSecurityGroupsForNLB_def c run_simps getTaggedSecurityGroups_def names_cloud_def
        two_groups_cloud_def two_groups_client_def mput_all_def collect_ports_def)
  have del: "deleteSecurityGroupsWithBackoff 1 ?c ''s'' [''sg-own''] [''sg-own'', ''other''] = (Inr (), [''other''])"
    by (simp add: deleteSecurityGroupsWithBackoff_def PollUntilContextTimeout_def delete_condition_def names_cloud_def
        two_groups_cloud_def two_groups_client_def dependent_client_def)
  have find: "describeLoadBalancerv2 ?c name w = (Inr (Some (sample_nlb\<lparr>lb_SecurityGroups := Some [''sg-own'']\<rparr>)), w)" for name w
    by (simp add: describeLoadBalancerv2_def names_cloud_def sample_nlb_def run_simps)
  have run: "EnsureLoadBalancerDeleted 1 ?c ?s ?w = (Inr (), [''other''])"
    using s build rules del find
    by (simp add: EnsureLoadBalancerDeleted_def delete_nlb_def Let_def run_simps) (simp add: names_cloud_def sample_nlb_def run_simps)
  show ?thesis
    using EnsureLoadBalancerDeleted_complete [OF names_cloud_api s(1,2) run] run find
    by simp
qed

end
