(* ===== verification/Reconcile.thy ===== *)
theory Reconcile
  imports LoadBalancer
begin

text \<open>
  The success paths of \<^verbatim>\<open>EnsureLoadBalancer\<close> and \<^verbatim>\<open>UpdateLoadBalancer\<close>, from the service and its nodes to what the load
  balancer serves: the listeners of a network load balancer and the instances that a classic load balancer has registered. The
  lemmas of \<open>NLB\<close> and \<open>ClassicELB\<close> are composed with the parts around them: the checks of the service, the discovery of instances and
  subnets, the security groups, and the rules of the instances' groups.
\<close>

section \<open>Calls on the provider's state\<close>

definition lb_world :: "'w lb_state \<Rightarrow> 'w" where
  "lb_world s = st_world (fst s)"

lemma call_run: "call m s = (case m (lb_world s) of (r, w) \<Rightarrow> (r, ((fst s)\<lparr>st_world := w\<rparr>, snd s)))"
  by (cases s) (simp add: on_state_def on_world_def lb_world_def split: prod.splits)

lemma call_world: "call m s = (r, s') \<Longrightarrow> m (lb_world s) = (r, lb_world s')"
  by (auto simp: call_run lb_world_def split: prod.splits)

lemma keeps_call [keeps_intros]: "keeps I m \<Longrightarrow> keeps (\<lambda>s. I (lb_world s)) (call m)"
  unfolding keeps_def call_run lb_world_def by (auto split: prod.splits)

lemma keeps_case_option: "keeps I m \<Longrightarrow> (\<And>x. keeps I (f x)) \<Longrightarrow> keeps I (case p of None \<Rightarrow> m | Some x \<Rightarrow> f x)"
  by (cases p) simp_all

section \<open>EC2 does not touch listeners\<close>

text \<open>The EC2 calls that follow the load balancer's own keep an assertion.\<close>

definition ec2_separate :: "'w ec2_client \<Rightarrow> ('w \<Rightarrow> bool) \<Rightarrow> bool" where
  "ec2_separate ec2 I \<longleftrightarrow> kept_by_rule_calls I ec2 (\<lambda>_. True) \<and> (\<forall>i. keeps I (DeleteSecurityGroup ec2 i))
     \<and> (\<forall>ids fs. keeps I (DescribeSubnets ec2 ids fs))"

lemma keeps_createSecurityGroupRules:
  assumes "kept_by_rule_calls I (c_ec2 c) (\<lambda>_. True)"
  shows "keeps I (createSecurityGroupRules c i rules v4 v6)"
  using assms unfolding createSecurityGroupRules_def setSecurityGroupIngress_def kept_by_rule_calls_def Let_def
  by (auto intro!: keeps_intros keeps_findSecurityGroup split: option.split)

lemma keeps_revokeSecurityGroupReferences:
  assumes "kept_by_rule_calls I (c_ec2 c) (\<lambda>_. True)"
  shows "keeps I (revokeSecurityGroupReferences c i)"
  using assms unfolding revokeSecurityGroupReferences_def buildSecurityGroupRuleReferences_def kept_by_rule_calls_def Let_def
  by (auto intro!: keeps_intros split: prod.split)

lemma keeps_removeOwnedSecurityGroups:
  assumes "ec2_separate (c_ec2 c) I"
  shows "keeps I (removeOwnedSecurityGroups polls c name ids)"
  using assms keeps_revokeSecurityGroupReferences [of I c] keeps_deleteSecurityGroupsWithBackoff [of I c]
  unfolding removeOwnedSecurityGroups_def remove_owned_step_def isOwnedSecurityGroup_def ec2_separate_def kept_by_rule_calls_def
  by (auto intro!: keeps_intros split: sum.split prod.split)

lemma keeps_getSubnetCidrs: "ec2_separate (c_ec2 c) I \<Longrightarrow> keeps I (getSubnetCidrs c ids)"
  unfolding getSubnetCidrs_def ec2_separate_def by (auto intro!: keeps_intros)

section \<open>What follows the load balancer's own calls\<close>

lemma ensure_nlb_split:
  assumes "ensure_nlb polls c clusterName svc insts internalELB v2Mappings sourceRanges s = (Inr status, s')"
  obtains subnets existing sgs managed lb s1 s2 where
    "call (ensureLoadBalancerv2 c \<lparr>nn_Namespace = svc_Namespace svc, nn_Name = svc_Name svc\<rparr> (GetLoadBalancerName svc)
       v2Mappings (mkeys insts) subnets internalELB (svc_Annotations svc) sgs svc) s1 = (Inr lb, s2)"
    and "finish_nlb polls c svc insts v2Mappings sourceRanges existing sgs managed lb s2 = (Inr status, s')"
proof -
  obtain subnets s0 where subnets: "subnets \<noteq> []" and rest: "bindM (wrapM (Wrapf ''error describing load balancer %s: %w'' [GetLoadBalancerName svc])
                (call (describeLoadBalancerv2 c (GetLoadBalancerName svc)))) (\<lambda>existing.
       bindM (wrapM (Wrapf ''error ensuring NLB security group: %w'' [])
                (call (ensureNLBSecurityGroup c clusterName svc existing))) (\<lambda>(sgs, managed).
       bindM (call (ensureLoadBalancerv2 c \<lparr>nn_Namespace = svc_Namespace svc, nn_Name = svc_Name svc\<rparr> (GetLoadBalancerName svc)
         v2Mappings (mkeys insts) subnets internalELB (svc_Annotations svc) sgs svc))
         (finish_nlb polls c svc insts v2Mappings sourceRanges existing sgs managed))) s0 = (Inr status, s')"
    using assms unfolding ensure_nlb_def Let_def bindM_Inr_iff [of "on_state (getLoadBalancerSubnets _ _ _)"]
    by (auto simp: throwM_run split: if_splits)
  from rest obtain existing s1 where "bindM (wrapM (Wrapf ''error ensuring NLB security group: %w'' [])
                (call (ensureNLBSecurityGroup c clusterName svc existing))) (\<lambda>(sgs, managed).
       bindM (call (ensureLoadBalancerv2 c \<lparr>nn_Namespace = svc_Namespace svc, nn_Name = svc_Name svc\<rparr> (GetLoadBalancerName svc)
         v2Mappings (mkeys insts) subnets internalELB (svc_Annotations svc) sgs svc))
         (finish_nlb polls c svc insts v2Mappings sourceRanges existing sgs managed)) s1 = (Inr status, s')"
    by (rule bindM_InrE)
  then obtain sgs managed s2 where "bindM (call (ensureLoadBalancerv2 c \<lparr>nn_Namespace = svc_Namespace svc, nn_Name = svc_Name svc\<rparr>
         (GetLoadBalancerName svc) v2Mappings (mkeys insts) subnets internalELB (svc_Annotations svc) sgs svc))
         (finish_nlb polls c svc insts v2Mappings sourceRanges existing sgs managed) s2 = (Inr status, s')"
    by (rule bindM_InrE) (auto split: prod.splits)
  then show ?thesis by (rule bindM_InrE) (rule that)
qed

lemma finish_nlb_keeps:
  assumes "ec2_separate (c_ec2 c) I"
  shows "keeps (\<lambda>s. I (lb_world s)) (finish_nlb polls c svc insts v2Mappings sourceRanges existing sgs managed lb)"
proof -
  have "keeps I (ensureNLBSecurityGroupRules c i cidrs v2Mappings)" for i cidrs
    using assms keeps_createSecurityGroupRules [of I c] unfolding ensureNLBSecurityGroupRules_def ec2_separate_def Let_def
    by (auto intro!: keeps_intros split: prod.split)
  moreover have "keeps I (updateInstanceSecurityGroupsForNLB c name ns subnets clients ports)" for name ns subnets clients ports
    using assms unfolding ec2_separate_def by (blast intro: keeps_updateInstanceSecurityGroupsForNLB kept_by_rule_calls_weaken)
  ultimately show ?thesis
    using keeps_removeOwnedSecurityGroups [OF assms] keeps_getSubnetCidrs [OF assms]
    unfolding finish_nlb_def Let_def by (auto intro!: keeps_intros)
qed

section \<open>The listeners of a service\<close>

text \<open>The port and protocol of the listener that a port of a service asks for, and the ports that get one: those with a node
  port.\<close>

definition service_listener :: "service \<Rightarrow> service_port \<Rightarrow> int \<times> string" where
  "service_listener svc port =
     (port_Port port,
      if port_Protocol port \<noteq> ''UDP'' \<and> mstr (svc_Annotations svc) ServiceAnnotationLoadBalancerCertificate \<noteq> ''''
        \<and> port_selected (getPortSets (mstr (svc_Annotations svc) ServiceAnnotationLoadBalancerSSLPorts)) (port_Port port) (port_Name port)
      then ''TLS'' else port_Protocol port)"

definition exposed_ports :: "service \<Rightarrow> service_port list" where
  "exposed_ports svc = filter (\<lambda>port. port_NodePort port \<noteq> 0) (svc_Ports svc)"

lemma nlb_mapping_key:
  "nlb_mapping c svc (getPortSets (mstr (svc_Annotations svc) ServiceAnnotationLoadBalancerSSLPorts)) port = Inr m
    \<Longrightarrow> mapping_key m = service_listener svc port"
  by (auto simp: nlb_mapping_def service_listener_def Let_def bindR_Inr_iff)

lemma build_mappings_keys:
  assumes nlb: "isNLB (svc_Annotations svc)" and run: "build_mappings c svc = Inr (listeners, mappings)"
  shows "map mapping_key mappings = map (service_listener svc) (exposed_ports svc)"
proof -
  let ?ssl = "getPortSets (mstr (svc_Annotations svc) ServiceAnnotationLoadBalancerSSLPorts)"
  let ?step = "\<lambda>port (listeners, v2Mappings).
        bindR (checkProtocol port (svc_Annotations svc)) (\<lambda>_.
          if port_NodePort port = 0 then Inr (listeners, v2Mappings)
          else bindR (nlb_mapping c svc ?ssl port) (\<lambda>m. Inr (listeners, v2Mappings @ [m])))"
  have "map mapping_key (snd out) = map mapping_key (snd acc) @ map (service_listener svc) (filter (\<lambda>p. port_NodePort p \<noteq> 0) ports)"
    if "foldR ?step ports acc = Inr out" for ports acc and out :: "elb_listener list \<times> nlbPortMapping list"
    using that
  proof (induction ports arbitrary: acc)
    case (Cons port ports)
    then show ?case
      by (auto simp: bindR_Inr_iff split: if_splits prod.splits dest!: Cons.IH nlb_mapping_key)
  qed simp
  moreover have "foldR ?step (svc_Ports svc) ([], []) = Inr (listeners, mappings)"
    using run unfolding build_mappings_def Let_def if_P [OF nlb] .
  ultimately show ?thesis by (fastforce simp: exposed_ports_def)
qed

text \<open>What ELBv2 documents of names: a load balancer that is found under the name is the one with the ARN.\<close>

definition named_lb :: "'w Cloud \<Rightarrow> string \<Rightarrow> string option \<Rightarrow> bool" where
  "named_lb c name arn \<longleftrightarrow> (\<forall>w l w'. describeLoadBalancerv2 c name w = (Inr (Some l), w') \<longrightarrow> lb_LoadBalancerArn l = arn)"

lemma ensured_listeners:
  assumes api: "listener_api (c_elbv2 c) arn listeners" and name: "named_lb c (GetLoadBalancerName svc) arn"
    and ec2: "\<forall>L. ec2_separate (c_ec2 c) (\<lambda>w. listeners w = L)"
    and nlb: "isNLB (svc_Annotations svc)"
    and run: "EnsureLoadBalancer polls now c clusterName svc nodes s = (Inr status, s')"
  shows "snd ` listeners (lb_world s') = service_listener svc ` set (exposed_ports svc)"
proof -
  obtain ranges ls mappings insts s0 where check: "check_service c svc = Inr (ranges, ls, mappings)"
    and ensure: "ensure_nlb polls c clusterName svc insts (internal_annotation (svc_Annotations svc)) mappings ranges s0 = (Inr status, s')"
    using run nlb unfolding EnsureLoadBalancer_def Let_def by (auto simp: bindM_Inr_iff liftM_run)
  from check have "build_mappings c svc = Inr (ls, mappings)"
    by (auto simp: check_service_def Let_def bindR_Inr_iff split: if_splits)
  from build_mappings_keys [OF nlb this] have keys: "mapping_key ` set mappings = service_listener svc ` set (exposed_ports svc)"
    by (metis list.set_map)
  from ensure_nlb_split [OF ensure] obtain subnets existing sgs managed lb s1 s2 where
    ensured: "call (ensureLoadBalancerv2 c \<lparr>nn_Namespace = svc_Namespace svc, nn_Name = svc_Name svc\<rparr> (GetLoadBalancerName svc)
       mappings (mkeys insts) subnets (internal_annotation (svc_Annotations svc)) (svc_Annotations svc) sgs svc) s1 = (Inr lb, s2)"
    and rest: "finish_nlb polls c svc insts mappings ranges existing sgs managed lb s2 = (Inr status, s')" .
  note v2 = call_world [OF ensured]
  then obtain found w1 where found: "describeLoadBalancerv2 c (GetLoadBalancerName svc) (lb_world s1) = (Inr found, w1)"
    by (auto simp: ensureLoadBalancerv2_def Let_def bindM_Inr_iff)
  with name have "\<forall>l. found = Some l \<longrightarrow> lb_LoadBalancerArn l = arn" by (auto simp: named_lb_def)
  from ensureLoadBalancerv2_listeners [OF api found this v2]
  have "snd ` listeners (lb_world s2) = mapping_key ` set mappings" .
  moreover have "listeners (lb_world s') = listeners (lb_world s2)"
    using keepsD [OF finish_nlb_keeps [OF ec2 [rule_format]] refl rest] .
  ultimately show ?thesis using keys by simp
qed

text \<open>C1: the listeners of a service with a network load balancer. When \<^verbatim>\<open>EnsureLoadBalancer\<close> or \<^verbatim>\<open>UpdateLoadBalancer\<close>
  succeeds, from whatever state, the load balancer has a listener for the port of every service port with a node port, with the
  protocol of the port or TLS where the annotations ask for a certificate on it, and no other listener. Of ELBv2 only the
  documented effect of the listener calls is assumed and that a name belongs to one load balancer, of EC2 that its calls leave
  listeners alone.\<close>

theorem EnsureLoadBalancer_listeners:
  assumes "listener_api (c_elbv2 c) arn listeners" and "named_lb c (GetLoadBalancerName svc) arn"
    and "\<forall>L. ec2_separate (c_ec2 c) (\<lambda>w. listeners w = L)" and "isNLB (svc_Annotations svc)"
    and run: "EnsureLoadBalancer polls now c clusterName svc nodes s = (Inr status, s')
      \<or> UpdateLoadBalancer polls now c clusterName svc nodes s = (Inr (), s')"
  shows "snd ` listeners (lb_world s') = service_listener svc ` set (exposed_ports svc)"
proof -
  have "\<exists>s status. EnsureLoadBalancer polls now c clusterName svc nodes s = (Inr status, s')"
    if "UpdateLoadBalancer polls now c clusterName svc nodes s = (Inr (), s')"
    using that assms(4) unfolding UpdateLoadBalancer_def Let_def
    by (auto simp: bindM_Inr_iff throwM_run returnM_run split: if_splits option.splits)
  with run obtain s status where "EnsureLoadBalancer polls now c clusterName svc nodes s = (Inr status, s')" by blast
  from ensured_listeners [OF assms(1-4) this] show ?thesis .
qed

text \<open>A service with two ports, one of them without a node port, whose load balancer has an old listener.\<close>

definition web_cloud :: "(int \<times> string) list Cloud" where
  "web_cloud = nlb_cloud\<lparr>c_ec2 := idle_client\<lparr>DescribeSubnets := (\<lambda>ids _. returnM (map (\<lambda>i.
     \<lparr>subnet_SubnetId = Some i, subnet_AvailabilityZone = Some ''us-east-1a'', subnet_CidrBlock = Some ''10.0.0.0/24'',
      subnet_Ipv6CidrBlocks = [], subnet_Tags = []\<rparr>) ids))\<rparr>\<rparr>"

definition web_service :: service where
  "web_service = bare_service\<lparr>
     svc_Annotations := [(ServiceAnnotationLoadBalancerType, ''nlb''), (ServiceAnnotationLoadBalancerSubnets, ''subnet-1'')],
     svc_Ports := [\<lparr>port_Name = ''http'', port_Protocol = ''TCP'', port_Port = 80, port_NodePort = 30080\<rparr>,
       \<lparr>port_Name = ''internal'', port_Protocol = ''TCP'', port_Port = 81, port_NodePort = 0\<rparr>]\<rparr>"

definition web_state :: "(int \<times> string) list lb_state" where
  "web_state = (\<lparr>st_world = [(8080, ''TCP'')], st_zones = [], st_unsupported = []\<rparr>, None)"

lemma web_checks: "check_service web_cloud web_service = Inr ([''0.0.0.0/0''], [], [tcp_mapping])"
  by code_simp

lemma web_fields [simp]:
  "c_elbv2 web_cloud = nlb_client" "c_cfg web_cloud = \<lparr>Global = sample_global, ServiceOverride = []\<rparr>" "GetLoadBalancerName web_service = ''au''"
  "isNLB (svc_Annotations web_service)" "lb_world web_state = [(8080, ''TCP'')]"
  by (simp_all add: web_cloud_def nlb_cloud_def sample_cloud_def web_service_def bare_service_def GetLoadBalancerName_def isNLB_def mstr_def
      web_state_def lb_world_def)

lemma web_v2:
  "\<exists>w'. ensureLoadBalancerv2 web_cloud n name [tcp_mapping] ids subnets internalELB (svc_Annotations web_service) [] web_service
     [(8080, ''TCP'')] = (Inr sample_nlb, w')"
proof (rule nlb_client_update)
  have "bool_annotation (svc_Annotations web_service) ServiceAnnotationLoadBalancerCrossZoneLoadBalancingEnabled = Inr False"
    "bool_annotation (svc_Annotations web_service) ServiceAnnotationLoadBalancerAccessLogEnabled = Inr False"
    by code_simp+
  then show "reconcileLBAttributes web_cloud ''arn'' (svc_Annotations web_service) w = (Inr (), w)" for w
    by (simp add: reconcileLBAttributes_def run_simps Let_def nlb_client_def idle_elbv2_def)
  show "\<not> mhas (svc_Annotations web_service) ServiceAnnotationLoadBalancerTargetGroupAttributes" by code_simp
  show "getLoadBalancerIPAddressTypeFromService web_service = ''ipv4''" by code_simp
  show "validateIPFamilyInfo web_service (serviceRequestsIPv6 web_service) = Inr ()" by code_simp
qed simp

lemma web_subnet: "DescribeSubnets (c_ec2 web_cloud) [''subnet-1''] [] w = (Inr [\<lparr>subnet_SubnetId = Some ''subnet-1'',
     subnet_AvailabilityZone = Some ''us-east-1a'', subnet_CidrBlock = Some ''10.0.0.0/24'', subnet_Ipv6CidrBlocks = [], subnet_Tags = []\<rparr>], w)"
  by (simp add: web_cloud_def returnM_run)

lemma web_run: "\<exists>s'. EnsureLoadBalancer 1 (0, 0) web_cloud ''cluster'' web_service [] web_state = (Inr [''nlb.aws''], s')"
proof -
  have insts: "\<exists>cache. findInstancesForELB web_cloud (0, 0) [] (svc_Annotations web_service) web_state = (Inr [], (fst web_state, cache))"
    by (auto simp: findInstancesForELB_def web_state_def describeAllInstancesCached_def describeAllInstancesUncached_def
      describeInstances_def web_cloud_def nlb_cloud_def sample_cloud_def idle_client_def run_simps filterTargetNodes_def
      mapToAWSInstanceIDsTolerant_def FindInstances_def Let_def mput_all_def)
  have "parseStringSliceAnnotation (svc_Annotations web_service) ServiceAnnotationLoadBalancerSubnets [] = (True, [''subnet-1''])"
    by code_simp
  then have subnets: "getLoadBalancerSubnets web_cloud web_service i s = (Inr [''subnet-1''], s)" for i s
    by (simp add: getLoadBalancerSubnets_def on_world_def resolveSubnetNameOrIDs_def HasPrefix_def run_simps web_subnet Let_def)
  have describe: "describeLoadBalancerv2 web_cloud name w = (Inr (Some sample_nlb), w)" for name w
    by (simp add: describeLoadBalancerv2_def nlb_client_def run_simps sample_nlb_def)
  have "IsNLBSecurityGroupModeManaged (c_cfg web_cloud) = Inr False" by code_simp
  then have groups: "ensureNLBSecurityGroup web_cloud ''cluster'' web_service (Some sample_nlb) w = (Inr ([], False), w)" for w
    by (simp add: ensureNLBSecurityGroup_def run_simps sample_nlb_def Let_def)
  obtain ports where "collect_ports [tcp_mapping] = Inr ports" by (auto simp: collect_ports_def defaultHealthCheckPort_def)
  then have rules: "updateInstanceSecurityGroupsForNLB web_cloud name [] cidrs sources [tcp_mapping] w = (Inr (), w)" for name cidrs sources w
    by (simp add: updateInstanceSecurityGroupsForNLB_def run_simps getTaggedSecurityGroups_def web_cloud_def nlb_cloud_def
        sample_cloud_def idle_client_def mput_all_def)
  have cidrs: "getSubnetCidrs web_cloud [''subnet-1''] w = (Inr [''10.0.0.0/24''], w)" for w
    by (simp add: getSubnetCidrs_def run_simps web_subnet)
  have finish: "\<exists>s'. finish_nlb 1 web_cloud web_service [] [tcp_mapping] ranges (Some sample_nlb) [] False sample_nlb s = (Inr [''nlb.aws''], s')" for ranges s
    by (simp add: finish_nlb_def run_simps call_run cidrs rules zone_subnets_def v2toStatus_def sample_nlb_def set_difference_def Let_def)
  from insts obtain cache where insts: "findInstancesForELB web_cloud (0, 0) [] (svc_Annotations web_service) web_state = (Inr [], (fst web_state, cache))" ..
  from web_v2 [of "\<lparr>nn_Namespace = svc_Namespace web_service, nn_Name = svc_Name web_service\<rparr>" "''au''" "[]" "[''subnet-1'']"
      "internal_annotation (svc_Annotations web_service)"]
  obtain w' where v2: "ensureLoadBalancerv2 web_cloud \<lparr>nn_Namespace = svc_Namespace web_service, nn_Name = svc_Name web_service\<rparr> ''au''
      [tcp_mapping] [] [''subnet-1''] (internal_annotation (svc_Annotations web_service)) (svc_Annotations web_service) [] web_service
      [(8080, ''TCP'')] = (Inr sample_nlb, w')" ..
  have world: "st_world (fst web_state) = [(8080, ''TCP'')]" by (simp add: web_state_def)
  show ?thesis
    using finish [of "[''0.0.0.0/0'']"]
    by (simp add: EnsureLoadBalancer_def run_simps web_checks insts ensure_nlb_def on_state_def on_world_def subnets describe groups world v2 Let_def)
qed

theorem EnsureLoadBalancer_listeners_witness:
  "\<exists>s'. EnsureLoadBalancer 1 (0, 0) web_cloud ''cluster'' web_service [] web_state = (Inr [''nlb.aws''], s')
     \<and> snd ` (\<lambda>k. (key_arn k, k)) ` set (lb_world s') = {(80, ''TCP'')}"
proof -
  obtain s' where run: "EnsureLoadBalancer 1 (0, 0) web_cloud ''cluster'' web_service [] web_state = (Inr [''nlb.aws''], s')"
    using web_run ..
  have named: "named_lb web_cloud (GetLoadBalancerName web_service) (Some ''arn'')"
    by (auto simp: named_lb_def describeLoadBalancerv2_def nlb_client_def run_simps sample_nlb_def)
  have ec2: "\<forall>L. ec2_separate (c_ec2 web_cloud) (\<lambda>w. (\<lambda>k. (key_arn k, k)) ` set w = L)"
    by (auto simp: ec2_separate_def kept_by_rule_calls_def web_cloud_def idle_client_def intro!: keeps_intros)
  have "service_listener web_service ` set (exposed_ports web_service) = {(80, ''TCP'')}"
    by (simp add: service_listener_def exposed_ports_def web_service_def mstr_def ServiceAnnotationLoadBalancerCertificate_def
        ServiceAnnotationLoadBalancerType_def ServiceAnnotationLoadBalancerSubnets_def)
  with EnsureLoadBalancer_listeners [OF _ named ec2 _ disjI1 [OF run]] nlb_client_api run show ?thesis by simp
qed

section \<open>The instances of a classic load balancer\<close>

text \<open>The calls of the classic API that do not register instances keep an assertion.\<close>

definition elb_quiet :: "'w elb_client \<Rightarrow> ('w \<Rightarrow> bool) \<Rightarrow> bool" where
  "elb_quiet elb I \<longleftrightarrow> (\<forall>x. keeps I (elb_Describe elb x)) \<and> (\<forall>x y. keeps I (elb_AddTags elb x y))
     \<and> (\<forall>x y z p. keeps I (elb_CreatePolicy elb x y z p)) \<and> (\<forall>x y z. keeps I (elb_SetBackendPolicies elb x y z))
     \<and> (\<forall>x y z. keeps I (elb_SetListenerPolicies elb x y z)) \<and> (\<forall>x y. keeps I (elb_DescribePolicies elb x y))
     \<and> (\<forall>x y. keeps I (elb_DetachSubnets elb x y)) \<and> (\<forall>x y. keeps I (elb_AttachSubnets elb x y))
     \<and> (\<forall>x y. keeps I (elb_CreateListeners elb x y)) \<and> (\<forall>x y. keeps I (elb_DeleteListeners elb x y))
     \<and> (\<forall>x y. keeps I (elb_ApplySecurityGroups elb x y)) \<and> (\<forall>x y. keeps I (elb_ConfigureHealthCheck elb x y))
     \<and> (\<forall>x. keeps I (elb_DescribeAttributes elb x)) \<and> (\<forall>x y. keeps I (elb_ModifyAttributes elb x y))"

text \<open>A description is true: it has the name and the instances that are registered.\<close>

definition describes :: "string \<Rightarrow> string set \<Rightarrow> elb_description \<Rightarrow> bool" where
  "describes name ids lb \<longleftrightarrow> lbd_LoadBalancerName lb = Some name \<and> ToString ` set (lbd_Instances lb) = ids"

text \<open>What the classic API documents of the instances of the load balancer \<open>name\<close>: a description lists them, registering adds to
  them, deregistering removes from them, and no other call on an existing load balancer changes them.\<close>

definition registration_api :: "'w Cloud \<Rightarrow> string \<Rightarrow> ('w \<Rightarrow> string set) \<Rightarrow> bool" where
  "registration_api c name registered \<longleftrightarrow>
     (\<forall>L. elb_quiet (c_elb c) (\<lambda>w. registered w = L)) \<and> (\<forall>L. ec2_separate (c_ec2 c) (\<lambda>w. registered w = L))
     \<and> (\<forall>w lbs w'. elb_Describe (c_elb c) [name] w = (Inr lbs, w') \<and> lbs \<noteq> [] \<longrightarrow> describes name (registered w) (last lbs))
     \<and> (\<forall>ids w w'. elb_RegisterInstances (c_elb c) name ids w = (Inr (), w') \<longrightarrow> registered w' = registered w \<union> set ids)
     \<and> (\<forall>ids w w'. elb_DeregisterInstances (c_elb c) name ids w = (Inr (), w') \<longrightarrow> registered w' = registered w - set ids)"

lemma registration_apiD:
  assumes "registration_api c name registered"
  shows "elb_quiet (c_elb c) (\<lambda>w. registered w = L)" and "ec2_separate (c_ec2 c) (\<lambda>w. registered w = L)"
    and "elb_RegisterInstances (c_elb c) name ids w = (Inr (), w') \<Longrightarrow> registered w' = registered w \<union> set ids"
    and "elb_DeregisterInstances (c_elb c) name ids w = (Inr (), w') \<Longrightarrow> registered w' = registered w - set ids"
  using assms unfolding registration_api_def by blast+

lemma keeps_describeLoadBalancer: "elb_quiet (c_elb c) I \<Longrightarrow> keeps I (describeLoadBalancer c name)"
  unfolding describeLoadBalancer_def elb_quiet_def by (auto intro!: keeps_intros split: sum.split)

lemma describeLoadBalancer_describes:
  assumes api: "registration_api c name registered" and run: "describeLoadBalancer c name w = (Inr (Some l), w')"
  shows "describes name (registered w') l"
proof -
  obtain lbs where "elb_Describe (c_elb c) [name] w = (Inr lbs, w')" "lbs \<noteq> []" "l = last lbs"
    using run by (auto simp: describeLoadBalancer_def tryM_run returnM_run throwM_run split: prod.splits sum.splits if_splits)
  moreover have "registered w' = registered w"
    using keepsD [OF keeps_describeLoadBalancer [OF registration_apiD(1) [OF api]] refl run] .
  ultimately show ?thesis using api unfolding registration_api_def by metis
qed

lemma ensureLoadBalancerInstances_registers:
  assumes api: "registration_api c name registered" and old: "registered w = ToString ` set lbInstances"
    and run: "ensureLoadBalancerInstances c name lbInstances insts w = (Inr (), w')"
  shows "registered w' = set (mkeys insts)"
proof -
  let ?A = "sort (set_difference (mkeys insts) (map ToString lbInstances))"
  let ?R = "sort (set_difference (map ToString lbInstances) (mkeys insts))"
  obtain w1 where "(if ?A \<noteq> [] then elb_RegisterInstances (c_elb c) name ?A else returnM ()) w = (Inr (), w1)"
    and "(if ?R \<noteq> [] then elb_DeregisterInstances (c_elb c) name ?R else returnM ()) w1 = (Inr (), w')"
    using run by (auto simp: ensureLoadBalancerInstances_def Let_def bindM_Inr_iff simp del: if_split)
  moreover have "registered v' = registered v \<union> set xs"
    if "(if xs \<noteq> [] then elb_RegisterInstances (c_elb c) name xs else returnM ()) v = (Inr (), v')" for xs v v'
    using that registration_apiD(3) [OF api] by (cases "xs = []") (auto simp: returnM_run)
  moreover have "registered v' = registered v - set xs"
    if "(if xs \<noteq> [] then elb_DeregisterInstances (c_elb c) name xs else returnM ()) v = (Inr (), v')" for xs v v'
    using that registration_apiD(4) [OF api] by (cases "xs = []") (auto simp: returnM_run)
  ultimately have "registered w1 = registered w \<union> set ?A" "registered w' = registered w1 - set ?R" by blast+
  with old show ?thesis by auto
qed

lemma keeps_update_classic:
  assumes "elb_quiet (c_elb c) I" and "ec2_separate (c_ec2 c) I"
  shows "keeps I (update_classic polls c name lb listeners subnets sgs proxy annotations)"
proof -
  have "keeps I (sync_subnets c name subnets actual)" for actual
    using assms(1) unfolding sync_subnets_def elb_quiet_def Let_def by (auto intro!: keeps_intros)
  moreover have "keeps I (sync_security_groups polls c name sgs actual)" for actual
    using assms(1) keeps_removeOwnedSecurityGroups [OF assms(2)] unfolding sync_security_groups_def elb_quiet_def
    by (auto intro!: keeps_intros)
  moreover have "keeps I (sync_listeners c name listeners actual)" for actual
    using assms(1) unfolding sync_listeners_def elb_quiet_def Let_def by (auto intro!: keeps_intros split: prod.split)
  moreover have "keeps I (sync_proxy_protocol c name proxy backends listeners)" for backends
    using assms(1) unfolding sync_proxy_protocol_def sync_backend_def createProxyProtocolPolicy_def setBackendPolicies_def
      elb_quiet_def Let_def by (auto intro!: keeps_intros split: prod.split option.split)
  moreover have "keeps I (sync_tags c name annotations)"
    using assms(1) unfolding sync_tags_def addLoadBalancerTags_def elb_quiet_def Let_def by (auto intro!: keeps_intros)
  ultimately show ?thesis unfolding update_classic_def by (auto intro!: keeps_intros)
qed

lemma keeps_sync_attributes: "elb_quiet (c_elb c) I \<Longrightarrow> keeps I (sync_attributes c name attrs)"
  unfolding sync_attributes_def elb_quiet_def by (auto intro!: keeps_intros)

lemma ensureLoadBalancer_describes:
  assumes api: "registration_api c name registered"
    and run: "ensureLoadBalancer polls c n name listeners subnets sgs internalELB proxy attrs annotations w = (Inr (Some l), w')"
  shows "describes name (registered w') l"
proof -
  obtain lb w1 dirty w2 changed w3 where d: "describeLoadBalancer c name w = (Inr lb, w1)"
    and body: "(case lb of None \<Rightarrow> create_classic c n name listeners subnets sgs internalELB proxy annotations
       | Some d \<Rightarrow> update_classic polls c name d listeners subnets sgs proxy annotations) w1 = (Inr dirty, w2)"
    and attributes: "sync_attributes c name attrs w2 = (Inr changed, w3)"
    and last: "(if dirty \<or> changed then describeLoadBalancer c name else returnM lb) w3 = (Inr (Some l), w')"
    using run unfolding ensureLoadBalancer_def bindM_Inr_iff by blast
  show ?thesis
  proof (cases "dirty \<or> changed")
    case True
    with last show ?thesis by (intro describeLoadBalancer_describes [OF api, of w3]) simp
  next
    case False
    with last have lb: "lb = Some l" "w' = w3" by (simp_all add: returnM_run)
    note quiet = registration_apiD(1,2) [OF api]
    have "registered w2 = registered w1"
      using body lb(1) keepsD [OF keeps_update_classic [OF quiet] refl] by simp
    moreover have "registered w3 = registered w2"
      using keepsD [OF keeps_sync_attributes [OF quiet(1)] refl attributes] .
    ultimately show ?thesis using describeLoadBalancer_describes [OF api] d lb by simp
  qed
qed

lemma keeps_ensure_ssl_policy: "elb_quiet (c_elb c) I \<Longrightarrow> keeps I (ensure_ssl_policy c lb name annotations)"
  unfolding ensure_ssl_policy_def ensureSSLNegotiationPolicy_def setSSLNegotiationPolicy_def elb_quiet_def Let_def
  by (auto intro!: keeps_intros split: option.split sum.split)

lemma keeps_ensureLoadBalancerHealthCheck:
  "elb_quiet (c_elb c) I \<Longrightarrow> keeps I (ensureLoadBalancerHealthCheck c lb protocol port path annotations)"
  unfolding ensureLoadBalancerHealthCheck_def Let_def
  by (intro keeps_intros keeps_case_option) (simp add: elb_quiet_def)

lemma keeps_updateInstanceSecurityGroupsForLoadBalancer:
  assumes "kept_by_rule_calls I (c_ec2 c) (\<lambda>_. True)"
  shows "keeps I (updateInstanceSecurityGroupsForLoadBalancer c lb insts annotations deleting)"
proof -
  have "keeps I (addSecurityGroupIngress c i ps)" "keeps I (removeSecurityGroupIngress c i ps)" for i ps
    by (rule keeps_addSecurityGroupIngress [OF assms], rule keeps_removeSecurityGroupIngress [OF assms]) simp
  moreover have "keeps I (getTaggedSecurityGroups c)" "keeps I (buildSecurityGroupRuleReferences c i)" for i
    using assms unfolding getTaggedSecurityGroups_def buildSecurityGroupRuleReferences_def kept_by_rule_calls_def Let_def
    by (auto intro!: keeps_intros)
  ultimately show ?thesis
    unfolding updateInstanceSecurityGroupsForLoadBalancer_def Let_def by (auto intro!: keeps_intros split: prod.split)
qed

lemma finish_classic_registers:
  assumes api: "registration_api c name registered" and lb: "describes name (registered w) lb"
    and run: "finish_classic c svc lb listeners insts w = (Inr status, w')"
  shows "registered w' = set (mkeys insts)"
proof -
  note quiet = registration_apiD(1) [OF api] and rules = registration_apiD(2) [OF api, unfolded ec2_separate_def, THEN conjunct1]
  obtain protocol port path w1 w2 w3 where ssl: "ensure_ssl_policy c lb (GetLoadBalancerName svc) (svc_Annotations svc) w = (Inr (), w1)"
    and check: "ensureLoadBalancerHealthCheck c lb protocol port path (svc_Annotations svc) w1 = (Inr (), w2)"
    and sg: "updateInstanceSecurityGroupsForLoadBalancer c lb (map snd insts) (svc_Annotations svc) False w2 = (Inr (), w3)"
    and inst: "ensureLoadBalancerInstances c (ToString (lbd_LoadBalancerName lb)) (lbd_Instances lb) insts w3 = (Inr (), w')"
    using run unfolding finish_classic_def Let_def
    by (auto simp: bindM_Inr_iff wrapM_Inr_iff returnM_run split: prod.splits if_splits)
  have "registered w3 = registered w"
    using keepsD [OF keeps_ensure_ssl_policy [OF quiet] refl ssl] keepsD [OF keeps_ensureLoadBalancerHealthCheck [OF quiet] refl check]
      keepsD [OF keeps_updateInstanceSecurityGroupsForLoadBalancer [OF rules] refl sg] by simp
  with lb inst show ?thesis
    by (intro ensureLoadBalancerInstances_registers [OF api, of w3 "lbd_Instances lb"]) (simp_all add: describes_def)
qed

text \<open>The instances of the nodes that a service targets, as far as a snapshot knows them.\<close>

definition node_instances :: "allInstancesSnapshot \<Rightarrow> node list \<Rightarrow> (string, string) gomap \<Rightarrow> string set" where
  "node_instances snapshot nodes annotations =
     {i \<in> set (mapToAWSInstanceIDsTolerant (filterTargetNodes nodes annotations)). mhas (instances snapshot) i}"

lemma FindInstances_keys: "set (mkeys (FindInstances snapshot ids)) = {i \<in> set ids. mhas (instances snapshot) i}"
proof -
  have "set (mkeys (fold (\<lambda>i m. case map_of (instances snapshot) i of None \<Rightarrow> m | Some inst \<Rightarrow> mput i inst m) ids m))
      = set (mkeys m) \<union> {i \<in> set ids. mhas (instances snapshot) i}" for m :: "(string, ec2_instance) gomap"
  proof (induction ids arbitrary: m)
    case (Cons i ids)
    show ?case
    proof (cases "map_of (instances snapshot) i")
      case (Some inst)
      have "set (mkeys (mput i inst m)) = insert i (set (mkeys m))" by (rule mkeys_mput)
      with Some Cons.IH [of "mput i inst m"] show ?thesis by (auto simp: mhas_def)
    qed (use Cons.IH in \<open>auto simp: mhas_def\<close>)
  qed simp
  from this [of "[]"] show ?thesis by (simp add: FindInstances_def)
qed

lemma findInstancesForELB_run:
  assumes "findInstancesForELB c now nodes annotations s = (Inr insts, s1)"
  shows "\<exists>snapshot cache. describeAllInstancesCached c now \<lparr>MaxAge = defaultEC2InstanceCacheMaxAge,
         HasInstances = mapToAWSInstanceIDsTolerant (filterTargetNodes nodes annotations)\<rparr> (lb_world s, snd s)
       = (Inr snapshot, (lb_world s1, cache))
     \<and> set (mkeys insts) = node_instances snapshot nodes annotations"
  using assms FindInstances_keys
  by (cases s) (auto simp: findInstancesForELB_def Let_def lb_world_def node_instances_def split: prod.splits sum.splits)

text \<open>C2: the instances of a service with a classic load balancer. When \<^verbatim>\<open>EnsureLoadBalancer\<close> or \<^verbatim>\<open>UpdateLoadBalancer\<close> succeeds,
  the instances registered with the load balancer are exactly those of the nodes that the service targets, as far as the snapshot
  of the instances that the call started with knows them: nodes that have gone are deregistered and new ones are registered.\<close>

theorem EnsureLoadBalancer_instances:
  assumes api: "registration_api c (GetLoadBalancerName svc) registered" and classic: "\<not> isNLB (svc_Annotations svc)"
    and run: "EnsureLoadBalancer polls now c clusterName svc nodes s = (Inr status, s')
      \<or> UpdateLoadBalancer polls now c clusterName svc nodes s = (Inr (), s')"
  shows "\<exists>snapshot w cache. describeAllInstancesCached c now \<lparr>MaxAge = defaultEC2InstanceCacheMaxAge,
         HasInstances = mapToAWSInstanceIDsTolerant (filterTargetNodes nodes (svc_Annotations svc))\<rparr> (lb_world s, snd s)
       = (Inr snapshot, (w, cache))
     \<and> registered (lb_world s') = node_instances snapshot nodes (svc_Annotations svc)"
proof -
  let ?a = "svc_Annotations svc" and ?name = "GetLoadBalancerName svc"
  note quiet = registration_apiD(1) [OF api] and rules = registration_apiD(2) [OF api, unfolded ec2_separate_def, THEN conjunct1]
  have "\<exists>insts s1. findInstancesForELB c now nodes ?a s = (Inr insts, s1) \<and> registered (lb_world s') = set (mkeys insts)"
    using run
  proof
    assume "EnsureLoadBalancer polls now c clusterName svc nodes s = (Inr status, s')"
    then obtain ranges ls mappings insts s1 where insts: "findInstancesForELB c now nodes ?a s = (Inr insts, s1)"
      and ensure: "ensure_classic polls c svc insts (internal_annotation ?a) ls ranges s1 = (Inr status, s')"
      using classic unfolding EnsureLoadBalancer_def Let_def by (auto simp: bindM_Inr_iff liftM_run)
    from ensure obtain n subnets sgs proxy attrs lb s2 s3 where
      lb: "call (ensureLoadBalancer polls c n ?name ls subnets sgs (internal_annotation ?a) proxy attrs ?a) s2 = (Inr (Some lb), s3)"
      and finish: "call (finish_classic c svc lb ls insts) s3 = (Inr status, s')"
      unfolding ensure_classic_def Let_def
      by (auto simp: bindM_Inr_iff throwM_run liftM_run simp del: if_split split: if_split_asm option.split_asm prod.split_asm)
    from finish_classic_registers [OF api ensureLoadBalancer_describes [OF api call_world [OF lb]] call_world [OF finish]]
    show ?thesis using insts by blast
  next
    assume "UpdateLoadBalancer polls now c clusterName svc nodes s = (Inr (), s')"
    then obtain insts s1 lb s2 s3 s4 where insts: "findInstancesForELB c now nodes ?a s = (Inr insts, s1)"
      and lb: "call (describeLoadBalancer c ?name) s1 = (Inr (Some lb), s2)"
      and ssl: "call (ensure_ssl_policy c lb ?name ?a) s2 = (Inr (), s3)"
      and inst: "call (ensureLoadBalancerInstances c (ToString (lbd_LoadBalancerName lb)) (lbd_Instances lb) insts) s3 = (Inr (), s4)"
      and sg: "call (updateInstanceSecurityGroupsForLoadBalancer c lb (map snd insts) ?a False) s4 = (Inr (), s')"
      using classic unfolding UpdateLoadBalancer_def Let_def
      by (auto simp: bindM_Inr_iff throwM_run split: if_splits option.split_asm)
    note desc = describeLoadBalancer_describes [OF api call_world [OF lb]]
    have "registered (lb_world s3) = registered (lb_world s2)"
      using keepsD [OF keeps_ensure_ssl_policy [OF quiet] refl call_world [OF ssl]] .
    then have "registered (lb_world s4) = set (mkeys insts)"
      using desc call_world [OF inst] by (intro ensureLoadBalancerInstances_registers [OF api, of "lb_world s3" "lbd_Instances lb"])
        (simp_all add: describes_def)
    moreover have "registered (lb_world s') = registered (lb_world s4)"
      using keepsD [OF keeps_updateInstanceSecurityGroupsForLoadBalancer [OF rules] refl call_world [OF sg]] .
    ultimately show ?thesis using insts by auto
  qed
  with findInstancesForELB_run show ?thesis by metis
qed

text \<open>A load balancer whose state is the list of the registered instances. The node \<open>i-1\<close> is new, \<open>i-old\<close> is gone.\<close>

definition registering_cloud :: "string list Cloud" where
  "registering_cloud = sample_cloud\<lparr>
     c_cfg := \<lparr>Global = sample_global\<lparr>DisableSecurityGroupIngress := True\<rparr>, ServiceOverride = []\<rparr>,
     c_ec2 := idle_client\<lparr>DescribeInstances := (\<lambda>_ _. returnM [sample_instance\<lparr>inst_InstanceId := Some ''i-1'',
       inst_Tags := [\<lparr>tag_Key = Some TagNameKubernetesClusterLegacy, tag_Value = Some ''c1''\<rparr>]\<rparr>])\<rparr>,
     c_elb := idle_elb\<lparr>
       elb_Describe := (\<lambda>names w. (Inr [\<lparr>lbd_LoadBalancerName = Some (hd names), lbd_DNSName = None, lbd_Subnets = [],
          lbd_SecurityGroups = [], lbd_ListenerDescriptions = [], lbd_BackendServerDescriptions = [], lbd_HealthCheck = None,
          lbd_Instances = map Some w\<rparr>], w)),
       elb_RegisterInstances := (\<lambda>_ ids w. (Inr (), w @ ids)),
       elb_DeregisterInstances := (\<lambda>_ ids w. (Inr (), filter (\<lambda>i. i \<notin> set ids) w))\<rparr>\<rparr>"

definition new_node :: node where
  "new_node = \<lparr>node_Name = ''n'', node_ProviderID = ''aws:///us-east-1a/i-1'', node_Labels = []\<rparr>"

lemma registering_api: "registration_api registering_cloud name (\<lambda>w. set w)"
  unfolding registration_api_def elb_quiet_def ec2_separate_def kept_by_rule_calls_def registering_cloud_def idle_elb_def idle_client_def
    describes_def
  by (auto intro!: keeps_intros simp: keeps_def returnM_run image_image)

theorem EnsureLoadBalancer_instances_witness:
  "\<exists>s'. UpdateLoadBalancer 1 (0, 0) registering_cloud ''cluster'' bare_service [new_node]
       (\<lparr>st_world = [''i-old''], st_zones = [], st_unsupported = []\<rparr>, None) = (Inr (), s')
     \<and> set (lb_world s') = {''i-1''}"
proof -
  let ?s = "(\<lparr>st_world = [''i-old''], st_zones = [], st_unsupported = []\<rparr>, None) :: string list lb_state"
  have targets: "mapToAWSInstanceIDsTolerant (filterTargetNodes [new_node] (svc_Annotations bare_service)) = [''i-1'']" by code_simp
  define snapshot where "snapshot = \<lparr>timestamp = 0, instances = [(''i-1'', sample_instance\<lparr>inst_InstanceId := Some ''i-1'',
       inst_Tags := [\<lparr>tag_Key = Some TagNameKubernetesClusterLegacy, tag_Value = Some ''c1''\<rparr>]\<rparr>)]\<rparr>"
  have snap: "\<exists>cache. describeAllInstancesCached registering_cloud (0, 0) \<lparr>MaxAge = defaultEC2InstanceCacheMaxAge, HasInstances = [''i-1'']\<rparr>
      ([''i-old''], None) = (Inr snapshot, ([''i-old''], cache))"
    by (simp add: describeAllInstancesCached_def describeAllInstancesUncached_def describeInstances_def registering_cloud_def
        sample_cloud_def run_simps hasClusterTag_def Let_def mput_all_def snapshot_def)
  have classic: "\<not> isNLB (svc_Annotations bare_service)" "\<not> isLBExternal (svc_Annotations bare_service)"
    by (simp_all add: isNLB_def isLBExternal_def bare_service_def mstr_def)
  have insts: "\<exists>insts s1. findInstancesForELB registering_cloud (0, 0) [new_node] (svc_Annotations bare_service) ?s = (Inr insts, s1)"
    using snap by (auto simp: findInstancesForELB_def targets Let_def)
  have lb: "\<exists>l. describeLoadBalancer registering_cloud name w = (Inr (Some l), w)" for name w
    by (simp add: describeLoadBalancer_def registering_cloud_def run_simps)
  have ssl: "ensure_ssl_policy registering_cloud l name (svc_Annotations bare_service) w = (Inr (), w)" for l name w
    by (simp add: ensure_ssl_policy_def bare_service_def run_simps)
  have inst: "\<exists>w'. ensureLoadBalancerInstances registering_cloud name old insts w = (Inr (), w')" for name old insts w
    by (simp add: ensureLoadBalancerInstances_def registering_cloud_def run_simps Let_def)
  have sg: "updateInstanceSecurityGroupsForLoadBalancer registering_cloud l is (svc_Annotations bare_service) False w = (Inr (), w)" for l "is" w
    by (simp add: updateInstanceSecurityGroupsForLoadBalancer_def registering_cloud_def returnM_run)
  have "\<exists>s'. UpdateLoadBalancer 1 (0, 0) registering_cloud ''cluster'' bare_service [new_node] ?s = (Inr (), s')"
  proof -
    from insts obtain insts s1 where i: "findInstancesForELB registering_cloud (0, 0) [new_node] (svc_Annotations bare_service) ?s = (Inr insts, s1)"
      by blast
    from lb obtain l where l: "describeLoadBalancer registering_cloud (GetLoadBalancerName bare_service) (lb_world s1) = (Inr (Some l), lb_world s1)"
      by blast
    from inst obtain w' where "ensureLoadBalancerInstances registering_cloud (ToString (lbd_LoadBalancerName l)) (lbd_Instances l) insts
        (lb_world s1) = (Inr (), w')" by blast
    with i l ssl sg classic show ?thesis
      by (simp add: UpdateLoadBalancer_def Let_def bindM_run call_run lb_world_def)
  qed
  then obtain s' where run: "UpdateLoadBalancer 1 (0, 0) registering_cloud ''cluster'' bare_service [new_node] ?s = (Inr (), s')" ..
  from snap obtain cache where "describeAllInstancesCached registering_cloud (0, 0) \<lparr>MaxAge = defaultEC2InstanceCacheMaxAge,
      HasInstances = [''i-1'']\<rparr> (lb_world ?s, snd ?s) = (Inr snapshot, ([''i-old''], cache))"
    by (auto simp: lb_world_def)
  moreover obtain snapshot' w cache' where "describeAllInstancesCached registering_cloud (0, 0) \<lparr>MaxAge = defaultEC2InstanceCacheMaxAge,
      HasInstances = [''i-1'']\<rparr> (lb_world ?s, snd ?s) = (Inr snapshot', (w, cache'))"
    and "set (lb_world s') = node_instances snapshot' [new_node] (svc_Annotations bare_service)"
    using EnsureLoadBalancer_instances [OF registering_api classic(1) disjI2 [OF run]] unfolding targets by blast
  ultimately have "set (lb_world s') = node_instances snapshot [new_node] (svc_Annotations bare_service)" by simp
  also have "\<dots> = {''i-1''}" by (auto simp: node_instances_def targets snapshot_def mhas_def)
  finally show ?thesis using run by blast
qed

end
