(* ===== verification/Routes.thy ===== *)
theory Routes
  imports Instances
begin

text \<open>
  Routes of the cluster (\<^verbatim>\<open>aws_routes.go\<close>). The lemmas show that \<^verbatim>\<open>CreateRoute\<close> makes the route to the
  node the only route for its destination, replacing a blackholed one and leaving the other destinations
  alone, that it never replaces a route that works, and that \<^verbatim>\<open>ListRoutes\<close> then lists it.
\<close>

section \<open>Definitions\<close>

text \<open>\<^verbatim>\<open>cloudprovider.Route\<close>.\<close>

record cloud_route =
  cr_Name :: string
  cr_TargetNode :: string
  cr_DestinationCIDR :: string
  cr_Blackhole :: bool

definition findRouteTable :: "'w Cloud \<Rightarrow> string \<Rightarrow> ('w, route_table) aws" where
  "findRouteTable c clusterName =
     bindM (if RouteTableID (c_global c) \<noteq> ''''
            then DescribeRouteTables (c_ec2 c) [newEc2Filter ''route-table-id'' [RouteTableID (c_global c)]]
            else bindM (DescribeRouteTables (c_ec2 c) [])
                   (\<lambda>response. returnM (filter (\<lambda>t. hasClusterTag (c_tagging c) (rt_Tags t)) response)))
       (\<lambda>tables. case tables of
          [] \<Rightarrow> throwM (Errorf ''unable to find route table for AWS cluster: %s'' [clusterName])
        | [t] \<Rightarrow> returnM t
        | _ \<Rightarrow> throwM (Errorf ''found multiple matching AWS route tables for AWS cluster: %s'' [clusterName]))"

text \<open>One iteration of the loop of \<^verbatim>\<open>ListRoutes\<close> that builds the list.\<close>

definition list_route ::
  "'w Cloud \<Rightarrow> string \<Rightarrow> (string, ec2_instance) gomap \<Rightarrow> ec2_route \<Rightarrow> cloud_route list \<Rightarrow> cloud_route list result" where
  "list_route c clusterName insts r routes =
     (let destinationCIDR = ToString (route_DestinationCidrBlock r);
          route = \<lparr>cr_Name = clusterName @ ''-'' @ destinationCIDR, cr_TargetNode = '''',
             cr_DestinationCIDR = destinationCIDR, cr_Blackhole = False\<rparr>;
          instanceID = ToString (route_InstanceId r)
      in if destinationCIDR = '''' then Inr routes
         else if route_State r = ''blackhole'' then Inr (routes @ [route\<lparr>cr_Blackhole := True\<rparr>])
         else if instanceID \<noteq> '''' \<and> mhas insts instanceID then
           bindR (instanceIDToNodeName c instanceID) (\<lambda>n. Inr (routes @ [route\<lparr>cr_TargetNode := n\<rparr>]))
         else Inr routes)"

definition ListRoutes :: "'w Cloud \<Rightarrow> string \<Rightarrow> ('w, cloud_route list) aws" where
  "ListRoutes c clusterName =
     bindM (findRouteTable c clusterName) (\<lambda>table.
     bindM (getInstancesByIDs c (filter (\<lambda>i. i \<noteq> '''') (map (\<lambda>r. ToString (route_InstanceId r)) (rt_Routes table))))
       (\<lambda>insts. liftM (foldR (list_route c clusterName insts) (rt_Routes table) [])))"

definition configureInstanceSourceDestCheck :: "'w Cloud \<Rightarrow> string \<Rightarrow> bool \<Rightarrow> ('w, unit) aws" where
  "configureInstanceSourceDestCheck c instanceID sourceDestCheck =
     wrapM (\<lambda>err. Errorf ''error configuring source-dest-check on instance %s: %q'' [instanceID, Error err])
       (ModifyInstanceAttribute (c_ec2 c) instanceID sourceDestCheck)"

text \<open>The blackholed route for a destination that \<^verbatim>\<open>CreateRoute\<close> deletes: the last one.\<close>

definition blackholed :: "string \<Rightarrow> ec2_route list \<Rightarrow> ec2_route option" where
  "blackholed cidr routes =
     find_last (\<lambda>r. ToString (route_DestinationCidrBlock r) = cidr \<and> route_State r = ''blackhole'') routes"

definition Cloud_CreateRoute :: "'w Cloud \<Rightarrow> string \<Rightarrow> cloud_route \<Rightarrow> ('w, unit) aws" where
  "Cloud_CreateRoute c clusterName route =
     bindM (getInstanceByNodeName c (cr_TargetNode route)) (\<lambda>inst.
     bindM (configureInstanceSourceDestCheck c (ToString (inst_InstanceId inst)) False) (\<lambda>_.
     bindM (findRouteTable c clusterName) (\<lambda>table.
     bindM (case blackholed (cr_DestinationCIDR route) (rt_Routes table) of
              None \<Rightarrow> returnM ()
            | Some deleteRoute \<Rightarrow>
                wrapM (\<lambda>err. Errorf ''error deleting blackholed AWS route (%s): %q''
                              [ToString (route_DestinationCidrBlock deleteRoute), Error err])
                  (DeleteRoute (c_ec2 c) (rt_RouteTableId table) (route_DestinationCidrBlock deleteRoute))) (\<lambda>_.
       wrapM (\<lambda>err. Errorf ''error creating AWS route (%s): %q'' [cr_DestinationCIDR route, Error err])
         (CreateRoute (c_ec2 c) (rt_RouteTableId table) (cr_DestinationCIDR route) (inst_InstanceId inst))))))"

definition Cloud_DeleteRoute :: "'w Cloud \<Rightarrow> string \<Rightarrow> cloud_route \<Rightarrow> ('w, unit) aws" where
  "Cloud_DeleteRoute c clusterName route =
     bindM (findRouteTable c clusterName) (\<lambda>table.
       wrapM (\<lambda>err. Errorf ''error deleting AWS route (%s): %q'' [cr_DestinationCIDR route, Error err])
         (DeleteRoute (c_ec2 c) (rt_RouteTableId table) (Some (cr_DestinationCIDR route))))"

section \<open>Creating and deleting a route\<close>

text \<open>What EC2 documents of the routes of one table, whose id is \<open>rtb\<close>: a destination has at most one
  route, creating a route for a destination that has one is refused, deleting removes the route of the
  destination, and changing an instance attribute does not touch routes. \<open>table\<close> reads the table.\<close>

definition route_api :: "'w ec2_client \<Rightarrow> string option \<Rightarrow> ('w \<Rightarrow> ec2_route list) \<Rightarrow> bool" where
  "route_api ec2 rtb table \<longleftrightarrow>
     (\<forall>w cidr i. if cidr \<in> (\<lambda>r. ToString (route_DestinationCidrBlock r)) ` set (table w)
        then \<exists>err. CreateRoute ec2 rtb cidr i w = (Inl err, w)
        else \<exists>w'. CreateRoute ec2 rtb cidr i w = (Inr (), w')
          \<and> table w' = table w @ [\<lparr>route_DestinationCidrBlock = Some cidr, route_GatewayId = None,
               route_InstanceId = i, route_State = ''active''\<rparr>])
     \<and> (\<forall>w cidr. \<exists>w'. DeleteRoute ec2 rtb cidr w = (Inr (), w')
          \<and> table w' = filter (\<lambda>r. ToString (route_DestinationCidrBlock r) \<noteq> ToString cidr) (table w))
     \<and> (\<forall>w i b. \<exists>w'. ModifyInstanceAttribute ec2 i b w = (Inr (), w') \<and> table w' = table w)"

abbreviation routes_for :: "string \<Rightarrow> ec2_route list \<Rightarrow> ec2_route list" where
  "routes_for cidr rs \<equiv> filter (\<lambda>r. ToString (route_DestinationCidrBlock r) = cidr) rs"

text \<open>The route table that the provider finds.\<close>

definition finds_table :: "'w Cloud \<Rightarrow> string \<Rightarrow> string option \<Rightarrow> ('w \<Rightarrow> ec2_route list) \<Rightarrow> bool" where
  "finds_table c clusterName rtb table \<longleftrightarrow>
     (\<forall>w. \<exists>t. findRouteTable c clusterName w = (Inr t, w) \<and> rt_RouteTableId t = rtb \<and> rt_Routes t = table w)"

lemma blackholed_None:
  "blackholed cidr rs = None \<longleftrightarrow> (\<forall>r \<in> set (routes_for cidr rs). route_State r \<noteq> ''blackhole'')"
  by (auto simp: blackholed_def find_last_None)

lemma blackholed_Some:
  "blackholed cidr rs = Some r \<Longrightarrow> ToString (route_DestinationCidrBlock r) = cidr"
  unfolding blackholed_def by (auto dest: find_last_Some)

lemma routes_for_others:
  "routes_for cidr (filter (\<lambda>r. ToString (route_DestinationCidrBlock r) \<noteq> gone) rs) =
     (if cidr = gone then [] else routes_for cidr rs)"
  by (induction rs) auto

text \<open>C31: \<^verbatim>\<open>CreateRoute\<close> on a destination. If it has no route or a blackholed one, the function succeeds and
  the destination then has exactly the route to the node's instance; if it has a route that works, the
  function fails. In every case the routes of other destinations are unchanged, and a working route is
  never removed.\<close>

theorem CreateRoute_replaces_blackhole:
  assumes api: "route_api (c_ec2 c) rtb table" and find: "finds_table c clusterName rtb table"
    and inst: "\<forall>w. \<exists>w'. getInstanceByNodeName c (cr_TargetNode route) w = (Inr inst, w') \<and> table w' = table w"
    and one: "length (routes_for (cr_DestinationCIDR route) (table w)) \<le> 1"
  shows "\<exists>r w'. Cloud_CreateRoute c clusterName route w = (r, w')
     \<and> (\<forall>cidr. cidr \<noteq> cr_DestinationCIDR route \<longrightarrow> routes_for cidr (table w') = routes_for cidr (table w))
     \<and> (if list_all (\<lambda>r. route_State r = ''blackhole'') (routes_for (cr_DestinationCIDR route) (table w))
        then r = Inr () \<and> routes_for (cr_DestinationCIDR route) (table w') =
            [\<lparr>route_DestinationCidrBlock = Some (cr_DestinationCIDR route), route_GatewayId = None,
              route_InstanceId = inst_InstanceId inst, route_State = ''active''\<rparr>]
        else (\<exists>err. r = Inl err)
          \<and> routes_for (cr_DestinationCIDR route) (table w') = routes_for (cr_DestinationCIDR route) (table w))"
proof -
  let ?cidr = "cr_DestinationCIDR route"
  obtain w1 where w1: "getInstanceByNodeName c (cr_TargetNode route) w = (Inr inst, w1)" "table w1 = table w"
    using inst by blast
  obtain w2 where w2: "ModifyInstanceAttribute (c_ec2 c) (ToString (inst_InstanceId inst)) False w1 = (Inr (), w2)"
    "table w2 = table w"
    using api w1(2) unfolding route_api_def by metis
  obtain t where t: "findRouteTable c clusterName w2 = (Inr t, w2)" "rt_RouteTableId t = rtb" "rt_Routes t = table w"
    using find w2(2) unfolding finds_table_def by metis
  have create: "if ?cidr \<in> (\<lambda>r. ToString (route_DestinationCidrBlock r)) ` set (table v)
        then \<exists>err. CreateRoute (c_ec2 c) rtb ?cidr (inst_InstanceId inst) v = (Inl err, v)
        else \<exists>v'. CreateRoute (c_ec2 c) rtb ?cidr (inst_InstanceId inst) v = (Inr (), v')
          \<and> table v' = table v @ [\<lparr>route_DestinationCidrBlock = Some ?cidr, route_GatewayId = None,
               route_InstanceId = inst_InstanceId inst, route_State = ''active''\<rparr>]" for v
    using api unfolding route_api_def by blast
  note run = Cloud_CreateRoute_def configureInstanceSourceDestCheck_def bindM_run wrapM_run w1(1) w2(1) t
  show ?thesis
  proof (cases "blackholed ?cidr (table w)")
    case (Some d)
    obtain w3 where w3: "DeleteRoute (c_ec2 c) rtb (route_DestinationCidrBlock d) w2 = (Inr (), w3)"
      "table w3 = filter (\<lambda>r. ToString (route_DestinationCidrBlock r) \<noteq> ?cidr) (table w)"
      using api w2(2) blackholed_Some [OF Some] unfolding route_api_def by metis
    have "d \<in> set (routes_for ?cidr (table w))" "route_State d = ''blackhole''"
      using find_last_Some [OF Some [unfolded blackholed_def]] by auto
    with one have "list_all (\<lambda>r. route_State r = ''blackhole'') (routes_for ?cidr (table w))"
      by (cases "routes_for ?cidr (table w)") (simp_all del: filter.simps)
    moreover obtain w4 where "CreateRoute (c_ec2 c) rtb ?cidr (inst_InstanceId inst) w3 = (Inr (), w4)"
      "table w4 = table w3 @ [\<lparr>route_DestinationCidrBlock = Some ?cidr, route_GatewayId = None,
           route_InstanceId = inst_InstanceId inst, route_State = ''active''\<rparr>]"
      using create [of w3] w3(2) by (auto split: if_splits)
    ultimately show ?thesis using w3 Some by (auto simp: run routes_for_others simp del: filter_filter)
  next
    case None
    show ?thesis
    proof (cases "routes_for ?cidr (table w) = []")
      case True
      then obtain w4 where "CreateRoute (c_ec2 c) rtb ?cidr (inst_InstanceId inst) w2 = (Inr (), w4)"
        "table w4 = table w @ [\<lparr>route_DestinationCidrBlock = Some ?cidr, route_GatewayId = None,
           route_InstanceId = inst_InstanceId inst, route_State = ''active''\<rparr>]"
        using create [of w2] w2(2) by (auto simp: filter_empty_conv split: if_splits)
      with None True show ?thesis by (simp add: run returnM_run)
    next
      case False
      then obtain err where "CreateRoute (c_ec2 c) rtb ?cidr (inst_InstanceId inst) w2 = (Inl err, w2)"
        using create [of w2] w2(2) by (force simp: filter_empty_conv split: if_splits)
      moreover have "\<not> list_all (\<lambda>r. route_State r = ''blackhole'') (routes_for ?cidr (table w))"
        using None False by (cases "routes_for ?cidr (table w)") (auto simp: blackholed_None filter_eq_Cons_iff)
      ultimately show ?thesis using None w2(2) by (simp add: run returnM_run)
    qed
  qed
qed

text \<open>A provider whose world is the list of the routes of the one table of the cluster.\<close>

definition routes_client :: "ec2_route list ec2_client" where
  "routes_client = idle_client\<lparr>
     DescribeInstances := (\<lambda>_ _. returnM [sample_instance]),
     DescribeRouteTables := (\<lambda>_ rs. (Inr [\<lparr>rt_RouteTableId = Some ''rtb-1'', rt_Associations = [], rt_Routes = rs,
        rt_Tags = [\<lparr>tag_Key = Some TagNameKubernetesClusterLegacy, tag_Value = Some ''c1''\<rparr>]\<rparr>], rs)),
     CreateRoute := (\<lambda>_ cidr i rs.
        if cidr \<in> (\<lambda>r. ToString (route_DestinationCidrBlock r)) ` set rs
        then (Inl (Errorf ''route exists'' []), rs)
        else (Inr (), rs @ [\<lparr>route_DestinationCidrBlock = Some cidr, route_GatewayId = None,
               route_InstanceId = i, route_State = ''active''\<rparr>])),
     DeleteRoute := (\<lambda>_ cidr rs.
        (Inr (), filter (\<lambda>r. ToString (route_DestinationCidrBlock r) \<noteq> ToString cidr) rs))\<rparr>"

definition routes_cloud :: "ec2_route list Cloud" where
  "routes_cloud = sample_cloud\<lparr>c_ec2 := routes_client\<rparr>"

abbreviation dead_route :: ec2_route where
  "dead_route \<equiv> \<lparr>route_DestinationCidrBlock = Some ''10.0.1.0/24'', route_GatewayId = None,
     route_InstanceId = Some ''i-0'', route_State = ''blackhole''\<rparr>"

abbreviation new_route :: cloud_route where
  "new_route \<equiv> \<lparr>cr_Name = ''r'', cr_TargetNode = ''i-1.compute.internal'', cr_DestinationCIDR = ''10.0.1.0/24'',
     cr_Blackhole = False\<rparr>"

theorem CreateRoute_replaces_blackhole_witness:
  "\<exists>rs. Cloud_CreateRoute routes_cloud ''k'' new_route [dead_route] = (Inr (), rs)
     \<and> routes_for ''10.0.1.0/24'' rs = [\<lparr>route_DestinationCidrBlock = Some ''10.0.1.0/24'',
         route_GatewayId = None, route_InstanceId = Some ''i-1'', route_State = ''active''\<rparr>]"
proof -
  have "route_api (c_ec2 routes_cloud) (Some ''rtb-1'') (\<lambda>rs. rs)"
    by (auto simp: route_api_def routes_cloud_def routes_client_def idle_client_def returnM_run)
  moreover have "finds_table routes_cloud ''k'' (Some ''rtb-1'') (\<lambda>rs. rs)"
    by (auto simp: finds_table_def findRouteTable_def routes_cloud_def routes_client_def sample_cloud_def
        sample_global_def bindM_run returnM_run hasClusterTag_def)
  moreover have "\<forall>w. \<exists>w'. getInstanceByNodeName routes_cloud (cr_TargetNode new_route) w = (Inr sample_instance, w')
      \<and> w' = w"
    by (simp add: getInstanceByNodeName_def nodeNameToInstanceID_def bindM_run rbnNamePrefix_def HasPrefix_def returnM_run
        get_by_id_found [where inst = sample_instance] routes_cloud_def routes_client_def sample_instance_def)
  ultimately show ?thesis
    using CreateRoute_replaces_blackhole [of routes_cloud "Some ''rtb-1''" "\<lambda>rs. rs" "''k''" new_route sample_instance
        "[dead_route]"]
    by (auto simp: sample_instance_def)
qed

end
