(* ===== verification/Ec2Sdk.thy ===== *)
theory Ec2Sdk
  imports AwsApi
begin

text \<open>
  The EC2 client of the provider on top of the SDK (\<^verbatim>\<open>aws_ec2.go\<close>). The SDK is a parameter, \<open>EC2API\<close>: its paged calls
  take a token and return one page with the token of the next one. The loops of the code follow the tokens until
  there is none; a service that never stops handing out tokens makes them run forever, so the loop is a partial
  function. Metrics are left out.

  The lemmas show that a listing that the service serves in finitely many pages is returned completely and in
  order, that an error on any page is the result, and that the loop does not return when the tokens never end.
\<close>

section \<open>Pages\<close>

type_synonym ('w, 'a) page_call = "string option \<Rightarrow> ('w, 'a list \<times> string option) aws"

text \<open>The loop over pages: \<open>None\<close> when it does not return.\<close>

partial_function (option) paged ::
  "('w, 'a) page_call \<Rightarrow> string option \<Rightarrow> 'a list \<Rightarrow> 'w \<Rightarrow> ('a list result \<times> 'w) option" where
  "paged fetch token results w = (case fetch token w of
     (Inl err, w') \<Rightarrow> Some (Inl err, w')
   | (Inr (page, nextToken), w') \<Rightarrow>
       if ToString nextToken = '''' then Some (Inr (results @ page), w')
       else paged fetch nextToken (results @ page) w')"

text \<open>A call whose loop does not return has no result; the panic stands for it.\<close>

definition returns :: "('w \<Rightarrow> ('a result \<times> 'w) option) \<Rightarrow> ('w, 'a) aws" where
  "returns m = (\<lambda>w. case m w of Some r \<Rightarrow> r | None \<Rightarrow> (Inl (Panic ''no result''), w))"

section \<open>The client\<close>

record describe_instances_request =
  di_InstanceIds :: "string list"
  di_Filters :: "ec2_filter list"
  di_MaxResults :: "int option"

text \<open>\<open>api_plain\<close> has the calls that are not paged.\<close>

record 'w EC2API =
  api_DescribeInstances :: "describe_instances_request \<Rightarrow> string option \<Rightarrow> ('w, ec2_instance list list \<times> string option) aws"
  api_DescribeInstanceTopology :: "string list \<Rightarrow> ('w, instance_topology) page_call"
  api_DescribeSecurityGroups :: "string list \<Rightarrow> ec2_filter list \<Rightarrow> ('w, security_group) page_call"
  api_DescribeRouteTables :: "ec2_filter list \<Rightarrow> ('w, route_table) page_call"
  api_plain :: "'w ec2_client"

text \<open>The instances of a page are spread over reservations.\<close>

definition instance_pages :: "'w EC2API \<Rightarrow> describe_instances_request \<Rightarrow> ('w, ec2_instance) page_call" where
  "instance_pages api request token =
     bindM (wrapM (\<lambda>err. Errorf ''error listing AWS instances: %q'' [Error err]) (api_DescribeInstances api request token))
       (\<lambda>(reservations, nextToken). returnM (concat reservations, nextToken))"

definition sdk_DescribeInstances :: "'w EC2API \<Rightarrow> describe_instances_request \<Rightarrow> ('w, ec2_instance list) aws" where
  "sdk_DescribeInstances api request =
     (let request = (if di_MaxResults request = None \<and> di_InstanceIds request = []
                     then request\<lparr>di_MaxResults := Some 1000\<rparr> else request)
      in returns (paged (instance_pages api request) None []))"

text \<open>The paginator of the SDK follows the tokens in the same way.\<close>

definition sdk_DescribeInstanceTopology :: "'w EC2API \<Rightarrow> string list \<Rightarrow> ('w, instance_topology list) aws" where
  "sdk_DescribeInstanceTopology api ids = returns (paged (api_DescribeInstanceTopology api ids) None [])"

definition sdk_DescribeSecurityGroups :: "'w EC2API \<Rightarrow> string list \<Rightarrow> ec2_filter list \<Rightarrow> ('w, security_group list) aws" where
  "sdk_DescribeSecurityGroups api ids filters = returns (paged (\<lambda>token.
     wrapM (\<lambda>err. Errorf ''error listing AWS security groups: %q'' [Error err]) (api_DescribeSecurityGroups api ids filters token)) None [])"

definition sdk_DescribeRouteTables :: "'w EC2API \<Rightarrow> ec2_filter list \<Rightarrow> ('w, route_table list) aws" where
  "sdk_DescribeRouteTables api filters = returns (paged (\<lambda>token.
     wrapM (\<lambda>err. Errorf ''error listing AWS route tables: %q'' [Error err]) (api_DescribeRouteTables api filters token)) None [])"

definition sdk_DescribeSubnets :: "'w EC2API \<Rightarrow> string list \<Rightarrow> ec2_filter list \<Rightarrow> ('w, ec2_subnet list) aws" where
  "sdk_DescribeSubnets api ids filters =
     wrapM (\<lambda>err. Errorf ''error listing AWS subnets: %q'' [Error err]) (DescribeSubnets (api_plain api) ids filters)"

definition sdk_DescribeAvailabilityZones :: "'w EC2API \<Rightarrow> ('w, availability_zone list) aws" where
  "sdk_DescribeAvailabilityZones api =
     wrapM (\<lambda>err. Errorf ''error listing AWS availability zones: %q'' [Error err]) (DescribeAvailabilityZones (api_plain api))"

text \<open>The client that the provider uses: what is not listed is passed through.\<close>

definition awsSdkEC2 :: "'w EC2API \<Rightarrow> 'w ec2_client" where
  "awsSdkEC2 api = (api_plain api)\<lparr>
     DescribeInstances := (\<lambda>ids filters.
        sdk_DescribeInstances api \<lparr>di_InstanceIds = ids, di_Filters = filters, di_MaxResults = None\<rparr>),
     DescribeInstanceTopology := sdk_DescribeInstanceTopology api,
     DescribeSecurityGroups := sdk_DescribeSecurityGroups api,
     DescribeRouteTables := sdk_DescribeRouteTables api,
     DescribeSubnets := sdk_DescribeSubnets api,
     DescribeAvailabilityZones := sdk_DescribeAvailabilityZones api\<rparr>"

section \<open>Complete listings\<close>

text \<open>The service serves the pages one after the other, starting at a token; reading changes nothing.\<close>

inductive serves :: "('w, 'a) page_call \<Rightarrow> 'w \<Rightarrow> string option \<Rightarrow> 'a list list \<Rightarrow> bool" for fetch w where
  last_page: "fetch token w = (Inr (page, nextToken), w) \<Longrightarrow> ToString nextToken = '''' \<Longrightarrow> serves fetch w token [page]"
| next_page: "fetch token w = (Inr (page, nextToken), w) \<Longrightarrow> ToString nextToken \<noteq> '''' \<Longrightarrow> serves fetch w nextToken pages
    \<Longrightarrow> serves fetch w token (page # pages)"

lemma paged_serves:
  "serves fetch w token pages \<Longrightarrow> paged fetch token results w = Some (Inr (results @ concat pages), w)"
  by (induction arbitrary: results rule: serves.induct) (simp_all add: paged.simps)

lemma serves_wrap: "serves fetch w token pages \<Longrightarrow> serves (\<lambda>token. wrapM f (fetch token)) w token pages"
  by (induction rule: serves.induct) (auto intro: serves.intros simp: wrapM_run)

text \<open>An error on a page is the result, with the state that the failing call left.\<close>

inductive fails :: "('w, 'a) page_call \<Rightarrow> 'w \<Rightarrow> string option \<Rightarrow> go_error \<times> 'w \<Rightarrow> bool" for fetch where
  this_page: "fetch token w = (Inl err, w') \<Longrightarrow> fails fetch w token (err, w')"
| later_page: "fetch token w = (Inr (page, nextToken), w') \<Longrightarrow> ToString nextToken \<noteq> '''' \<Longrightarrow> fails fetch w' nextToken r
    \<Longrightarrow> fails fetch w token r"

lemma paged_fails: "fails fetch w token r \<Longrightarrow> paged fetch token results w = Some (Inl (fst r), snd r)"
  by (induction arbitrary: results rule: fails.induct) (simp_all add: paged.simps)

text \<open>A service whose tokens never end keeps the loop running.\<close>

lemma paged_diverges:
  assumes "\<And>token w. \<exists>page nextToken w'. fetch token w = (Inr (page, nextToken), w') \<and> ToString nextToken \<noteq> ''''"
  shows "paged fetch token results w = None"
proof -
  have "f = fetch \<longrightarrow> False" if "paged f token results w = Some r" for f token results w r
    using that
  proof (rule paged.raw_induct [where P = "\<lambda>f token results w r. f = fetch \<longrightarrow> False", rotated])
    fix paged' f token results w r
    assume IH: "\<And>f token results w r. paged' f token results w = Some r \<Longrightarrow> f = fetch \<longrightarrow> False"
      and body: "(case f token w of (Inl err, w') \<Rightarrow> Some (Inl err, w')
        | (Inr (page, nextToken), w') \<Rightarrow> if ToString nextToken = '''' then Some (Inr (results @ page), w')
            else paged' f nextToken (results @ page) w') = Some r"
    obtain page nextToken w' where "fetch token w = (Inr (page, nextToken), w')" "ToString nextToken \<noteq> ''''"
      using assms [of token w] by auto
    with body have "f = fetch \<Longrightarrow> paged' fetch nextToken (results @ page) w' = Some r" by simp
    from IH [OF this] show "f = fetch \<longrightarrow> False" by blast
  qed
  from this [of fetch token results w] show ?thesis by (cases "paged fetch token results w") auto
qed

text \<open>The request for instances that the loop sends: without ids a page size has to be given, with ids it must not.\<close>

definition instance_request :: "string list \<Rightarrow> ec2_filter list \<Rightarrow> describe_instances_request" where
  "instance_request ids filters = \<lparr>di_InstanceIds = ids, di_Filters = filters,
     di_MaxResults = (if ids = [] then Some 1000 else None)\<rparr>"

lemma returns_Some: "m w = Some r \<Longrightarrow> returns m w = r"
  by (simp add: returns_def)

lemma sdk_DescribeInstances_request:
  "sdk_DescribeInstances api \<lparr>di_InstanceIds = ids, di_Filters = filters, di_MaxResults = None\<rparr>
     = returns (paged (instance_pages api (instance_request ids filters)) None [])"
  by (simp add: sdk_DescribeInstances_def instance_request_def)

text \<open>C23: The client on top of the SDK implements the calls that the rest of the provider relies on. Whatever the page
  sizes, a listing that the service serves in finitely many pages is returned completely, in the order of the
  pages, and nothing changes; when a page fails, the call fails with the state that the failed call left.\<close>

theorem awsSdkEC2_lists_all:
  "(serves (instance_pages api (instance_request ids filters)) w None instance_pgs \<longrightarrow>
      DescribeInstances (awsSdkEC2 api) ids filters w = (Inr (concat instance_pgs), w))
   \<and> (serves (api_DescribeSecurityGroups api ids filters) w None group_pgs \<longrightarrow>
      DescribeSecurityGroups (awsSdkEC2 api) ids filters w = (Inr (concat group_pgs), w))
   \<and> (serves (api_DescribeRouteTables api filters) w None table_pgs \<longrightarrow>
      DescribeRouteTables (awsSdkEC2 api) filters w = (Inr (concat table_pgs), w))
   \<and> (serves (api_DescribeInstanceTopology api ids) w None topology_pgs \<longrightarrow>
      DescribeInstanceTopology (awsSdkEC2 api) ids w = (Inr (concat topology_pgs), w))
   \<and> (fails (instance_pages api (instance_request ids filters)) w None (err, w') \<longrightarrow>
      DescribeInstances (awsSdkEC2 api) ids filters w = (Inl err, w'))"
  unfolding awsSdkEC2_def sdk_DescribeSecurityGroups_def sdk_DescribeRouteTables_def sdk_DescribeInstanceTopology_def
  by (auto simp: sdk_DescribeInstances_request intro!: returns_Some dest: paged_serves [where results = "[]"]
      paged_fails [where results = "[]"] serves_wrap [THEN paged_serves [where results = "[]"]])

text \<open>A concrete service with two pages of security groups.\<close>

definition two_pages_api :: "unit EC2API" where
  "two_pages_api = \<lparr>api_DescribeInstances = (\<lambda>_ _. returnM ([], None)), api_DescribeInstanceTopology = (\<lambda>_ _. returnM ([], None)),
     api_DescribeSecurityGroups = (\<lambda>_ _ token.
        if token = None then returnM ([\<lparr>sg_GroupId = Some ''sg-1'', sg_Tags = [], sg_IpPermissions = []\<rparr>], Some ''next'')
        else returnM ([\<lparr>sg_GroupId = Some ''sg-2'', sg_Tags = [], sg_IpPermissions = []\<rparr>], None)),
     api_DescribeRouteTables = (\<lambda>_ _. returnM ([], None)), api_plain = idle_client\<rparr>"

theorem awsSdkEC2_lists_all_witness:
  "DescribeSecurityGroups (awsSdkEC2 two_pages_api) [] [] () = (Inr [\<lparr>sg_GroupId = Some ''sg-1'', sg_Tags = [], sg_IpPermissions = []\<rparr>,
     \<lparr>sg_GroupId = Some ''sg-2'', sg_Tags = [], sg_IpPermissions = []\<rparr>], ())"
proof -
  have "serves (api_DescribeSecurityGroups two_pages_api [] []) () None
      [[\<lparr>sg_GroupId = Some ''sg-1'', sg_Tags = [], sg_IpPermissions = []\<rparr>],
       [\<lparr>sg_GroupId = Some ''sg-2'', sg_Tags = [], sg_IpPermissions = []\<rparr>]]"
    by (rule serves.intros(2) [where nextToken = "Some ''next''"] serves.intros(1) [where nextToken = None]
        | simp add: two_pages_api_def returnM_run)+
  then show ?thesis using awsSdkEC2_lists_all [of two_pages_api "[]" "[]" "()"] by fastforce
qed

end
