(* ===== verification/Startup.thy ===== *)
theory Startup
  imports Instances Ec2Sdk
begin

text \<open>
  How the provider is built (\<^verbatim>\<open>aws.go\<close>: \<^verbatim>\<open>init\<close>, \<^verbatim>\<open>newAWSCloud2\<close>, \<^verbatim>\<open>azToRegion\<close>, \<^verbatim>\<open>getRegionFromMetadata\<close>,
  \<^verbatim>\<open>buildSelfAWSInstance\<close>, \<^verbatim>\<open>findVPCID\<close>; \<^verbatim>\<open>aws_utils.go\<close>; the headers of \<^verbatim>\<open>services/aws_sts.go\<close>). The factory of clients is a
  parameter, \<open>Services\<close>; reading the configuration file is left to its library, so the factory takes the configuration
  that it returned.

  The lemmas show which region a zone belongs to, and that a provider that was built satisfies the assertions that
  the rest of the code relies on: it has a cluster id, the VPC that is configured or
  reported for its own instance, and at least one IP family.
\<close>

section \<open>Utilities\<close>

text \<open>\<^verbatim>\<open>strings.SplitN(s, sep, n)\<close> for positive \<open>n\<close>.\<close>

definition SplitN :: "char \<Rightarrow> string \<Rightarrow> nat \<Rightarrow> string list" where
  "SplitN sep s n = (let ws = Split sep s in
     if length ws \<le> n then ws else take (n - 1) ws @ [Join (drop (n - 1) ws) [sep]])"

text \<open>\<^verbatim>\<open>arn.IsARN\<close> and the account of \<^verbatim>\<open>arn.Parse\<close>.\<close>

definition IsARN :: "string \<Rightarrow> bool" where
  "IsARN s \<longleftrightarrow> HasPrefix s ''arn:'' \<and> length (filter (\<lambda>ch. ch = CHR '':'') s) \<ge> 5"

definition arn_AccountID :: "string \<Rightarrow> string result" where
  "arn_AccountID s =
     (if \<not> HasPrefix s ''arn:'' then Inl (Errorf ''arn: invalid prefix'' [])
      else let sections = SplitN (CHR '':'') s 6 in
        if length sections \<noteq> 6 then Inl (Errorf ''arn: not enough sections'' []) else Inr (sections ! 4))"

definition GetSourceAccount :: "string \<Rightarrow> string result" where
  "GetSourceAccount roleARN =
     (if \<not> IsARN roleARN then Inl (Errorf ''incorrect ARN format for role %s'' [roleARN]) else arn_AccountID roleARN)"

text \<open>A set of strings is a list without repetitions; \<open>None\<close> is nil.\<close>

definition stringSetToList :: "string list option \<Rightarrow> string list option" where
  "stringSetToList s = s"

definition stringSetFromList :: "string list option \<Rightarrow> string list option" where
  "stringSetFromList xs = (case xs of None \<Rightarrow> None | Some xs \<Rightarrow> Some (fold List.insert xs []))"

definition headerSourceArn :: string where
  "headerSourceArn = ''x-amz-source-arn''"

definition headerSourceAccount :: string where
  "headerSourceAccount = ''x-amz-source-account''"

text \<open>\<^verbatim>\<open>NewStsClient\<close>: the headers that the client adds to each request. \<open>loaded\<close> is the result of loading the SDK configuration.\<close>

definition NewStsClient :: "unit result \<Rightarrow> string \<Rightarrow> string \<Rightarrow> (string, string) gomap result" where
  "NewStsClient loaded roleARN sourceARN =
     bindR loaded (\<lambda>_. bindR (arn_AccountID roleARN) (\<lambda>sourceAcct.
       let reqHeaders = [(headerSourceAccount, sourceAcct)] in
       Inr (if sourceARN \<noteq> '''' then mput headerSourceArn sourceARN reqHeaders else reqHeaders)))"

text \<open>The middleware that sets the headers: \<^verbatim>\<open>Header.Set\<close> writes the canonical form of a key, with a capital at the start of every
  word. \<open>None\<close> is a request of another transport.\<close>

fun canonical_key :: "bool \<Rightarrow> string \<Rightarrow> string" where
  "canonical_key start [] = []"
| "canonical_key start (ch # s) = (if start then upper_char ch else lower_char ch) # canonical_key (ch = CHR ''-'') s"

definition HandleBuild :: "(string, string) gomap \<Rightarrow> (string, string) gomap option \<Rightarrow> (string, string) gomap result" where
  "HandleBuild headers request = (case request of
     None \<Rightarrow> Inl (Errorf ''unrecognized transport type'' [])
   | Some header \<Rightarrow> Inr (fold (\<lambda>(k, v) header. mput (canonical_key True k) v header) headers header))"

lemma sts_headers:
  assumes "NewStsClient (Inr ()) roleARN sourceARN = Inr headers" and "arn_AccountID roleARN = Inr account"
    and "HandleBuild headers (Some request) = Inr request'"
  shows "map_of request' ''X-Amz-Source-Account'' = Some account"
    and "sourceARN \<noteq> '''' \<Longrightarrow> map_of request' ''X-Amz-Source-Arn'' = Some sourceARN"
proof -
  have keys: "canonical_key True headerSourceAccount = ''X-Amz-Source-Account''"
    "canonical_key True headerSourceArn = ''X-Amz-Source-Arn''" "headerSourceAccount \<noteq> headerSourceArn"
    by code_simp+
  have "headers = (if sourceARN \<noteq> '''' then [(headerSourceAccount, account), (headerSourceArn, sourceARN)]
      else [(headerSourceAccount, account)])"
    using assms(1,2) keys(3) by (auto simp: NewStsClient_def)
  then show "map_of request' ''X-Amz-Source-Account'' = Some account"
    and "sourceARN \<noteq> '''' \<Longrightarrow> map_of request' ''X-Amz-Source-Arn'' = Some sourceARN"
    using assms(3) keys(1,2) by (auto simp: HandleBuild_def update_conv')
qed

section \<open>Regions\<close>

text \<open>The match of \<^verbatim>\<open>^([a-zA-Z]+-)+\d+\<close>: words that end with a dash, then digits. After a dash comes a letter or a digit,
  so the match needs no backtracking.\<close>

function az_match :: "string \<Rightarrow> string option" where
  "az_match s = (let word = takeWhile is_alpha s; rest = dropWhile is_alpha s in
     if word = [] \<or> rest = [] \<or> hd rest \<noteq> CHR ''-'' then None
     else if tl rest \<noteq> [] \<and> is_digit (hd (tl rest)) then Some (word @ ''-'' @ takeWhile is_digit (tl rest))
     else map_option (\<lambda>m. word @ ''-'' @ m) (az_match (tl rest)))"
  by pat_completeness auto
termination
proof (relation "measure length")
  fix s :: string and word rest
  assume rest: "rest = dropWhile is_alpha s" and "\<not> (word = [] \<or> rest = [] \<or> hd rest \<noteq> CHR ''-'')"
  then have "length (tl rest) < length rest" by (cases rest) auto
  also have "length rest \<le> length s" unfolding rest by (rule length_dropWhile_le)
  finally show "(tl rest, s) \<in> measure length" by simp
qed simp

declare az_match.simps [simp del]

definition azToRegion :: "string \<Rightarrow> string result" where
  "azToRegion az =
     (if length az < 1 then Inl (Errorf ''invalid (empty) AZ'' [])
      else case az_match az of
          None \<Rightarrow> Inl (Errorf ''invalid AZ: %s'' [az])
        | Some region \<Rightarrow> Inr region)"

text \<open>The configuration is passed by value, so the region that \<^verbatim>\<open>GetRegion\<close> stores in it is lost.\<close>

definition getRegionFromMetadata :: "CloudConfig \<Rightarrow> 'w EC2Metadata \<Rightarrow> ('w, string) aws" where
  "getRegionFromMetadata cfg metadata =
     (if Zone (Global cfg) \<noteq> '''' then liftM (azToRegion (Zone (Global cfg)))
      else (\<lambda>w. case GetRegion metadata (w, cfg) of (r, (w, _)) \<Rightarrow> (r, w)))"

section \<open>The instance of the provider\<close>

text \<open>\<open>built\<close>: whether the instance was set before.\<close>

definition buildSelfAWSInstance :: "bool \<Rightarrow> 'w Cloud \<Rightarrow> ('w, awsInstance) aws" where
  "buildSelfAWSInstance built c =
     (if built then throwM (Panic ''do not call buildSelfAWSInstance directly'')
      else
        bindM (wrapM (\<lambda>err. Errorf ''error fetching instance-id from ec2 metadata service: %q'' [Error err])
                 (imds_GetMetadata (c_metadata c) ''instance-id'')) (\<lambda>instanceID.
        bindM (wrapM (\<lambda>err. Errorf ''error finding instance %s: %q'' [instanceID, Error err])
                 (getInstanceByID c instanceID)) (\<lambda>inst. case inst of
          None \<Rightarrow> throwM (Panic ''nil pointer dereference'')
        | Some i \<Rightarrow> returnM (newAWSInstance i))))"

text \<open>The loop over the interfaces: the first one whose VPC can be read.\<close>

fun first_vpc :: "'w EC2Metadata \<Rightarrow> string list \<Rightarrow> ('w, string) aws" where
  "first_vpc metadata [] = throwM (Errorf ''could not find VPC ID in instance metadata'' [])"
| "first_vpc metadata (macPath # macs) =
     (if macPath = [] then first_vpc metadata macs
      else tryM (imds_GetMetadata metadata (''network/interfaces/macs/'' @ macPath @ ''vpc-id'')) (\<lambda>r. case r of
          Inl _ \<Rightarrow> first_vpc metadata macs
        | Inr vpcID \<Rightarrow> returnM vpcID))"

definition findVPCID :: "'w Cloud \<Rightarrow> ('w, string) aws" where
  "findVPCID c =
     bindM (wrapM (\<lambda>err. Errorf ''could not list interfaces of the instance: %q'' [Error err])
              (imds_GetMetadata (c_metadata c) ''network/interfaces/macs/''))
       (\<lambda>macs. first_vpc (c_metadata c) (Split (CHR 0x0A) macs))"

section \<open>Building the provider\<close>

text \<open>Creating a client loads the configuration of the SDK and makes no call. \<open>pattern_ok\<close> says whether a regular expression
  compiles; the hash functions are those of the provider.\<close>

record 'w Services =
  sv_Compute :: "string \<Rightarrow> 'w ec2_client result"
  sv_LoadBalancing :: "string \<Rightarrow> 'w elb_client result"
  sv_LoadBalancingV2 :: "string \<Rightarrow> 'w elbv2_client result"
  sv_Metadata :: "'w EC2Metadata result"
  sv_KeyManagement :: "string \<Rightarrow> unit result"
  sv_pattern_ok :: "string \<Rightarrow> bool"
  sv_sha1hex :: "string \<Rightarrow> string"
  sv_sha256hex :: "string \<Rightarrow> string"

text \<open>Whether the provider runs outside of the account of the nodes and is told its VPC.\<close>

definition dummy_instance :: "global_config \<Rightarrow> bool" where
  "dummy_instance g \<longleftrightarrow> VPC g \<noteq> '''' \<and> (SubnetID g \<noteq> '''' \<or> RoleARN g \<noteq> '''')
     \<and> (KubernetesClusterTag g \<noteq> '''' \<or> KubernetesClusterID g \<noteq> '''')"

definition no_instance :: awsInstance where
  "no_instance = \<lparr>self_awsID = '''', self_nodeName = '''', self_availabilityZone = '''', self_vpcID = '''',
     self_subnetID = '''', self_instanceType = ''''\<rparr>"

text \<open>The clients, before anything is read from AWS.\<close>

definition create_clients :: "CloudConfig \<Rightarrow> 'w Services \<Rightarrow> ('w, 'w Cloud) aws" where
  "create_clients cfg services =
     bindM (wrapM (\<lambda>err. Errorf ''error creating AWS metadata client: %q'' [Error err]) (liftM (sv_Metadata services))) (\<lambda>metadata.
     bindM (getRegionFromMetadata cfg metadata) (\<lambda>regionName.
     bindM (wrapM (\<lambda>err. Errorf ''error creating AWS EC2 client: %v'' [Error err]) (liftM (sv_Compute services regionName))) (\<lambda>ec2.
     bindM (wrapM (\<lambda>err. Errorf ''error creating AWS ELB client: %v'' [Error err]) (liftM (sv_LoadBalancing services regionName))) (\<lambda>elb.
     bindM (wrapM (\<lambda>err. Errorf ''error creating AWS ELBV2 client: %v'' [Error err]) (liftM (sv_LoadBalancingV2 services regionName))) (\<lambda>elbv2.
     bindM (wrapM (\<lambda>err. Errorf ''error creating AWS key management client: %v'' [Error err]) (liftM (sv_KeyManagement services regionName))) (\<lambda>_.
       if SupportedTopologyInstanceTypePattern (Global cfg) \<noteq> '''' \<and> \<not> sv_pattern_ok services (SupportedTopologyInstanceTypePattern (Global cfg))
       then throwM (Panic ''regexp: Compile'')
       else returnM \<lparr>c_ec2 = ec2, c_elb = elb, c_elbv2 = elbv2, c_metadata = metadata, c_cfg = cfg, c_region = regionName,
         c_vpcID = '''', c_tagging = \<lparr>ClusterID = '''', usesLegacyTags = False\<rparr>, c_selfAWSInstance = no_instance,
         c_informer = None, c_sha1hex = sv_sha1hex services, c_sha256hex = sv_sha256hex services\<rparr>))))))"

definition set_self_instance :: "'w Cloud \<Rightarrow> ('w, 'w Cloud) aws" where
  "set_self_instance c =
     (if dummy_instance (c_global c) then
        returnM (c\<lparr>c_selfAWSInstance := no_instance\<lparr>self_nodeName := ''master-dummy'', self_vpcID := VPC (c_global c),
                     self_subnetID := SubnetID (c_global c)\<rparr>, c_vpcID := VPC (c_global c)\<rparr>)
      else bindM (buildSelfAWSInstance False c) (\<lambda>self. returnM (c\<lparr>c_selfAWSInstance := self, c_vpcID := self_vpcID self\<rparr>)))"

text \<open>The fields of the tagging are those that \<open>init\<close> leaves in the state.\<close>

definition set_tagging :: "'w Cloud \<Rightarrow> ('w, 'w Cloud) aws" where
  "set_tagging c =
     (let run = (\<lambda>m. case m (c_tagging c) of (Inl err, _) \<Rightarrow> throwM err | (Inr _, t) \<Rightarrow> returnM (c\<lparr>c_tagging := t\<rparr>)) in
      if KubernetesClusterTag (c_global c) \<noteq> '''' \<or> KubernetesClusterID (c_global c) \<noteq> ''''
      then run (init (KubernetesClusterTag (c_global c)) (KubernetesClusterID (c_global c)))
      else bindM (self_describeInstance (c_ec2 c) (c_selfAWSInstance c)) (\<lambda>info. run (initFromTags (inst_Tags info))))"

text \<open>\<^verbatim>\<open>Initialize\<close> of the variants stores what it is given, which the model reads from the provider. The only variant, the fargate
  one, returns no error, so the error branch of the loop over the variants cannot be taken.\<close>

definition newAWSCloud2 :: "CloudConfig \<Rightarrow> 'w Services \<Rightarrow> ('w, 'w Cloud) aws" where
  "newAWSCloud2 cfg services =
     bindM (create_clients cfg services) (\<lambda>c.
     bindM (set_self_instance c) (\<lambda>c.
     bindM (set_tagging c) (\<lambda>c.
       returnM (if NodeIPFamilies (c_global c) = []
                then c\<lparr>c_cfg := (c_cfg c)\<lparr>Global := (c_global c)\<lparr>NodeIPFamilies := [''ipv4'']\<rparr>\<rparr>\<rparr> else c))))"

definition newAWSCloud :: "CloudConfig \<Rightarrow> 'w Services \<Rightarrow> ('w, 'w Cloud) aws" where
  "newAWSCloud cfg services = newAWSCloud2 cfg services"

text \<open>The factory that \<^verbatim>\<open>init\<close> registers. \<open>config\<close> is what reading the configuration file returned, \<open>loaded\<close> the result of loading the
  configuration of the SDK for the STS client.\<close>

definition provider_factory :: "CloudConfig result \<Rightarrow> unit result \<Rightarrow> 'w Services \<Rightarrow> ('w, 'w Cloud) aws" where
  "provider_factory config loaded services =
     (case config of
        Inl err \<Rightarrow> throwM (Errorf ''unable to read AWS cloud provider config file: %v'' [Error err])
      | Inr cfg \<Rightarrow> (case ValidateOverrides cfg of
          (Inl err, _) \<Rightarrow> throwM (Errorf ''unable to validate custom endpoint overrides: %v'' [Error err])
        | (Inr _, cfg) \<Rightarrow>
            bindM (wrapM (\<lambda>err. Errorf ''error creating AWS metadata client: %q'' [Error err]) (liftM (sv_Metadata services))) (\<lambda>metadata.
            bindM (getRegionFromMetadata cfg metadata) (\<lambda>regionName.
            bindM (if RoleARN (Global cfg) \<noteq> ''''
                   then wrapM (\<lambda>err. Errorf ''unable to create sts v2 client: %v'' [Error err])
                          (liftM (NewStsClient loaded (RoleARN (Global cfg)) (SourceARN (Global cfg))))
                   else returnM []) (\<lambda>_. newAWSCloud2 cfg services)))))"

section \<open>The interfaces of the provider\<close>

text \<open>The parts of the cloud provider interface, and which of them the provider implements: it is its own implementation of all but the
  listing of clusters.\<close>

datatype provider_part = Clusters_part | LoadBalancer_part | Instances_part | InstancesV2_part | Zones_part | Routes_part

fun provider_interface :: "'w Cloud \<Rightarrow> provider_part \<Rightarrow> 'w Cloud option \<times> bool" where
  "provider_interface c Clusters_part = (None, False)"
| "provider_interface c LoadBalancer_part = (Some c, True)"
| "provider_interface c Instances_part = (Some c, True)"
| "provider_interface c InstancesV2_part = (Some c, True)"
| "provider_interface c Zones_part = (Some c, True)"
| "provider_interface c Routes_part = (Some c, True)"

definition NewAWSCloud :: "CloudConfig \<Rightarrow> 'w Services \<Rightarrow> ('w, 'w Cloud) aws" where
  "NewAWSCloud cfg awsServices = newAWSCloud cfg awsServices"

text \<open>The parts of the interface that need no state.\<close>

definition CurrentNodeName :: "'w Cloud \<Rightarrow> string result" where
  "CurrentNodeName c = Inr (self_nodeName (c_selfAWSInstance c))"

definition AddSSHKeyToAllInstances :: "'w Cloud \<Rightarrow> unit result" where
  "AddSSHKeyToAllInstances c = Inl NotImplemented"

section \<open>The region of a zone\<close>

text \<open>The names that the regular expression of \<^verbatim>\<open>azToRegion\<close> describes.\<close>

definition region_words :: "string list \<Rightarrow> string" where
  "region_words words = concat (map (\<lambda>word. word @ ''-'') words)"

definition region_name :: "string \<Rightarrow> bool" where
  "region_name r \<longleftrightarrow> (\<exists>words digits. words \<noteq> [] \<and> (\<forall>word \<in> set words. word \<noteq> [] \<and> list_all is_alpha word)
     \<and> digits \<noteq> [] \<and> list_all is_digit digits \<and> r = region_words words @ digits)"

lemma region_words_simps [simp]: "region_words [] = []" "region_words (w # ws) = w @ ''-'' @ region_words ws"
  by (simp_all add: region_words_def)

lemma not_alpha_dash [simp]: "\<not> is_alpha (CHR ''-'')" "\<not> is_digit (CHR ''-'')"
  by (simp_all add: is_alpha_def is_upper_def is_lower_def is_digit_def)

lemma alpha_not_digit: "is_alpha ch \<Longrightarrow> \<not> is_digit ch"
  by (auto simp: is_alpha_def is_upper_def is_lower_def is_digit_def Let_def)

lemma takeWhile_all_append: "list_all P xs \<Longrightarrow> takeWhile P (xs @ ys) = xs @ takeWhile P ys"
  by (induction xs) auto

lemma dropWhile_all_append: "list_all P xs \<Longrightarrow> dropWhile P (xs @ ys) = dropWhile P ys"
  by (induction xs) auto

lemma takeWhile_no: "ys = [] \<or> \<not> P (hd ys) \<Longrightarrow> takeWhile P ys = []"
  by (cases ys) auto

lemma list_all_takeWhile: "list_all P (takeWhile P xs)"
  by (induction xs) auto

lemma az_match_complete:
  assumes "words \<noteq> []" and "\<forall>word \<in> set words. word \<noteq> [] \<and> list_all is_alpha word"
    and digits: "digits \<noteq> []" "list_all is_digit digits" and ending: "ending = [] \<or> \<not> is_digit (hd ending)"
  shows "az_match (region_words words @ digits @ ending) = Some (region_words words @ digits)"
  using assms(1,2)
proof (induction words)
  case (Cons w ws)
  have takeWhile_ending: "takeWhile is_digit ending = []" using ending by (rule takeWhile_no)
  note tw = takeWhile_all_append dropWhile_all_append takeWhile_ending
  show ?case
  proof (cases ws)
    case Nil
    with Cons.prems digits show ?thesis
      by (subst az_match.simps) (auto simp: Let_def tw hd_append list_all_iff)
  next
    case (Cons v vs)
    then have IH: "az_match (region_words ws @ digits @ ending) = Some (region_words ws @ digits)"
      using Cons.IH Cons.prems by simp
    have "region_words ws @ digits @ ending \<noteq> []" "is_alpha (hd (region_words ws @ digits @ ending))"
      using Cons Cons.prems by (auto simp: hd_append list_all_iff)
    then show ?thesis
      using Cons.prems IH by (subst az_match.simps) (auto simp: Let_def tw dest: alpha_not_digit)
  qed
qed simp

lemma az_match_sound:
  "az_match s = Some r \<Longrightarrow> \<exists>ending. s = r @ ending \<and> region_name r \<and> (ending = [] \<or> \<not> is_digit (hd ending))"
proof (induction s arbitrary: r rule: az_match.induct)
  case (1 s)
  let ?word = "takeWhile is_alpha s" and ?rest = "dropWhile is_alpha s"
  from "1.prems" have ok: "?word \<noteq> []" "?rest \<noteq> []" "hd ?rest = CHR ''-''"
    by (subst (asm) az_match.simps, simp add: Let_def split: if_splits)+
  then have s: "s = ?word @ ''-'' @ tl ?rest"
    using takeWhile_dropWhile_id [of is_alpha s] by (metis append_Cons append_Nil list.collapse)
  have alpha: "list_all is_alpha ?word" by (rule list_all_takeWhile)
  show ?case
  proof (cases "tl ?rest \<noteq> [] \<and> is_digit (hd (tl ?rest))")
    case True
    let ?digits = "takeWhile is_digit (tl ?rest)"
    have r: "r = ?word @ ''-'' @ ?digits" using "1.prems" ok True by (subst (asm) az_match.simps) (auto simp: Let_def split: if_splits)
    have "region_name r"
      unfolding region_name_def
      by (rule exI [of _ "[?word]"], rule exI [of _ ?digits])
        (use ok alpha True in \<open>auto simp: r list_all_takeWhile\<close>, (cases "tl ?rest"; simp)+)
    moreover have "s = r @ dropWhile is_digit (tl ?rest)" using s r by simp
    moreover have "dropWhile is_digit (tl ?rest) = [] \<or> \<not> is_digit (hd (dropWhile is_digit (tl ?rest)))"
      using hd_dropWhile by blast
    ultimately show ?thesis by blast
  next
    case False
    then have "map_option (\<lambda>m. ?word @ ''-'' @ m) (az_match (tl ?rest)) = Some r"
      using "1.prems" ok by (auto simp: az_match.simps [of s] Let_def split: if_splits)
    then obtain m where m: "az_match (tl ?rest) = Some m" and r: "r = ?word @ ''-'' @ m" by auto
    from "1.IH" [OF refl refl _ _ m] ok False obtain ending where IH: "tl ?rest = m @ ending" "region_name m"
        "ending = [] \<or> \<not> is_digit (hd ending)" by blast
    from IH(2) obtain words digits where "words \<noteq> []" "\<forall>word \<in> set words. word \<noteq> [] \<and> list_all is_alpha word"
        "digits \<noteq> []" "list_all is_digit digits" "m = region_words words @ digits"
      unfolding region_name_def by blast
    then have "region_name r"
      unfolding region_name_def using ok(1) alpha
      by (intro exI [of _ "?word # words"] exI [of _ digits]) (simp add: r)
    moreover have "s = r @ ending" using s r IH(1) by simp
    ultimately show ?thesis using IH(3) by blast
  qed
qed

text \<open>C40: \<^verbatim>\<open>azToRegion\<close> returns a region exactly when the zone starts with the name of a region, that is words that end with
  a dash and then digits, and what follows does not continue the number. So a zone has at most one region, and the
  names of local zones, which continue after the number, are mapped to their region as well.\<close>

theorem azToRegion_exact:
  "azToRegion az = Inr region \<longleftrightarrow>
     (\<exists>ending. az = region @ ending \<and> region_name region \<and> (ending = [] \<or> \<not> is_digit (hd ending)))"
proof
  assume "azToRegion az = Inr region"
  then have "az_match az = Some region" by (auto simp: azToRegion_def split: if_splits option.splits)
  then show "\<exists>ending. az = region @ ending \<and> region_name region \<and> (ending = [] \<or> \<not> is_digit (hd ending))"
    by (rule az_match_sound)
next
  assume "\<exists>ending. az = region @ ending \<and> region_name region \<and> (ending = [] \<or> \<not> is_digit (hd ending))"
  then obtain ending words digits where az: "az = region @ ending" "ending = [] \<or> \<not> is_digit (hd ending)" "words \<noteq> []"
      "\<forall>word \<in> set words. word \<noteq> [] \<and> list_all is_alpha word" "digits \<noteq> []" "list_all is_digit digits"
      "region = region_words words @ digits"
    unfolding region_name_def by blast
  from az_match_complete [OF az(3-6) az(2)] az(1,7) have "az_match az = Some region" by simp
  moreover have "az \<noteq> []" using az by (cases words) auto
  ultimately show "azToRegion az = Inr region" by (simp add: azToRegion_def Suc_le_eq)
qed

section \<open>A provider that was built\<close>

text \<open>The assertions on a provider that the rest of the code relies on.\<close>

definition provider_ok :: "'w Cloud \<Rightarrow> bool" where
  "provider_ok c \<longleftrightarrow> HasClusterID c \<and> c_vpcID c = self_vpcID (c_selfAWSInstance c) \<and> NodeIPFamilies (c_global c) \<noteq> []
     \<and> (dummy_instance (c_global c) \<longrightarrow> c_vpcID c = VPC (c_global c) \<and> self_nodeName (c_selfAWSInstance c) = ''master-dummy'')"

lemma init_sets_id: "init legacy clusterID t = (Inr (), t') \<Longrightarrow> ClusterID t' \<noteq> ''''"
  by (auto simp: init_def Let_def split: if_splits)

lemma initFromTags_sets_id: "initFromTags tags t = (Inr (), t') \<Longrightarrow> ClusterID t' \<noteq> ''''"
  unfolding initFromTags_def by (auto simp: bindM_Inr_iff liftM_run dest: init_sets_id)

lemma set_tagging_ok:
  assumes "set_tagging c w = (Inr c', w')"
  shows "\<exists>t. c' = c\<lparr>c_tagging := t\<rparr> \<and> ClusterID t \<noteq> ''''"
proof -
  have run: "\<exists>t. c' = c\<lparr>c_tagging := t\<rparr> \<and> ClusterID t \<noteq> ''''"
    if "(case m (c_tagging c) of (Inl err, _) \<Rightarrow> throwM err | (Inr _, t) \<Rightarrow> returnM (c\<lparr>c_tagging := t\<rparr>)) v = (Inr c', v')"
      and "\<And>t t'. m t = (Inr (), t') \<Longrightarrow> ClusterID t' \<noteq> ''''" for m :: "(awsTagging, unit) aws" and v v'
  proof -
    obtain r t where m: "m (c_tagging c) = (r, t)" by (cases "m (c_tagging c)")
    show ?thesis
    proof (cases r)
      case (Inl err)
      with m that(1) show ?thesis by (simp add: throwM_run)
    next
      case (Inr u)
      with m that have "ClusterID t \<noteq> ''''" "c' = c\<lparr>c_tagging := t\<rparr>" by (simp_all add: returnM_run)
      then show ?thesis by blast
    qed
  qed
  show ?thesis
  proof (cases "KubernetesClusterTag (c_global c) \<noteq> '''' \<or> KubernetesClusterID (c_global c) \<noteq> ''''")
    case True
    with assms show ?thesis unfolding set_tagging_def Let_def by (intro run [OF _ init_sets_id]) simp_all
  next
    case False
    with assms have "bindM (self_describeInstance (c_ec2 c) (c_selfAWSInstance c)) (\<lambda>info.
        case initFromTags (inst_Tags info) (c_tagging c) of (Inl err, _) \<Rightarrow> throwM err
        | (Inr _, t) \<Rightarrow> returnM (c\<lparr>c_tagging := t\<rparr>)) w = (Inr c', w')"
      unfolding set_tagging_def Let_def by simp
    then show ?thesis by (rule bindM_InrE) (rule run [OF _ initFromTags_sets_id])
  qed
qed

text \<open>The instance of a provider that runs in the account of the nodes: the metadata service names it and EC2 describes it.\<close>

definition runs_on :: "'w Cloud \<Rightarrow> ec2_instance \<Rightarrow> bool" where
  "runs_on c inst \<longleftrightarrow> c_selfAWSInstance c = newAWSInstance inst \<and> c_vpcID c = ToString (inst_VpcId inst)
     \<and> (\<exists>i w1 w2 w3 w4. imds_GetMetadata (c_metadata c) ''instance-id'' w1 = (Inr i, w2)
          \<and> getInstanceByID c i w3 = (Inr (Some inst), w4))"

lemma getInstanceByID_client: "c_ec2 c' = c_ec2 c \<Longrightarrow> getInstanceByID c' = getInstanceByID c"
proof -
  assume "c_ec2 c' = c_ec2 c"
  then have "describeInstanceBatcher c' = describeInstanceBatcher c" by (intro ext) (simp add: describeInstanceBatcher_def)
  then show ?thesis by (intro ext) (simp add: getInstanceByID_def getInstancesByIDs_def)
qed

lemma set_self_instance_ok:
  assumes "set_self_instance c w = (Inr c', w')"
  shows "\<exists>self. c' = c\<lparr>c_selfAWSInstance := self, c_vpcID := self_vpcID self\<rparr>
     \<and> (if dummy_instance (c_global c) then self_vpcID self = VPC (c_global c) \<and> self_nodeName self = ''master-dummy''
        else \<exists>inst. runs_on c' inst)"
proof (cases "dummy_instance (c_global c)")
  case True
  with assms show ?thesis
    by (intro exI [of _ "c_selfAWSInstance c'"]) (auto simp: set_self_instance_def returnM_run no_instance_def)
next
  case False
  with assms obtain i inst w1 w2 where "imds_GetMetadata (c_metadata c) ''instance-id'' w = (Inr i, w1)"
    and "getInstanceByID c i w1 = (Inr (Some inst), w2)"
    and c': "c' = c\<lparr>c_selfAWSInstance := newAWSInstance inst, c_vpcID := self_vpcID (newAWSInstance inst)\<rparr>"
    unfolding set_self_instance_def buildSelfAWSInstance_def
    by (auto simp: bindM_Inr_iff wrapM_Inr_iff returnM_run throwM_run split: option.splits)
  then have "runs_on c' inst"
    using getInstanceByID_client [of c' c] by (auto simp: runs_on_def newAWSInstance_def)
  with False c' show ?thesis by auto
qed

text \<open>A provider that \<^verbatim>\<open>newAWSCloud2\<close> builds has a cluster id and at least one IP family. Its VPC is the configured one when it runs
  outside of the account of the nodes and otherwise the one that EC2 reports for the instance it runs on (nothing excludes
  that EC2 reports none), and its region is the one that the configuration or the metadata gives.
  The factory that is registered builds providers in the same way.\<close>

lemma newAWSCloud2_ok:
  assumes "newAWSCloud2 cfg services w = (Inr c, w')"
  shows "provider_ok c \<and> c_cfg c = cfg\<lparr>Global := (Global cfg)\<lparr>NodeIPFamilies := NodeIPFamilies (c_global c)\<rparr>\<rparr>
    \<and> (if dummy_instance (Global cfg) then c_vpcID c = VPC (Global cfg) \<and> c_vpcID c \<noteq> '''' else \<exists>inst. runs_on c inst)
    \<and> (\<exists>metadata w1. sv_Metadata services = Inr metadata \<and> getRegionFromMetadata cfg metadata w = (Inr (c_region c), w1))"
proof -
  obtain c1 c2 c3 w1 w2 w3 where clients: "create_clients cfg services w = (Inr c1, w1)"
    and self: "set_self_instance c1 w1 = (Inr c2, w2)" and tag: "set_tagging c2 w2 = (Inr c3, w3)"
    and c: "c = (if NodeIPFamilies (c_global c3) = []
                then c3\<lparr>c_cfg := (c_cfg c3)\<lparr>Global := (c_global c3)\<lparr>NodeIPFamilies := [''ipv4'']\<rparr>\<rparr>\<rparr> else c3)"
    using assms unfolding newAWSCloud2_def by (auto simp: bindM_Inr_iff returnM_run simp del: if_split)
  from clients have c1: "c_cfg c1 = cfg" "\<exists>metadata w1. sv_Metadata services = Inr metadata
      \<and> getRegionFromMetadata cfg metadata w = (Inr (c_region c1), w1)"
    unfolding create_clients_def
    by (auto simp: bindM_Inr_iff wrapM_Inr_iff liftM_run returnM_run throwM_run split: if_splits)
  from set_self_instance_ok [OF self] obtain self where
    c2: "c2 = c1\<lparr>c_selfAWSInstance := self, c_vpcID := self_vpcID self\<rparr>"
      "dummy_instance (Global cfg) \<Longrightarrow> self_vpcID self = VPC (Global cfg) \<and> self_nodeName self = ''master-dummy''"
      "dummy_instance (Global cfg) \<or> (\<exists>inst. runs_on c2 inst)"
    unfolding c1(1) by (auto split: if_splits)
  from set_tagging_ok [OF tag] obtain t where c3: "c3 = c2\<lparr>c_tagging := t\<rparr>" "ClusterID t \<noteq> ''''" by blast
  have global: "dummy_instance (g\<lparr>NodeIPFamilies := xs\<rparr>) = dummy_instance g" for g xs
    by (simp add: dummy_instance_def)
  have "c_ec2 c = c_ec2 c2" "c_metadata c = c_metadata c2" "c_selfAWSInstance c = c_selfAWSInstance c2" "c_vpcID c = c_vpcID c2"
    using c c3(1) by simp_all
  then have "runs_on c inst \<longleftrightarrow> runs_on c2 inst" for inst
    using getInstanceByID_client [of c c2] by (simp add: runs_on_def)
  moreover have "provider_ok c" "c_cfg c = cfg\<lparr>Global := (Global cfg)\<lparr>NodeIPFamilies := NodeIPFamilies (c_global c)\<rparr>\<rparr>"
    "c_region c = c_region c1"
    using c c1(1) c2(1,2) c3 by (auto simp: provider_ok_def HasClusterID_def global)
  moreover have "c_vpcID c = VPC (Global cfg) \<and> c_vpcID c \<noteq> ''''" if "dummy_instance (Global cfg)"
    using c c2(1) c2(2) [OF that] c3(1) that by (simp add: dummy_instance_def)
  ultimately show ?thesis using c1(2) c2(3) by (cases "dummy_instance (Global cfg)") auto
qed

theorem azToRegion_exact_witness:
  "azToRegion ''us-east-1a'' = Inr ''us-east-1'' \<and> azToRegion ''us-west-2-lax-1a'' = Inr ''us-west-2''"
proof -
  have "region_name ''us-east-1''" "region_name ''us-west-2''"
    unfolding region_name_def
    by (rule exI [of _ "[''us'', ''east'']"], rule exI [of _ "''1''"], simp add: is_alpha_def is_lower_def is_upper_def is_digit_def)
      (rule exI [of _ "[''us'', ''west'']"], rule exI [of _ "''2''"], simp add: is_alpha_def is_lower_def is_upper_def is_digit_def)
  then show ?thesis
    by (intro conjI azToRegion_exact [THEN iffD2])
      (rule exI [of _ "''a''"], simp add: is_digit_def, rule exI [of _ "''-lax-1a''"], simp add: is_digit_def)
qed

definition sample_services :: "unit Services" where
  "sample_services = \<lparr>sv_Compute = (\<lambda>_. Inr (awsSdkEC2 two_pages_api)), sv_LoadBalancing = (\<lambda>_. Inr idle_elb),
     sv_LoadBalancingV2 = (\<lambda>_. Inr idle_elbv2), sv_Metadata = Inr (c_metadata sample_cloud), sv_KeyManagement = (\<lambda>_. Inr ()),
     sv_pattern_ok = (\<lambda>_. True), sv_sha1hex = (\<lambda>s. s), sv_sha256hex = (\<lambda>s. s)\<rparr>"

definition on_premises_config :: CloudConfig where
  "on_premises_config = \<lparr>Global = sample_global\<lparr>VPC := ''vpc-9'', SubnetID := ''subnet-9'', KubernetesClusterID := ''c9''\<rparr>,
     ServiceOverride = []\<rparr>"

lemma newAWSCloud2_ok_example:
  "\<exists>c. newAWSCloud2 on_premises_config sample_services () = (Inr c, ()) \<and> provider_ok c \<and> c_vpcID c = ''vpc-9''"
proof -
  obtain c where run: "newAWSCloud2 on_premises_config sample_services () = (Inr c, ())" and vpc: "c_vpcID c = ''vpc-9''"
    by (simp add: newAWSCloud2_def create_clients_def set_self_instance_def set_tagging_def run_simps sample_services_def
        on_premises_config_def getRegionFromMetadata_def sample_global_def GetRegion_def sample_cloud_def dummy_instance_def
        init_def Let_def)
  with newAWSCloud2_ok [OF run] show ?thesis by blast
qed

end
