(* ===== verification/WorkQueue.thy ===== *)
theory WorkQueue
  imports Prelude
begin

text \<open>
  The rate limited work queue of \<^verbatim>\<open>client-go\<close> that the tagging controller uses
  (\<^verbatim>\<open>util/workqueue\<close>: \<^verbatim>\<open>queue.go\<close>, \<^verbatim>\<open>delaying_queue.go\<close>, \<^verbatim>\<open>default_rate_limiters.go\<close>), and workers that take items from it.
  Every operation of the queue holds a lock, so each is one step. The delay of an item is not measured: a
  waiting item may become ready at any moment. The delay is never zero, since the exponential limiter starts at
  five milliseconds.

  The locale \<open>bounded_retry\<close> is the contract of a handler that retries an item at most \<open>limit\<close> times; it
  gives the invariant of the queue, that no item is given to two workers at once, and that the workers come to
  an end when no new items are added.
\<close>

section \<open>The queue\<close>

record 'i work_queue =
  wq_queue :: "'i list"
  wq_dirty :: "'i set"
  wq_processing :: "'i set"
  wq_waiting :: "'i list"
  wq_failures :: "'i \<Rightarrow> nat"

definition empty_work_queue :: "'i work_queue" where
  "empty_work_queue = \<lparr>wq_queue = [], wq_dirty = {}, wq_processing = {}, wq_waiting = [], wq_failures = (\<lambda>_. 0)\<rparr>"

definition wq_Add :: "'i \<Rightarrow> 'i work_queue \<Rightarrow> 'i work_queue" where
  "wq_Add item q =
     (if item \<in> wq_dirty q then q
      else (let q = q\<lparr>wq_dirty := insert item (wq_dirty q)\<rparr> in
        if item \<in> wq_processing q then q else q\<lparr>wq_queue := wq_queue q @ [item]\<rparr>))"

text \<open>\<open>None\<close> when the worker has to wait.\<close>

definition wq_Get :: "'i work_queue \<Rightarrow> ('i \<times> 'i work_queue) option" where
  "wq_Get q = (case wq_queue q of
     [] \<Rightarrow> None
   | item # rest \<Rightarrow> Some (item, q\<lparr>wq_queue := rest, wq_processing := insert item (wq_processing q),
       wq_dirty := wq_dirty q - {item}\<rparr>))"

definition wq_Done :: "'i \<Rightarrow> 'i work_queue \<Rightarrow> 'i work_queue" where
  "wq_Done item q = (let q = q\<lparr>wq_processing := wq_processing q - {item}\<rparr> in
     if item \<in> wq_dirty q then q\<lparr>wq_queue := wq_queue q @ [item]\<rparr> else q)"

text \<open>The item waits; an item that waits already is not added a second time.\<close>

definition wq_AddRateLimited :: "'i \<Rightarrow> 'i work_queue \<Rightarrow> 'i work_queue" where
  "wq_AddRateLimited item q = q\<lparr>wq_failures := (wq_failures q)(item := wq_failures q item + 1),
     wq_waiting := List.insert item (wq_waiting q)\<rparr>"

definition wq_NumRequeues :: "'i \<Rightarrow> 'i work_queue \<Rightarrow> nat" where
  "wq_NumRequeues item q = wq_failures q item"

definition wq_Forget :: "'i \<Rightarrow> 'i work_queue \<Rightarrow> 'i work_queue" where
  "wq_Forget item q = q\<lparr>wq_failures := (wq_failures q)(item := 0)\<rparr>"

text \<open>The loop of the delaying queue adds an item whose delay is over.\<close>

definition wq_ready :: "'i \<Rightarrow> 'i work_queue \<Rightarrow> 'i work_queue" where
  "wq_ready item q = wq_Add item (q\<lparr>wq_waiting := remove1 item (wq_waiting q)\<rparr>)"

lemmas wq_defs = wq_Add_def wq_Done_def wq_AddRateLimited_def wq_NumRequeues_def wq_Forget_def wq_ready_def Let_def

section \<open>Workers\<close>

text \<open>The state is the queue and the world of the handler. \<open>handled\<close> is what the handler does with an item that
  a worker holds.\<close>

inductive worker_step ::
  "('i work_queue \<times> 'w \<Rightarrow> 'i \<Rightarrow> 'i work_queue \<times> 'w \<Rightarrow> bool) \<Rightarrow> 'i work_queue \<times> 'w \<Rightarrow> 'i work_queue \<times> 'w \<Rightarrow> bool"
  for handled where
  ready: "item \<in> set (wq_waiting q) \<Longrightarrow> worker_step handled (q, w) (wq_ready item q, w)"
| get: "wq_Get q = Some (item, q') \<Longrightarrow> worker_step handled (q, w) (q', w)"
| finish: "item \<in> wq_processing q \<Longrightarrow> handled (q, w) item (q', w') \<Longrightarrow> worker_step handled (q, w) (wq_Done item q', w')"

inductive_cases worker_stepE: "worker_step handled (q, w) s"

lemmas worker_step_cases = worker_stepE [consumes 1, case_names ready get finish]

text \<open>The items of the queue are those that are dirty and not in the hands of a worker, each once.\<close>

definition wq_wf :: "'i work_queue \<Rightarrow> bool" where
  "wq_wf q \<longleftrightarrow> distinct (wq_queue q) \<and> set (wq_queue q) = wq_dirty q - wq_processing q \<and> distinct (wq_waiting q)
     \<and> finite (wq_dirty q) \<and> finite (wq_processing q)"

lemma wq_wf_empty [simp]: "wq_wf empty_work_queue"
  by (simp add: wq_wf_def empty_work_queue_def)

lemma wq_wf_Add [simp]: "wq_wf q \<Longrightarrow> wq_wf (wq_Add item q)"
  by (auto simp: wq_wf_def wq_Add_def Let_def)

lemma wq_wf_Get: "wq_wf q \<Longrightarrow> wq_Get q = Some (item, q') \<Longrightarrow> wq_wf q' \<and> item \<notin> wq_processing q"
  by (auto simp: wq_wf_def wq_Get_def split: list.splits)

lemma wq_wf_Done: "wq_wf q \<Longrightarrow> item \<in> wq_processing q \<Longrightarrow> wq_wf (wq_Done item q)"
  by (auto simp: wq_wf_def wq_Done_def Let_def)

lemma wq_wf_AddRateLimited [simp]: "wq_wf q \<Longrightarrow> wq_wf (wq_AddRateLimited item q)"
  by (simp add: wq_wf_def wq_AddRateLimited_def)

lemma wq_wf_Forget [simp]: "wq_wf q \<Longrightarrow> wq_wf (wq_Forget item q)"
  by (simp add: wq_wf_def wq_Forget_def)

lemma wq_wf_ready [simp]: "wq_wf q \<Longrightarrow> wq_wf (wq_ready item q)"
  by (simp add: wq_wf_def wq_ready_def wq_Add_def Let_def) auto

section \<open>Termination\<close>

text \<open>Every item is in at most one place of each kind: waiting, dirty, or with a worker. A failure leaves the number
  of places as it is and uses up one retry; any other end gives up a place.\<close>

definition wq_items :: "'i work_queue \<Rightarrow> 'i set" where
  "wq_items q = set (wq_waiting q) \<union> wq_dirty q \<union> wq_processing q"

definition wq_places :: "'i work_queue \<Rightarrow> nat" where
  "wq_places q = length (wq_waiting q) + card (wq_dirty q) + card (wq_processing q)"

definition wq_budget :: "nat \<Rightarrow> 'i work_queue \<Rightarrow> nat" where
  "wq_budget limit q = (\<Sum>item \<in> wq_items q. limit - wq_failures q item)"

definition wq_distance :: "'i work_queue \<Rightarrow> nat" where
  "wq_distance q = 3 * length (wq_waiting q) + 2 * card (wq_dirty q) + card (wq_processing q)"

definition wq_progress :: "nat \<Rightarrow> ('i work_queue \<times> 'i work_queue) set" where
  "wq_progress limit = measures [wq_places, wq_budget limit, wq_distance]"

lemma wf_wq_progress: "wf (wq_progress limit)"
  by (simp add: wq_progress_def)

lemma length_remove1_Suc: "x \<in> set xs \<Longrightarrow> Suc (length (remove1 x xs)) = length xs"
  by (induction xs) auto

lemma wq_ready_progress:
  assumes "wq_wf q" and "item \<in> set (wq_waiting q)"
  shows "(wq_ready item q, q) \<in> wq_progress limit"
proof (cases "item \<in> wq_dirty q")
  case True
  then have "wq_places (wq_ready item q) < wq_places q"
    using length_remove1_Suc [OF assms(2)] by (simp add: wq_places_def wq_ready_def wq_Add_def)
  then show ?thesis by (simp add: wq_progress_def)
next
  case False
  let ?q = "wq_ready item q"
  have q: "wq_dirty ?q = insert item (wq_dirty q)" "wq_waiting ?q = remove1 item (wq_waiting q)"
    "wq_processing ?q = wq_processing q" "wq_failures ?q = wq_failures q"
    using False by (simp_all add: wq_ready_def wq_Add_def Let_def)
  have len: "Suc (length (wq_waiting ?q)) = length (wq_waiting q)" using length_remove1_Suc [OF assms(2)] q by simp
  have card: "card (wq_dirty ?q) = Suc (card (wq_dirty q))" using False assms(1) q by (simp add: wq_wf_def)
  have "wq_items ?q = wq_items q"
    using assms q by (auto simp: wq_items_def wq_wf_def)
  moreover have "wq_places ?q = wq_places q" "wq_distance ?q < wq_distance q"
    using len card q by (simp_all add: wq_places_def wq_distance_def)
  ultimately show ?thesis using q by (simp add: wq_progress_def wq_budget_def)
qed

lemma wq_Get_progress:
  assumes "wq_wf q" and "wq_Get q = Some (item, q')"
  shows "(q', q) \<in> wq_progress limit"
proof -
  have q': "wq_dirty q' = wq_dirty q - {item}" "wq_processing q' = insert item (wq_processing q)"
    "wq_waiting q' = wq_waiting q" "wq_failures q' = wq_failures q" "item \<in> set (wq_queue q)"
    using assms(2) by (auto simp: wq_Get_def split: list.splits)
  then have item: "item \<in> wq_dirty q" "item \<notin> wq_processing q" using assms(1) by (auto simp: wq_wf_def)
  then have c1: "Suc (card (wq_dirty q')) = card (wq_dirty q)" using assms(1) q' card_Suc_Diff1 [of "wq_dirty q" item] by (simp add: wq_wf_def)
  have c2: "card (wq_processing q') = Suc (card (wq_processing q))" using assms(1) q' item by (simp add: wq_wf_def)
  have "wq_items q' = wq_items q" using q' item by (auto simp: wq_items_def)
  with q' c1 c2 show ?thesis by (simp add: wq_progress_def wq_places_def wq_budget_def wq_distance_def)
qed

lemma wq_Done_places:
  assumes "wq_wf q" and "item \<in> wq_processing q"
  shows "Suc (wq_places (wq_Done item q)) = wq_places q"
  using assms card_Suc_Diff1 [of "wq_processing q" item] by (simp add: wq_places_def wq_Done_def Let_def wq_wf_def)

lemma wq_retry_progress:
  assumes "wq_wf q" and "item \<in> wq_processing q" and "wq_NumRequeues item q < limit"
  shows "(wq_Done item (wq_AddRateLimited item q), q) \<in> wq_progress limit"
proof -
  let ?r = "wq_AddRateLimited item q" and ?q = "wq_Done item (wq_AddRateLimited item q)"
  have r: "wq_wf ?r" "item \<in> wq_processing ?r" using assms by (simp_all add: wq_AddRateLimited_def wq_wf_def)
  have places: "Suc (wq_places ?q) = wq_places ?r" by (rule wq_Done_places [OF r])
  show ?thesis
  proof (cases "item \<in> set (wq_waiting q)")
    case True
    then have "wq_places ?r = wq_places q" by (simp add: wq_places_def wq_AddRateLimited_def)
    with places show ?thesis by (simp add: wq_progress_def)
  next
    case False
    then have "wq_places ?q = wq_places q" using places by (simp add: wq_places_def wq_AddRateLimited_def)
    moreover have items: "wq_items ?q = wq_items q"
      using assms(2) by (auto simp: wq_items_def wq_Done_def wq_AddRateLimited_def Let_def)
    moreover have "wq_budget limit ?q < wq_budget limit q"
    proof -
      have f: "wq_failures ?q = (wq_failures q)(item := wq_failures q item + 1)"
        by (simp add: wq_Done_def wq_AddRateLimited_def Let_def)
      have "finite (wq_items q)" using assms(1) by (simp add: wq_items_def wq_wf_def)
      then show ?thesis
        unfolding wq_budget_def items f using assms(2,3)
        by (intro sum_strict_mono_ex1) (auto simp: wq_items_def wq_NumRequeues_def)
    qed
    ultimately show ?thesis by (simp add: wq_progress_def)
  qed
qed

section \<open>Handlers with a bounded number of retries\<close>

locale bounded_retry =
  fixes handled :: "'i work_queue \<times> 'w \<Rightarrow> 'i \<Rightarrow> 'i work_queue \<times> 'w \<Rightarrow> bool" and limit :: nat
  assumes handled_queue: "handled (q, w) item (q', w') \<Longrightarrow>
      q' = q \<or> q' = wq_Forget item q \<or> (wq_NumRequeues item q < limit \<and> q' = wq_AddRateLimited item q)"
    and handled_total: "\<exists>q' w'. handled (q, w) item (q', w')"
begin

lemma step_wf:
  assumes "worker_step handled (q, w) (q', w')" and "wq_wf q"
  shows "wq_wf q'"
  using assms(1)
proof (cases rule: worker_step_cases)
  case (get item q2)
  with assms(2) show ?thesis by (auto dest: wq_wf_Get)
next
  case (finish item q2 w2)
  from handled_queue [OF finish(3)] assms(2) have "wq_wf q2" by auto
  moreover have "item \<in> wq_processing q2"
    using handled_queue [OF finish(3)] finish(2) by (auto simp: wq_Forget_def wq_AddRateLimited_def)
  ultimately show ?thesis using finish(1) by (auto intro: wq_wf_Done)
qed (use assms(2) in auto)

lemma step_progress:
  assumes "worker_step handled (q, w) (q', w')" and wf: "wq_wf q"
  shows "(q', q) \<in> wq_progress limit"
  using assms(1)
proof (cases rule: worker_step_cases)
  case (ready item)
  with wf show ?thesis by (auto intro: wq_ready_progress)
next
  case (get item q2)
  with wf show ?thesis by (auto intro: wq_Get_progress)
next
  case (finish item q2 w2)
  have gone: "Suc (wq_places (wq_Done item q)) = wq_places q"
    "Suc (wq_places (wq_Done item (wq_Forget item q))) = wq_places (wq_Forget item q)"
    using wf finish(2) by (intro wq_Done_places; simp add: wq_Forget_def wq_wf_def)+
  have "wq_places (wq_Forget item q) = wq_places q" by (simp add: wq_places_def wq_Forget_def)
  with gone handled_queue [OF finish(3)] finish wq_retry_progress [OF wf finish(2)] show ?thesis
    by (auto simp: wq_progress_def)
qed

text \<open>Without new items the workers come to an end, and then no item is left.\<close>

lemma steps_end: "wf {(s', s). wq_wf (fst s) \<and> worker_step handled s s'}"
  by (rule wf_subset [OF wf_inv_image [OF wf_wq_progress [of limit], of fst]]) (auto intro: step_progress)

lemma quiescent_empty:
  assumes "wq_wf q" and stuck: "\<And>s. \<not> worker_step handled (q, w) s"
  shows "wq_items q = {}"
proof -
  have "wq_waiting q = []" using stuck worker_step.ready [of _ q handled w] by (cases "wq_waiting q") auto
  moreover have "wq_processing q = {}"
  proof (rule ccontr)
    assume "wq_processing q \<noteq> {}"
    then obtain item where "item \<in> wq_processing q" by auto
    with handled_total [of q w item] stuck show False by (blast intro: worker_step.finish)
  qed
  moreover have "wq_queue q = []"
    using stuck worker_step.get [of q _ _ handled w] by (cases "wq_queue q") (auto simp: wq_Get_def)
  ultimately show ?thesis using assms(1) by (auto simp: wq_items_def wq_wf_def)
qed

end

end
