(* ===== verification/TaggingController.thy ===== *)
theory TaggingController
  imports Complex_Main WorkQueue Batcher InstanceIDs "HOL-Library.Char_ord" "HOL-Library.List_Lexorder"
begin

text \<open>
  The tagging controller (\<^verbatim>\<open>controllers/tagging/tagging_controller.go\<close>, \<^verbatim>\<open>controllers/options\<close>). Its state is the work queue and
  the world behind the clients. The clients of Kubernetes are arguments: \<open>tc_lister\<close> reads a node from the
  informer (\<open>Inr None\<close> when it is not found), \<open>tc_label\<close> is \<^verbatim>\<open>AddOrUpdateLabelsOnNode\<close>; \<open>tc_create\<close> and \<open>tc_delete\<close> are
  \<^verbatim>\<open>Add\<close> of the two batchers and \<open>tc_md5hex\<close> is the hexadecimal MD5 sum. A worker handles an item in one step, between
  taking it and marking it as done; the workers and the events of the informer interleave in any order.

  The lemmas show that every item is eventually handled or given up, that the queue never gives an item to two
  workers, that a node is labelled only after its instance was tagged, and that the label does not depend on the
  order of the map of tags.
\<close>

section \<open>The controller\<close>

record k8s_node = node +
  node_CreationTimestamp :: int

record taggingControllerNode =
  tcn_providerID :: string
  tcn_name :: string

record workItem =
  item_name :: string
  item_providerID :: string
  item_action :: string

definition taggingControllerLabelKey :: string where
  "taggingControllerLabelKey = ''k8s.io/cloud-provider-aws''"

definition maxRequeuingCount :: nat where
  "maxRequeuingCount = 9"

text \<open>Five minutes in nanoseconds.\<close>

definition newNodeEventualConsistencyGracePeriod :: int where
  "newNodeEventualConsistencyGracePeriod = 5 * 60 * 1000000000"

definition addTag :: string where
  "addTag = ''ADD''"

definition deleteTag :: string where
  "deleteTag = ''DELETE''"

text \<open>\<^verbatim>\<open>opt.Instance\<close>.\<close>

definition Instance_resource :: string where
  "Instance_resource = ''instance''"

definition SupportedResources :: "string list" where
  "SupportedResources = [Instance_resource]"

record 'w Controller =
  tc_lister :: "string \<Rightarrow> 'w \<Rightarrow> k8s_node option result"
  tc_label :: "(string, string) gomap \<Rightarrow> k8s_node \<Rightarrow> 'w \<Rightarrow> bool \<times> 'w"
  tc_cloud :: "'w Cloud"
  tc_create :: "tags_input \<Rightarrow> ('w, unit) aws"
  tc_delete :: "tags_input \<Rightarrow> ('w, unit) aws"
  tc_md5hex :: "string \<Rightarrow> string"
  tc_tags :: "(string, string) gomap"
  tc_resources :: "string list"
  tc_rateLimitEnabled :: bool
  tc_workerCount :: nat
  tc_batchingEnabled :: bool

type_synonym 'w tc_state = "workItem work_queue \<times> 'w"

section \<open>Options\<close>

record TaggingControllerOptions =
  opt_Tags :: "(string, string) gomap"
  opt_Resources :: "string list"
  opt_RateLimit :: rat
  opt_BurstLimit :: int
  opt_WorkerCount :: int
  opt_BatchingEnabled :: bool

definition Validate :: "TaggingControllerOptions \<Rightarrow> unit result" where
  "Validate opts =
     (if opt_Tags opts = [] then Inl (Errorf ''--tags must not be empty and must be a form of key=value'' [])
      else if opt_Resources opts = [] then Inl (Errorf ''--resources must not be empty'' [])
      else if opt_RateLimit opts < 0 then Inl (Errorf ''--tagging-controller-rate-limit should not be less than zero'' [])
      else if opt_BurstLimit opts < 0 then Inl (Errorf ''--tagging-controller-burst-limit should not be less than zero'' [])
      else if opt_WorkerCount opts \<le> 0 then Inl (Errorf ''--tagging-controller-concurrent-node-syncs must be a positive number'' [])
      else foldR (\<lambda>r _. foldR (\<lambda>resource _.
             if r \<noteq> resource then Inl (Errorf ''%s is not a supported resource. Current supported resources %v''
                                        [r, ''['' @ Join SupportedResources '' '' @ '']'']) else Inr ())
             SupportedResources ()) (opt_Resources opts) ())"

text \<open>The rate limit is enabled when rate and burst are positive.\<close>

definition rate_limit_enabled :: "rat \<Rightarrow> int \<Rightarrow> bool" where
  "rate_limit_enabled rateLimit burstLimit \<longleftrightarrow> rateLimit > 0 \<and> burstLimit > 0"

section \<open>Labels\<close>

definition getChecksumOfTags :: "'w Controller \<Rightarrow> string" where
  "getChecksumOfTags tc = tc_md5hex tc (Join (sort (map (\<lambda>(key, value). key @ ''='' @ value) (tc_tags tc))) '','')"

definition isInitialTag :: "k8s_node \<Rightarrow> bool" where
  "isInitialTag n \<longleftrightarrow> \<not> mhas (node_Labels n) taggingControllerLabelKey"

definition isTaggingRequired :: "'w Controller \<Rightarrow> k8s_node \<Rightarrow> bool" where
  "isTaggingRequired tc n = (case map_of (node_Labels n) taggingControllerLabelKey of
     None \<Rightarrow> True | Some labelValue \<Rightarrow> labelValue \<noteq> getChecksumOfTags tc)"

definition isNodeWithinEventualConsistencyGracePeriod :: "int \<Rightarrow> k8s_node \<Rightarrow> bool" where
  "isNodeWithinEventualConsistencyGracePeriod now n \<longleftrightarrow> now - node_CreationTimestamp n < newNodeEventualConsistencyGracePeriod"

section \<open>Tagging and untagging\<close>

text \<open>The id of an instance whose error the code drops: the zero value is the empty text.\<close>

definition instance_or_empty :: "string \<Rightarrow> string" where
  "instance_or_empty providerID = (case MapToAWSInstanceID providerID of Inl _ \<Rightarrow> '''' | Inr i \<Rightarrow> i)"

definition tagEc2Instance :: "'w Controller \<Rightarrow> int \<Rightarrow> k8s_node \<Rightarrow> ('w, unit) aws" where
  "tagEc2Instance tc now n =
     (if \<not> isTaggingRequired tc n then returnM ()
      else
        let instanceID = instance_or_empty (node_ProviderID n);
            labels = [(taggingControllerLabelKey, getChecksumOfTags tc)]
        in tryM (if tc_batchingEnabled tc then TagResourceBatch (tc_create tc) instanceID (tc_tags tc)
                 else TagResource (c_ec2 (tc_cloud tc)) instanceID (tc_tags tc)) (\<lambda>r. case r of
             Inl err \<Rightarrow>
               if IsAWSErrorInstanceNotFound err then
                 (if isNodeWithinEventualConsistencyGracePeriod now n then
                    throwM (Errorf ''EC2 instance %s for node %s does not exist, but node is within eventual consistency grace period''
                              [instanceID, node_Name n])
                  else returnM ())
               else if IsAWSErrorInvalidInstanceID err then returnM ()
               else throwM err
           | Inr _ \<Rightarrow> (\<lambda>w. case tc_label tc labels n w of
               (ok, w) \<Rightarrow> if ok then (Inr (), w)
                 else (Inl (Errorf ''couldn't apply labels %s to node %s''
                         [''map['' @ taggingControllerLabelKey @ '':'' @ getChecksumOfTags tc @ '']'', node_Name n]), w))))"

fun tag_resources :: "'w Controller \<Rightarrow> int \<Rightarrow> taggingControllerNode \<Rightarrow> string list \<Rightarrow> ('w, unit) aws" where
  "tag_resources tc now n [] = returnM ()"
| "tag_resources tc now n (r # rs) =
     (if r = Instance_resource then (\<lambda>w. case tc_lister tc (tcn_name n) w of
          Inl err \<Rightarrow> (Inl err, w)
        | Inr None \<Rightarrow> (Inr (), w)
        | Inr (Some v1node) \<Rightarrow> bindM (tagEc2Instance tc now v1node) (\<lambda>_. tag_resources tc now n rs) w)
      else tag_resources tc now n rs)"

definition tagNodesResources :: "'w Controller \<Rightarrow> int \<Rightarrow> taggingControllerNode \<Rightarrow> ('w, unit) aws" where
  "tagNodesResources tc now n = tag_resources tc now n (tc_resources tc)"

definition untagEc2Instance :: "'w Controller \<Rightarrow> taggingControllerNode \<Rightarrow> ('w, unit) aws" where
  "untagEc2Instance tc n =
     (let instanceID = instance_or_empty (tcn_providerID n) in
      tryM (if tc_batchingEnabled tc then UntagResourceBatch (tc_delete tc) instanceID (tc_tags tc)
            else UntagResource (c_ec2 (tc_cloud tc)) instanceID (tc_tags tc)) (\<lambda>r. case r of
          Inl err \<Rightarrow> if IsAWSErrorInvalidInstanceID err then returnM () else throwM err
        | Inr _ \<Rightarrow> returnM ()))"

definition untagNodeResources :: "'w Controller \<Rightarrow> taggingControllerNode \<Rightarrow> ('w, unit) aws" where
  "untagNodeResources tc n = forM (\<lambda>r. if r = Instance_resource then untagEc2Instance tc n else returnM ()) (tc_resources tc)"

section \<open>Events and workers\<close>

definition enqueueNode :: "'w Controller \<Rightarrow> k8s_node \<Rightarrow> string \<Rightarrow> 'w tc_state \<Rightarrow> 'w tc_state" where
  "enqueueNode tc n action s =
     (let item = \<lparr>item_name = node_Name n, item_providerID = node_ProviderID n, item_action = action\<rparr> in
      case s of (q, w) \<Rightarrow> (if tc_rateLimitEnabled tc then wq_AddRateLimited item q else wq_Add item q, w))"

text \<open>What \<^verbatim>\<open>process\<close> does with an item, before it is marked as done. The item is not forgotten when its provider id
  cannot be mapped.\<close>

definition process_item :: "'w Controller \<Rightarrow> int \<Rightarrow> workItem \<Rightarrow> 'w tc_state \<Rightarrow> 'w tc_state" where
  "process_item tc now item s = (case s of (q, w) \<Rightarrow>
     case MapToAWSInstanceID (item_providerID item) of
       Inl err \<Rightarrow> (q, w)
     | Inr instanceID \<Rightarrow>
         if IsVariantNode instanceID then (wq_Forget item q, w)
         else
           let n = \<lparr>tcn_providerID = item_providerID item, tcn_name = item_name item\<rparr> in
           case (if item_action item = addTag then tagNodesResources tc now n else untagNodeResources tc n) w of
             (Inl err, w) \<Rightarrow> if wq_NumRequeues item q < maxRequeuingCount then (wq_AddRateLimited item q, w)
                            else (wq_Forget item q, w)
           | (Inr _, w) \<Rightarrow> (wq_Forget item q, w))"

text \<open>\<^verbatim>\<open>process\<close> of a single worker; \<open>None\<close> when it has to wait for an item.\<close>

definition process :: "'w Controller \<Rightarrow> int \<Rightarrow> 'w tc_state \<Rightarrow> 'w tc_state option" where
  "process tc now s = (case wq_Get (fst s) of
     None \<Rightarrow> None
   | Some (item, q) \<Rightarrow> (case process_item tc now item (q, snd s) of (q, w) \<Rightarrow> Some (wq_Done item q, w)))"

definition handled :: "'w Controller \<Rightarrow> 'w tc_state \<Rightarrow> workItem \<Rightarrow> 'w tc_state \<Rightarrow> bool" where
  "handled tc s item s' \<longleftrightarrow> (\<exists>now. process_item tc now item s = s')"

text \<open>The informer reports nodes while the workers run.\<close>

inductive tc_step :: "'w Controller \<Rightarrow> 'w tc_state \<Rightarrow> 'w tc_state \<Rightarrow> bool" for tc where
  node_added: "tc_step tc s (enqueueNode tc n addTag s)"
| node_updated: "isTaggingRequired tc n \<Longrightarrow> tc_step tc s (enqueueNode tc n addTag s)"
| node_deleted: "tc_step tc s (enqueueNode tc n deleteTag s)"
| worker: "worker_step (handled tc) s s' \<Longrightarrow> tc_step tc s s'"

definition tc_reachable :: "'w Controller \<Rightarrow> 'w tc_state \<Rightarrow> bool" where
  "tc_reachable tc s \<longleftrightarrow> (\<exists>w. (tc_step tc)\<^sup>*\<^sup>* (empty_work_queue, w) s)"

section \<open>The queue of the controller\<close>

lemma process_item_queue:
  assumes "process_item tc now item (q, w) = (q', w')"
  shows "q' = q \<or> q' = wq_Forget item q \<or> (wq_NumRequeues item q < maxRequeuingCount \<and> q' = wq_AddRateLimited item q)"
  using assms unfolding process_item_def by (auto simp: Let_def split: sum.splits prod.splits if_splits)

interpretation tagging: bounded_retry "handled tc" maxRequeuingCount for tc
proof unfold_locales
  fix q item q' and w w' :: 'a
  assume "handled tc (q, w) item (q', w')"
  then show "q' = q \<or> q' = wq_Forget item q \<or> (wq_NumRequeues item q < maxRequeuingCount \<and> q' = wq_AddRateLimited item q)"
    by (auto simp: handled_def dest: process_item_queue)
next
  fix q item and w :: 'a
  show "\<exists>q' w'. handled tc (q, w) item (q', w')"
    by (simp add: handled_def) (metis surj_pair)
qed

lemma enqueueNode_wf: "wq_wf (fst s) \<Longrightarrow> wq_wf (fst (enqueueNode tc n action s))"
  by (auto simp: enqueueNode_def Let_def split: prod.split)

lemma tc_reachable_induct [consumes 1, case_names init step]:
  assumes "tc_reachable tc s" and "\<And>w. P (empty_work_queue, w)"
    and "\<And>s s'. tc_reachable tc s \<Longrightarrow> P s \<Longrightarrow> tc_step tc s s' \<Longrightarrow> P s'"
  shows "P s"
proof -
  from assms(1) obtain w where "(tc_step tc)\<^sup>*\<^sup>* (empty_work_queue, w) s" by (auto simp: tc_reachable_def)
  then show ?thesis
  proof (induction rule: rtranclp_induct)
    case base
    show ?case by (rule assms(2))
  next
    case (step s s')
    then have "tc_reachable tc s" by (auto simp: tc_reachable_def)
    from assms(3) [OF this step.IH step(2)] show ?case .
  qed
qed

lemma tc_reachable_wf: "tc_reachable tc s \<Longrightarrow> wq_wf (fst s)"
proof (induction rule: tc_reachable_induct)
  case (step s s')
  from step(2) step(3) show ?case
    by (cases rule: tc_step.cases) (auto simp: enqueueNode_wf intro: tagging.step_wf [of tc "fst s" "snd s" _ "snd s'"])
qed simp

text \<open>C14: Every event is dealt with. However the workers interleave, they come to an end when the informer reports
  nothing new, since an item is retried at most nine times in a row; and when no worker can go on, no item is left: none is
  queued, none waits for its retry and none is in the hands of a worker.\<close>

theorem tagging_controller_ends:
  "wf {(s', s). tc_reachable tc s \<and> worker_step (handled tc) s s'}
   \<and> (\<forall>s. tc_reachable tc s \<and> (\<forall>s'. \<not> worker_step (handled tc) s s') \<longrightarrow> wq_items (fst s) = {})"
proof
  show "wf {(s', s). tc_reachable tc s \<and> worker_step (handled tc) s s'}"
    by (rule wf_subset [OF tagging.steps_end]) (auto dest: tc_reachable_wf)
  show "\<forall>s. tc_reachable tc s \<and> (\<forall>s'. \<not> worker_step (handled tc) s s') \<longrightarrow> wq_items (fst s) = {}"
    using tagging.quiescent_empty [of "fst s" tc "snd s" for s] tc_reachable_wf by fastforce
qed

text \<open>The number of failures that are counted for an item, without rate limiting: at most nine, and it is zero unless
  the item is waiting for a retry or came from one.\<close>

lemma failures_bounded:
  "tc_reachable tc s \<Longrightarrow> \<not> tc_rateLimitEnabled tc \<Longrightarrow> wq_failures (fst s) item \<le> maxRequeuingCount"
proof (induction arbitrary: item rule: tc_reachable_induct)
  case (init w)
  then show ?case by (simp add: empty_work_queue_def)
next
  case (step s s')
  obtain q w where s: "s = (q, w)" by (cases s)
  obtain q' w' where s': "s' = (q', w')" by (cases s')
  from step have IH: "wq_failures q x \<le> maxRequeuingCount" for x by (simp add: s)
  from step(2) show ?case
  proof (cases rule: tc_step.cases)
    case worker
    then have "worker_step (handled tc) (q, w) (q', w')" by (simp add: s s')
    then have "wq_failures q' item \<le> maxRequeuingCount"
    proof (cases rule: worker_step_cases)
      case (ready i)
      with IH show ?thesis by (simp add: wq_ready_def wq_Add_def Let_def)
    next
      case (get i)
      with IH show ?thesis by (auto simp: wq_Get_def split: list.splits)
    next
      case (finish i q2)
      from tagging.handled_queue [OF finish(3)] IH have "wq_failures q2 item \<le> maxRequeuingCount"
        by (auto simp: wq_Forget_def wq_AddRateLimited_def wq_NumRequeues_def)
      with finish(1) show ?thesis by (simp add: wq_Done_def Let_def)
    qed
    then show ?thesis by (simp add: s')
  qed (use IH step.prems in \<open>auto simp: enqueueNode_def s wq_Add_def Let_def\<close>)
qed

text \<open>C16: In every reachable state the queue holds each item that is to be handled and not in the hands of a worker
  exactly once, so that an item is never given to two workers; an item that is reported again while a worker
  handles it stays marked for another round. Without rate limiting no item has more than nine failures.\<close>

theorem tagging_controller_queue:
  assumes "tc_reachable tc (q, w)"
  shows "distinct (wq_queue q) \<and> set (wq_queue q) = wq_dirty q - wq_processing q
    \<and> (\<forall>item q'. wq_Get q = Some (item, q') \<longrightarrow> item \<notin> wq_processing q)
    \<and> (\<forall>n action. let item = \<lparr>item_name = node_Name n, item_providerID = node_ProviderID n, item_action = action\<rparr>;
          q' = fst (enqueueNode tc n action (q, w)) in item \<in> wq_dirty q' \<union> set (wq_waiting q'))
    \<and> (\<not> tc_rateLimitEnabled tc \<longrightarrow> (\<forall>item. wq_NumRequeues item q \<le> maxRequeuingCount))"
proof -
  have wf: "wq_wf q" using tc_reachable_wf [OF assms] by simp
  have "item \<in> wq_dirty (wq_Add item q)" for item
    by (simp add: wq_Add_def Let_def)
  then show ?thesis
    using wf wq_wf_Get [OF wf] failures_bounded [OF assms]
    by (auto simp: wq_wf_def enqueueNode_def Let_def wq_AddRateLimited_def wq_NumRequeues_def)
qed

text \<open>A single worker makes steps of the controller.\<close>

lemma process_steps:
  assumes "process tc now s = Some s'"
  shows "(tc_step tc)\<^sup>*\<^sup>* s s'"
proof -
  obtain q w where s: "s = (q, w)" by (cases s)
  from assms obtain item q1 q2 w2 where get: "wq_Get q = Some (item, q1)"
    and item: "process_item tc now item (q1, w) = (q2, w2)" and s': "s' = (wq_Done item q2, w2)"
    by (auto simp: process_def s split: option.splits prod.splits)
  from get have "item \<in> wq_processing q1" by (auto simp: wq_Get_def split: list.splits)
  moreover have "handled tc (q1, w) item (q2, w2)" using item by (auto simp: handled_def)
  ultimately have "tc_step tc (q1, w) s'" unfolding s' by (intro tc_step.worker worker_step.finish)
  moreover have "tc_step tc s (q1, w)" using get unfolding s by (intro tc_step.worker worker_step.get)
  ultimately show ?thesis by (meson converse_rtranclp_into_rtranclp rtranclp.rtrancl_refl)
qed

text \<open>With rate limiting the events themselves count as failures: after nine updates of a node that is not tagged
  yet, the first failure is not retried.\<close>

lemma rate_limited_events_use_up_retries:
  assumes "tc_rateLimitEnabled tc"
  shows "wq_NumRequeues \<lparr>item_name = node_Name n, item_providerID = node_ProviderID n, item_action = addTag\<rparr>
    (fst ((enqueueNode tc n addTag ^^ k) (empty_work_queue, w))) = k"
  by (induction k) (auto simp: enqueueNode_def assms Let_def wq_NumRequeues_def wq_AddRateLimited_def
      empty_work_queue_def split: prod.split)

section \<open>A node is labelled only after its instance was tagged\<close>

text \<open>\<open>tagged\<close> holds after EC2 reports that an instance has the tags. \<open>I\<close> is an assertion that the calls keep, where a node
  is labelled only when its instance is tagged.\<close>

definition kept_by_tagging :: "'w Controller \<Rightarrow> (string \<Rightarrow> 'w \<Rightarrow> bool) \<Rightarrow> ('w \<Rightarrow> bool) \<Rightarrow> bool" where
  "kept_by_tagging tc tagged I \<longleftrightarrow>
     (\<forall>ids ts. keeps I (CreateTags (c_ec2 (tc_cloud tc)) ids ts) \<and> keeps I (DeleteTags (c_ec2 (tc_cloud tc)) ids ts))
     \<and> (\<forall>inp. keeps I (tc_create tc inp) \<and> keeps I (tc_delete tc inp))
     \<and> (\<forall>i w w'. CreateTags (c_ec2 (tc_cloud tc)) [i] (buildAwsTags (tc_tags tc)) w = (Inr (), w') \<longrightarrow> tagged i w')
     \<and> (\<forall>i w w'. tc_create tc ([i], buildAwsTags (tc_tags tc)) w = (Inr (), w') \<longrightarrow> tagged i w')
     \<and> (\<forall>n w. I w \<and> tagged (instance_or_empty (node_ProviderID n)) w \<longrightarrow>
          I (snd (tc_label tc [(taggingControllerLabelKey, getChecksumOfTags tc)] n w)))"

lemma keeps_tagEc2Instance:
  assumes "kept_by_tagging tc tagged I"
  shows "keeps I (tagEc2Instance tc now n)"
  unfolding keeps_def
proof (intro allI impI)
  fix w assume I: "I w"
  let ?i = "instance_or_empty (node_ProviderID n)"
  let ?tag = "if tc_batchingEnabled tc then TagResourceBatch (tc_create tc) ?i (tc_tags tc)
    else TagResource (c_ec2 (tc_cloud tc)) ?i (tc_tags tc)"
  obtain r w1 where tag: "?tag w = (r, w1)" by (cases "?tag w")
  have "keeps I ?tag"
    using assms unfolding kept_by_tagging_def TagResourceBatch_def TagResource_def batch_createTags_def by simp
  from keepsD [OF this I tag] have I1: "I w1" .
  have "tagged ?i w1" if "r = Inr ()"
    using assms tag that unfolding kept_by_tagging_def TagResourceBatch_def TagResource_def batch_createTags_def
    by (auto split: if_splits)
  with I1 assms have label: "I (snd (tc_label tc [(taggingControllerLabelKey, getChecksumOfTags tc)] n w1))" if "r = Inr ()"
    using that unfolding kept_by_tagging_def by blast
  show "I (snd (tagEc2Instance tc now n w))"
    using I I1 label tag unfolding tagEc2Instance_def Let_def
    by (cases r) (auto simp: run_simps split: prod.split)
qed

lemma keeps_tag_resources: "kept_by_tagging tc tagged I \<Longrightarrow> keeps I (tag_resources tc now n rs)"
proof (induction rs)
  case (Cons r rs)
  have "keeps I (bindM (tagEc2Instance tc now v) (\<lambda>_. tag_resources tc now n rs))" for v
    by (intro keeps_intros keeps_tagEc2Instance [OF Cons.prems] Cons.IH [OF Cons.prems])
  with Cons show ?case by (auto simp: keeps_def split: sum.split option.split)
qed (simp add: keeps_intros)

lemma keeps_untagNodeResources: "kept_by_tagging tc tagged I \<Longrightarrow> keeps I (untagNodeResources tc n)"
  unfolding untagNodeResources_def untagEc2Instance_def UntagResource_def UntagResourceBatch_def batch_deleteTags_def
    kept_by_tagging_def Let_def
  by (auto intro!: keeps_intros split: sum.split)

lemma process_item_keeps:
  assumes "kept_by_tagging tc tagged I" and "I (snd s)"
  shows "I (snd (process_item tc now item s))"
proof -
  obtain q w where s: "s = (q, w)" by (cases s)
  let ?n = "\<lparr>tcn_providerID = item_providerID item, tcn_name = item_name item\<rparr>"
  have "keeps I (if item_action item = addTag then tagNodesResources tc now ?n else untagNodeResources tc ?n)"
    unfolding tagNodesResources_def using keeps_tag_resources [OF assms(1)] keeps_untagNodeResources [OF assms(1)] by simp
  from keepsD [OF this] assms(2) show ?thesis
    unfolding process_item_def by (auto simp: s Let_def split: sum.splits prod.splits)
qed

text \<open>C17: In every run of the controller, whatever assertion survives tagging, untagging and the labelling of nodes whose
  instance EC2 reported as tagged survives the run: a node is labelled only after its instance was tagged.\<close>

theorem tagging_controller_labels_tagged:
  assumes "kept_by_tagging tc tagged I" and "(tc_step tc)\<^sup>*\<^sup>* s s'" and "I (snd s)"
  shows "I (snd s')"
  using assms(2,3)
proof (induction rule: rtranclp_induct)
  case (step s1 s2)
  have item: "I w \<Longrightarrow> process_item tc now item (q, w) = (q', w') \<Longrightarrow> I w'" for now item q w q' w'
    using process_item_keeps [OF assms(1), of "(q, w)" now item] by simp
  from step(2) step.IH [OF step.prems] show ?case
    by (cases rule: tc_step.cases)
      (auto simp: enqueueNode_def Let_def handled_def elim!: worker_step.cases dest: item split: prod.splits)
qed

section \<open>The label does not depend on the order of the tags\<close>

text \<open>C18: The checksum of the tags does not depend on the order in which Go ranges over the map, so that a node that was
  labelled before a restart is not tagged again: tagging it makes no call.\<close>

theorem checksum_deterministic:
  assumes "wf_map tags" and "wf_map tags'" and "set tags = set tags'"
    and "map_of (node_Labels n) taggingControllerLabelKey = Some (getChecksumOfTags (tc\<lparr>tc_tags := tags\<rparr>))"
  shows "getChecksumOfTags (tc\<lparr>tc_tags := tags\<rparr>) = getChecksumOfTags (tc\<lparr>tc_tags := tags'\<rparr>)
    \<and> tagEc2Instance (tc\<lparr>tc_tags := tags'\<rparr>) now n w = (Inr (), w)"
proof -
  have "mset tags = mset tags'"
    using assms(1-3) by (intro set_eq_iff_mset_eq_distinct [THEN iffD1]) (auto simp: wf_map_def distinct_map)
  then have "mset (map (\<lambda>(k, v). k @ ''='' @ v) tags) = mset (map (\<lambda>(k, v). k @ ''='' @ v) tags')"
    by (simp add: mset_map)
  then have "sort (map (\<lambda>(k, v). k @ ''='' @ v) tags) = sort (map (\<lambda>(k, v). k @ ''='' @ v) tags')"
    by (intro properties_for_sort) simp_all
  then have "getChecksumOfTags (tc\<lparr>tc_tags := tags\<rparr>) = getChecksumOfTags (tc\<lparr>tc_tags := tags'\<rparr>)"
    by (simp add: getChecksumOfTags_def)
  with assms(4) show ?thesis by (simp add: tagEc2Instance_def isTaggingRequired_def run_simps)
qed

text \<open>The text that is hashed does not determine the tags: a value may contain a comma.\<close>

lemma checksum_collision:
  "getChecksumOfTags (tc\<lparr>tc_tags := [(''a'', ''1,b=2'')]\<rparr>) = getChecksumOfTags (tc\<lparr>tc_tags := [(''a'', ''1''), (''b'', ''2'')]\<rparr>)"
proof -
  have "\<not> ''b=2'' < ''a=1''" by (simp add: less_char_def)
  then have "sort [''a=1'', ''b=2''] = [''a=1'', ''b=2'']" by (simp add: not_less)
  then show ?thesis by (simp add: getChecksumOfTags_def)
qed

section \<open>A concrete controller\<close>

text \<open>The world is the tagged instances and the labelled nodes; every node has the provider id of the instance with
  its name.\<close>

definition sample_tc_node :: k8s_node where
  "sample_tc_node = \<lparr>node_Name = ''i-1'', node_ProviderID = ''aws:///z/i-1'', node_Labels = [], node_CreationTimestamp = 0\<rparr>"

definition tagging_client :: "(string list \<times> string list) ec2_client" where
  "tagging_client = idle_client\<lparr>CreateTags := (\<lambda>ids ts (tagged, labelled). (Inr (), (ids @ tagged, labelled)))\<rparr>"

definition sample_tc :: "(string list \<times> string list) Controller" where
  "sample_tc = \<lparr>tc_lister = (\<lambda>_ _. Inr (Some sample_tc_node)),
     tc_label = (\<lambda>ls n (tagged, labelled). (True, (tagged, instance_or_empty (node_ProviderID n) # labelled))),
     tc_cloud = sample_cloud\<lparr>c_ec2 := tagging_client\<rparr>,
     tc_create = (\<lambda>_. throwM (APIError ''UnauthorizedOperation'' '''')), tc_delete = (\<lambda>_. returnM ()),
     tc_md5hex = (\<lambda>s. s), tc_tags = [(''k'', ''v'')], tc_resources = [''instance''], tc_rateLimitEnabled = False,
     tc_workerCount = 1, tc_batchingEnabled = False\<rparr>"

lemma sample_tc_instance: "MapToAWSInstanceID ''aws:///z/i-1'' = Inr ''i-1''" "\<not> IsVariantNode ''i-1''"
proof -
  show "MapToAWSInstanceID ''aws:///z/i-1'' = Inr ''i-1''"
    using MapToAWSInstanceID_full [of "''z''" "''i-1''"] by (simp add: resource_id_def plain_url_char_def is_ctl_def HasPrefix_def)
  show "\<not> IsVariantNode ''i-1''" by (simp add: IsVariantNode_iff HasPrefix_def)
qed

abbreviation sample_tc_item :: workItem where
  "sample_tc_item \<equiv> \<lparr>item_name = ''i-1'', item_providerID = ''aws:///z/i-1'', item_action = addTag\<rparr>"

lemma sample_tc_run:
  "enqueueNode sample_tc sample_tc_node addTag (empty_work_queue, ([], []))
     = (empty_work_queue\<lparr>wq_queue := [sample_tc_item], wq_dirty := {sample_tc_item}\<rparr>, ([], []))"
  "process sample_tc 0 (empty_work_queue\<lparr>wq_queue := [sample_tc_item], wq_dirty := {sample_tc_item}\<rparr>, ([], []))
     = Some (empty_work_queue, ([''i-1''], [''i-1'']))"
proof -
  show "enqueueNode sample_tc sample_tc_node addTag (empty_work_queue, ([], []))
     = (empty_work_queue\<lparr>wq_queue := [sample_tc_item], wq_dirty := {sample_tc_item}\<rparr>, ([], []))"
    by (simp add: enqueueNode_def sample_tc_def sample_tc_node_def wq_Add_def empty_work_queue_def Let_def)
  have tag: "tagEc2Instance sample_tc 0 sample_tc_node ([], []) = (Inr (), ([''i-1''], [''i-1'']))"
    by (simp add: tagEc2Instance_def isTaggingRequired_def sample_tc_def sample_tc_node_def Let_def run_simps TagResource_def
        tagging_client_def instance_or_empty_def sample_tc_instance)
  have "tagNodesResources sample_tc 0 \<lparr>tcn_providerID = ''aws:///z/i-1'', tcn_name = ''i-1''\<rparr> ([], [])
      = (Inr (), ([''i-1''], [''i-1'']))"
    using tag by (simp add: tagNodesResources_def sample_tc_def Instance_resource_def run_simps)
  then show "process sample_tc 0 (empty_work_queue\<lparr>wq_queue := [sample_tc_item], wq_dirty := {sample_tc_item}\<rparr>, ([], []))
     = Some (empty_work_queue, ([''i-1''], [''i-1'']))"
    by (simp add: process_def wq_Get_def process_item_def sample_tc_instance Let_def wq_Forget_def wq_Done_def
        empty_work_queue_def fun_upd_idem)
qed

lemma sample_tc_reachable: "tc_reachable sample_tc (empty_work_queue, ([''i-1''], [''i-1'']))"
proof -
  have "tc_step sample_tc (empty_work_queue, ([], []))
      (empty_work_queue\<lparr>wq_queue := [sample_tc_item], wq_dirty := {sample_tc_item}\<rparr>, ([], []))"
    unfolding sample_tc_run(1) [symmetric] by (rule tc_step.node_added)
  with process_steps [OF sample_tc_run(2)] show ?thesis
    unfolding tc_reachable_def by (blast intro: converse_rtranclp_into_rtranclp)
qed

theorem tagging_controller_ends_witness:
  "process sample_tc 0 (enqueueNode sample_tc sample_tc_node addTag (empty_work_queue, ([], [])))
     = Some (empty_work_queue, ([''i-1''], [''i-1'']))
   \<and> wq_items (fst (empty_work_queue :: workItem work_queue, ([''i-1''], [''i-1'']))) = {}"
proof -
  let ?s = "(empty_work_queue :: workItem work_queue, ([''i-1''], [''i-1'']))"
  have "\<not> worker_step (handled sample_tc) ?s s'" for s'
    by (auto simp: empty_work_queue_def wq_Get_def elim!: worker_stepE)
  with tagging_controller_ends [of sample_tc] sample_tc_reachable have "wq_items (fst ?s) = {}" by blast
  with sample_tc_run show ?thesis by simp
qed

theorem tagging_controller_queue_witness:
  "wq_NumRequeues sample_tc_item (empty_work_queue :: workItem work_queue) \<le> maxRequeuingCount
   \<and> sample_tc_item \<in> wq_dirty (fst (enqueueNode sample_tc sample_tc_node addTag (empty_work_queue, ([''i-1''], [''i-1'']))))"
  using tagging_controller_queue [OF sample_tc_reachable]
  by (auto simp: sample_tc_def sample_tc_node_def enqueueNode_def wq_Add_def Let_def)

theorem tagging_controller_labels_tagged_witness:
  "(\<lambda>(tagged, labelled). set labelled \<subseteq> set tagged) (snd (empty_work_queue :: workItem work_queue, ([''i-1''], [''i-1''])))"
proof -
  let ?I = "\<lambda>(tagged, labelled). set labelled \<subseteq> set tagged"
  have "kept_by_tagging sample_tc (\<lambda>i (tagged, labelled). i \<in> set tagged) ?I"
    by (auto simp: kept_by_tagging_def sample_tc_def tagging_client_def idle_client_def keeps_def run_simps)
  moreover have "(tc_step sample_tc)\<^sup>*\<^sup>* (empty_work_queue\<lparr>wq_queue := [sample_tc_item], wq_dirty := {sample_tc_item}\<rparr>, ([], []))
      (empty_work_queue, ([''i-1''], [''i-1'']))"
    by (rule process_steps [OF sample_tc_run(2)])
  ultimately show ?thesis by (rule tagging_controller_labels_tagged) simp
qed

theorem checksum_deterministic_witness:
  "tagEc2Instance (sample_tc\<lparr>tc_tags := [(''b'', ''2''), (''a'', ''1'')]\<rparr>) 0 (sample_tc_node\<lparr>node_Labels := [(taggingControllerLabelKey,
     getChecksumOfTags (sample_tc\<lparr>tc_tags := [(''a'', ''1''), (''b'', ''2'')]\<rparr>))]\<rparr>) ([], []) = (Inr (), ([], []))"
  by (rule checksum_deterministic [where tags = "[(''a'', ''1''), (''b'', ''2'')]", THEN conjunct2])
    (auto simp: wf_map_def)

end
