(* ===== verification/Shutdown.thy ===== *)
theory Shutdown
  imports TaggingController
begin

text \<open>
  The end of the tagging controller: \<^verbatim>\<open>Run\<close> shuts the work queue down when its context is cancelled, and each worker (\<^verbatim>\<open>work\<close>) goes on until
  the queue tells it so. A queue that is shut down accepts nothing new, and nothing that waits becomes ready any more, but items that are
  queued are still given out (\<^verbatim>\<open>queue.go\<close>, \<^verbatim>\<open>delaying_queue.go\<close>).

  The lemmas show that all workers return, that before the last one does every queued item has been handled, and that items that
  wait for a retry are lost.
\<close>

section \<open>A queue that is shut down\<close>

text \<open>The state is the number of workers that hold no item, the queue, and the world; an idle worker takes the next item or, when there is
  none, ends.\<close>

inductive drain_step ::
  "('i work_queue \<times> 'w \<Rightarrow> 'i \<Rightarrow> 'i work_queue \<times> 'w \<Rightarrow> bool) \<Rightarrow> nat \<times> 'i work_queue \<times> 'w \<Rightarrow> nat \<times> 'i work_queue \<times> 'w \<Rightarrow> bool"
  for handle where
  drain_get: "wq_Get q = Some (item, q') \<Longrightarrow> drain_step handle (Suc idle, q, w) (idle, q', w)"
| drain_finish: "item \<in> wq_processing q \<Longrightarrow> handle (q, w) item (q', w') \<Longrightarrow>
    drain_step handle (idle, q, w) (Suc idle, wq_Done item q', w')"
| drain_exit: "wq_Get q = None \<Longrightarrow> drain_step handle (Suc idle, q, w) (idle, q, w)"

inductive_cases drain_stepE: "drain_step handle (idle, q, w) s"

lemmas drain_step_cases = drain_stepE [consumes 1, case_names get finish exit]

text \<open>An item that is queued is worth three, one that a worker holds two and an idle worker one.\<close>

definition drain_measure :: "nat \<times> 'i work_queue \<times> 'w \<Rightarrow> nat" where
  "drain_measure s = (case s of (idle, q, w) \<Rightarrow> 3 * card (wq_dirty q) + 2 * card (wq_processing q) + idle)"

text \<open>As long as items are left there is a worker.\<close>

definition drain_inv :: "nat \<times> 'i work_queue \<times> 'w \<Rightarrow> bool" where
  "drain_inv s = (case s of (idle, q, w) \<Rightarrow> wq_wf q \<and> (idle > 0 \<or> wq_processing q \<noteq> {} \<or> wq_dirty q = {}))"

lemma wq_Get_cards:
  assumes "wq_wf q" and "wq_Get q = Some (item, q')"
  shows "Suc (card (wq_dirty q')) = card (wq_dirty q)" and "card (wq_processing q') = Suc (card (wq_processing q))"
    and "wq_processing q' \<noteq> {}"
proof -
  have q': "wq_dirty q' = wq_dirty q - {item}" "wq_processing q' = insert item (wq_processing q)" "item \<in> set (wq_queue q)"
    using assms(2) by (auto simp: wq_Get_def split: list.splits)
  then have item: "item \<in> wq_dirty q" "item \<notin> wq_processing q" using assms(1) by (auto simp: wq_wf_def)
  show "Suc (card (wq_dirty q')) = card (wq_dirty q)"
    using assms(1) q' item card_Suc_Diff1 [of "wq_dirty q" item] by (simp add: wq_wf_def)
  show "card (wq_processing q') = Suc (card (wq_processing q))" "wq_processing q' \<noteq> {}"
    using assms(1) q' item by (simp_all add: wq_wf_def)
qed

context bounded_retry
begin

lemma handled_sets:
  assumes "handled (q, w) item (q', w')"
  shows "wq_dirty q' = wq_dirty q" and "wq_processing q' = wq_processing q" and "wq_wf q \<Longrightarrow> wq_wf q'"
  using handled_queue [OF assms] by (auto simp: wq_Forget_def wq_AddRateLimited_def wq_wf_def)

lemma drain_progress:
  assumes "drain_step handled (idle, q, w) s" and "wq_wf q"
  shows "drain_measure s < drain_measure (idle, q, w)"
  using assms(1)
proof (cases rule: drain_step_cases)
  case (get item q' i)
  with wq_Get_cards [OF assms(2) get(3)] show ?thesis by (simp add: drain_measure_def)
next
  case (finish item q' w')
  note h = handled_sets [OF finish(3)]
  have "finite (wq_processing q)" using assms(2) by (simp add: wq_wf_def)
  then have "Suc (card (wq_processing q - {item})) = card (wq_processing q)" by (rule card_Suc_Diff1) (rule finish(2))
  with finish(1) h show ?thesis by (simp add: drain_measure_def wq_Done_def Let_def)
qed (simp add: drain_measure_def)

lemma drain_keeps:
  assumes "drain_step handled (idle, q, w) s" and "drain_inv (idle, q, w)"
  shows "drain_inv s"
  using assms(1)
proof (cases rule: drain_step_cases)
  case (get item q' i)
  have "wq_wf q" using assms(2) by (simp add: drain_inv_def)
  with get wq_wf_Get [OF this get(3)] wq_Get_cards(3) [OF this get(3)] show ?thesis by (simp add: drain_inv_def)
next
  case (finish item q' w')
  have "wq_wf q" using assms(2) by (simp add: drain_inv_def)
  with handled_sets [OF finish(3)] finish have "wq_wf (wq_Done item q')" by (intro wq_wf_Done) simp_all
  with finish(1) show ?thesis by (simp add: drain_inv_def)
next
  case (exit i)
  have wf: "wq_wf q" using assms(2) by (simp add: drain_inv_def)
  have "wq_queue q = []" using exit(3) by (auto simp: wq_Get_def split: list.splits)
  then have "wq_dirty q \<subseteq> wq_processing q" using wf by (auto simp: wq_wf_def)
  with exit(2) wf show ?thesis by (auto simp: drain_inv_def)
qed

lemma drain_ends: "wf {(s', s). drain_inv s \<and> drain_step handled s s'}"
  by (rule wf_subset [OF wf_measure [of drain_measure]]) (auto simp: drain_inv_def intro!: drain_progress)

lemma drain_inv_steps:
  assumes "(drain_step handled)\<^sup>*\<^sup>* s s'" and "drain_inv s"
  shows "drain_inv s'"
  using assms
proof (induction rule: rtranclp_induct)
  case (step s1 s2)
  obtain idle q w where "s1 = (idle, q, w)" by (cases s1)
  with step drain_keeps [of idle q w s2] show ?case by simp
qed

lemma drained:
  assumes "drain_inv (idle, q, w)" and stuck: "\<And>s. \<not> drain_step handled (idle, q, w) s"
  shows "idle = 0 \<and> wq_processing q = {} \<and> wq_dirty q = {} \<and> wq_queue q = []"
proof -
  have "wq_processing q = {}"
    using stuck drain_step.drain_finish [of _ q handled w] handled_total [of q w] by blast
  moreover have "idle = 0"
    using stuck drain_step.drain_get [of q] drain_step.drain_exit [of q] by (cases idle; cases "wq_Get q") force+
  ultimately show ?thesis using assms(1) by (auto simp: drain_inv_def wq_wf_def)
qed

end

section \<open>The controller\<close>

text \<open>\<^verbatim>\<open>work\<close> of a worker after the shutdown, when it is the only one; \<^verbatim>\<open>process\<close> returns false when the queue is empty. The clock is read for every item.\<close>

partial_function (option) work :: "'w Controller \<Rightarrow> ('w tc_state \<Rightarrow> int) \<Rightarrow> 'w tc_state \<Rightarrow> 'w tc_state option" where
  "work tc clock s = (case process tc (clock s) s of None \<Rightarrow> Some s | Some s' \<Rightarrow> work tc clock s')"

lemma process_drains:
  assumes "process tc now (q, w) = Some (q', w')"
  shows "\<exists>item q1. wq_Get q = Some (item, q1) \<and> drain_step (handled tc) (Suc 0, q, w) (0, q1, w)
    \<and> (wq_wf q \<longrightarrow> drain_step (handled tc) (0, q1, w) (Suc 0, q', w'))"
proof -
  obtain item q1 where get: "wq_Get q = Some (item, q1)" using assms by (auto simp: process_def split: option.splits)
  obtain q2 w2 where p: "process_item tc now item (q1, w) = (q2, w2)" by (cases "process_item tc now item (q1, w)")
  have s': "q' = wq_Done item q2" "w' = w2" using assms get p by (auto simp: process_def)
  have "item \<in> wq_processing q1" using get by (auto simp: wq_Get_def split: list.splits)
  moreover have "handled tc (q1, w) item (q2, w2)" using p by (auto simp: handled_def)
  ultimately have "drain_step (handled tc) (0, q1, w) (Suc 0, q', w')"
    unfolding s' by (rule drain_step.drain_finish)
  then show ?thesis using get drain_step.drain_get [OF get, of "handled tc" 0 w] by blast
qed

lemma work_returns:
  assumes "wq_wf q"
  shows "\<exists>q' w'. work tc clock (q, w) = Some (q', w') \<and> wq_queue q' = [] \<and> (drain_step (handled tc))\<^sup>*\<^sup>* (Suc 0, q, w) (Suc 0, q', w')"
  using assms
proof (induction "drain_measure (Suc 0, q, w)" arbitrary: q w rule: less_induct)
  case less
  show ?case
  proof (cases "process tc (clock (q, w)) (q, w)")
    case None
    then have "wq_queue q = []" by (auto simp: process_def wq_Get_def split: option.splits list.splits prod.splits)
    with None show ?thesis by (auto simp: work.simps)
  next
    case (Some s1)
    obtain q1 w1 where s1: "s1 = (q1, w1)" by (cases s1)
    obtain item qg where g: "drain_step (handled tc) (Suc 0, q, w) (0, qg, w)" "drain_step (handled tc) (0, qg, w) (Suc 0, q1, w1)"
      using process_drains [OF Some [unfolded s1]] less.prems by blast
    have inv: "drain_inv (Suc 0, q, w)" using less.prems by (simp add: drain_inv_def)
    note inv1 = tagging.drain_keeps [OF g(1) inv]
    then have wf1: "wq_wf qg" "wq_wf q1" using tagging.drain_keeps [OF g(2) inv1] by (simp_all add: drain_inv_def)
    have "drain_measure (Suc 0, q1, w1) < drain_measure (Suc 0, q, w)"
      using tagging.drain_progress [OF g(1) less.prems] tagging.drain_progress [OF g(2) wf1(1)] by linarith
    from less.hyps [OF this wf1(2)] obtain q' w' where
      "work tc clock (q1, w1) = Some (q', w')" "wq_queue q' = []" "(drain_step (handled tc))\<^sup>*\<^sup>* (Suc 0, q1, w1) (Suc 0, q', w')"
      by blast
    moreover from this(1) Some s1 have "work tc clock (q, w) = Some (q', w')" by (simp add: work.simps)
    ultimately show ?thesis using g by (meson converse_rtranclp_into_rtranclp)
  qed
qed

text \<open>C15: After the shutdown, whatever the state in which it happens, all workers return: however they interleave they take finitely many steps, and when none is left to take,
  no worker is idle or holds an item, and every item that was queued or reported again has been handled. With a single worker \<^verbatim>\<open>work\<close> itself returns, with an empty
  queue.\<close>

theorem tagging_controller_shutdown:
  assumes "tc_reachable tc (q, w)" and "idle > 0 \<or> wq_processing q \<noteq> {}"
  shows "wf {(s', s). (drain_step (handled tc))\<^sup>*\<^sup>* (idle, q, w) s \<and> drain_step (handled tc) s s'}
    \<and> (\<forall>idle' q' w'. (drain_step (handled tc))\<^sup>*\<^sup>* (idle, q, w) (idle', q', w') \<and> (\<nexists>s. drain_step (handled tc) (idle', q', w') s)
         \<longrightarrow> idle' = 0 \<and> wq_processing q' = {} \<and> wq_dirty q' = {} \<and> wq_queue q' = [])
    \<and> (\<exists>q' w'. work tc clock (q, w) = Some (q', w') \<and> wq_queue q' = [])"
proof -
  have wf: "wq_wf q" using tc_reachable_wf [OF assms(1)] by simp
  then have inv: "drain_inv (idle, q, w)" using assms(2) by (auto simp: drain_inv_def)
  have "wf {(s', s). (drain_step (handled tc))\<^sup>*\<^sup>* (idle, q, w) s \<and> drain_step (handled tc) s s'}"
    by (rule wf_subset [OF tagging.drain_ends [of tc]]) (auto dest: tagging.drain_inv_steps [OF _ inv])
  moreover have "idle' = 0 \<and> wq_processing q' = {} \<and> wq_dirty q' = {} \<and> wq_queue q' = []"
    if "(drain_step (handled tc))\<^sup>*\<^sup>* (idle, q, w) (idle', q', w')" "\<nexists>s. drain_step (handled tc) (idle', q', w') s" for idle' q' w'
    using tagging.drained [OF tagging.drain_inv_steps [OF that(1) inv]] that(2) by blast
  ultimately show ?thesis using work_returns [OF wf, of tc clock w] by blast
qed

theorem tagging_controller_shutdown_witness:
  "\<exists>q'. work sample_tc (\<lambda>s. 0) (empty_work_queue\<lparr>wq_queue := [sample_tc_item], wq_dirty := {sample_tc_item}\<rparr>, ([], []))
     = Some (q', ([''i-1''], [''i-1''])) \<and> wq_queue q' = []"
proof -
  let ?s = "(empty_work_queue\<lparr>wq_queue := [sample_tc_item], wq_dirty := {sample_tc_item}\<rparr>, ([], [])) :: (string list \<times> string list) tc_state"
  have "tc_step sample_tc (empty_work_queue, ([], [])) ?s"
    using tc_step.node_added [of sample_tc "(empty_work_queue, ([], []))" sample_tc_node] sample_tc_run(1) by simp
  then have reach: "tc_reachable sample_tc ?s" by (auto simp: tc_reachable_def intro: r_into_rtranclp)
  have r: "\<exists>q' w'. work sample_tc (\<lambda>s. 0) ?s = Some (q', w') \<and> wq_queue q' = []"
    by (rule tagging_controller_shutdown [OF reach, where idle = 1, THEN conjunct2, THEN conjunct2]) simp
  have "process sample_tc 0 (empty_work_queue, ([''i-1''], [''i-1''])) = None"
    by (simp add: process_def wq_Get_def empty_work_queue_def)
  then have "work sample_tc (\<lambda>s. 0) (empty_work_queue, ([''i-1''], [''i-1''])) = Some (empty_work_queue, ([''i-1''], [''i-1'']))"
    by (subst work.simps) simp
  then have "work sample_tc (\<lambda>s. 0) ?s = Some (empty_work_queue, ([''i-1''], [''i-1'']))"
    using sample_tc_run(2) by (subst work.simps) simp
  with r show ?thesis by auto
qed

text \<open>What waits for its retry when the queue is shut down is never tried again: no step of the workers looks at it.\<close>

lemma waiting_items_lost:
  assumes "drain_step (handled tc) (idle, q, w) (idle', q', w')" and "item \<in> set (wq_waiting q)"
  shows "item \<in> set (wq_waiting q')"
  using assms(1)
proof (cases rule: drain_step_cases)
  case (finish i q2 w2)
  from finish(3) obtain now where "process_item tc now i (q, w) = (q2, w2)" by (auto simp: handled_def)
  from process_item_queue [OF this] have "q2 = q \<or> q2 = wq_Forget i q \<or> q2 = wq_AddRateLimited i q" by blast
  with finish(1) assms(2) show ?thesis by (auto simp: wq_defs)
qed (use assms(2) in \<open>auto simp: wq_Get_def split: list.splits\<close>)

end
