(* ===== verification/Manager.thy ===== *)
theory Manager
  imports Startup Shutdown
begin

text \<open>
  The controller manager (\<^verbatim>\<open>cmd/aws-cloud-controller-manager\<close>) as far as it decides something: building the provider, and starting the
  tagging controller (\<^verbatim>\<open>tagging_controller_wrapper.go\<close>) with its flags and the handlers of node events. A call of \<^verbatim>\<open>klog.Fatalf\<close> ends the
  process; it is the value \<open>Fatal\<close>.

  The lemmas compose the components: a manager that comes up has a valid configuration and a provider with a cluster id, and the events
  that its informer delivers are steps of the controller, except for one that ends the process.
\<close>

section \<open>The provider\<close>

datatype 'a outcome = Fatal string | Running 'a

text \<open>\<open>name\<close> and \<open>allowUntagged\<close> are the flags; the factory is the one registered for the name of the provider.\<close>

definition cloudInitializer ::
  "string \<Rightarrow> bool \<Rightarrow> CloudConfig result \<Rightarrow> unit result \<Rightarrow> 'w Services \<Rightarrow> 'w \<Rightarrow> 'w Cloud outcome \<times> 'w" where
  "cloudInitializer name allowUntagged config loaded services w =
     (let providerName = (if name = '''' then ProviderName else name) in
      if providerName \<noteq> ProviderName then (Fatal ''unknown cloud provider'', w)
      else (case provider_factory config loaded services w of
          (Inl err, w) \<Rightarrow> (Fatal ''Cloud provider could not be initialized'', w)
        | (Inr c, w) \<Rightarrow>
            if \<not> HasClusterID c \<and> \<not> allowUntagged then (Fatal ''no ClusterID found'', w) else (Running c, w)))"

section \<open>The tagging controller\<close>

text \<open>The values of the flags when none is set.\<close>

definition AddFlags :: TaggingControllerOptions where
  "AddFlags = \<lparr>opt_Tags = [], opt_Resources = [], opt_RateLimit = 0, opt_BurstLimit = 0, opt_WorkerCount = 1,
     opt_BatchingEnabled = False\<rparr>"

text \<open>\<open>clients\<close> has the informer, the client of Kubernetes, the batchers and the hash; \<open>cloud\<close> is \<open>None\<close> when the provider is not the one
  of this repository.\<close>

definition NewTaggingController ::
  "'w Controller \<Rightarrow> 'w Cloud option \<Rightarrow> TaggingControllerOptions \<Rightarrow> 'w Controller result" where
  "NewTaggingController clients cloud opts = (case cloud of
     None \<Rightarrow> Inl (Errorf ''tagging controller does not support %v provider'' [])
   | Some awsCloud \<Rightarrow> Inr (clients\<lparr>tc_cloud := awsCloud, tc_tags := opt_Tags opts, tc_resources := opt_Resources opts,
       tc_rateLimitEnabled := rate_limit_enabled (opt_RateLimit opts) (opt_BurstLimit opts),
       tc_workerCount := nat (opt_WorkerCount opts), tc_batchingEnabled := opt_BatchingEnabled opts\<rparr>))"

text \<open>The number of workers that \<^verbatim>\<open>Run\<close> starts: none when the caches do not sync.\<close>

definition Run :: "'w Controller \<Rightarrow> bool \<Rightarrow> nat" where
  "Run tc synced = (if synced then tc_workerCount tc else 0)"

text \<open>The controller that runs, if one was started; invalid flags end the process, another provider only disables the
  controller.\<close>

definition startTaggingController ::
  "'w Controller \<Rightarrow> TaggingControllerOptions \<Rightarrow> 'w Cloud option \<Rightarrow> 'w Controller option outcome" where
  "startTaggingController clients opts cloud = (case Validate opts of
     Inl err \<Rightarrow> Fatal ''Tagging controller inputs are not properly set''
   | Inr _ \<Rightarrow> (case NewTaggingController clients cloud opts of
       Inl err \<Rightarrow> Running None
     | Inr tc \<Rightarrow> Running (Some tc)))"

text \<open>What the informer delivers. When it missed a deletion it delivers a \<^verbatim>\<open>DeletedFinalStateUnknown\<close> instead of the node.\<close>

datatype informer_event = NodeAdded k8s_node | NodeUpdated k8s_node k8s_node | NodeDeleted k8s_node | NodeDeletedUnknown k8s_node

fun event_handler :: "'w Controller \<Rightarrow> informer_event \<Rightarrow> 'w tc_state \<Rightarrow> 'w tc_state result" where
  "event_handler tc (NodeAdded n) s = Inr (enqueueNode tc n addTag s)"
| "event_handler tc (NodeUpdated old n) s = Inr (if \<not> isTaggingRequired tc n then s else enqueueNode tc n addTag s)"
| "event_handler tc (NodeDeleted n) s = Inr (enqueueNode tc n deleteTag s)"
| "event_handler tc (NodeDeletedUnknown n) s = Inl (Panic ''interface conversion'')"

fun_cases event_handlerE: "event_handler tc ev s = Inr s'"

section \<open>A manager that comes up\<close>

lemma provider_factory_InrD:
  assumes "provider_factory config loaded services w = (Inr c, w')"
  obtains cfg0 cfg w1 where "config = Inr cfg0" and "ValidateOverrides cfg0 = (Inr (), cfg)"
    and "newAWSCloud2 cfg services w1 = (Inr c, w')"
    and "RoleARN (Global cfg) \<noteq> '''' \<Longrightarrow> \<exists>headers. NewStsClient loaded (RoleARN (Global cfg)) (SourceARN (Global cfg)) = Inr headers"
proof -
  obtain cfg0 where cfg0: "config = Inr cfg0"
    using assms by (cases config) (auto simp: provider_factory_def throwM_run)
  obtain r cfg where v: "ValidateOverrides cfg0 = (r, cfg)" by (cases "ValidateOverrides cfg0")
  with assms cfg0 have r: "r = Inr ()" by (cases r) (auto simp: provider_factory_def throwM_run)
  show ?thesis
    using assms that [OF cfg0 v [unfolded r]] unfolding provider_factory_def cfg0 sum.case v [unfolded r] prod.case
    by (auto simp: bindM_Inr_iff wrapM_Inr_iff liftM_run returnM_run split: if_splits)
qed

text \<open>C19: A manager only runs with the provider \<^verbatim>\<open>aws\<close>, built from a configuration whose overrides are valid. This provider has a cluster id
  and a family of addresses; its VPC is the configured one when it is configured to run elsewhere, and otherwise whatever EC2 reports for the
  instance that the metadata names (which may be none); its region is what the configuration or the metadata gives; and when a role is to be assumed
  its ARN is valid. The flag that allows untagged clusters does not matter, whatever its message says: without a cluster id building the provider fails.\<close>

theorem cloudInitializer_ok:
  assumes "cloudInitializer name allowUntagged config loaded services w = (Running c, w')"
  shows "provider_ok c \<and> name \<in> {'''', ProviderName}
    \<and> (\<exists>cfg0 cfg metadata w1 w2. config = Inr cfg0 \<and> ValidateOverrides cfg0 = (Inr (), cfg)
        \<and> c_cfg c = cfg\<lparr>Global := (Global cfg)\<lparr>NodeIPFamilies := NodeIPFamilies (c_global c)\<rparr>\<rparr>
        \<and> (if dummy_instance (Global cfg) then c_vpcID c = VPC (Global cfg) \<and> c_vpcID c \<noteq> '''' else \<exists>inst. runs_on c inst)
        \<and> sv_Metadata services = Inr metadata \<and> getRegionFromMetadata cfg metadata w1 = (Inr (c_region c), w2)
        \<and> (RoleARN (Global cfg) = '''' \<or> (\<exists>account. arn_AccountID (RoleARN (Global cfg)) = Inr account)))
    \<and> cloudInitializer name (\<not> allowUntagged) config loaded services w = (Running c, w')"
proof -
  have name: "name \<in> {'''', ProviderName}" and factory: "provider_factory config loaded services w = (Inr c, w')"
    using assms by (auto simp: cloudInitializer_def Let_def split: if_splits prod.splits sum.splits)
  obtain cfg0 cfg w1 where f: "config = Inr cfg0" "ValidateOverrides cfg0 = (Inr (), cfg)" "newAWSCloud2 cfg services w1 = (Inr c, w')"
    "RoleARN (Global cfg) \<noteq> '''' \<Longrightarrow> \<exists>headers. NewStsClient loaded (RoleARN (Global cfg)) (SourceARN (Global cfg)) = Inr headers"
    by (rule provider_factory_InrD [OF factory]) blast
  note ok = newAWSCloud2_ok [OF f(3)]
  then have id: "HasClusterID c" by (simp add: provider_ok_def)
  have "RoleARN (Global cfg) = '''' \<or> (\<exists>account. arn_AccountID (RoleARN (Global cfg)) = Inr account)"
    using f(4) by (auto simp: NewStsClient_def bindR_Inr_iff Let_def)
  moreover have "cloudInitializer name (\<not> allowUntagged) config loaded services w = (Running c, w')"
    using name factory id by (auto simp: cloudInitializer_def Let_def)
  ultimately show ?thesis using ok f(1,2) name by blast
qed

theorem cloudInitializer_ok_witness:
  "\<exists>c. cloudInitializer '''' False (Inr on_premises_config) (Inr ()) sample_services () = (Running c, ()) \<and> provider_ok c
     \<and> c_vpcID c = ''vpc-9'' \<and> cloudInitializer '''' True (Inr on_premises_config) (Inr ()) sample_services () = (Running c, ())"
proof -
  obtain c where run: "newAWSCloud2 on_premises_config sample_services () = (Inr c, ())" and "provider_ok c"
    using newAWSCloud2_ok_example by blast
  then have id: "HasClusterID c" by (simp add: provider_ok_def)
  have "getRegionFromMetadata on_premises_config (c_metadata sample_cloud) () = (Inr (c_region c), ())"
    using newAWSCloud2_ok [OF run] by (auto simp: sample_services_def)
  then have "provider_factory (Inr on_premises_config) (Inr ()) sample_services () = (Inr c, ())"
    using run by (simp add: provider_factory_def run_simps ValidateOverrides_def on_premises_config_def sample_services_def sample_global_def)
  then have "cloudInitializer '''' False (Inr on_premises_config) (Inr ()) sample_services () = (Running c, ())"
    using id by (simp add: cloudInitializer_def)
  moreover have "dummy_instance (Global on_premises_config)" "VPC (Global on_premises_config) = ''vpc-9''"
    "ValidateOverrides on_premises_config = (Inr (), on_premises_config)"
    by (simp_all add: dummy_instance_def on_premises_config_def sample_global_def ValidateOverrides_def)
  ultimately show ?thesis using cloudInitializer_ok [of "''''" False "Inr on_premises_config" "Inr ()" sample_services "()" c "()"] by auto
qed

text \<open>The flags must be set: without them the process ends. A controller that starts tags something and has a worker.\<close>

lemma AddFlags_not_enough: "startTaggingController clients AddFlags cloud = Fatal ''Tagging controller inputs are not properly set''"
  by (simp add: startTaggingController_def Validate_def AddFlags_def)

lemma startTaggingController_runs:
  assumes "startTaggingController clients opts cloud = Running (Some tc)"
  shows "tc_tags tc \<noteq> []" and "tc_resources tc \<noteq> []" and "Run tc True > 0" and "cloud = Some (tc_cloud tc)"
    and "tc_rateLimitEnabled tc \<longleftrightarrow> opt_RateLimit opts > 0 \<and> opt_BurstLimit opts > 0"
  using assms by (auto simp: startTaggingController_def Validate_def NewTaggingController_def Run_def rate_limit_enabled_def
      split: sum.splits option.splits if_splits)

text \<open>Events are steps of the controller, so what holds in its reachable states holds after any events; a node that is already tagged
  changes nothing.\<close>

lemma event_handler_step:
  assumes "event_handler tc ev s = Inr s'"
  shows "s' = s \<or> tc_step tc s s'"
  using assms by (elim event_handlerE) (auto intro: tc_step.intros)

lemma event_handler_reachable:
  assumes "tc_reachable tc s" and "event_handler tc ev s = Inr s'"
  shows "tc_reachable tc s'"
  using assms event_handler_step [OF assms(2)] by (auto simp: tc_reachable_def intro: rtranclp.rtrancl_into_rtrancl)

text \<open>A deletion that the informer missed panics, whatever the state.\<close>

lemma missed_deletion_panics: "\<exists>m. event_handler tc (NodeDeletedUnknown n) s = Inl (Panic m)"
  by simp

text \<open>The informer of the nodes, which the manager gives to the provider; until then a node is looked up without it.\<close>

definition SetInformers :: "node list \<Rightarrow> 'w Cloud \<Rightarrow> 'w Cloud" where
  "SetInformers nodes c = c\<lparr>c_informer := Some nodes\<rparr>"

lemma SetInformers_keeps_ok: "provider_ok c \<Longrightarrow> provider_ok (SetInformers nodes c)"
  by (auto simp: provider_ok_def SetInformers_def HasClusterID_def)

end
