(* ===== verification/Retry.thy ===== *)
theory Retry
  imports Complex_Main AwsApi
begin

text \<open>
  Delays across requests (\<^verbatim>\<open>retry_handler.go\<close>) and the delayers of the regions (\<^verbatim>\<open>aws_sdk.go\<close>). All requests to a region share
  a \<^verbatim>\<open>Backoff\<close> that counts requests and throttling errors in \<^verbatim>\<open>float32\<close> and delays requests when the share of errors is
  high. Floating point numbers are real numbers and every operation is rounded; the rounding functions are
  parameters, with what IEEE 754 promises of them as the assertion \<open>ieee\<close>, so that the results hold for the rounding that the
  machine uses. Times are in seconds or nanoseconds, as in the code. The SDK, which sends the request and decides
  which errors are retried, is a parameter; the order of the middleware is the one that \<^verbatim>\<open>AddMiddleware\<close> sets up.

  The lemmas show that requests that do not overlap are delayed by whole seconds and by at most the maximal delay,
  and that overlapping requests can be delayed for longer.
\<close>

section \<open>Floating point numbers\<close>

record float_ops =
  f32 :: "real \<Rightarrow> real"
  f64 :: "real \<Rightarrow> real"
  math_Pow :: "real \<Rightarrow> real \<Rightarrow> real"

text \<open>Conversion to an integer drops the fraction.\<close>

definition trunc :: "real \<Rightarrow> int" where
  "trunc x = (if 0 \<le> x then \<lfloor>x\<rfloor> else \<lceil>x\<rceil>)"

section \<open>The backoff\<close>

definition decayIntervalSeconds :: int where
  "decayIntervalSeconds = 20"

text \<open>The constant 0.8 as a \<^verbatim>\<open>float64\<close>.\<close>

definition decayFraction :: real where
  "decayFraction = 3602879701896397 / 4503599627370496"

text \<open>One minute in nanoseconds.\<close>

definition maxDelay :: int where
  "maxDelay = 60 * 1000000000"

record Backoff =
  bo_decayIntervalSeconds :: int
  bo_decayFraction :: real
  bo_maxDelay :: int
  bo_countErrorsRequestLimit :: real
  bo_countRequests :: real
  bo_lastDecay :: int

definition Backoff_init :: "int \<Rightarrow> int \<Rightarrow> real \<Rightarrow> int \<Rightarrow> Backoff" where
  "Backoff_init now interval fraction delay = \<lparr>bo_decayIntervalSeconds = interval, bo_decayFraction = fraction,
     bo_maxDelay = delay, bo_countErrorsRequestLimit = 0, bo_countRequests = 4, bo_lastDecay = now\<rparr>"

definition NewCrossRequestRetryDelay :: "int \<Rightarrow> Backoff" where
  "NewCrossRequestRetryDelay now = Backoff_init now decayIntervalSeconds decayFraction maxDelay"

text \<open>The counters fade.\<close>

definition decay_counts :: "float_ops \<Rightarrow> int \<Rightarrow> Backoff \<Rightarrow> Backoff" where
  "decay_counts ops now b =
     (let timeDeltaSeconds = now - bo_lastDecay b in
      if timeDeltaSeconds > bo_decayIntervalSeconds b then
        (let intervals = f64 ops (f64 ops (real_of_int timeDeltaSeconds) / f64 ops (real_of_int (bo_decayIntervalSeconds b)));
             decay = f32 ops (math_Pow ops (bo_decayFraction b) intervals)
         in b\<lparr>bo_countErrorsRequestLimit := f32 ops (bo_countErrorsRequestLimit b * decay),
              bo_countRequests := f32 ops (bo_countRequests b * decay), bo_lastDecay := now\<rparr>)
      else b)"

definition error_fraction :: "float_ops \<Rightarrow> Backoff \<Rightarrow> real" where
  "error_fraction ops b =
     (if bo_countRequests b > 1 / 2 then f32 ops (bo_countErrorsRequestLimit b / bo_countRequests b) else 0)"

text \<open>The seconds of a duration in nanoseconds, \<^verbatim>\<open>Duration.Seconds\<close>.\<close>

definition Seconds :: "float_ops \<Rightarrow> int \<Rightarrow> real" where
  "Seconds ops d = f64 ops (f64 ops (real_of_int (d div 1000000000)) + f64 ops (f64 ops (real_of_int (d mod 1000000000)) / 1000000000))"

definition ComputeDelayForRequest :: "float_ops \<Rightarrow> int \<Rightarrow> Backoff \<Rightarrow> int \<times> Backoff" where
  "ComputeDelayForRequest ops now b =
     (let b = decay_counts ops now b;
          b = b\<lparr>bo_countRequests := f32 ops (bo_countRequests b + 1)\<rparr>;
          errorFraction = error_fraction ops b
      in if errorFraction < f32 ops (1 / 10) then (0, b)
         else (let delay = trunc (f32 ops (f32 ops (real_of_int (bo_maxDelay b)) * errorFraction))
               in (1000000000 * trunc (Seconds ops delay), b)))"

definition ReportError :: "float_ops \<Rightarrow> Backoff \<Rightarrow> Backoff" where
  "ReportError ops b = b\<lparr>bo_countErrorsRequestLimit := f32 ops (bo_countErrorsRequestLimit b + 1)\<rparr>"

section \<open>Middleware\<close>

definition nonRetryableError :: string where
  "nonRetryableError = ''non-retryable error''"

text \<open>\<open>retryable\<close> is the decision of the standard retryer.\<close>

definition IsErrorRetryable :: "(go_error \<Rightarrow> bool) \<Rightarrow> go_error \<Rightarrow> bool" where
  "IsErrorRetryable retryable err = (if Contains (Error err) nonRetryableError then False else retryable err)"

text \<open>The state is the backoff of the region and the world; \<open>clock\<close> and \<open>cancelled\<close> read the time and whether the context is
  cancelled while the request sleeps.\<close>

definition delayPreSign ::
  "float_ops \<Rightarrow> ('w \<Rightarrow> int) \<Rightarrow> ('w \<Rightarrow> bool) \<Rightarrow> (Backoff \<times> 'w, 'a) aws \<Rightarrow> (Backoff \<times> 'w, 'a) aws" where
  "delayPreSign ops clock cancelled call = (\<lambda>(b, w).
     case ComputeDelayForRequest ops (clock w) b of (delay, b) \<Rightarrow>
       if delay > 0 \<and> cancelled w then (Inl (Errorf nonRetryableError []), (b, w)) else call (b, w))"

text \<open>The text of the first API error in the chain of an error.\<close>

fun api_error_message :: "go_error \<Rightarrow> string option" where
  "api_error_message (APIError code text) = Some (Error (APIError code text))"
| "api_error_message (Wrapf f as e) = api_error_message e"
| "api_error_message (Joined es) =
     (case List.map_filter (\<lambda>x. x) (map api_error_message es) of [] \<Rightarrow> None | m # ms \<Rightarrow> Some m)"
| "api_error_message e = None"

text \<open>\<open>throttled\<close> counts the throttled request in the metrics.\<close>

definition delayAfterRetry ::
  "float_ops \<Rightarrow> ('w \<Rightarrow> 'w) \<Rightarrow> (Backoff \<times> 'w, 'a) aws \<Rightarrow> (Backoff \<times> 'w, 'a) aws" where
  "delayAfterRetry ops throttled call = (\<lambda>s. case call s of
     (Inr x, s) \<Rightarrow> (Inr x, s)
   | (Inl err, (b, w)) \<Rightarrow> (case api_error_message err of
       Some message \<Rightarrow>
         (Inl err, if Contains message ''RequestLimitExceeded'' then (ReportError ops b, throttled w) else (b, w))
     | None \<Rightarrow> (Inl err, (b, w))))"

text \<open>The retry loop of the SDK makes at most \<open>Suc n\<close> attempts.\<close>

fun retry_loop :: "nat \<Rightarrow> (go_error \<Rightarrow> bool) \<Rightarrow> ('s, 'a) aws \<Rightarrow> ('s, 'a) aws" where
  "retry_loop 0 retryable attempt s = attempt s"
| "retry_loop (Suc n) retryable attempt s = (case attempt s of
     (Inr x, s) \<Rightarrow> (Inr x, s)
   | (Inl err, s) \<Rightarrow> if retryable err then retry_loop n retryable attempt s else (Inl err, s))"

text \<open>A request with both middlewares around the retries, so both run once for a call and not for every attempt. That this is
  the order in which \<^verbatim>\<open>AddMiddleware\<close> puts them is shown in \<open>SdkClients\<close>.\<close>

definition aws_request ::
  "float_ops \<Rightarrow> nat \<Rightarrow> (go_error \<Rightarrow> bool) \<Rightarrow> ('w \<Rightarrow> int) \<Rightarrow> ('w \<Rightarrow> bool) \<Rightarrow> ('w \<Rightarrow> 'w) \<Rightarrow> ('w, 'a) aws
   \<Rightarrow> (Backoff \<times> 'w, 'a) aws" where
  "aws_request ops n retryable clock cancelled throttled send =
     delayPreSign ops clock cancelled (delayAfterRetry ops throttled (\<lambda>(b, w).
       case retry_loop n (IsErrorRetryable retryable) send w of (r, w) \<Rightarrow> (r, (b, w))))"

text \<open>The delayers of the regions: one for each region, made when it is first asked for. The map holds pointers, so
  the region names the delayer.\<close>

definition getCrossRequestRetryDelay :: "int \<Rightarrow> string \<Rightarrow> (string, Backoff) gomap \<Rightarrow> Backoff \<times> (string, Backoff) gomap" where
  "getCrossRequestRetryDelay now regionName delayers = (case map_of delayers regionName of
     Some delayer \<Rightarrow> (delayer, delayers)
   | None \<Rightarrow> (let delayer = NewCrossRequestRetryDelay now in (delayer, mput regionName delayer delayers)))"

section \<open>Delays of requests that do not overlap\<close>

text \<open>What IEEE 754 promises of rounding to the nearest: it is monotone, numbers that can be represented are not changed, and
  the relative error is at most half a unit in the last place; halves of integers of 53 bits can be represented in 64 bits. Powers of a number between zero and one are not negative.\<close>

definition ieee :: "float_ops \<Rightarrow> bool" where
  "ieee ops \<longleftrightarrow> mono (f32 ops) \<and> (\<forall>x. f32 ops (f32 ops x) = f32 ops x) \<and> (\<forall>n. \<bar>n\<bar> \<le> 2 ^ 24 \<longrightarrow> f32 ops (real_of_int n) = real_of_int n)
     \<and> (\<forall>x \<ge> 1. f32 ops x \<le> x * (1 + 1 / 2 ^ 24)) \<and> mono (f64 ops) \<and> (\<forall>n. \<bar>n\<bar> \<le> 2 ^ 53 \<longrightarrow> f64 ops (real_of_int n / 2) = real_of_int n / 2)
     \<and> (\<forall>x y. 0 \<le> x \<longrightarrow> 0 \<le> math_Pow ops x y)"

lemma f32_int: "ieee ops \<Longrightarrow> \<bar>n\<bar> \<le> 2 ^ 24 \<Longrightarrow> f32 ops (real_of_int n) = real_of_int n"
  unfolding ieee_def by blast

lemma ieeeD:
  assumes "ieee ops"
  shows "x \<le> y \<Longrightarrow> f32 ops x \<le> f32 ops y" and "f32 ops (f32 ops x) = f32 ops x" and "f32 ops 0 = 0" and "f32 ops 1 = 1"
    and "1 \<le> x \<Longrightarrow> f32 ops x \<le> x * (1 + 1 / 2 ^ 24)" and "x \<le> y \<Longrightarrow> f64 ops x \<le> f64 ops y"
    and "\<bar>n\<bar> \<le> 2 ^ 53 \<Longrightarrow> f64 ops (real_of_int n / 2) = real_of_int n / 2" and "0 \<le> x \<Longrightarrow> 0 \<le> math_Pow ops x y"
proof -
  show "f32 ops 0 = 0" "f32 ops 1 = 1" using f32_int [OF assms, of 0] f32_int [OF assms, of 1] by simp_all
qed (use assms in \<open>auto simp: ieee_def dest: monoD\<close>)

lemma f32_nonneg: "ieee ops \<Longrightarrow> 0 \<le> x \<Longrightarrow> 0 \<le> f32 ops x"
  using ieeeD(1) [of ops 0 x] ieeeD(3) [of ops] by simp

text \<open>The settings of \<^verbatim>\<open>NewCrossRequestRetryDelay\<close>, and no more errors than requests.\<close>

definition backoff_ok :: "float_ops \<Rightarrow> Backoff \<Rightarrow> bool" where
  "backoff_ok ops b \<longleftrightarrow> bo_maxDelay b = maxDelay \<and> bo_decayFraction b = decayFraction
     \<and> 0 \<le> bo_countErrorsRequestLimit b \<and> bo_countErrorsRequestLimit b \<le> bo_countRequests b
     \<and> f32 ops (bo_countRequests b) = bo_countRequests b"

text \<open>After a request was counted there is room for one more error.\<close>

definition backoff_counted :: "float_ops \<Rightarrow> Backoff \<Rightarrow> bool" where
  "backoff_counted ops b \<longleftrightarrow> backoff_ok ops b \<and> f32 ops (bo_countErrorsRequestLimit b + 1) \<le> bo_countRequests b"

lemma decay_counts_ok:
  assumes "ieee ops" and "backoff_ok ops b"
  shows "backoff_ok ops (decay_counts ops now b)"
proof -
  let ?d = "f32 ops (math_Pow ops (bo_decayFraction b)
    (f64 ops (f64 ops (real_of_int (now - bo_lastDecay b)) / f64 ops (real_of_int (bo_decayIntervalSeconds b)))))"
  have "0 \<le> ?d"
    using assms by (intro f32_nonneg ieeeD(8)) (auto simp: backoff_ok_def decayFraction_def)
  with assms have "f32 ops (bo_countErrorsRequestLimit b * ?d) \<le> f32 ops (bo_countRequests b * ?d)"
    "0 \<le> f32 ops (bo_countErrorsRequestLimit b * ?d)"
    by (auto simp: backoff_ok_def intro!: ieeeD(1) f32_nonneg mult_right_mono)
  with assms show ?thesis
    by (auto simp: decay_counts_def Let_def backoff_ok_def ieeeD(2))
qed

lemma count_request_ok:
  assumes "ieee ops" and "backoff_ok ops b"
  shows "backoff_counted ops (b\<lparr>bo_countRequests := f32 ops (bo_countRequests b + 1)\<rparr>)"
proof -
  have "bo_countRequests b \<le> f32 ops (bo_countRequests b + 1)"
    using ieeeD(1) [OF assms(1), of "bo_countRequests b" "bo_countRequests b + 1"] assms(2) by (simp add: backoff_ok_def)
  with assms show ?thesis
    by (auto simp: backoff_counted_def backoff_ok_def ieeeD(2) intro: ieeeD(1))
qed

lemma error_fraction_range:
  assumes "ieee ops" and "backoff_ok ops b"
  shows "0 \<le> error_fraction ops b" and "error_fraction ops b \<le> 1"
proof -
  show "0 \<le> error_fraction ops b"
    using assms by (auto simp: error_fraction_def backoff_ok_def intro!: f32_nonneg)
  show "error_fraction ops b \<le> 1"
    using assms ieeeD(1) [OF assms(1), of "bo_countErrorsRequestLimit b / bo_countRequests b" 1]
    by (auto simp: error_fraction_def backoff_ok_def ieeeD(4) divide_le_eq)
qed

lemma f64_int: "ieee ops \<Longrightarrow> \<bar>n\<bar> \<le> 2 ^ 52 \<Longrightarrow> f64 ops (real_of_int n) = real_of_int n"
  using ieeeD(7) [of ops "2 * n"] by simp

text \<open>A duration of at most 60.5 seconds has at most 60 whole seconds, also after rounding.\<close>

lemma trunc_Seconds_le:
  assumes ops: "ieee ops" and d: "0 \<le> d" "d \<le> 60500000000"
  shows "0 \<le> trunc (Seconds ops d)" and "trunc (Seconds ops d) \<le> 60"
proof -
  let ?sec = "d div 1000000000" and ?nsec = "d mod 1000000000"
  have sec: "0 \<le> ?sec" "?sec \<le> 60" using d by auto
  have f: "f64 ops (real_of_int ?sec) = real_of_int ?sec" "f64 ops (real_of_int ?nsec) = real_of_int ?nsec"
    using sec by (intro f64_int [OF ops]; auto)+
  let ?frac = "f64 ops (real_of_int ?nsec / 1000000000)"
  have "f64 ops 0 \<le> ?frac" by (rule ieeeD(6) [OF ops]) simp
  then have frac: "0 \<le> ?frac" using f64_int [OF ops, of 0] by simp
  have S: "Seconds ops d = f64 ops (real_of_int ?sec + ?frac)" by (simp add: Seconds_def f)
  have "f64 ops 0 \<le> Seconds ops d" unfolding S using sec frac by (intro ieeeD(6) [OF ops]) simp
  then have nonneg: "0 \<le> Seconds ops d" using f64_int [OF ops, of 0] by simp
  have upper: "real_of_int ?sec + ?frac \<le> real_of_int 121 / 2"
  proof (cases "?sec = 60")
    case True
    then have "?nsec \<le> 500000000" using d div_mult_mod_eq [of d 1000000000] by simp
    then have "?frac \<le> f64 ops (real_of_int 1 / 2)" by (intro ieeeD(6) [OF ops]) simp
    with True show ?thesis using ieeeD(7) [OF ops, of 1] by simp
  next
    case False
    have "?nsec \<le> 1000000000" using d by auto
    then have "?frac \<le> f64 ops (real_of_int 1)" by (intro ieeeD(6) [OF ops]) simp
    then have "?frac \<le> 1" using f64_int [OF ops, of 1] by simp
    moreover have "real_of_int ?sec \<le> 59" using False sec by linarith
    ultimately show ?thesis by simp
  qed
  have "Seconds ops d \<le> f64 ops (real_of_int 121 / 2)" unfolding S by (rule ieeeD(6) [OF ops upper])
  then have "Seconds ops d \<le> 121 / 2" using ieeeD(7) [OF ops, of 121] by simp
  then have "\<lfloor>Seconds ops d\<rfloor> \<le> 60" by linarith
  with nonneg show "0 \<le> trunc (Seconds ops d)" "trunc (Seconds ops d) \<le> 60" by (auto simp: trunc_def)
qed

lemma scaled_delay_le:
  assumes ops: "ieee ops" and x: "0 \<le> x" "x \<le> 1"
  shows "0 \<le> trunc (f32 ops (f32 ops (real_of_int maxDelay) * x))"
    and "trunc (f32 ops (f32 ops (real_of_int maxDelay) * x)) \<le> 60500000000"
proof -
  let ?m = "f32 ops (real_of_int maxDelay)"
  have m: "0 \<le> ?m" "?m \<le> 60000010000"
    using f32_nonneg [OF ops, of "real_of_int maxDelay"] ieeeD(5) [OF ops, of "real_of_int maxDelay"] by (auto simp: maxDelay_def)
  then have "?m * x \<le> 60000010000" using x by (metis mult_left_le order_trans)
  then have "f32 ops (?m * x) \<le> f32 ops 60000010000" by (rule ieeeD(1) [OF ops])
  also have "\<dots> \<le> 60500000000" using ieeeD(5) [OF ops, of 60000010000] by simp
  finally have "f32 ops (?m * x) \<le> 60500000000" .
  moreover have "0 \<le> f32 ops (?m * x)" using m x by (intro f32_nonneg [OF ops]) simp
  ultimately show "0 \<le> trunc (f32 ops (?m * x))" "trunc (f32 ops (?m * x)) \<le> 60500000000"
    by (auto simp: trunc_def floor_le_iff)
qed

lemma ComputeDelayForRequest_range:
  assumes "ieee ops" and "backoff_ok ops b" and "ComputeDelayForRequest ops now b = (delay, b')"
  shows "0 \<le> delay" and "delay \<le> maxDelay" and "1000000000 dvd delay" and "backoff_counted ops b'"
proof -
  define b1 where "b1 = (decay_counts ops now b)\<lparr>bo_countRequests := f32 ops (bo_countRequests (decay_counts ops now b) + 1)\<rparr>"
  have b1: "backoff_counted ops b1"
    unfolding b1_def by (rule count_request_ok [OF assms(1) decay_counts_ok [OF assms(1,2)]])
  then have ok: "backoff_ok ops b1" by (simp add: backoff_counted_def)
  have run: "(delay, b') = (if error_fraction ops b1 < f32 ops (1 / 10) then (0, b1)
      else (1000000000 * trunc (Seconds ops (trunc (f32 ops (f32 ops (real_of_int (bo_maxDelay b1)) * error_fraction ops b1)))), b1))"
    using assms(3) by (auto simp: ComputeDelayForRequest_def Let_def b1_def split: if_splits)
  have m: "bo_maxDelay b1 = maxDelay" using ok by (simp add: backoff_ok_def)
  note s = trunc_Seconds_le [OF assms(1) scaled_delay_le [OF assms(1) error_fraction_range [OF assms(1) ok]]]
  have "maxDelay = 1000000000 * 60" by (simp add: maxDelay_def)
  with run s m show "0 \<le> delay" "delay \<le> maxDelay" "1000000000 dvd delay"
    by (auto split: if_splits)
  from run b1 show "backoff_counted ops b'" by (auto split: if_splits)
qed

lemma ReportError_ok:
  assumes "ieee ops" and "backoff_counted ops b"
  shows "backoff_ok ops (ReportError ops b)"
  using assms by (auto simp: ReportError_def backoff_counted_def backoff_ok_def intro!: f32_nonneg)

text \<open>C22: Requests of a region that do not overlap are delayed by whole seconds and by at most the maximal delay, whatever the
  times and errors: the new backoff has no more errors than requests, every request keeps that so, on success, on any error
  and when the context is cancelled, and the delay computed in such a state is within its bounds, for every rounding of
  IEEE 754.\<close>

theorem sequential_delays_bounded:
  assumes "ieee ops"
  shows "backoff_ok ops (NewCrossRequestRetryDelay t)
    \<and> (\<forall>b now. backoff_ok ops b \<longrightarrow> (case ComputeDelayForRequest ops now b of (delay, b') \<Rightarrow>
         0 \<le> delay \<and> delay \<le> maxDelay \<and> 1000000000 dvd delay))
    \<and> keeps (\<lambda>(b, w). backoff_ok ops b) (aws_request ops n retryable clock cancelled throttled send)"
proof (intro conjI)
  show "backoff_ok ops (NewCrossRequestRetryDelay t)"
    using f32_int [OF assms, of 4] by (simp add: backoff_ok_def NewCrossRequestRetryDelay_def Backoff_init_def)
  show "\<forall>b now. backoff_ok ops b \<longrightarrow> (case ComputeDelayForRequest ops now b of (delay, b') \<Rightarrow>
      0 \<le> delay \<and> delay \<le> maxDelay \<and> 1000000000 dvd delay)"
    using ComputeDelayForRequest_range [OF assms] by (auto split: prod.split)
  show "keeps (\<lambda>(b, w). backoff_ok ops b) (aws_request ops n retryable clock cancelled throttled send)"
    unfolding keeps_def
  proof (intro allI impI)
    fix s :: "Backoff \<times> 'a"
    assume "case s of (b, w) \<Rightarrow> backoff_ok ops b"
    then obtain b w where s: "s = (b, w)" and ok: "backoff_ok ops b" by (cases s) auto
    obtain delay b1 where c: "ComputeDelayForRequest ops (clock w) b = (delay, b1)"
      by (cases "ComputeDelayForRequest ops (clock w) b")
    have b1: "backoff_counted ops b1" by (rule ComputeDelayForRequest_range(4) [OF assms ok c])
    then have "backoff_ok ops b1" "backoff_ok ops (ReportError ops b1)"
      by (simp_all add: backoff_counted_def ReportError_ok [OF assms b1])
    then show "case snd (aws_request ops n retryable clock cancelled throttled send s) of (b, w) \<Rightarrow> backoff_ok ops b"
      by (auto simp: s aws_request_def delayPreSign_def delayAfterRetry_def c split: sum.split prod.split option.split)
  qed
qed

text \<open>Exact arithmetic is one of the roundings.\<close>

definition exact_ops :: float_ops where
  "exact_ops = \<lparr>f32 = (\<lambda>x. x), f64 = (\<lambda>x. x), math_Pow = (\<lambda>x y. x powr y)\<rparr>"

lemma exact_ops_ieee: "ieee exact_ops"
  by (auto simp: ieee_def exact_ops_def mono_def)

theorem sequential_delays_bounded_witness:
  "case ComputeDelayForRequest exact_ops 1 (NewCrossRequestRetryDelay 0) of (delay, b') \<Rightarrow>
     0 \<le> delay \<and> delay \<le> maxDelay \<and> 1000000000 dvd delay"
proof -
  note all = sequential_delays_bounded [OF exact_ops_ieee, of 0 0 "\<lambda>_. False" "\<lambda>_ :: unit. 0" "\<lambda>_. False" "\<lambda>w. w" "returnM ()"]
  from all have "backoff_ok exact_ops (NewCrossRequestRetryDelay 0)" by (rule conjunct1)
  with all [THEN conjunct2, THEN conjunct1] show ?thesis by simp
qed

text \<open>Requests that overlap: a hundred requests are counted at once and fail after a minute, when their counts have faded;
  the next request is delayed by 108 seconds, which is more than the maximal delay.\<close>

definition overlapping_backoff :: Backoff where
  "overlapping_backoff =
     (ReportError exact_ops ^^ 100) (snd (ComputeDelayForRequest exact_ops 60
        (((\<lambda>b. snd (ComputeDelayForRequest exact_ops 0 b)) ^^ 100) (NewCrossRequestRetryDelay 0))))"

lemma count_requests_at_once:
  "((\<lambda>b. snd (ComputeDelayForRequest exact_ops 0 b)) ^^ k) (NewCrossRequestRetryDelay 0)
     = (NewCrossRequestRetryDelay 0)\<lparr>bo_countRequests := 4 + real k\<rparr>"
  by (induction k) (simp_all add: ComputeDelayForRequest_def decay_counts_def Let_def exact_ops_def error_fraction_def
      NewCrossRequestRetryDelay_def Backoff_init_def decayIntervalSeconds_def)

lemma report_errors: "(ReportError exact_ops ^^ k) b = b\<lparr>bo_countErrorsRequestLimit := bo_countErrorsRequestLimit b + real k\<rparr>"
  by (induction k) (simp_all add: ReportError_def exact_ops_def)

lemma overlapping_requests_exceed_maxDelay:
  "fst (ComputeDelayForRequest exact_ops 60 overlapping_backoff) = 108 * 1000000000"
  "fst (ComputeDelayForRequest exact_ops 60 overlapping_backoff) > maxDelay"
proof -
  have pow: "decayFraction powr 3 = decayFraction * decayFraction * decayFraction"
    by (simp add: powr_numeral decayFraction_def power3_eq_cube)
  have b: "overlapping_backoff = (NewCrossRequestRetryDelay 0)\<lparr>bo_countRequests := 104 * (decayFraction * decayFraction * decayFraction) + 1,
      bo_countErrorsRequestLimit := 100, bo_lastDecay := 60\<rparr>"
    unfolding overlapping_backoff_def count_requests_at_once report_errors
    by (simp add: ComputeDelayForRequest_def decay_counts_def Let_def exact_ops_def error_fraction_def NewCrossRequestRetryDelay_def
        Backoff_init_def decayIntervalSeconds_def pow)
  show d: "fst (ComputeDelayForRequest exact_ops 60 overlapping_backoff) = 108 * 1000000000"
    unfolding b
    by (simp add: ComputeDelayForRequest_def decay_counts_def Let_def exact_ops_def error_fraction_def NewCrossRequestRetryDelay_def
        Backoff_init_def decayIntervalSeconds_def maxDelay_def trunc_def Seconds_def decayFraction_def)
  then show "fst (ComputeDelayForRequest exact_ops 60 overlapping_backoff) > maxDelay"
    by (simp add: maxDelay_def)
qed

text \<open>A request whose context is cancelled while it sleeps is not sent, and the retryer is never asked about the error.\<close>

lemma cancelled_request_not_sent:
  assumes "ComputeDelayForRequest ops (clock w) b = (delay, b')" and "delay > 0" and "cancelled w"
  shows "aws_request ops n retryable clock cancelled throttled send (b, w) = (Inl (Errorf nonRetryableError []), (b', w))"
  using assms by (simp add: aws_request_def delayPreSign_def)

text \<open>One delayer for each region.\<close>

lemma getCrossRequestRetryDelay_shared:
  assumes "getCrossRequestRetryDelay now region delayers = (d, delayers')"
  shows "getCrossRequestRetryDelay later region delayers' = (d, delayers')"
    and "other \<noteq> region \<Longrightarrow> map_of delayers' other = map_of delayers other"
  using assms by (auto simp: getCrossRequestRetryDelay_def Let_def update_conv' split: option.splits)

end
