(* ===== verification/SdkClients.thy ===== *)
theory SdkClients
  imports Retry Config
begin

text \<open>
  The clients of the SDK as \<^verbatim>\<open>aws_sdk.go\<close> configures them, and the middleware it puts around every call: logging
  (\<^verbatim>\<open>log_handler.go\<close>), metrics (\<^verbatim>\<open>aws_metrics.go\<close>) and the delays of \<open>Retry\<close>. Middleware is kept in ordered steps, as in
  \<^verbatim>\<open>smithy-go\<close>: a handler of the finalize step wraps those after it. The lemma \<open>api_call_eq\<close> derives from these
  edits what happens around a call, \<open>api_call_counts_once\<close> what is counted.

  What the SDK has in the steps before is a parameter, and so is the loading of its default configuration.
\<close>

section \<open>Calls\<close>

record api_metrics =
  m_throttles :: "(string, nat) gomap"
  m_statuses :: "(string \<times> string \<times> string, nat) gomap"

definition increment :: "'k \<Rightarrow> ('k, nat) gomap \<Rightarrow> ('k, nat) gomap" where
  "increment k m = mput k (Suc (case map_of m k of None \<Rightarrow> 0 | Some n \<Rightarrow> n)) m"

definition recordAWSThrottlesMetric :: "string \<Rightarrow> api_metrics \<Rightarrow> api_metrics" where
  "recordAWSThrottlesMetric operation m = m\<lparr>m_throttles := increment operation (m_throttles m)\<rparr>"

text \<open>What a handler reads from the context, the clock and the error: \<open>cx_HTTPStatusCode\<close> is the status of the \<^verbatim>\<open>ResponseError\<close> in the chain
  of an error, if there is one.\<close>

record 'w call_context =
  cx_ops :: float_ops
  cx_clock :: "'w \<Rightarrow> int"
  cx_cancelled :: "'w \<Rightarrow> bool"
  cx_ServiceID :: string
  cx_OperationName :: string
  cx_HTTPStatusCode :: "go_error \<Rightarrow> int option"

definition operationName :: "'w call_context \<Rightarrow> string" where
  "operationName ctx = (if cx_OperationName ctx \<noteq> '''' then cx_OperationName ctx else ''?'')"

definition describeRequest :: "'w call_context \<Rightarrow> string" where
  "describeRequest ctx = cx_ServiceID ctx @ ''::'' @ operationName ctx"

definition awsServiceAndName :: "'w call_context \<Rightarrow> string \<times> string" where
  "awsServiceAndName ctx = (cx_ServiceID ctx, if cx_OperationName ctx \<noteq> '''' then cx_OperationName ctx else ''?'')"

text \<open>The state of a call: the backoff of its region, the metrics and the world.\<close>

type_synonym 'w call_state = "Backoff \<times> api_metrics \<times> 'w"

record ('w, 'a) finalize_middleware =
  mw_ID :: string
  mw_Handle :: "'w call_context \<Rightarrow> ('w call_state, 'a) aws \<Rightarrow> ('w call_state, 'a) aws"

text \<open>A handler of the deserialize step sees the status of the raw response, if there is one, and the result.\<close>

record 'a deserialize_middleware =
  ds_ID :: string
  ds_Handle :: "int option \<times> 'a result \<Rightarrow> int option \<times> 'a result"

record ('w, 'a) call_stack =
  st_UserAgent :: "(string \<times> string) list"
  st_Serialize :: "string list"
  st_Finalize :: "('w, 'a) finalize_middleware list"
  st_Deserialize :: "'a deserialize_middleware list"

text \<open>\<^verbatim>\<open>Insert\<close> relative to a handler, with the position \<^verbatim>\<open>Before\<close>.\<close>

fun finalize_Insert ::
  "('w, 'a) finalize_middleware \<Rightarrow> string \<Rightarrow> ('w, 'a) finalize_middleware list \<Rightarrow> ('w, 'a) finalize_middleware list result" where
  "finalize_Insert m relativeTo [] = Inl (Errorf ''not found: %s'' [mw_ID m])"
| "finalize_Insert m relativeTo (x # xs) =
     (if mw_ID x = relativeTo then Inr (m # x # xs)
      else bindR (finalize_Insert m relativeTo xs) (\<lambda>ys. Inr (x # ys)))"

section \<open>Middleware\<close>

definition awsHandlerLoggerMiddleware :: "('w, 'a) finalize_middleware" where
  "awsHandlerLoggerMiddleware = \<lparr>mw_ID = ''k8s/logger'', mw_Handle = (\<lambda>ctx next. next)\<rparr>"

definition delayPreSign_middleware :: "('w, 'a) finalize_middleware" where
  "delayPreSign_middleware = \<lparr>mw_ID = ''k8s/delay-presign'', mw_Handle = (\<lambda>ctx next.
     delayPreSign (cx_ops ctx) (cx_clock ctx \<circ> snd) (cx_cancelled ctx \<circ> snd) next)\<rparr>"

definition delayAfterRetry_middleware :: "('w, 'a) finalize_middleware" where
  "delayAfterRetry_middleware = \<lparr>mw_ID = ''k8s/delay-afterretry'', mw_Handle = (\<lambda>ctx next.
     delayAfterRetry (cx_ops ctx) (\<lambda>(m, w). (recordAWSThrottlesMetric (operationName ctx) m, w)) next)\<rparr>"

definition count_status :: "'w call_context \<Rightarrow> go_error \<Rightarrow> api_metrics \<Rightarrow> api_metrics" where
  "count_status ctx err m = (case cx_HTTPStatusCode ctx err of
     Some status \<Rightarrow>
       (if status \<ge> 400
        then m\<lparr>m_statuses := increment (cx_ServiceID ctx, cx_OperationName ctx, Itoa status) (m_statuses m)\<rparr> else m)
   | None \<Rightarrow> m)"

definition awsAPIMetricsMiddleware :: "('w, 'a) finalize_middleware" where
  "awsAPIMetricsMiddleware = \<lparr>mw_ID = ''k8s/aws-api-metrics'', mw_Handle = (\<lambda>ctx next s. case next s of
     (Inr out, s) \<Rightarrow> (Inr out, s)
   | (Inl err, (b, m, w)) \<Rightarrow> (Inl err, (b, count_status ctx err m, w)))\<rparr>"

definition DeserializationError :: go_error where
  "DeserializationError = Errorf ''deserialization failed, unknown transport type'' []"

definition awsValidateResponseHandlerLoggerMiddleware :: "'a deserialize_middleware" where
  "awsValidateResponseHandlerLoggerMiddleware = \<lparr>ds_ID = ''k8s/api-validate-response'', ds_Handle = (\<lambda>(raw, r).
     case raw of None \<Rightarrow> (raw, Inl DeserializationError) | Some status \<Rightarrow> (raw, r))\<rparr>"

definition awsSendHandlerLoggerMiddleware :: string where
  "awsSendHandlerLoggerMiddleware = ''k8s/api-request''"

section \<open>Options of a client\<close>

type_synonym ('w, 'a) api_option = "('w, 'a) call_stack \<Rightarrow> ('w, 'a) call_stack result"

definition addAPILoggingMiddleware :: "('w, 'a) api_option list" where
  "addAPILoggingMiddleware = [\<lambda>st. Inr (st\<lparr>st_Serialize := st_Serialize st @ [awsSendHandlerLoggerMiddleware],
     st_Deserialize := awsValidateResponseHandlerLoggerMiddleware # st_Deserialize st\<rparr>)]"

definition addAWSAPIMetricsMiddleware :: "('w, 'a) api_option" where
  "addAWSAPIMetricsMiddleware st =
     bindR (finalize_Insert awsAPIMetricsMiddleware ''Retry'' (st_Finalize st)) (\<lambda>ms. Inr (st\<lparr>st_Finalize := ms\<rparr>))"

text \<open>The option that adds the delays does not look at the error of its \<^verbatim>\<open>Insert\<close>.\<close>

definition add_delays :: "('w, 'a) api_option" where
  "add_delays st =
     (let ms = delayPreSign_middleware # st_Finalize st in
      Inr (st\<lparr>st_Finalize := (case finalize_Insert delayAfterRetry_middleware ''Retry'' ms of Inl err \<Rightarrow> ms | Inr ms' \<Rightarrow> ms')\<rparr>))"

text \<open>\<open>version\<close> is the version of the build. The delayer of the region is made if there is none yet.\<close>

definition AddMiddleware ::
  "string \<Rightarrow> int \<Rightarrow> string \<Rightarrow> (string, Backoff) gomap \<Rightarrow> ('w, 'a) api_option list \<times> (string, Backoff) gomap" where
  "AddMiddleware version now regionName delayers =
     (case getCrossRequestRetryDelay now regionName delayers of (delayer, delayers) \<Rightarrow>
       ([\<lambda>st. Inr (st\<lparr>st_UserAgent := st_UserAgent st @ [(''kubernetes'', version)]\<rparr>),
         \<lambda>st. Inr (st\<lparr>st_Finalize := awsHandlerLoggerMiddleware # st_Finalize st\<rparr>), add_delays]
        @ addAPILoggingMiddleware @ [addAWSAPIMetricsMiddleware], delayers))"

text \<open>A call of a client: its options edit the stack of the operation, then the handlers run around the request.\<close>

definition apply_options :: "('w, 'a) api_option list \<Rightarrow> ('w, 'a) call_stack \<Rightarrow> ('w, 'a) call_stack result" where
  "apply_options opts st = foldR (\<lambda>f st. f st) opts st"

definition deserialized ::
  "('w, 'a) call_stack \<Rightarrow> ('w \<Rightarrow> (int option \<times> 'a result) \<times> 'w) \<Rightarrow> ('w call_state, 'a) aws" where
  "deserialized st send = (\<lambda>(b, m, w). case send w of (out, w) \<Rightarrow> (snd (foldr ds_Handle (st_Deserialize st) out), (b, m, w)))"

definition api_call ::
  "('w, 'a) api_option list \<Rightarrow> ('w, 'a) call_stack \<Rightarrow> 'w call_context \<Rightarrow> ('w \<Rightarrow> (int option \<times> 'a result) \<times> 'w)
   \<Rightarrow> ('w call_state, 'a) aws" where
  "api_call opts st ctx send = (\<lambda>s. case apply_options opts st of
     Inl err \<Rightarrow> (Inl err, s)
   | Inr st \<Rightarrow> foldr (\<lambda>m. mw_Handle m ctx) (st_Finalize st) (deserialized st send) s)"

text \<open>The retries of the SDK with the retryer that the clients are given.\<close>

definition retry_middleware :: "nat \<Rightarrow> (go_error \<Rightarrow> bool) \<Rightarrow> ('w, 'a) finalize_middleware" where
  "retry_middleware n retryable = \<lparr>mw_ID = ''Retry'', mw_Handle = (\<lambda>ctx next. retry_loop n (IsErrorRetryable retryable) next)\<rparr>"

section \<open>Clients\<close>

record awsSDKProvider =
  sp_cfg :: CloudConfig
  regionDelayers :: "(string, Backoff) gomap"

definition newAWSSDKProvider :: "CloudConfig \<Rightarrow> awsSDKProvider" where
  "newAWSSDKProvider cfg = \<lparr>sp_cfg = cfg, regionDelayers = []\<rparr>"

text \<open>What a client is made of: region, credentials of an assumed role instead of the default ones, options, the resolver of endpoints and whether it has the
  retryer of this package.\<close>

record ('w, 'a, 'cred) sdk_client =
  cl_Region :: "string option"
  cl_Credentials :: "'cred option"
  cl_APIOptions :: "('w, 'a) api_option list"
  cl_Options :: "client_option list"
  cl_customRetryer :: bool
  cl_Resolver :: "(string option \<Rightarrow> url result) option"

text \<open>The process around the clients: loading the default configuration for a region, the default resolvers of the services, the version and the
  clock.\<close>

record sdk_env =
  se_LoadDefaultConfig :: "string option \<Rightarrow> unit result"
  se_DefaultResolver :: "string \<Rightarrow> string option \<Rightarrow> url result"
  se_version :: string
  se_now :: int

definition GetCustomEC2Resolver :: "sdk_env \<Rightarrow> CloudConfig \<Rightarrow> string option \<Rightarrow> url result" where
  "GetCustomEC2Resolver env cfg = EC2_ResolveEndpoint cfg (se_DefaultResolver env ec2_ServiceID)"

definition GetCustomELBResolver :: "sdk_env \<Rightarrow> CloudConfig \<Rightarrow> string option \<Rightarrow> url result" where
  "GetCustomELBResolver env cfg = ELB_ResolveEndpoint cfg (se_DefaultResolver env elb_ServiceID)"

definition GetCustomELBV2Resolver :: "sdk_env \<Rightarrow> CloudConfig \<Rightarrow> string option \<Rightarrow> url result" where
  "GetCustomELBV2Resolver env cfg = ELBV2_ResolveEndpoint cfg (se_DefaultResolver env elbv2_ServiceID)"

definition GetCustomKMSResolver :: "sdk_env \<Rightarrow> CloudConfig \<Rightarrow> string option \<Rightarrow> url result" where
  "GetCustomKMSResolver env cfg = KMS_ResolveEndpoint cfg (se_DefaultResolver env kms_ServiceID)"

text \<open>The steps that the four constructors share.\<close>

definition regional_client ::
  "(CloudConfig \<Rightarrow> string \<Rightarrow> client_option list) \<Rightarrow> (sdk_env \<Rightarrow> CloudConfig \<Rightarrow> string option \<Rightarrow> url result)
   \<Rightarrow> sdk_env \<Rightarrow> awsSDKProvider \<Rightarrow> string \<Rightarrow> 'cred option \<Rightarrow> ('w, 'a, 'cred) sdk_client result \<times> awsSDKProvider" where
  "regional_client endpointOpts customResolver env p regionName assumeRoleProvider =
     (case se_LoadDefaultConfig env (Some regionName) of
        Inl err \<Rightarrow> (Inl (Errorf ''unable to initialize AWS config: %v'' [Error err]), p)
      | Inr _ \<Rightarrow> (case AddMiddleware (se_version env) (se_now env) regionName (regionDelayers p) of (apiOptions, delayers) \<Rightarrow>
          (Inr \<lparr>cl_Region = Some regionName, cl_Credentials = assumeRoleProvider, cl_APIOptions = apiOptions,
                cl_Options = endpointOpts (sp_cfg p) regionName, cl_customRetryer = True,
                cl_Resolver = Some (customResolver env (sp_cfg p))\<rparr>,
           p\<lparr>regionDelayers := delayers\<rparr>)))"

definition Compute ::
  "sdk_env \<Rightarrow> awsSDKProvider \<Rightarrow> string \<Rightarrow> 'cred option \<Rightarrow> ('w, 'a, 'cred) sdk_client result \<times> awsSDKProvider" where
  "Compute = regional_client GetEC2EndpointOpts GetCustomEC2Resolver"

definition LoadBalancing ::
  "sdk_env \<Rightarrow> awsSDKProvider \<Rightarrow> string \<Rightarrow> 'cred option \<Rightarrow> ('w, 'a, 'cred) sdk_client result \<times> awsSDKProvider" where
  "LoadBalancing = regional_client GetELBEndpointOpts GetCustomELBResolver"

definition LoadBalancingV2 ::
  "sdk_env \<Rightarrow> awsSDKProvider \<Rightarrow> string \<Rightarrow> 'cred option \<Rightarrow> ('w, 'a, 'cred) sdk_client result \<times> awsSDKProvider" where
  "LoadBalancingV2 = regional_client GetELBV2EndpointOpts GetCustomELBV2Resolver"

definition KeyManagement ::
  "sdk_env \<Rightarrow> awsSDKProvider \<Rightarrow> string \<Rightarrow> 'cred option \<Rightarrow> ('w, 'a, 'cred) sdk_client result \<times> awsSDKProvider" where
  "KeyManagement = regional_client GetKMSEndpointOpts GetCustomKMSResolver"

text \<open>The metadata client is neither delayed nor counted; the identity document is only read for the log.\<close>

definition SdkMetadata :: "sdk_env \<Rightarrow> awsSDKProvider \<Rightarrow> ('w, 'a, 'cred) sdk_client result" where
  "SdkMetadata env p = (case se_LoadDefaultConfig env None of
     Inl err \<Rightarrow> Inl (Errorf ''unable to initialize AWS config: %v'' [Error err])
   | Inr _ \<Rightarrow> Inr \<lparr>cl_Region = None, cl_Credentials = None, cl_APIOptions = addAPILoggingMiddleware,
       cl_Options = GetIMDSEndpointOpts (sp_cfg p), cl_customRetryer = False, cl_Resolver = None\<rparr>)"

section \<open>What happens around a call\<close>

lemma finalize_Insert_found:
  assumes "\<forall>p \<in> set pre. mw_ID p \<noteq> relativeTo" and "mw_ID x = relativeTo"
  shows "finalize_Insert m relativeTo (pre @ x # post) = Inr (pre @ m # x # post)"
  using assms by (induction pre) auto

lemma options_applied:
  assumes "st_Finalize st = pre @ retry_middleware n retryable # post" and "\<forall>m \<in> set pre. mw_ID m \<noteq> ''Retry''"
  shows "apply_options (fst (AddMiddleware version now region delayers)) st = Inr (st\<lparr>
    st_UserAgent := st_UserAgent st @ [(''kubernetes'', version)],
    st_Serialize := st_Serialize st @ [awsSendHandlerLoggerMiddleware],
    st_Finalize := delayPreSign_middleware # awsHandlerLoggerMiddleware # pre
      @ delayAfterRetry_middleware # awsAPIMetricsMiddleware # retry_middleware n retryable # post,
    st_Deserialize := awsValidateResponseHandlerLoggerMiddleware # st_Deserialize st\<rparr>)"
proof -
  let ?front = "delayPreSign_middleware # awsHandlerLoggerMiddleware # pre"
  have ids: "\<forall>m \<in> set ?front. mw_ID m \<noteq> ''Retry''" "mw_ID (retry_middleware n retryable) = ''Retry''"
    "\<forall>m \<in> set (?front @ [delayAfterRetry_middleware]). mw_ID m \<noteq> ''Retry''"
    using assms(2) by (simp_all add: delayPreSign_middleware_def awsHandlerLoggerMiddleware_def retry_middleware_def
        delayAfterRetry_middleware_def)
  note i1 = finalize_Insert_found [OF ids(1,2), of delayAfterRetry_middleware post]
  note i2 = finalize_Insert_found [OF ids(3,2), of awsAPIMetricsMiddleware post]
  have "finalize_Insert delayAfterRetry_middleware ''Retry'' (delayPreSign_middleware # awsHandlerLoggerMiddleware # st_Finalize st) =
      Inr (?front @ delayAfterRetry_middleware # retry_middleware n retryable # post)"
    using i1 unfolding assms(1) by simp
  then show ?thesis
    using i2
    by (simp add: apply_options_def AddMiddleware_def add_delays_def addAPILoggingMiddleware_def addAWSAPIMetricsMiddleware_def
        Let_def del: finalize_Insert.simps split: prod.split)
qed

text \<open>\<^verbatim>\<open>AddMiddleware\<close> puts the delay first and outside of everything, and the throttle detection and the metrics right around the retries,
  in this order, whatever handlers the operation has before and after its retries: a call is the delay, the handlers before the retries, the throttle detection,
  the metrics, the retries with the custom retryer, the handlers after them and the checked response. So none of the three runs once per
  attempt, and neither the metrics nor the retryer see a request that was cancelled during its delay.\<close>

lemma api_call_eq:
  assumes "st_Finalize st = pre @ retry_middleware n retryable # post" and "\<forall>m \<in> set pre. mw_ID m \<noteq> ''Retry''"
  shows "api_call (fst (AddMiddleware version now region delayers)) st ctx send =
    delayPreSign (cx_ops ctx) (cx_clock ctx \<circ> snd) (cx_cancelled ctx \<circ> snd)
      (foldr (\<lambda>m. mw_Handle m ctx) pre
        (delayAfterRetry (cx_ops ctx) (\<lambda>(m, w). (recordAWSThrottlesMetric (operationName ctx) m, w))
          (mw_Handle awsAPIMetricsMiddleware ctx
            (retry_loop n (IsErrorRetryable retryable)
              (foldr (\<lambda>m. mw_Handle m ctx) post
                (deserialized (st\<lparr>st_Deserialize := awsValidateResponseHandlerLoggerMiddleware # st_Deserialize st\<rparr>) send))))))"
  unfolding api_call_def options_applied [OF assms]
  by (simp add: delayPreSign_middleware_def awsHandlerLoggerMiddleware_def delayAfterRetry_middleware_def retry_middleware_def
      deserialized_def)

text \<open>What the SDK has around and inside of the retries. A function on the world, run in the state of a call, leaves the backoff and the
  metrics alone.\<close>

definition on_call_world :: "('w \<Rightarrow> 'r \<times> 'w) \<Rightarrow> 'w call_state \<Rightarrow> 'r \<times> 'w call_state" where
  "on_call_world f = (\<lambda>(b, m, w). case f w of (r, w) \<Rightarrow> (r, (b, m, w)))"

text \<open>A handler inside of the retries (signing, endpoints, identities) that knows nothing of the backoff and the metrics of this package.\<close>

definition neutral_handler :: "'w call_context \<Rightarrow> ('w, 'a) finalize_middleware \<Rightarrow> bool" where
  "neutral_handler ctx p \<longleftrightarrow> (\<forall>f. \<exists>f'. mw_Handle p ctx (on_call_world f) = on_call_world f')"

text \<open>A handler outside of the retries (\<^verbatim>\<open>spanRetryLoop\<close>, \<^verbatim>\<open>InterceptBeforeRetryLoop\<close>): it does something before, which may fail, then
  calls the next handler once, does something after and returns the result it got.\<close>

definition guarding_handler ::
  "'w call_context \<Rightarrow> ('w, 'a) finalize_middleware \<Rightarrow> ('w \<Rightarrow> unit result \<times> 'w) \<times> ('w \<Rightarrow> 'w) \<Rightarrow> bool" where
  "guarding_handler ctx p g \<longleftrightarrow> (\<forall>next b m w. mw_Handle p ctx next (b, m, w) = (case fst g w of
       (Inl err, w1) \<Rightarrow> (Inl err, (b, m, w1))
     | (Inr _, w1) \<Rightarrow> (case next (b, m, w1) of (r, (b2, m2, w2)) \<Rightarrow> (r, (b2, m2, snd g w2)))))"

text \<open>A call inside of such handlers: the error of a handler that failed, or the result of the call.\<close>

fun guarded_run :: "(('w \<Rightarrow> unit result \<times> 'w) \<times> ('w \<Rightarrow> 'w)) list \<Rightarrow> ('w \<Rightarrow> 'r \<times> 'w) \<Rightarrow> 'w \<Rightarrow> (go_error + 'r) \<times> 'w" where
  "guarded_run [] f w = (case f w of (r, w) \<Rightarrow> (Inr r, w))"
| "guarded_run (g # gs) f w = (case fst g w of
     (Inl err, w) \<Rightarrow> (Inl err, w)
   | (Inr _, w) \<Rightarrow> (case guarded_run gs f w of (r, w) \<Rightarrow> (r, snd g w)))"

lemma neutral_handlers:
  assumes "\<forall>p \<in> set post. neutral_handler ctx p"
  shows "\<exists>f'. foldr (\<lambda>m. mw_Handle m ctx) post (on_call_world f) = on_call_world f'"
  using assms by (induction post) (auto simp: neutral_handler_def)

lemma guarding_handlers:
  assumes "list_all2 (guarding_handler ctx) pre gs"
    and core: "\<And>w. core (b, m, w) = (case f w of (r, w) \<Rightarrow> (r, (b' r, m' r, w)))"
  shows "foldr (\<lambda>m. mw_Handle m ctx) pre core (b, m, w) = (case guarded_run gs f w of
      (Inl err, w) \<Rightarrow> (Inl err, (b, m, w)) | (Inr r, w) \<Rightarrow> (r, (b' r, m' r, w)))"
  using assms(1)
proof (induction pre gs arbitrary: w rule: list_all2_induct)
  case Nil
  then show ?case by (simp add: core split: prod.split)
next
  case (Cons p pre g gs)
  have "mw_Handle p ctx next (b, m, w) = (case fst g w of
       (Inl err, w1) \<Rightarrow> (Inl err, (b, m, w1))
     | (Inr _, w1) \<Rightarrow> (case next (b, m, w1) of (r, (b2, m2, w2)) \<Rightarrow> (r, (b2, m2, snd g w2))))" for "next"
    using Cons.hyps(1) unfolding guarding_handler_def by blast
  with Cons.IH show ?case by (simp split: prod.split sum.split)
qed

text \<open>The result of one request: what the deserializers of the operation make of the response. A missing raw response is an error whatever they
  return.\<close>

definition checked_response ::
  "'a deserialize_middleware list \<Rightarrow> ('w \<Rightarrow> (int option \<times> 'a result) \<times> 'w) \<Rightarrow> ('w, 'a) aws" where
  "checked_response ds send = (\<lambda>w. case send w of (out, w) \<Rightarrow>
     (case foldr ds_Handle ds out of (raw, r) \<Rightarrow> (if raw = None then Inl DeserializationError else r, w)))"

definition throttled_result :: "'a result \<Rightarrow> bool" where
  "throttled_result r = (case r of Inr _ \<Rightarrow> False
     | Inl err \<Rightarrow> (case api_error_message err of None \<Rightarrow> False | Some message \<Rightarrow> Contains message ''RequestLimitExceeded''))"

definition counted :: "'w call_context \<Rightarrow> 'a result \<Rightarrow> api_metrics \<Rightarrow> api_metrics" where
  "counted ctx r m =
     (let m = (case r of Inr _ \<Rightarrow> m | Inl err \<Rightarrow> count_status ctx err m) in
      if throttled_result r then recordAWSThrottlesMetric (operationName ctx) m else m)"

lemma retry_loop_lift: "retry_loop n retryable (on_call_world attempt) = on_call_world (retry_loop n retryable attempt)"
proof
  fix s :: "'a call_state"
  show "retry_loop n retryable (on_call_world attempt) s = on_call_world (retry_loop n retryable attempt) s"
    by (cases s, induction n arbitrary: s) (auto simp: on_call_world_def split: prod.split sum.split)
qed

lemma deserialized_checked:
  "deserialized (st\<lparr>st_Deserialize := awsValidateResponseHandlerLoggerMiddleware # st_Deserialize st\<rparr>) send =
    on_call_world (checked_response (st_Deserialize st) send)"
  by (auto simp: deserialized_def checked_response_def on_call_world_def awsValidateResponseHandlerLoggerMiddleware_def fun_eq_iff
      split: prod.split option.split)

text \<open>The throttle detection and the metrics around the retries, on a call whose attempts leave them alone.\<close>

lemma counted_once:
  "delayAfterRetry (cx_ops ctx) (\<lambda>(m, w). (recordAWSThrottlesMetric (operationName ctx) m, w))
     (mw_Handle awsAPIMetricsMiddleware ctx (on_call_world f)) (b, m, w) =
   (case f w of (r, w') \<Rightarrow> (r, (if throttled_result r then ReportError (cx_ops ctx) b else b, counted ctx r m, w')))"
  by (auto simp: delayAfterRetry_def awsAPIMetricsMiddleware_def on_call_world_def throttled_result_def counted_def
      Let_def split: prod.split sum.split option.split)

text \<open>C21: What a call leaves behind, for an operation with any handlers of the SDK before its retries (that call the next one once) and inside
  of them (that know nothing of this package), and any deserializers: it is delayed at most once; it is not sent when its
  context is cancelled during the delay or a handler before the retries fails, and then nothing is counted; otherwise the result is
  that of the last attempt, the status of a terminal error counts once and a terminal throttling error counts once, in the metrics and
  in the backoff of the region, however many attempts were made.\<close>

theorem api_call_counts_once:
  assumes "st_Finalize st = pre @ retry_middleware n retryable # post" and "\<forall>p \<in> set pre. mw_ID p \<noteq> ''Retry''"
    and "list_all2 (guarding_handler ctx) pre gs" and "\<forall>p \<in> set post. neutral_handler ctx p"
  shows "\<exists>attempt. foldr (\<lambda>p. mw_Handle p ctx) post (on_call_world (checked_response (st_Deserialize st) send)) = on_call_world attempt
    \<and> (\<forall>b m w. api_call (fst (AddMiddleware version now region delayers)) st ctx send (b, m, w) =
        (case ComputeDelayForRequest (cx_ops ctx) (cx_clock ctx w) b of (delay, b1) \<Rightarrow>
           if delay > 0 \<and> cx_cancelled ctx w then (Inl (Errorf nonRetryableError []), (b1, m, w))
           else (case guarded_run gs (retry_loop n (IsErrorRetryable retryable) attempt) w of
               (Inl err, w') \<Rightarrow> (Inl err, (b1, m, w'))
             | (Inr r, w') \<Rightarrow> (r, (if throttled_result r then ReportError (cx_ops ctx) b1 else b1, counted ctx r m, w')))))"
proof -
  obtain attempt where attempt:
    "foldr (\<lambda>p. mw_Handle p ctx) post (on_call_world (checked_response (st_Deserialize st) send)) = on_call_world attempt"
    using neutral_handlers [OF assms(4)] by blast
  let ?core = "delayAfterRetry (cx_ops ctx) (\<lambda>(m, w). (recordAWSThrottlesMetric (operationName ctx) m, w))
     (mw_Handle awsAPIMetricsMiddleware ctx (on_call_world (retry_loop n (IsErrorRetryable retryable) attempt)))"
  have call: "api_call (fst (AddMiddleware version now region delayers)) st ctx send =
    delayPreSign (cx_ops ctx) (cx_clock ctx \<circ> snd) (cx_cancelled ctx \<circ> snd) (foldr (\<lambda>m. mw_Handle m ctx) pre ?core)"
    unfolding api_call_eq [OF assms(1,2)] deserialized_checked attempt retry_loop_lift ..
  have "foldr (\<lambda>m. mw_Handle m ctx) pre ?core (b, m, w) =
      (case guarded_run gs (retry_loop n (IsErrorRetryable retryable) attempt) w of
         (Inl err, w') \<Rightarrow> (Inl err, (b, m, w'))
       | (Inr r, w') \<Rightarrow> (r, (if throttled_result r then ReportError (cx_ops ctx) b else b, counted ctx r m, w')))" for b m w
    by (rule guarding_handlers [OF assms(3)]) (rule counted_once)
  then show ?thesis using attempt by (intro exI [of _ attempt]) (auto simp: call delayPreSign_def split: prod.split)
qed

text \<open>An operation as the SDK builds it: a span around the retries, three attempts, a signature inside of them that counts in the world,
  and a deserializer that turns a response with an error status into an error. It is throttled at every attempt.\<close>

definition throttled_send :: "nat \<times> nat \<Rightarrow> (int option \<times> unit result) \<times> nat \<times> nat" where
  "throttled_send = (\<lambda>(sent, signed). ((Some 503, Inr ()), Suc sent, signed))"

definition throttled_context :: "(nat \<times> nat) call_context" where
  "throttled_context = \<lparr>cx_ops = exact_ops, cx_clock = (\<lambda>w. 0), cx_cancelled = (\<lambda>w. False), cx_ServiceID = ''EC2'',
     cx_OperationName = ''DescribeInstances'', cx_HTTPStatusCode = (\<lambda>err. Some 503)\<rparr>"

definition span_handler :: "(nat \<times> nat, unit) finalize_middleware" where
  "span_handler = \<lparr>mw_ID = ''spanRetryLoop'', mw_Handle = (\<lambda>ctx next. next)\<rparr>"

definition signing_handler :: "(nat \<times> nat, unit) finalize_middleware" where
  "signing_handler = \<lparr>mw_ID = ''Signing'', mw_Handle = (\<lambda>ctx next (b, m, (sent, signed)). next (b, m, (sent, Suc signed)))\<rparr>"

definition operation_deserializer :: "unit deserialize_middleware" where
  "operation_deserializer = \<lparr>ds_ID = ''OperationDeserializer'', ds_Handle = (\<lambda>(raw, r). (raw, case raw of
     Some status \<Rightarrow> if status \<ge> 300 then Inl (APIError ''RequestLimitExceeded'' ''RequestLimitExceeded: slow down'') else r | None \<Rightarrow> r))\<rparr>"

definition sdk_stack :: "(nat \<times> nat, unit) call_stack" where
  "sdk_stack = \<lparr>st_UserAgent = [], st_Serialize = [], st_Finalize = [span_handler, retry_middleware 2 (\<lambda>err. True), signing_handler],
     st_Deserialize = [operation_deserializer]\<rparr>"

lemma throttled_attempts:
  assumes "\<And>w. attempt w = (case w of (sent, signed) \<Rightarrow> (Inl (APIError ''RequestLimitExceeded'' ''RequestLimitExceeded: slow down''), Suc sent, Suc signed))"
  shows "retry_loop 2 (IsErrorRetryable (\<lambda>err. True)) attempt (0, 0) =
     (Inl (APIError ''RequestLimitExceeded'' ''RequestLimitExceeded: slow down''), 3, 3)"
proof -
  have "IsErrorRetryable (\<lambda>err. True) (APIError ''RequestLimitExceeded'' ''RequestLimitExceeded: slow down'')" by code_simp
  then show ?thesis by (simp add: numeral_2_eq_2 assms)
qed

lemma throttled_first_delay:
  "ComputeDelayForRequest exact_ops 0 (NewCrossRequestRetryDelay 0) = (0, (NewCrossRequestRetryDelay 0)\<lparr>bo_countRequests := 5\<rparr>)"
  by (simp add: ComputeDelayForRequest_def decay_counts_def Let_def exact_ops_def error_fraction_def
      NewCrossRequestRetryDelay_def Backoff_init_def decayIntervalSeconds_def)

theorem api_call_counts_once_witness:
  "api_call (fst (AddMiddleware ''v1'' 0 ''us-east-1'' [])) sdk_stack throttled_context throttled_send
     (NewCrossRequestRetryDelay 0, \<lparr>m_throttles = [], m_statuses = []\<rparr>, (0, 0)) =
   (Inl (APIError ''RequestLimitExceeded'' ''RequestLimitExceeded: slow down''),
    (ReportError exact_ops ((NewCrossRequestRetryDelay 0)\<lparr>bo_countRequests := 5\<rparr>),
     \<lparr>m_throttles = [(''DescribeInstances'', 1)], m_statuses = [((''EC2'', ''DescribeInstances'', ''503''), 1)]\<rparr>, (3, 3)))"
proof -
  let ?err = "APIError ''RequestLimitExceeded'' ''RequestLimitExceeded: slow down''"
  have span: "list_all2 (guarding_handler throttled_context) [span_handler] [(\<lambda>w. (Inr (), w), \<lambda>w. w)]"
    by (simp add: guarding_handler_def span_handler_def split: prod.split)
  have sign: "mw_Handle signing_handler ctx (on_call_world f) = on_call_world (\<lambda>(sent, signed). f (sent, Suc signed))" for ctx f
    by (auto simp: signing_handler_def on_call_world_def fun_eq_iff)
  then have neutral: "\<forall>p \<in> set [signing_handler]. neutral_handler throttled_context p"
    by (auto simp: neutral_handler_def)
  have stack: "st_Finalize sdk_stack = [span_handler] @ retry_middleware 2 (\<lambda>err. True) # [signing_handler]"
    by (simp add: sdk_stack_def)
  have ids: "\<forall>p \<in> set [span_handler]. mw_ID p \<noteq> ''Retry''" by (simp add: span_handler_def)
  obtain attempt where chain: "foldr (\<lambda>p. mw_Handle p throttled_context) [signing_handler]
      (on_call_world (checked_response (st_Deserialize sdk_stack) throttled_send)) = on_call_world attempt"
    and call: "api_call (fst (AddMiddleware ''v1'' 0 ''us-east-1'' [])) sdk_stack throttled_context throttled_send (b, m, w) =
        (case ComputeDelayForRequest (cx_ops throttled_context) (cx_clock throttled_context w) b of (delay, b1) \<Rightarrow>
           if delay > 0 \<and> cx_cancelled throttled_context w then (Inl (Errorf nonRetryableError []), (b1, m, w))
           else (case guarded_run [(\<lambda>w. (Inr (), w), \<lambda>w. w)] (retry_loop 2 (IsErrorRetryable (\<lambda>err. True)) attempt) w of
               (Inl err, w') \<Rightarrow> (Inl err, (b1, m, w'))
             | (Inr r, w') \<Rightarrow> (r, (if throttled_result r then ReportError (cx_ops throttled_context) b1 else b1,
                 counted throttled_context r m, w'))))" for b m w
    using api_call_counts_once [OF stack ids span neutral, of throttled_send "''v1''" 0 "''us-east-1''" "[]"] by blast
  have "attempt w = (case w of (sent, signed) \<Rightarrow> (Inl ?err, Suc sent, Suc signed))" for w
  proof -
    have "on_call_world attempt (undefined, undefined, w) = on_call_world (\<lambda>(sent, signed).
        checked_response (st_Deserialize sdk_stack) throttled_send (sent, Suc signed)) (undefined, undefined, w)"
      using chain sign by simp
    then show ?thesis
      by (auto simp: on_call_world_def checked_response_def throttled_send_def sdk_stack_def operation_deserializer_def split: prod.splits)
  qed
  note run = throttled_attempts [of attempt, OF this]
  have "throttled_result (Inl ?err :: unit result)" by code_simp
  moreover have "Itoa 503 = ''503''" by code_simp
  ultimately show ?thesis
    unfolding call
    by (simp add: throttled_first_delay throttled_context_def counted_def count_status_def run
        recordAWSThrottlesMetric_def operationName_def increment_def)
qed

text \<open>Clients of the same region share one backoff, whatever their services, and making a client changes no other region.\<close>

lemma regional_client_delayer:
  assumes "regional_client endpointOpts customResolver env p region cred = (Inr cl, p')"
  shows "map_of (regionDelayers p') region \<noteq> None" and "sp_cfg p' = sp_cfg p"
    and "other \<noteq> region \<Longrightarrow> map_of (regionDelayers p') other = map_of (regionDelayers p) other"
    and "map_of (regionDelayers p) region \<noteq> None \<Longrightarrow> p' = p"
  using assms by (auto simp: regional_client_def AddMiddleware_def getCrossRequestRetryDelay_def Let_def update_conv'
      split: sum.splits option.splits prod.splits)

text \<open>What the clients of the four services share: the law of the endpoint overrides, and that the client is built from them.\<close>

locale regional_service = endpoint_override service resolve opts
  for service :: string
    and resolve :: "CloudConfig \<Rightarrow> (string option \<Rightarrow> url result) \<Rightarrow> string option \<Rightarrow> url result"
    and opts :: "CloudConfig \<Rightarrow> string \<Rightarrow> client_option list" +
  fixes client :: "sdk_env \<Rightarrow> awsSDKProvider \<Rightarrow> string \<Rightarrow> 'cred option \<Rightarrow> ('w, 'a, 'cred) sdk_client result \<times> awsSDKProvider"
  assumes client_eq: "client = regional_client opts (\<lambda>env cfg. resolve cfg (se_DefaultResolver env service))"
begin

lemma client_delayer:
  assumes "client env p region cred = (Inr cl, p')"
  shows "map_of (regionDelayers p') region \<noteq> None" and "sp_cfg p' = sp_cfg p"
    and "other \<noteq> region \<Longrightarrow> map_of (regionDelayers p') other = map_of (regionDelayers p) other"
    and "map_of (regionDelayers p) region \<noteq> None \<Longrightarrow> p' = p"
  by (rule regional_client_delayer [OF assms [unfolded client_eq]], assumption?)+

text \<open>Signing and endpoint of a client are overridden together or not at all; a role that is given is assumed.\<close>

lemma client_settings:
  assumes "client env p region cred = (Inr cl, p')"
  shows "cl_Region cl = Some region" and "cl_Credentials cl = cred" and "cl_customRetryer cl"
    and "cl_Options cl = [] \<longleftrightarrow> overrides_for service region (ServiceOverride (sp_cfg p)) = []"
    and "cl_Options cl = [] \<Longrightarrow> \<exists>f. cl_Resolver cl = Some f \<and> f (Some region) = se_DefaultResolver env service (Some region)"
proof -
  have cl: "cl_Options cl = opts (sp_cfg p) region" "cl_Resolver cl = Some (resolve (sp_cfg p) (se_DefaultResolver env service))"
    "cl_Region cl = Some region" "cl_Credentials cl = cred" "cl_customRetryer cl"
    using assms by (auto simp: client_eq regional_client_def split: sum.splits prod.splits)
  then show "cl_Region cl = Some region" "cl_Credentials cl = cred" "cl_customRetryer cl" by simp_all
  show "cl_Options cl = [] \<longleftrightarrow> overrides_for service region (ServiceOverride (sp_cfg p)) = []"
    using overridden_together(1) [of "sp_cfg p" "Some region"] cl(1) by simp
  show "\<exists>f. cl_Resolver cl = Some f \<and> f (Some region) = se_DefaultResolver env service (Some region)" if "cl_Options cl = []"
    using overridden_together(2) [of "sp_cfg p" "Some region"] that cl(1,2) by simp
qed

end

interpretation compute: regional_service ec2_ServiceID EC2_ResolveEndpoint GetEC2EndpointOpts Compute
  by unfold_locales (simp add: Compute_def GetCustomEC2Resolver_def [abs_def])

interpretation load_balancing: regional_service elb_ServiceID ELB_ResolveEndpoint GetELBEndpointOpts LoadBalancing
  by unfold_locales (simp add: LoadBalancing_def GetCustomELBResolver_def [abs_def])

interpretation load_balancing_v2: regional_service elbv2_ServiceID ELBV2_ResolveEndpoint GetELBV2EndpointOpts LoadBalancingV2
  by unfold_locales (simp add: LoadBalancingV2_def GetCustomELBV2Resolver_def [abs_def])

interpretation key_management: regional_service kms_ServiceID KMS_ResolveEndpoint GetKMSEndpointOpts KeyManagement
  by unfold_locales (simp add: KeyManagement_def GetCustomKMSResolver_def [abs_def])

lemma clients_share_delayer:
  assumes "Compute env (newAWSSDKProvider cfg) region cred = (Inr ec2, p1)"
    and "LoadBalancing env p1 region cred = (Inr elb, p2)" and "LoadBalancingV2 env p2 region cred = (Inr elbv2, p3)"
    and "KeyManagement env p3 region cred = (Inr kms, p4)"
  shows "p4 = p1 \<and> map_of (regionDelayers p1) region \<noteq> None \<and> sp_cfg p4 = cfg"
proof -
  note p1 = compute.client_delayer(1,2) [OF assms(1)]
  have "p2 = p1" by (rule load_balancing.client_delayer(4) [OF assms(2) p1(1)])
  moreover from this have "p3 = p2" using load_balancing_v2.client_delayer(4) [OF assms(3)] p1(1) by simp
  moreover from calculation have "p4 = p3" using key_management.client_delayer(4) [OF assms(4)] p1(1) by simp
  ultimately show ?thesis using p1 by (simp add: newAWSSDKProvider_def)
qed

end
