(* ===== verification/Metrics.thy ===== *)
theory Metrics
  imports SdkClients Ec2Sdk TaggingController
begin

text \<open>
  The metrics that the EC2 client and the tagging controller record (\<^verbatim>\<open>aws_metrics.go\<close>, \<^verbatim>\<open>aws_ec2.go\<close>, \<^verbatim>\<open>metrics.go\<close>). The other
  theories leave them out; here the calls and the handler of the controller carry them in their state. The lemmas show that recording
  changes neither an answer nor the state of AWS or of the queue, and that every call and every failed attempt is counted once. A
  histogram is the list of its observations.
\<close>

section \<open>Requests\<close>

record request_metrics =
  awsAPIMetric :: "(string \<times> int) list"
  awsAPIErrorMetric :: "(string, nat) gomap"

definition recordAWSMetric :: "string \<Rightarrow> int \<Rightarrow> go_error option \<Rightarrow> request_metrics \<Rightarrow> request_metrics" where
  "recordAWSMetric actionName timeTaken err m =
     (if err \<noteq> None then m\<lparr>awsAPIErrorMetric := increment actionName (awsAPIErrorMetric m)\<rparr>
      else m\<lparr>awsAPIMetric := awsAPIMetric m @ [(actionName, timeTaken)]\<rparr>)"

text \<open>A call between two readings of the clock. A call that panics records nothing.\<close>

definition measured :: "('w \<Rightarrow> int) \<Rightarrow> string \<Rightarrow> ('w, 'a) aws \<Rightarrow> ('w \<times> request_metrics, 'a) aws" where
  "measured clock action m = (\<lambda>(w, metrics). case m w of
     (r, w') \<Rightarrow> (r, (w', case r of
         Inl err \<Rightarrow> if is_panic err then metrics else recordAWSMetric action (clock w' - clock w) (Some err) metrics
       | Inr _ \<Rightarrow> recordAWSMetric action (clock w' - clock w) None metrics)))"

definition unmeasured :: "('w, 'a) aws \<Rightarrow> ('w \<times> request_metrics, 'a) aws" where
  "unmeasured m = (\<lambda>(w, metrics). case m w of (r, w') \<Rightarrow> (r, (w', metrics)))"

definition sdk_DescribeNetworkInterfaces :: "('w \<Rightarrow> int) \<Rightarrow> 'w EC2API \<Rightarrow> ec2_filter list \<Rightarrow> ('w \<times> request_metrics, network_interface list) aws" where
  "sdk_DescribeNetworkInterfaces clock api filters =
     measured clock ''describe_network_interfaces'' (DescribeNetworkInterfaces (api_plain api) filters)"

definition sdk_CreateTags :: "('w \<Rightarrow> int) \<Rightarrow> 'w EC2API \<Rightarrow> string list \<Rightarrow> ec2_tag list \<Rightarrow> ('w \<times> request_metrics, unit) aws" where
  "sdk_CreateTags clock api resources tags = measured clock ''create_tags'' (CreateTags (api_plain api) resources tags)"

definition sdk_DeleteTags :: "('w \<Rightarrow> int) \<Rightarrow> 'w EC2API \<Rightarrow> string list \<Rightarrow> ec2_tag list \<Rightarrow> ('w \<times> request_metrics, unit) aws" where
  "sdk_DeleteTags clock api resources tags = measured clock ''delete_tags'' (DeleteTags (api_plain api) resources tags)"

text \<open>The client with its metrics. The listings record an error with the duration zero, which a counter of errors does not keep.\<close>

definition measured_client :: "('w \<Rightarrow> int) \<Rightarrow> 'w EC2API \<Rightarrow> ('w \<times> request_metrics) ec2_client" where
  "measured_client clock api =
     (let sdk = awsSdkEC2 api in \<lparr>
     DescribeInstances = (\<lambda>ids filters. measured clock ''describe_instance'' (DescribeInstances sdk ids filters)),
     DescribeSecurityGroups = (\<lambda>ids filters. measured clock ''describe_security_groups'' (DescribeSecurityGroups sdk ids filters)),
     CreateSecurityGroup = (\<lambda>vpc name desc tags. unmeasured (CreateSecurityGroup sdk vpc name desc tags)),
     DeleteSecurityGroup = (\<lambda>i. unmeasured (DeleteSecurityGroup sdk i)),
     AuthorizeSecurityGroupIngress = (\<lambda>i ps. unmeasured (AuthorizeSecurityGroupIngress sdk i ps)),
     RevokeSecurityGroupIngress = (\<lambda>i ps. unmeasured (RevokeSecurityGroupIngress sdk i ps)),
     DescribeSubnets = (\<lambda>ids filters. unmeasured (DescribeSubnets sdk ids filters)),
     DescribeAvailabilityZones = unmeasured (DescribeAvailabilityZones sdk),
     CreateTags = sdk_CreateTags clock api,
     DeleteTags = sdk_DeleteTags clock api,
     DescribeRouteTables = (\<lambda>filters. measured clock ''describe_route_tables'' (DescribeRouteTables sdk filters)),
     CreateRoute = (\<lambda>t cidr i. unmeasured (CreateRoute sdk t cidr i)),
     DeleteRoute = (\<lambda>t cidr. unmeasured (DeleteRoute sdk t cidr)),
     ModifyInstanceAttribute = (\<lambda>i check. unmeasured (ModifyInstanceAttribute sdk i check)),
     DescribeNetworkInterfaces = sdk_DescribeNetworkInterfaces clock api,
     DescribeInstanceTopology = (\<lambda>ids. unmeasured (DescribeInstanceTopology sdk ids)),
     DescribeVpcs = unmeasured (DescribeVpcs sdk)\<rparr>)"

section \<open>Work items\<close>

definition totalErrorsWorkItemErrorMetric :: string where
  "totalErrorsWorkItemErrorMetric = ''total_errors''"

definition errorsAfterRetriesExhaustedWorkItemErrorMetric :: string where
  "errorsAfterRetriesExhaustedWorkItemErrorMetric = ''errors_after_retries_exhausted''"

type_synonym work_item_errors = "(string \<times> string, nat) gomap"

definition recordWorkItemErrorMetrics :: "string \<Rightarrow> string \<Rightarrow> work_item_errors \<Rightarrow> work_item_errors" where
  "recordWorkItemErrorMetrics errorType instanceID m = increment (errorType, instanceID) m"

text \<open>What \<^verbatim>\<open>process\<close> records for an item.\<close>

definition item_metrics :: "'w Controller \<Rightarrow> int \<Rightarrow> workItem \<Rightarrow> 'w tc_state \<Rightarrow> work_item_errors \<Rightarrow> work_item_errors" where
  "item_metrics tc now item s m = (case s of (q, w) \<Rightarrow>
     case MapToAWSInstanceID (item_providerID item) of
       Inl err \<Rightarrow> m
     | Inr instanceID \<Rightarrow>
         if IsVariantNode instanceID then m
         else
           let n = \<lparr>tcn_providerID = item_providerID item, tcn_name = item_name item\<rparr> in
           case (if item_action item = addTag then tagNodesResources tc now n else untagNodeResources tc n) w of
             (Inl err, w) \<Rightarrow>
               if wq_NumRequeues item q < maxRequeuingCount
               then recordWorkItemErrorMetrics totalErrorsWorkItemErrorMetric instanceID m
               else recordWorkItemErrorMetrics errorsAfterRetriesExhaustedWorkItemErrorMetric instanceID m
           | (Inr _, w) \<Rightarrow> m)"

text \<open>The seconds from the creation of a node to its first tags, which \<^verbatim>\<open>tagEc2Instance\<close> observes after it has labelled the node;
  \<open>later\<close> is the time of the observation, in nanoseconds.\<close>

definition tagging_delay :: "'w Controller \<Rightarrow> int \<Rightarrow> int \<Rightarrow> k8s_node \<Rightarrow> 'w \<Rightarrow> int option" where
  "tagging_delay tc now later n w =
     (if \<not> isTaggingRequired tc n then None
      else
        let instanceID = instance_or_empty (node_ProviderID n);
            labels = [(taggingControllerLabelKey, getChecksumOfTags tc)]
        in case (if tc_batchingEnabled tc then TagResourceBatch (tc_create tc) instanceID (tc_tags tc)
                 else TagResource (c_ec2 (tc_cloud tc)) instanceID (tc_tags tc)) w of
             (Inl err, w) \<Rightarrow> None
           | (Inr _, w) \<Rightarrow> if fst (tc_label tc labels n w) \<and> isInitialTag n then Some (later - node_CreationTimestamp n) else None)"

section \<open>Registration\<close>

text \<open>Registering a metric twice panics; \<^verbatim>\<open>sync.Once\<close> runs its argument the first time only. The state is the flag and the names
  registered.\<close>

definition MustRegister :: "string \<Rightarrow> (bool \<times> string list, unit) aws" where
  "MustRegister name = (\<lambda>(done, names). if name \<in> set names then (Inl (Panic ''duplicate metrics collector registration attempted''), (done, names))
     else (Inr (), (done, names @ [name])))"

definition once :: "(bool \<times> string list, unit) aws \<Rightarrow> (bool \<times> string list, unit) aws" where
  "once f = (\<lambda>(done, names). if done then (Inr (), (done, names)) else f (True, names))"

definition registerMetrics :: "(bool \<times> string list, unit) aws" where
  "registerMetrics = once (forM MustRegister
     [''cloudprovider_aws_api_request_duration_seconds'', ''cloudprovider_aws_api_request_errors'',
      ''cloudprovider_aws_api_throttled_requests_total'', ''cloudprovider_aws_api_response_status_total''])"

definition tagging_registerMetrics :: "(bool \<times> string list, unit) aws" where
  "tagging_registerMetrics = once (forM MustRegister
     [''cloudprovider_aws_tagging_controller_work_item_errors_total'', ''tagging_controller_inital_node_tagging_delay_seconds''])"

section \<open>Recording is invisible and counts once\<close>

definition request_count :: "request_metrics \<Rightarrow> string \<Rightarrow> nat" where
  "request_count m action = length (filter (\<lambda>(a, t). a = action) (awsAPIMetric m))
     + (case map_of (awsAPIErrorMetric m) action of None \<Rightarrow> 0 | Some n \<Rightarrow> n)"

lemma increment_lookup: "map_of (increment k m) x = (if x = k then Some (Suc (case map_of m k of None \<Rightarrow> 0 | Some n \<Rightarrow> n)) else map_of m x)"
  by (simp add: increment_def update_conv')

lemma recordAWSMetric_count: "request_count (recordAWSMetric action t err m) a = request_count m a + (if a = action then 1 else 0)"
  by (auto simp: recordAWSMetric_def request_count_def increment_lookup split: option.splits)

lemma measured_once:
  assumes "measured clock action m (w, metrics) = (r, (w', metrics'))"
  shows "m w = (r, w') \<and> (\<forall>a. request_count metrics' a
     = request_count metrics a + (if a = action \<and> \<not> (\<exists>text. r = Inl (Panic text)) then 1 else 0))"
proof -
  have "is_panic err \<longleftrightarrow> (\<exists>text. err = Panic text)" for err by (cases err) auto
  then show ?thesis
    using assms by (auto simp: measured_def recordAWSMetric_count split: prod.splits sum.splits if_splits)
qed

definition invisible :: "('w \<times> request_metrics, 'a) aws \<Rightarrow> ('w, 'a) aws \<Rightarrow> bool" where
  "invisible f g \<longleftrightarrow> (\<forall>w m. g w = (fst (f (w, m)), fst (snd (f (w, m)))))"

lemma invisible_measured: "invisible (measured clock action g) g" and invisible_unmeasured: "invisible (unmeasured g) g"
  by (auto simp: invisible_def measured_def unmeasured_def split: prod.splits)

text \<open>The client with metrics gives the answers of the client without, and leaves the state behind it alone.\<close>

lemma measured_client_refines:
  "invisible (DescribeInstances (measured_client clock api) ids fs) (DescribeInstances (awsSdkEC2 api) ids fs)"
  "invisible (DescribeSecurityGroups (measured_client clock api) ids fs) (DescribeSecurityGroups (awsSdkEC2 api) ids fs)"
  "invisible (DescribeRouteTables (measured_client clock api) fs) (DescribeRouteTables (awsSdkEC2 api) fs)"
  "invisible (CreateTags (measured_client clock api) ids ts) (CreateTags (awsSdkEC2 api) ids ts)"
  "invisible (DeleteTags (measured_client clock api) ids ts) (DeleteTags (awsSdkEC2 api) ids ts)"
  "invisible (DescribeNetworkInterfaces (measured_client clock api) fs) (DescribeNetworkInterfaces (awsSdkEC2 api) fs)"
  by (simp_all add: measured_client_def sdk_CreateTags_def sdk_DeleteTags_def sdk_DescribeNetworkInterfaces_def awsSdkEC2_def
      invisible_measured Let_def)

text \<open>A failed attempt is counted once: as an error when the item is queued again, as an exhausted one when the item is given up. Nothing
  else is counted, so each counter of a queue says how often that happened.\<close>

lemma item_metrics_count:
  assumes "process_item tc now item (q, w) = (q', w')" and "MapToAWSInstanceID (item_providerID item) = Inr instanceID"
    and "\<not> IsVariantNode instanceID" and "wq_AddRateLimited item q \<noteq> wq_Forget item q"
    and "m' = item_metrics tc now item (q, w) m"
  shows "q' = wq_AddRateLimited item q \<longrightarrow> m' = increment (totalErrorsWorkItemErrorMetric, instanceID) m"
    and "m' = m \<or> m' = increment (totalErrorsWorkItemErrorMetric, instanceID) m \<and> q' = wq_AddRateLimited item q
       \<or> m' = increment (errorsAfterRetriesExhaustedWorkItemErrorMetric, instanceID) m \<and> q' = wq_Forget item q
         \<and> maxRequeuingCount \<le> wq_NumRequeues item q"
  using assms
  by (auto simp: process_item_def item_metrics_def recordWorkItemErrorMetrics_def Let_def split: prod.splits sum.splits if_splits)

text \<open>A delay is observed only by a call that succeeds, on a node that had no label.\<close>

lemma tagging_delay_initial:
  assumes "tagging_delay tc now later n w = Some d"
  shows "\<exists>w'. tagEc2Instance tc now n w = (Inr (), w')" and "isInitialTag n" and "d = later - node_CreationTimestamp n"
  using assms
  by (auto simp: tagging_delay_def tagEc2Instance_def tryM_run Let_def split: if_splits prod.splits sum.splits)

text \<open>However often the metrics are registered, there is no panic.\<close>

lemma registerMetrics_twice:
  "registerMetrics (False, []) = (Inr (), (True, names)) \<Longrightarrow> registerMetrics (True, names) = (Inr (), (True, names))"
  and registerMetrics_first: "\<exists>names. registerMetrics (False, []) = (Inr (), (True, names))"
  by (simp_all add: registerMetrics_def once_def MustRegister_def bindM_run returnM_run)

end
