(* ===== verification/Base64.thy ===== *)
theory Base64
  imports GoStrings
begin

text \<open>
  Go's \<^verbatim>\<open>base64.StdEncoding\<close>, with which ECR encodes an authorization token. Four characters stand for
  three bytes; a last group of one or two bytes is padded with \<^verbatim>\<open>=\<close>. The decoder skips newlines, and it
  does not look at the bits that padding leaves over. The lemma \<open>DecodeString_EncodeToString\<close> is the round trip.
\<close>

definition b64_char :: "nat \<Rightarrow> char" where
  "b64_char n =
     (if n < 26 then char_of (n + 65) else if n < 52 then char_of (n + 71)
      else if n < 62 then char_of (n - 4) else if n = 62 then CHR ''+'' else CHR ''/'')"

definition b64_val :: "char \<Rightarrow> nat option" where
  "b64_val c =
     (let n = of_char c in
      if is_upper c then Some (n - 65) else if is_lower c then Some (n - 71)
      else if is_digit c then Some (n + 4)
      else if c = CHR ''+'' then Some 62 else if c = CHR ''/'' then Some 63 else None)"

definition CorruptInputError :: go_error where
  "CorruptInputError = Errorf ''illegal base64 data'' []"

text \<open>The three bytes of four sextets.\<close>

definition byte1 :: "nat \<Rightarrow> nat \<Rightarrow> char" where
  "byte1 x y = char_of (4 * x + y div 16)"

definition byte2 :: "nat \<Rightarrow> nat \<Rightarrow> char" where
  "byte2 y z = char_of (16 * (y mod 16) + z div 4)"

definition byte3 :: "nat \<Rightarrow> nat \<Rightarrow> char" where
  "byte3 z u = char_of (64 * (z mod 4) + u)"

fun b64_decode :: "string \<Rightarrow> string result" where
  "b64_decode [] = Inr []"
| "b64_decode (a # b # c # d # s) = (case (b64_val a, b64_val b) of
     (Some x, Some y) \<Rightarrow>
       if c = CHR ''='' then (if d = CHR ''='' \<and> s = [] then Inr [byte1 x y] else Inl CorruptInputError)
       else (case b64_val c of
         None \<Rightarrow> Inl CorruptInputError
       | Some z \<Rightarrow>
           if d = CHR ''='' then (if s = [] then Inr [byte1 x y, byte2 y z] else Inl CorruptInputError)
           else (case b64_val d of
             None \<Rightarrow> Inl CorruptInputError
           | Some u \<Rightarrow> bindR (b64_decode s) (\<lambda>t. Inr (byte1 x y # byte2 y z # byte3 z u # t))))
   | _ \<Rightarrow> Inl CorruptInputError)"
| "b64_decode _ = Inl CorruptInputError"

definition DecodeString :: "string \<Rightarrow> string result" where
  "DecodeString s = b64_decode (filter (\<lambda>c. c \<noteq> CHR 0x0A \<and> c \<noteq> CHR 0x0D) s)"

fun EncodeToString :: "string \<Rightarrow> string" where
  "EncodeToString [] = []"
| "EncodeToString [a] =
     (let x = of_char a in [b64_char (x div 4), b64_char (16 * (x mod 4)), CHR ''='', CHR ''=''])"
| "EncodeToString [a, b] =
     (let x = of_char a; y = of_char b in
      [b64_char (x div 4), b64_char (16 * (x mod 4) + y div 16), b64_char (4 * (y mod 16)), CHR ''=''])"
| "EncodeToString (a # b # c # s) =
     (let x = of_char a; y = of_char b; z = of_char c in
      b64_char (x div 4) # b64_char (16 * (x mod 4) + y div 16)
        # b64_char (4 * (y mod 16) + z div 64) # b64_char (z mod 64) # EncodeToString s)"

section \<open>Round trip\<close>

lemma b64_val_char [simp]:
  assumes "n < 64"
  shows "b64_val (b64_char n) = Some n"
proof -
  consider "n < 26" | "26 \<le> n" "n < 52" | "52 \<le> n" "n < 62" | "n = 62" | "n = 63" using assms by linarith
  then show ?thesis
    by cases (simp_all add: b64_char_def b64_val_def is_upper_def is_lower_def is_digit_def Let_def, linarith?)
qed

lemma b64_char_neq [simp]:
  assumes "n < 64"
  shows "b64_char n \<noteq> CHR ''=''" and "b64_char n \<noteq> CHR 0x0A" and "b64_char n \<noteq> CHR 0x0D"
proof -
  have "b64_val (CHR ''='') = None" "b64_val (CHR 0x0A) = None" "b64_val (CHR 0x0D) = None"
    by (simp_all add: b64_val_def is_upper_def is_lower_def is_digit_def)
  then show "b64_char n \<noteq> CHR ''=''" and "b64_char n \<noteq> CHR 0x0A" and "b64_char n \<noteq> CHR 0x0D"
    using b64_val_char [OF assms] by auto
qed

lemma byte_lt: "(of_char (c :: char) :: nat) < 256"
  by simp

lemma sextet_bounds [simp]:
  "(of_char (a :: char) :: nat) div 4 < 64"
  "16 * ((of_char a :: nat) mod 4) + (of_char (b :: char) :: nat) div 16 < 64"
  "4 * ((of_char a :: nat) mod 16) + (of_char b :: nat) div 64 < 64"
  "16 * ((of_char a :: nat) mod 4) < 64" "4 * ((of_char a :: nat) mod 16) < 64"
  using byte_lt [of a] byte_lt [of b] by linarith+

lemma sextets_nat:
  "m < 16 \<Longrightarrow> 4 * (n div 4) + (16 * (n mod 4) + m) div 16 = (n :: nat)"
  "m < 4 \<Longrightarrow> n < 256 \<Longrightarrow> 16 * ((16 * k + n div 16) mod 16) + (4 * (n mod 16) + m) div 4 = (n :: nat)"
  "n < 256 \<Longrightarrow> 64 * ((4 * k + n div 64) mod 4) + n mod 64 = (n :: nat)"
  by (simp, linarith?)+

lemma byte1_sextets: "m < 16 \<Longrightarrow> byte1 (of_char a div 4) (16 * (of_char a mod 4) + m) = a"
  by (simp add: byte1_def sextets_nat)

lemma byte2_sextets: "m < 4 \<Longrightarrow> byte2 (16 * k + of_char a div 16) (4 * (of_char a mod 16) + m) = a"
  by (simp only: byte2_def sextets_nat byte_lt char_of_char)

lemma byte3_sextets: "byte3 (4 * k + of_char a div 64) (of_char a mod 64) = a"
  by (simp only: byte3_def sextets_nat byte_lt char_of_char)

lemmas sextets = byte1_sextets byte2_sextets byte3_sextets

lemma b64_decode_EncodeToString: "b64_decode (EncodeToString s) = Inr s"
proof (induction s rule: EncodeToString.induct)
  case (2 a)
  then show ?case using byte1_sextets [of 0 a] by (simp add: Let_def)
next
  case (3 a b)
  have "(of_char b :: nat) div 16 < 16" using byte_lt [of b] by linarith
  then show ?case using byte2_sextets [of 0 "of_char a mod 4" b] by (simp add: Let_def byte1_sextets)
next
  case (4 a b c s)
  have "(of_char b :: nat) div 16 < 16" "(of_char c :: nat) div 64 < 4" using byte_lt [of b] byte_lt [of c] by linarith+
  then show ?case using 4 by (simp add: Let_def sextets)
qed simp

lemma EncodeToString_no_newline:
  "filter (\<lambda>c. c \<noteq> CHR 0x0A \<and> c \<noteq> CHR 0x0D) (EncodeToString s) = EncodeToString s"
  by (induction s rule: EncodeToString.induct) (simp_all add: Let_def)

lemma DecodeString_EncodeToString: "DecodeString (EncodeToString s) = Inr s"
  by (simp add: DecodeString_def EncodeToString_no_newline b64_decode_EncodeToString)

end
