(* ===== verification/ECR.thy ===== *)
theory ECR
  imports Url Base64
begin

text \<open>
  The credential provider of the kubelet for ECR registries, \<^verbatim>\<open>cmd/ecr-credential-provider\<close>: which registry and region an
  image belongs to, which client is asked for an authorization token and with which credentials, what is read from the
  token, and the exec plugin that carries requests and responses between the kubelet and the provider.

  The AWS clients, the configuration of the SDK, the environment, the clock and the codecs of
  \<^verbatim>\<open>k8s.io/apimachinery\<close> are not in this repository; they are the fields of the record \<open>host\<close> and the arguments of the
  plugin. The state is the plugin, whose clients are made when they are first needed, and the world behind them.
\<close>

section \<open>Registries\<close>

definition ecrPublicRegion :: string where
  "ecrPublicRegion = ''us-east-1''"

definition ecrPublicHosts :: "string list" where
  "ecrPublicHosts = [''public.ecr.aws'', ''ecr-public.aws.com'']"

text \<open>The regular expression \<^verbatim>\<open>ecrPrivateHostPattern\<close>. A region has no dot, so the pattern matches in one way at most; the value
  is the third group, the region.\<close>

definition region_char :: "char \<Rightarrow> bool" where
  "region_char c \<longleftrightarrow> is_alnum c \<or> c \<in> set ''-_''"

definition ecr_suffixes :: "string list" where
  "ecr_suffixes = [''amazonaws.com'', ''amazonaws.com.cn'', ''amazonaws.eu'', ''on.aws'', ''on.amazonwebservices.com.cn'',
     ''sc2s.sgov.gov'', ''c2s.ic.gov'', ''cloud.adc-e.uk'', ''csp.hci.ic.gov'']"

definition region_and_suffix :: "string \<Rightarrow> string option" where
  "region_and_suffix s =
     (let region = takeWhile region_char s; rest = dropWhile region_char s in
      if region \<noteq> [] \<and> is_alnum (hd region) \<and> HasPrefix rest ''.'' \<and> tl rest \<in> set ecr_suffixes then Some region else None)"

definition ecrPrivateHostPattern :: "string \<Rightarrow> string option" where
  "ecrPrivateHostPattern host =
     (let account = take 12 host; rest = drop 12 host in
      if length account = 12 \<and> list_all is_digit account \<and> (HasPrefix rest ''.dkr.ecr'' \<or> HasPrefix rest ''.dkr-ecr'') then
        (let service = drop 8 rest; labels = TrimPrefix service ''-fips'' in
         if HasPrefix labels ''.'' then region_and_suffix (tl labels) else None)
      else None)"

definition parseRegionFromECRPrivateHost :: "string \<Rightarrow> string" where
  "parseRegionFromECRPrivateHost h = (case ecrPrivateHostPattern h of None \<Rightarrow> '''' | Some region \<Rightarrow> region)"

definition parseHostFromImageReference :: "string \<Rightarrow> string result" where
  "parseHostFromImageReference img =
     (let ref = (if \<not> Contains img ''://'' then ''https://'' @ img else img) in
      case url_Parse ref of
        Inl err \<Rightarrow> Inl (Errorf ''error parsing image reference %s: %v'' [ref, Error err])
      | Inr parsed \<Rightarrow> Inr (Hostname parsed))"

section \<open>Clients\<close>

record Credentials =
  AccessKeyID :: string
  SecretAccessKey :: string
  SessionToken :: string

type_synonym 'w CredentialsProvider = "('w, Credentials) aws"

text \<open>The two fields of the authorization data that are read; \<^verbatim>\<open>ExpiresAt\<close> in seconds of Unix time.\<close>

record credsData =
  authToken :: "string option"
  expiresAt :: "int option"

text \<open>A client answers \<^verbatim>\<open>GetAuthorizationToken\<close>, with other credentials when an option sets them. The output may be nil; a
  private registry has a list of authorization data.\<close>

type_synonym 'w ECR = "'w CredentialsProvider option \<Rightarrow> ('w, credsData list option) aws"
type_synonym 'w ECRPublic = "'w CredentialsProvider option \<Rightarrow> ('w, credsData option option) aws"

text \<open>\<^verbatim>\<open>AssumeRoleWithWebIdentity\<close> takes the role, the name of the session and the token; its output has optional credentials with three optional
  strings.\<close>

record sts_credentials =
  sts_AccessKeyId :: "string option"
  sts_SecretAccessKey :: "string option"
  sts_SessionToken :: "string option"

type_synonym 'w STS = "string \<Rightarrow> string \<Rightarrow> string \<Rightarrow> ('w, sts_credentials option) aws"

record 'w ecrPlugin =
  p_ecr :: "'w ECR option"
  p_ecrPublic :: "'w ECRPublic option"
  p_sts :: "'w STS option"

text \<open>What the process has around it: \<^verbatim>\<open>config.LoadDefaultConfig\<close> with or without a region, the constructors of the clients, the environment
  and the clock.\<close>

record ('w, 'cfg) host =
  LoadDefaultConfig :: "string option \<Rightarrow> ('w, 'cfg) aws"
  ecr_NewFromConfig :: "'cfg \<Rightarrow> 'w ECR"
  ecrpublic_NewFromConfig :: "'cfg \<Rightarrow> 'w ECRPublic"
  sts_NewFromConfig :: "'cfg \<Rightarrow> 'w STS"
  Getenv :: "string \<Rightarrow> string"
  Now :: "'w \<Rightarrow> int"

definition defaultECRProvider :: "('w, 'cfg) host \<Rightarrow> string \<Rightarrow> ('w, 'w ECR) aws" where
  "defaultECRProvider h region =
     bindM (if region \<noteq> '''' then LoadDefaultConfig h (Some region) else LoadDefaultConfig h None) (\<lambda>cfg.
     returnM (ecr_NewFromConfig h cfg))"

definition publicECRProvider :: "('w, 'cfg) host \<Rightarrow> ('w, 'w ECRPublic) aws" where
  "publicECRProvider h =
     bindM (LoadDefaultConfig h (Some ecrPublicRegion)) (\<lambda>cfg. returnM (ecrpublic_NewFromConfig h cfg))"

definition stsProvider :: "('w, 'cfg) host \<Rightarrow> string \<Rightarrow> ('w, 'w STS) aws" where
  "stsProvider h region =
     bindM (if region \<noteq> '''' then LoadDefaultConfig h (Some region) else LoadDefaultConfig h None) (\<lambda>cfg.
     returnM (sts_NewFromConfig h cfg))"

section \<open>The plugin\<close>

text \<open>An operation of the plugin: it may set the clients of the plugin and change the world.\<close>

type_synonym ('w, 'a) plugin = "('w ecrPlugin \<times> 'w, 'a) aws"

definition in_world :: "('w, 'a) aws \<Rightarrow> ('w, 'a) plugin" where
  "in_world m = (\<lambda>(e, w). case m w of (r, w) \<Rightarrow> (r, (e, w)))"

definition get_plugin :: "('w, 'w ecrPlugin) plugin" where
  "get_plugin = (\<lambda>(e, w). (Inr e, (e, w)))"

definition set_plugin :: "('w ecrPlugin \<Rightarrow> 'w ecrPlugin) \<Rightarrow> ('w, unit) plugin" where
  "set_plugin f = (\<lambda>(e, w). (Inr (), (f e, w)))"

definition getPublicCredsData :: "('w, 'cfg) host \<Rightarrow> 'w CredentialsProvider option \<Rightarrow> ('w, credsData) plugin" where
  "getPublicCredsData h opt =
     bindM get_plugin (\<lambda>e.
     bindM (case p_ecrPublic e of Some client \<Rightarrow> returnM client
        | None \<Rightarrow> bindM (in_world (publicECRProvider h)) (\<lambda>client.
            bindM (set_plugin (\<lambda>e. e\<lparr>p_ecrPublic := Some client\<rparr>)) (\<lambda>_. returnM client))) (\<lambda>client.
     bindM (in_world (client opt)) (\<lambda>output. case output of
       None \<Rightarrow> throwM (Errorf ''response output from ECR was nil'' [])
     | Some None \<Rightarrow> throwM (Errorf ''authorization data was empty'' [])
     | Some (Some d) \<Rightarrow> returnM d)))"

definition getPrivateCredsData :: "('w, 'cfg) host \<Rightarrow> string \<Rightarrow> 'w CredentialsProvider option \<Rightarrow> ('w, credsData) plugin" where
  "getPrivateCredsData h imageHost opt =
     bindM get_plugin (\<lambda>e.
     bindM (case p_ecr e of Some client \<Rightarrow> returnM client
        | None \<Rightarrow> bindM (in_world (defaultECRProvider h (parseRegionFromECRPrivateHost imageHost))) (\<lambda>client.
            bindM (set_plugin (\<lambda>e. e\<lparr>p_ecr := Some client\<rparr>)) (\<lambda>_. returnM client))) (\<lambda>client.
     bindM (in_world (client opt)) (\<lambda>output. case output of
       None \<Rightarrow> throwM (Errorf ''response output from ECR was nil'' [])
     | Some [] \<Rightarrow> throwM (Errorf ''authorization data was empty'' [])
     | Some (d # ds) \<Rightarrow> returnM d)))"

record CredentialProviderRequest =
  Image :: string
  ServiceAccountToken :: string
  ServiceAccountAnnotations :: "(string, string) gomap"

text \<open>The credentials of an assumed role; a field that is missing in the output is a nil dereference.\<close>

definition assumed_credentials :: "'w STS \<Rightarrow> string \<Rightarrow> string \<Rightarrow> 'w CredentialsProvider" where
  "assumed_credentials sts arn token =
     bindM (wrapM (Wrapf ''failed to assume role: %w'' []) (sts arn ''ecr-credential-provider'' token)) (\<lambda>output.
     case output of
       None \<Rightarrow> throwM (Panic ''nil dereference'')
     | Some c \<Rightarrow> (case (sts_AccessKeyId c, sts_SecretAccessKey c, sts_SessionToken c) of
         (Some k, Some s, Some t) \<Rightarrow> returnM \<lparr>AccessKeyID = k, SecretAccessKey = s, SessionToken = t\<rparr>
       | _ \<Rightarrow> throwM (Panic ''nil dereference'')))"

definition buildCredentialsProvider ::
  "('w, 'cfg) host \<Rightarrow> CredentialProviderRequest \<Rightarrow> string \<Rightarrow> ('w, 'w CredentialsProvider option) plugin" where
  "buildCredentialsProvider h request imageHost =
     (if ServiceAccountToken request = '''' then returnM None
      else let arn = (case map_of (ServiceAccountAnnotations request) ''eks.amazonaws.com/ecr-role-arn'' of
               Some arn \<Rightarrow> arn | None \<Rightarrow> Getenv h ''AWS_ECR_ROLE_ARN'') in
        if arn = '''' then returnM None
        else bindM get_plugin (\<lambda>e. case p_sts e of
          Some sts \<Rightarrow> returnM (Some (assumed_credentials sts arn (ServiceAccountToken request)))
        | None \<Rightarrow>
            (let region = (if imageHost \<in> set ecrPublicHosts then '''' else parseRegionFromECRPrivateHost imageHost) in
             tryM (in_world (stsProvider h region)) (\<lambda>r. case r of
               Inl err \<Rightarrow> returnM None
             | Inr sts \<Rightarrow> bindM (set_plugin (\<lambda>e. e\<lparr>p_sts := Some sts\<rparr>)) (\<lambda>_.
                 returnM (Some (assumed_credentials sts arn (ServiceAccountToken request))))))))"

text \<open>Arithmetic of \<^verbatim>\<open>int64\<close>; division truncates. A duration is in nanoseconds.\<close>

definition to_int64 :: "int \<Rightarrow> int" where
  "to_int64 x = (x + 2 ^ 63) mod 2 ^ 64 - 2 ^ 63"

definition half_int64 :: "int \<Rightarrow> int" where
  "half_int64 x = (if x \<ge> 0 then x div 2 else - ((- x) div 2))"

definition getCacheDuration :: "int \<Rightarrow> int option \<Rightarrow> int option" where
  "getCacheDuration now exp = (case exp of
     None \<Rightarrow> Some 0
   | Some t \<Rightarrow> (let duration = to_int64 (1000000000 * half_int64 (to_int64 (t - now))) in
       if duration > 0 then Some duration else None))"

record AuthConfig =
  Username :: string
  Password :: string

datatype PluginCacheKeyType = ImagePluginCacheKeyType | RegistryPluginCacheKeyType | GlobalPluginCacheKeyType

record CredentialProviderResponse =
  CacheKeyType :: PluginCacheKeyType
  CacheDuration :: "int option"
  Auth :: "(string, AuthConfig) gomap"

text \<open>The second half of \<^verbatim>\<open>GetCredentials\<close>: from the authorization data to the response.\<close>

definition credentials_response :: "('w, 'cfg) host \<Rightarrow> string \<Rightarrow> credsData \<Rightarrow> ('w, CredentialProviderResponse) plugin" where
  "credentials_response h imageHost creds = (case authToken creds of
     None \<Rightarrow> throwM (Errorf ''authorization token in response was nil'' [])
   | Some token \<Rightarrow>
       bindM (liftM (DecodeString token)) (\<lambda>decodedToken.
       case SplitN2 (CHR '':'') decodedToken of
         [username, password] \<Rightarrow>
           (\<lambda>(e, w). (Inr \<lparr>CacheKeyType = RegistryPluginCacheKeyType,
               CacheDuration = getCacheDuration (Now h w) (expiresAt creds),
               Auth = [(imageHost, \<lparr>Username = username, Password = password\<rparr>)]\<rparr>, (e, w)))
       | _ \<Rightarrow> throwM (Errorf ''error parsing username and password from authorization token'' [])))"

definition GetCredentials ::
  "('w, 'cfg) host \<Rightarrow> CredentialProviderRequest \<Rightarrow> ('w, CredentialProviderResponse) plugin" where
  "GetCredentials h request =
     (if Image request = '''' then throwM (Errorf ''image in plugin request was empty'' [])
      else bindM (liftM (parseHostFromImageReference (Image request))) (\<lambda>imageHost.
        bindM (buildCredentialsProvider h request imageHost) (\<lambda>credentialsProvider.
        bindM (if imageHost \<in> set ecrPublicHosts then getPublicCredsData h credentialsProvider
               else getPrivateCredsData h imageHost credentialsProvider) (\<lambda>creds.
        credentials_response h imageHost creds))))"

section \<open>The exec plugin\<close>

record gvk =
  gvk_Group :: string
  gvk_Version :: string
  gvk_Kind :: string

definition GroupName :: string where
  "GroupName = ''credentialprovider.kubelet.k8s.io''"

definition SchemeGroupVersion :: "string \<times> string" where
  "SchemeGroupVersion = (GroupName, ''v1'')"

text \<open>The codecs: the meta factory that reads the group, version and kind, the decoder, whose object is a request or something
  else, and the JSON serializer, if there is one.\<close>

record codec =
  Interpret :: "string \<Rightarrow> gvk result"
  Decode :: "string \<Rightarrow> (CredentialProviderRequest option \<times> gvk) result"
  Encode :: "(CredentialProviderResponse \<Rightarrow> string result) option"

definition decodeRequest :: "codec \<Rightarrow> string \<Rightarrow> CredentialProviderRequest result" where
  "decodeRequest codecs input =
     bindR (Decode codecs input) (\<lambda>(obj, gvk).
     if gvk_Kind gvk \<noteq> ''CredentialProviderRequest'' then Inl (Errorf ''kind was %q, expected CredentialProviderRequest'' [gvk_Kind gvk])
     else if gvk_Group gvk \<noteq> GroupName then Inl (Errorf ''group was %q, expected %s'' [gvk_Group gvk, GroupName])
     else case obj of None \<Rightarrow> Inl (Errorf ''unable to convert to *CredentialProviderRequest'' []) | Some request \<Rightarrow> Inr request)"

definition encodeResponse :: "codec \<Rightarrow> CredentialProviderResponse \<Rightarrow> string result" where
  "encodeResponse codecs response = (case Encode codecs of
     None \<Rightarrow> Inl (Errorf ''unsupported media type %q'' [''application/json''])
   | Some encoder \<Rightarrow> (case encoder response of
       Inl err \<Rightarrow> Inl (Errorf ''failed to encode response: %v'' [Error err])
     | Inr output \<Rightarrow> Inr output))"

text \<open>One \<^verbatim>\<open>Write\<close> of a fresh \<^verbatim>\<open>bufio.Writer\<close>, whose buffer has 4096 bytes, and the deferred \<^verbatim>\<open>Flush\<close>: a longer output goes to the writer
  below at once and its error is returned; the rest waits in the buffer until the flush, whose error is dropped.\<close>

definition write_and_flush :: "(string \<Rightarrow> ('s, unit) aws) \<Rightarrow> string \<Rightarrow> ('s, unit) aws" where
  "write_and_flush out s =
     (if length s > 4096 then out s
      else if s = [] then returnM ()
      else tryM (out s) (\<lambda>_. returnM ()))"

text \<open>\<open>input\<close> is what \<^verbatim>\<open>io.ReadAll\<close> returns, \<open>plugin\<close> the credential provider, whose response may be nil, and \<open>out\<close> the standard
  output.\<close>

definition runPlugin ::
  "codec \<Rightarrow> (CredentialProviderRequest \<Rightarrow> ('s, CredentialProviderResponse option) aws) \<Rightarrow> string result
   \<Rightarrow> (string \<Rightarrow> ('s, unit) aws) \<Rightarrow> ('s, unit) aws" where
  "runPlugin codecs plugin input out =
     bindM (liftM input) (\<lambda>input.
     bindM (liftM (Interpret codecs input)) (\<lambda>gvk.
     if (gvk_Group gvk, gvk_Version gvk) \<noteq> SchemeGroupVersion
     then throwM (Errorf ''group version %s is not supported'' [gvk_Group gvk @ ''/'' @ gvk_Version gvk])
     else
       bindM (liftM (decodeRequest codecs input)) (\<lambda>request.
       bindM (plugin request) (\<lambda>response. case response of
         None \<Rightarrow> throwM (Errorf ''CredentialProviderResponse from plugin was nil'' [])
       | Some response \<Rightarrow>
           bindM (liftM (encodeResponse codecs response)) (\<lambda>encodedResponse.
           write_and_flush out encodedResponse)))))"

text \<open>The command: a fresh plugin, run on standard input and output; the value is the exit code of the process.\<close>

definition newCredentialProviderCommand ::
  "('w, 'cfg) host \<Rightarrow> codec \<Rightarrow> string result \<Rightarrow> (string \<Rightarrow> ('w, unit) aws) \<Rightarrow> 'w \<Rightarrow> int \<times> 'w" where
  "newCredentialProviderCommand h codecs stdin stdout w =
     (case runPlugin codecs (\<lambda>request. bindM (GetCredentials h request) (\<lambda>r. returnM (Some r))) stdin (\<lambda>s. in_world (stdout s))
         (\<lparr>p_ecr = None, p_ecrPublic = None, p_sts = None\<rparr>, w) of
       (Inl err, (e, w)) \<Rightarrow> (1, w)
     | (Inr _, (e, w)) \<Rightarrow> (0, w))"

section \<open>Regions\<close>

text \<open>The hosts that the pattern is about, with their region.\<close>

definition ecr_private_host :: "string \<Rightarrow> string \<Rightarrow> bool" where
  "ecr_private_host region h \<longleftrightarrow> (\<exists>account sep fips domain.
     h = account @ ''.dkr'' @ [sep] @ ''ecr'' @ fips @ ''.'' @ region @ ''.'' @ domain
     \<and> length account = 12 \<and> list_all is_digit account \<and> sep \<in> set ''.-'' \<and> fips \<in> {'''', ''-fips''}
     \<and> region \<noteq> [] \<and> is_alnum (hd region) \<and> list_all region_char region \<and> domain \<in> set ecr_suffixes)"

lemma region_char_dot [simp]: "\<not> region_char (CHR ''.'')"
  by (simp add: region_char_def is_alnum_def is_alpha_def is_upper_def is_lower_def is_digit_def)

lemma takeWhile_region:
  "list_all region_char r \<Longrightarrow> takeWhile region_char (r @ CHR ''.'' # s) = r"
  "list_all region_char r \<Longrightarrow> dropWhile region_char (r @ CHR ''.'' # s) = CHR ''.'' # s"
  by (induction r) auto

lemma region_and_suffix_iff:
  "region_and_suffix s = Some region \<longleftrightarrow> (\<exists>domain. s = region @ ''.'' @ domain \<and> region \<noteq> [] \<and> is_alnum (hd region)
     \<and> list_all region_char region \<and> domain \<in> set ecr_suffixes)" (is "?l \<longleftrightarrow> ?r")
proof
  assume ?l
  then have r: "region = takeWhile region_char s" "region \<noteq> []" "is_alnum (hd region)" "HasPrefix (dropWhile region_char s) ''.''"
    "tl (dropWhile region_char s) \<in> set ecr_suffixes"
    unfolding region_and_suffix_def Let_def by (auto split: if_splits)
  obtain t where t: "dropWhile region_char s = CHR ''.'' # t" using r(4) by (auto simp: HasPrefix_iff)
  have "s = region @ ''.'' @ t" using r(1) t takeWhile_dropWhile_id [of region_char s] by simp
  moreover have "list_all region_char region" unfolding r(1) by (auto simp: list_all_iff dest: set_takeWhileD)
  ultimately show ?r using r(2,3,5) t by auto
next
  assume ?r
  then show ?l by (auto simp: region_and_suffix_def takeWhile_region HasPrefix_def)
qed

lemma TrimPrefix_fips:
  "TrimPrefix (''-fips'' @ s) ''-fips'' = s" "TrimPrefix (CHR ''.'' # s) ''-fips'' = CHR ''.'' # s"
  by (simp_all add: TrimPrefix_def HasPrefix_def)

lemma ecrPrivateHostPattern_iff: "ecrPrivateHostPattern h = Some region \<longleftrightarrow> ecr_private_host region h" (is "?l \<longleftrightarrow> ?r")
proof
  assume ?l
  define account where "account = take 12 h"
  define labels where "labels = TrimPrefix (drop 8 (drop 12 h)) ''-fips''"
  have p: "length account = 12" "list_all is_digit account" "HasPrefix (drop 12 h) ''.dkr.ecr'' \<or> HasPrefix (drop 12 h) ''.dkr-ecr''"
    "HasPrefix labels ''.''" "region_and_suffix (tl labels) = Some region"
    using \<open>?l\<close> unfolding ecrPrivateHostPattern_def Let_def account_def labels_def by (auto split: if_splits)
  obtain sep service where sep: "sep \<in> set ''.-''" "drop 12 h = ''.dkr'' @ [sep] @ ''ecr'' @ service"
    using p(3) by (auto simp: HasPrefix_iff)
  then have "drop 8 (drop 12 h) = service" by simp
  then obtain fips where "fips \<in> {'''', ''-fips''}" "service = fips @ labels"
    unfolding labels_def TrimPrefix_def by (cases "HasPrefix service ''-fips''") (auto simp: HasPrefix_iff)
  moreover have "labels = ''.'' @ tl labels" using p(4) by (auto simp: HasPrefix_iff)
  moreover have "h = account @ drop 12 h" unfolding account_def by simp
  ultimately show ?r
    using p(1,2) sep p(5) unfolding region_and_suffix_iff ecr_private_host_def by (metis append.assoc)
next
  assume ?r
  then obtain account sep fips domain where
    h: "h = account @ ''.dkr'' @ [sep] @ ''ecr'' @ fips @ ''.'' @ region @ ''.'' @ domain" "length account = 12"
      "list_all is_digit account" "sep \<in> set ''.-''" "fips \<in> {'''', ''-fips''}" "region \<noteq> []" "is_alnum (hd region)"
      "list_all region_char region" "domain \<in> set ecr_suffixes"
    unfolding ecr_private_host_def by blast
  define labels where "labels = ''.'' @ region @ ''.'' @ domain"
  define rest where "rest = ''.dkr'' @ [sep] @ ''ecr'' @ fips @ labels"
  have parts: "take 12 h = account" "drop 12 h = rest" by (simp_all add: h(1,2) rest_def labels_def)
  have "sep = CHR ''.'' \<or> sep = CHR ''-''" using h(4) by simp
  then have service: "HasPrefix rest ''.dkr.ecr'' \<or> HasPrefix rest ''.dkr-ecr''"
    unfolding rest_def by (elim disjE) (simp_all add: HasPrefix_def)
  have "drop 8 rest = fips @ labels" by (simp add: rest_def)
  then have "TrimPrefix (drop 8 rest) ''-fips'' = labels"
    using h(5) TrimPrefix_fips [of labels] TrimPrefix_fips [of "region @ ''.'' @ domain"] unfolding labels_def by fastforce
  moreover have "region_and_suffix (tl labels) = Some region"
    unfolding region_and_suffix_iff using h(6-9) by (auto simp: labels_def)
  moreover have "HasPrefix labels ''.''" unfolding labels_def by (rule HasPrefix_append)
  ultimately show ?l
    using h(2,3) service by (simp only: ecrPrivateHostPattern_def Let_def parts simp_thms if_True)
qed

lemma ecr_private_host_unique: "ecr_private_host r h \<Longrightarrow> ecr_private_host r' h \<Longrightarrow> r = r'"
  by (metis ecrPrivateHostPattern_iff option.inject)

lemma parseRegion_private: "ecr_private_host region h \<Longrightarrow> parseRegionFromECRPrivateHost h = region"
  by (simp add: parseRegionFromECRPrivateHost_def flip: ecrPrivateHostPattern_iff)

text \<open>C25: \<^verbatim>\<open>parseRegionFromECRPrivateHost\<close> returns a region exactly for the hosts of private ECR registries, which are twelve digits of an
  account, \<^verbatim>\<open>.dkr.ecr\<close> or \<^verbatim>\<open>.dkr-ecr\<close>, optionally \<^verbatim>\<open>-fips\<close>, a region and one of the nine domains of AWS; it returns the region
  of that host, and the empty text for every other host.\<close>

theorem parseRegionFromECRPrivateHost_exact:
  "parseRegionFromECRPrivateHost h = region \<longleftrightarrow>
     ecr_private_host region h \<or> region = '''' \<and> (\<nexists>r. ecr_private_host r h)"
proof (cases "\<exists>r. ecr_private_host r h")
  case True
  then obtain r where r: "ecr_private_host r h" by blast
  show ?thesis using parseRegion_private [OF r] ecr_private_host_unique [OF r] r by metis
next
  case False
  then have "ecrPrivateHostPattern h = None"
    by (metis ecrPrivateHostPattern_iff option.exhaust)
  then show ?thesis using False by (auto simp: parseRegionFromECRPrivateHost_def)
qed

section \<open>Images\<close>

lemma ecr_suffixes_plain: "list_all (list_all plain_host_char) ecr_suffixes"
  by code_simp

lemma region_char_plain: "region_char c \<Longrightarrow> plain_host_char c"
  by (auto simp: region_char_def plain_host_char_def)

lemma ecr_private_host_plain:
  assumes "ecr_private_host region h"
  shows "list_all plain_host_char h"
proof -
  obtain account sep fips domain where
    h: "h = account @ ''.dkr'' @ [sep] @ ''ecr'' @ fips @ ''.'' @ region @ ''.'' @ domain"
      "list_all is_digit account" "sep \<in> set ''.-''" "fips \<in> {'''', ''-fips''}" "list_all region_char region" "domain \<in> set ecr_suffixes"
    using assms unfolding ecr_private_host_def by blast
  have "list_all plain_host_char domain" using h(6) ecr_suffixes_plain by (simp add: list_all_iff)
  moreover have "list_all plain_host_char account"
    by (rule list.pred_mono_strong [OF h(2)]) (simp add: plain_host_char_def is_alnum_def)
  moreover have "list_all plain_host_char region" by (rule list.pred_mono_strong [OF h(5)]) (simp add: region_char_plain)
  moreover have "list_all plain_host_char fips" "plain_host_char sep"
    using h(3,4) by (auto simp: plain_host_char_def is_alnum_def is_alpha_def is_lower_def)
  moreover have "list_all plain_host_char ''.dkr''" "list_all plain_host_char ''ecr''" "list_all plain_host_char ''.''"
    by (simp_all add: plain_host_char_def is_alnum_def is_alpha_def is_lower_def)
  ultimately show ?thesis unfolding h(1) by (simp only: list_all_append list.pred_inject simp_thms)
qed

lemma parseHostFromImageReference_plain:
  assumes "list_all plain_host_char name" and "validOptionalPort port" and "list_all plain_url_char path"
    and "path = [] \<or> hd path = CHR ''/''" and "\<not> Contains (name @ port @ path) ''://''"
  shows "parseHostFromImageReference (name @ port @ path) = Inr name"
  using url_Parse_https [OF assms(1-4)] Hostname_plain [OF assms(1,2)] assms(5)
  by (simp add: parseHostFromImageReference_def)

lemma not_public:
  assumes "ecr_private_host region h"
  shows "h \<notin> set ecrPublicHosts"
proof -
  obtain account rest where h: "h = account @ rest" "length account = 12" "list_all is_digit account"
    using assms unfolding ecr_private_host_def by blast
  then have "is_digit (hd h)" by (cases account) simp_all
  then show ?thesis by (auto simp: ecrPublicHosts_def is_digit_def)
qed

section \<open>Credentials\<close>

lemma in_world_run [run_simps]: "in_world m (e, w) = (case m w of (r, w) \<Rightarrow> (r, (e, w)))"
  by (simp add: in_world_def)

lemma plugin_run [run_simps]: "get_plugin (e, w) = (Inr e, (e, w))" "set_plugin f (e, w) = (Inr (), (f e, w))"
  by (simp_all add: get_plugin_def set_plugin_def)

lemma SplitN2_pair: "sep \<notin> set a \<Longrightarrow> SplitN2 sep (a @ sep # b) = [a, b]"
  by (induction a) auto

text \<open>C24: for an image of a private registry, a fresh plugin makes a client for the region in the name of the registry and asks it for a
  token; when the token is the encoding of a user name without a colon, a colon and a password, the response gives exactly this user name and
  password for the registry, cached by registry, for as long as \<^verbatim>\<open>getCacheDuration\<close> says at that moment. A port and a path of the image do not matter.\<close>

theorem GetCredentials_private:
  assumes "ecr_private_host region registry" and "validOptionalPort port" and "list_all plain_url_char path"
    and "path = [] \<or> hd path = CHR ''/''" and "\<not> Contains (registry @ port @ path) ''://''"
    and "Image request = registry @ port @ path" and "ServiceAccountToken request = ''''" and "p_ecr e = None"
    and "LoadDefaultConfig h (Some region) w = (Inr cfg, w1)"
    and "ecr_NewFromConfig h cfg None w1 = (Inr (Some (d # ds)), w2)"
    and "authToken d = Some (EncodeToString (user @ CHR '':'' # password))" and "CHR '':'' \<notin> set user"
  shows "GetCredentials h request (e, w) =
    (Inr \<lparr>CacheKeyType = RegistryPluginCacheKeyType, CacheDuration = getCacheDuration (Now h w2) (expiresAt d),
          Auth = [(registry, \<lparr>Username = user, Password = password\<rparr>)]\<rparr>,
     (e\<lparr>p_ecr := Some (ecr_NewFromConfig h cfg)\<rparr>, w2))"
proof -
  have "Image request \<noteq> ''''" "region \<noteq> ''''" using assms(1,6) by (auto simp: ecr_private_host_def)
  moreover have "parseHostFromImageReference (Image request) = Inr registry"
    unfolding assms(6) by (rule parseHostFromImageReference_plain [OF ecr_private_host_plain [OF assms(1)] assms(2-5)])
  ultimately show ?thesis
    using not_public [OF assms(1)] parseRegion_private [OF assms(1)] assms(7-12)
    by (simp add: GetCredentials_def credentials_response_def run_simps buildCredentialsProvider_def getPrivateCredsData_def defaultECRProvider_def
        DecodeString_EncodeToString SplitN2_pair)
qed

text \<open>A registry, a client and a host on which the property is evaluated.\<close>

definition sample_registry :: string where
  "sample_registry = ''123456789012.dkr.ecr.us-west-2.amazonaws.com''"

definition sample_ecr :: "string \<Rightarrow> unit ECR" where
  "sample_ecr region opt w = (Inr (Some [\<lparr>authToken = Some (EncodeToString (''AWS:'' @ region)), expiresAt = Some 43200\<rparr>]), w)"

definition sample_host :: "(unit, string) host" where
  "sample_host = \<lparr>LoadDefaultConfig = (\<lambda>r. returnM (case r of None \<Rightarrow> '''' | Some region \<Rightarrow> region)), ecr_NewFromConfig = sample_ecr,
     ecrpublic_NewFromConfig = (\<lambda>cfg opt. throwM (Errorf ''no public registry'' [])),
     sts_NewFromConfig = (\<lambda>cfg arn session token. throwM (Errorf ''no STS'' [])), Getenv = (\<lambda>k. ''''), Now = (\<lambda>w. 200)\<rparr>"

lemma sample_registry_private: "ecr_private_host ''us-west-2'' sample_registry"
  unfolding sample_registry_def ecr_private_host_def
  by (rule exI [of _ "''123456789012''"], rule exI [of _ "CHR ''.''"], rule exI [of _ "''''"], rule exI [of _ "''amazonaws.com''"])
    (simp add: is_digit_def is_alnum_def is_alpha_def is_lower_def is_upper_def region_char_def ecr_suffixes_def)

theorem GetCredentials_private_witness:
  "GetCredentials sample_host \<lparr>Image = sample_registry @ '':443'' @ ''/app:v1'', ServiceAccountToken = '''', ServiceAccountAnnotations = []\<rparr>
     (\<lparr>p_ecr = None, p_ecrPublic = None, p_sts = None\<rparr>, ()) =
   (Inr \<lparr>CacheKeyType = RegistryPluginCacheKeyType, CacheDuration = Some 21500000000000,
         Auth = [(sample_registry, \<lparr>Username = ''AWS'', Password = ''us-west-2''\<rparr>)]\<rparr>,
    (\<lparr>p_ecr = Some (sample_ecr ''us-west-2''), p_ecrPublic = None, p_sts = None\<rparr>, ()))"
proof -
  have "\<not> Contains (sample_registry @ '':443'' @ ''/app:v1'') ''://''" unfolding sample_registry_def by code_simp
  then show ?thesis
    by (subst GetCredentials_private [where ds = "[]" and user = "''AWS''" and password = "''us-west-2''",
          OF sample_registry_private, of "'':443''" "''/app:v1''" _ _ _ _ "''us-west-2''" "()"
             "\<lparr>authToken = Some (EncodeToString ''AWS:us-west-2''), expiresAt = Some 43200\<rparr>" "()"])
      (simp_all add: validOptionalPort_def is_digit_def plain_url_char_def is_ctl_def sample_host_def sample_ecr_def returnM_def
        getCacheDuration_def to_int64_def half_int64_def)
qed

section \<open>Caching\<close>

lemma to_int64_id: "- (2 ^ 63) \<le> x \<Longrightarrow> x < 2 ^ 63 \<Longrightarrow> to_int64 x = x"
  by (simp add: to_int64_def)

lemma half_int64_range: "- (2 ^ 33) \<le> x \<Longrightarrow> x \<le> 2 ^ 33 \<Longrightarrow> - (2 ^ 32) \<le> half_int64 x \<and> half_int64 x \<le> 2 ^ 32"
  by (auto simp: half_int64_def)

text \<open>C26: while the time until a token expires is less than 272 years, so that nothing overflows, the kubelet is told to cache it for half of that time, in whole
  seconds, so never beyond its expiry. For a token that has expired or has less than two seconds left the response has no
  cache duration at all, which tells the kubelet to use its default duration; a zero, which tells it not to cache, is only sent
  when the expiry is unknown.\<close>

theorem getCacheDuration_half:
  assumes "\<bar>t - now\<bar> \<le> 2 ^ 33"
  shows "getCacheDuration now (Some t) = (if t - now \<ge> 2 then Some (1000000000 * ((t - now) div 2)) else None)
    \<and> (\<forall>d. getCacheDuration now (Some t) = Some d \<longrightarrow> 0 < d \<and> 1000000000 * now + d \<le> 1000000000 * t)
    \<and> getCacheDuration now None = Some 0"
proof -
  have bounds: "- (2 ^ 33) \<le> t - now" "t - now \<le> 2 ^ 33" using assms by auto
  have "to_int64 (t - now) = t - now" by (rule to_int64_id) (use bounds in auto)
  moreover have "to_int64 (1000000000 * half_int64 (t - now)) = 1000000000 * half_int64 (t - now)"
    by (rule to_int64_id) (use half_int64_range [OF bounds] in auto)
  ultimately have eq: "getCacheDuration now (Some t) = (if t - now \<ge> 2 then Some (1000000000 * ((t - now) div 2)) else None)"
    by (auto simp: getCacheDuration_def half_int64_def Let_def)
  have "getCacheDuration now None = Some 0" by (simp add: getCacheDuration_def)
  then show ?thesis unfolding eq by auto
qed

theorem getCacheDuration_half_witness:
  "getCacheDuration 200 (Some 43200) = Some 21500000000000 \<and> getCacheDuration 200 (Some 201) = None
   \<and> getCacheDuration 200 None = Some 0"
  using getCacheDuration_half [of 43200 200] getCacheDuration_half [of 201 200] by simp

section \<open>Responses\<close>

text \<open>The source of a response: every response names one registry, the host of the image, with a user name and a password
  that are read from the decoded token up to and after its first colon.\<close>

lemma credentials_response_sound:
  assumes "credentials_response h registry creds s = (Inr response, s')"
  shows "\<exists>user password token. authToken creds = Some token
    \<and> DecodeString token = Inr (user @ CHR '':'' # password) \<and> CHR '':'' \<notin> set user
    \<and> CacheKeyType response = RegistryPluginCacheKeyType \<and> Auth response = [(registry, \<lparr>Username = user, Password = password\<rparr>)]"
proof -
  obtain token where t: "authToken creds = Some token"
    using assms by (cases "authToken creds") (auto simp: credentials_response_def throwM_run)
  then obtain decoded where d: "DecodeString token = Inr decoded"
    using assms by (cases "DecodeString token") (auto simp: credentials_response_def run_simps)
  show ?thesis
    using SplitN2_cases [of "CHR '':''" decoded] assms t d
    by (cases s) (auto simp: credentials_response_def run_simps)
qed

lemma GetCredentials_sound:
  assumes "GetCredentials h request s = (Inr response, s')"
  shows "\<exists>registry user password token. parseHostFromImageReference (Image request) = Inr registry
    \<and> DecodeString token = Inr (user @ CHR '':'' # password) \<and> CHR '':'' \<notin> set user
    \<and> CacheKeyType response = RegistryPluginCacheKeyType \<and> Auth response = [(registry, \<lparr>Username = user, Password = password\<rparr>)]"
proof -
  obtain registry creds s1 where "parseHostFromImageReference (Image request) = Inr registry"
    and "credentials_response h registry creds s1 = (Inr response, s')"
    using assms unfolding GetCredentials_def by (auto simp: liftM_run throwM_run elim!: bindM_InrE split: if_splits)
  then show ?thesis using credentials_response_sound by blast
qed

section \<open>The process\<close>

text \<open>A request that is not of the group and version of the plugin is refused before a client is made or anything is written.\<close>

lemma newCredentialProviderCommand_version:
  assumes "Interpret codecs input = Inr gvk" and "(gvk_Group gvk, gvk_Version gvk) \<noteq> SchemeGroupVersion"
  shows "newCredentialProviderCommand h codecs (Inr input) out w = (1, w)"
  using assms by (simp add: newCredentialProviderCommand_def runPlugin_def run_simps)

text \<open>The exit code does not say whether the response was written: with an output that accepts nothing, the process ends with the same code as with one
  that accepts everything, as long as the response fits into the buffer.\<close>

lemma lost_output_exit_code:
  assumes "Interpret codecs input = Inr gvk" and "(gvk_Group gvk, gvk_Version gvk) = SchemeGroupVersion"
    and "decodeRequest codecs input = Inr request"
    and "GetCredentials h request (\<lparr>p_ecr = None, p_ecrPublic = None, p_sts = None\<rparr>, w) = (Inr response, (e, w'))"
    and "encodeResponse codecs response = Inr s" and "length s \<le> 4096"
    and "\<And>s w. out s w = (Inl (Errorf ''broken pipe'' []), w)"
  shows "newCredentialProviderCommand h codecs (Inr input) out w = (0, w')"
  using assms by (simp add: newCredentialProviderCommand_def runPlugin_def write_and_flush_def run_simps)

end
