(* ===== verification/Fakes.thy ===== *)
theory Fakes
  imports Startup
begin

text \<open>
  The test doubles of the AWS services (\<^verbatim>\<open>aws_fakes.go\<close>): a store of instances, subnets and route tables with scripted
  failures, behind the same client interfaces as the real services. They are code of the repository, so here the clients that the
  rest of the development leaves open are concrete, and the lemmas run other components on them: the provider starts on the
  doubles, finds its own instance, its cluster and its VPC, and the retry of \<^verbatim>\<open>createTags\<close> outlasts the failures that an instance id
  asks for exactly up to its nine attempts.

  Pointers to instances are shared: \<^verbatim>\<open>selfInstance\<close> is one of \<^verbatim>\<open>instances\<close>, and \<^verbatim>\<open>WithAz\<close> changes what both see. So the instances are
  in a store and the two fields hold addresses. Of the requests and answers the model has the fields of the client records; the log
  line of \<^verbatim>\<open>countCall\<close> is left out.
\<close>

section \<open>State\<close>

record fake_instance = ec2_instance +
  inst_PrivateIpAddress :: "string option"

record FakeEC2Impl =
  fe_Subnets :: "ec2_subnet list"
  fe_DescribeSubnetsInput :: "(string list \<times> ec2_filter list) option"
  fe_RouteTables :: "route_table list"
  fe_DescribeRouteTablesInput :: "ec2_filter list option"

record FakeAWSServices =
  fk_region :: string
  fk_store :: "fake_instance list"
  fk_instances :: "nat list"
  fk_selfInstance :: nat
  fk_networkInterfacesMacs :: "string list"
  fk_networkInterfacesPrivateIPs :: "string list list"
  fk_networkInterfacesVpcIDs :: "string list"
  fk_ec2 :: FakeEC2Impl
  fk_IpAddressType :: string
  fk_callCounts :: "(string, int) gomap"

type_synonym 'a faked = "(FakeAWSServices, 'a) aws"

definition self_instance :: "FakeAWSServices \<Rightarrow> fake_instance" where
  "self_instance s = fk_store s ! fk_selfInstance s"

definition fake_eni :: "int \<Rightarrow> string list \<Rightarrow> network_interface" where
  "fake_eni index ips = \<lparr>eni_Attachment = Some \<lparr>attachment_DeviceIndex = Some index\<rparr>, eni_Status = ''in-use'',
     eni_PrivateIpAddresses = map Some ips, eni_Ipv6Addresses = [], eni_PrivateDnsName = None, eni_PrivateIpAddress = None,
     eni_AvailabilityZone = None\<rparr>"

definition NewFakeAWSServices :: "string \<Rightarrow> FakeAWSServices" where
  "NewFakeAWSServices clusterID = \<lparr>fk_region = ''us-west-2'',
     fk_store = [\<lparr>inst_InstanceId = Some ''i-self'', inst_InstanceType = '''', inst_State = None,
       inst_Placement = Some (Some ''us-west-2a''), inst_PrivateDnsName = Some ''ip-172-20-0-100.ec2.internal'',
       inst_PublicDnsName = None, inst_PublicIpAddress = Some ''1.2.3.4'', inst_VpcId = None, inst_SubnetId = None,
       inst_Tags = [\<lparr>tag_Key = Some TagNameKubernetesClusterLegacy, tag_Value = Some clusterID\<rparr>],
       inst_SecurityGroups = [],
       inst_NetworkInterfaces = [fake_eni 1 [''172.20.1.1'', ''172.20.1.2''], fake_eni 0 [''172.20.0.100'', ''172.20.0.101'']],
       inst_PrivateIpAddress = Some ''192.168.0.1''\<rparr>],
     fk_instances = [0], fk_selfInstance = 0,
     fk_networkInterfacesMacs = [''aa:bb:cc:dd:ee:00'', ''aa:bb:cc:dd:ee:01''],
     fk_networkInterfacesPrivateIPs = [], fk_networkInterfacesVpcIDs = [''vpc-mac0'', ''vpc-mac1''],
     fk_ec2 = \<lparr>fe_Subnets = [], fe_DescribeSubnetsInput = None, fe_RouteTables = [], fe_DescribeRouteTablesInput = None\<rparr>,
     fk_IpAddressType = '''', fk_callCounts = []\<rparr>"

text \<open>Setting the zone also makes the placement when there is none.\<close>

definition WithAz :: "string \<Rightarrow> FakeAWSServices \<Rightarrow> FakeAWSServices" where
  "WithAz az s = s\<lparr>fk_store := (fk_store s)[fk_selfInstance s := (self_instance s)\<lparr>inst_Placement := Some (Some az)\<rparr>]\<rparr>"

definition WithRegion :: "string \<Rightarrow> FakeAWSServices \<Rightarrow> FakeAWSServices" where
  "WithRegion region s = s\<lparr>fk_region := region\<rparr>"

definition call_key :: "string \<Rightarrow> string \<Rightarrow> string \<Rightarrow> string" where
  "call_key svc api resourceID = svc @ '':'' @ api @ '':'' @ resourceID"

definition call_count :: "FakeAWSServices \<Rightarrow> string \<Rightarrow> int" where
  "call_count s key = (case map_of (fk_callCounts s) key of None \<Rightarrow> 0 | Some n \<Rightarrow> n)"

definition countCall :: "string \<Rightarrow> string \<Rightarrow> string \<Rightarrow> int faked" where
  "countCall svc api resourceID s =
     (let key = call_key svc api resourceID; n = call_count s key + 1
      in (Inr n, s\<lparr>fk_callCounts := mput key n (fk_callCounts s)\<rparr>))"

text \<open>The methods that are there for the interface only.\<close>

definition not_implemented :: "'a faked" where
  "not_implemented = throwM (Panic ''Not implemented'')"

section \<open>EC2\<close>

definition contains :: "string list \<Rightarrow> string \<Rightarrow> bool" where
  "contains haystack needle = list_ex (\<lambda>s. needle = s) haystack"

definition instanceMatchesFilter :: "'a ec2_instance_scheme \<Rightarrow> ec2_filter \<Rightarrow> bool result" where
  "instanceMatchesFilter inst flt =
     (let name = filter_Name flt; vals = filter_Values flt in
      if name = ''private-dns-name'' then
        (case inst_PrivateDnsName inst of None \<Rightarrow> Inr False | Some dns \<Rightarrow> Inr (contains vals dns))
      else if name = ''instance-state-name'' then
        (case inst_State inst of None \<Rightarrow> Inl (Panic ''nil pointer dereference'') | Some st \<Rightarrow> Inr (contains vals st))
      else if name = ''tag-key'' then
        Inr (list_ex (\<lambda>tag. contains vals (ToString (tag_Key tag))) (inst_Tags inst))
      else if HasPrefix name ''tag:'' then
        Inr (list_ex (\<lambda>tag. ToString (tag_Key tag) = drop 4 name \<and> contains vals (ToString (tag_Value tag))) (inst_Tags inst))
      else Inl (Panic (''Unknown filter name: '' @ name)))"

text \<open>The body of the loop: whether an instance is among the matches. \<open>ids\<close> and \<open>filters\<close> may be nil. The id of a match is
  dereferenced for the call counter.\<close>

definition matches_request :: "string list option \<Rightarrow> ec2_filter list option \<Rightarrow> fake_instance \<Rightarrow> bool result" where
  "matches_request ids filters inst =
     (let listed = (case ids of None \<Rightarrow> True
         | Some ids \<Rightarrow> (case inst_InstanceId inst of None \<Rightarrow> False | Some i \<Rightarrow> list_ex (\<lambda>instanceID. instanceID = i) ids)) in
      if \<not> listed then Inr False
      else bindR (case filters of None \<Rightarrow> Inr True | Some fs \<Rightarrow> allR (instanceMatchesFilter inst) fs) (\<lambda>allMatch.
        if \<not> allMatch then Inr False
        else if inst_InstanceId inst = None then Inl (Panic ''nil pointer dereference'')
        else Inr True))"

definition FakeEC2Impl_DescribeInstances :: "string list option \<Rightarrow> ec2_filter list option \<Rightarrow> ec2_instance list faked" where
  "FakeEC2Impl_DescribeInstances ids filters s =
     (case foldR (\<lambda>a found. bindR (matches_request ids filters (fk_store s ! a)) (\<lambda>ok. Inr (if ok then found @ [fk_store s ! a] else found)))
             (fk_instances s) [] of
        Inl err \<Rightarrow> (Inl err, s)
      | Inr found \<Rightarrow>
          bindM (countCall ''ec2'' ''DescribeInstances'' (Join (map (\<lambda>i. ToString (inst_InstanceId i)) found) '',''))
            (\<lambda>_. returnM (map ec2_instance.truncate found)) s)"

definition FakeEC2Impl_CreateSecurityGroup :: "string \<Rightarrow> string \<Rightarrow> string \<Rightarrow> ec2_tag list \<Rightarrow> string option faked" where
  "FakeEC2Impl_CreateSecurityGroup vpc name description tags = returnM (Some ''sg-123456'')"

definition FakeEC2Impl_AuthorizeSecurityGroupIngress :: "string option \<Rightarrow> ip_permission list \<Rightarrow> unit faked" where
  "FakeEC2Impl_AuthorizeSecurityGroupIngress groupId perms =
     (if groupId = None \<or> perms = [] then throwM (Errorf ''Invalid input: GroupId or IpPermissions missing'' [])
      else returnM ())"

definition FakeEC2Impl_CreateSubnet :: "ec2_subnet \<Rightarrow> ec2_subnet faked" where
  "FakeEC2Impl_CreateSubnet request s = (Inr request, s\<lparr>fk_ec2 := (fk_ec2 s)\<lparr>fe_Subnets := fe_Subnets (fk_ec2 s) @ [request]\<rparr>\<rparr>)"

definition FakeEC2Impl_DescribeSubnets :: "string list \<Rightarrow> ec2_filter list \<Rightarrow> ec2_subnet list faked" where
  "FakeEC2Impl_DescribeSubnets ids filters s =
     (Inr (fe_Subnets (fk_ec2 s)), s\<lparr>fk_ec2 := (fk_ec2 s)\<lparr>fe_DescribeSubnetsInput := Some (ids, filters)\<rparr>\<rparr>)"

definition FakeEC2Impl_RemoveSubnets :: "unit faked" where
  "FakeEC2Impl_RemoveSubnets s = (Inr (), s\<lparr>fk_ec2 := (fk_ec2 s)\<lparr>fe_Subnets := []\<rparr>\<rparr>)"

definition fake_zone :: "string \<Rightarrow> string \<Rightarrow> string \<Rightarrow> availability_zone" where
  "fake_zone name typ i = \<lparr>az_ZoneName = Some name, az_ZoneId = Some i, az_ZoneType = Some typ\<rparr>"

definition FakeEC2Impl_DescribeAvailabilityZones :: "availability_zone list faked" where
  "FakeEC2Impl_DescribeAvailabilityZones = returnM
     [fake_zone ''us-west-2a'' ''availability-zone'' ''az1'', fake_zone ''us-west-2b'' ''availability-zone'' ''az2'',
      fake_zone ''us-west-2c'' ''availability-zone'' ''az3'', fake_zone ''az-local'' ''local-zone'' ''lz1'',
      fake_zone ''az-wavelength'' ''wavelength'' ''wl1'']"

text \<open>Some instance ids ask for a failure; \<^verbatim>\<open>i-not-found-count-N-\<dots>\<close> asks for one on every call before the \<open>N\<close>-th.\<close>

definition not_found_error :: go_error where
  "not_found_error = Errorf ''InvalidInstanceID.NotFound: Instance not found'' []"

definition invalid_id_error :: "string \<Rightarrow> go_error" where
  "invalid_id_error i = Errorf (''InvalidID: The ID '' @ [CHR 0x27] @ i @ [CHR 0x27] @ '' is not valid'') []"

definition create_tag_of :: "string \<Rightarrow> unit faked" where
  "create_tag_of i =
     bindM (countCall ''ec2'' ''CreateTags'' i) (\<lambda>callCount.
       if i = ''i-error'' then throwM (Errorf ''Unable to tag'' [])
       else if i = ''i-not-found'' then throwM not_found_error
       else
         bindM (if HasPrefix i ''i-not-found-count-'' then
                  (case Atoi (Split (CHR ''-'') i ! 4) of
                     None \<Rightarrow> throwM (Panic ''strconv.Atoi: parsing'')
                   | Some notFoundCount \<Rightarrow> if callCount < notFoundCount then throwM not_found_error else returnM ())
                else returnM ()) (\<lambda>_.
           if HasPrefix i ''i-invalid-id'' then throwM (invalid_id_error i) else returnM ()))"

definition FakeEC2Impl_CreateTags :: "string list \<Rightarrow> ec2_tag list \<Rightarrow> unit faked" where
  "FakeEC2Impl_CreateTags resources tags = forM create_tag_of resources"

definition delete_tag_of :: "string \<Rightarrow> unit faked" where
  "delete_tag_of i =
     (if i = ''i-error'' then throwM (Errorf ''Unable to remove tag'' [])
      else if i = ''i-not-found'' then throwM not_found_error
      else if HasPrefix i ''i-invalid-id'' then throwM (invalid_id_error i)
      else returnM ())"

definition FakeEC2Impl_DeleteTags :: "string list \<Rightarrow> ec2_tag list \<Rightarrow> unit faked" where
  "FakeEC2Impl_DeleteTags resources tags = forM delete_tag_of resources"

definition FakeEC2Impl_DescribeRouteTables :: "ec2_filter list \<Rightarrow> route_table list faked" where
  "FakeEC2Impl_DescribeRouteTables filters s =
     (Inr (fe_RouteTables (fk_ec2 s)), s\<lparr>fk_ec2 := (fk_ec2 s)\<lparr>fe_DescribeRouteTablesInput := Some filters\<rparr>\<rparr>)"

definition FakeEC2Impl_CreateRouteTable :: "route_table \<Rightarrow> route_table faked" where
  "FakeEC2Impl_CreateRouteTable request s =
     (Inr request, s\<lparr>fk_ec2 := (fk_ec2 s)\<lparr>fe_RouteTables := fe_RouteTables (fk_ec2 s) @ [request]\<rparr>\<rparr>)"

definition FakeEC2Impl_RemoveRouteTables :: "unit faked" where
  "FakeEC2Impl_RemoveRouteTables s = (Inr (), s\<lparr>fk_ec2 := (fk_ec2 s)\<lparr>fe_RouteTables := []\<rparr>\<rparr>)"

definition FakeEC2Impl_DescribeVpcs :: "string option list faked" where
  "FakeEC2Impl_DescribeVpcs = returnM [Some ''172.20.0.0/16'']"

text \<open>The interface that is returned and whether the answer is empty, as the loop over the filters leaves them.\<close>

definition fargate_eni :: network_interface where
  "fargate_eni = \<lparr>eni_Attachment = None, eni_Status = '''', eni_PrivateIpAddresses = [], eni_Ipv6Addresses = [],
     eni_PrivateDnsName = None, eni_PrivateIpAddress = Some ''1.2.3.4'', eni_AvailabilityZone = Some ''us-west-2c''\<rparr>"

fun scan_filters :: "ec2_filter list \<Rightarrow> network_interface \<Rightarrow> network_interface list result" where
  "scan_filters [] eni = Inr [eni]"
| "scan_filters (flt # fs) eni =
     (case filter_Values flt of
        [] \<Rightarrow> Inl (Panic ''index out of range'')
      | v # _ \<Rightarrow>
          if HasPrefix v ''fargate-'' then
            Inl (Panic (''invalid endpoint specified for DescribeNetworkInterface call '' @ v))
          else if HasPrefix v ''not-found'' then Inr []
          else
            (let eni = (if Contains v ''return.private.dns.name''
                        then eni\<lparr>eni_PrivateDnsName := Some ''ip-1-2-3-4.compute.amazon.com''\<rparr> else eni);
                 eni = (if v = ''return.private.dns.name.ipv6''
                        then eni\<lparr>eni_Ipv6Addresses := [Some ''2001:db8:3333:4444:5555:6666:7777:8888'']\<rparr> else eni)
             in scan_filters fs eni))"

definition FakeEC2Impl_DescribeNetworkInterfaces :: "ec2_filter list \<Rightarrow> network_interface list faked" where
  "FakeEC2Impl_DescribeNetworkInterfaces filters = liftM (scan_filters filters fargate_eni)"

text \<open>The client: a request with no ids, or no filters, has a nil slice.\<close>

definition nil_slice :: "'a list \<Rightarrow> 'a list option" where
  "nil_slice xs = (if xs = [] then None else Some xs)"

definition fake_ec2 :: "FakeAWSServices ec2_client" where
  "fake_ec2 = \<lparr>
     DescribeInstances = (\<lambda>ids filters. FakeEC2Impl_DescribeInstances (nil_slice ids) (nil_slice filters)),
     DescribeSecurityGroups = (\<lambda>_ _. not_implemented),
     CreateSecurityGroup = FakeEC2Impl_CreateSecurityGroup,
     DeleteSecurityGroup = (\<lambda>_. not_implemented),
     AuthorizeSecurityGroupIngress = (\<lambda>i. FakeEC2Impl_AuthorizeSecurityGroupIngress (Some i)),
     RevokeSecurityGroupIngress = (\<lambda>_ _. not_implemented),
     DescribeSubnets = FakeEC2Impl_DescribeSubnets,
     DescribeAvailabilityZones = FakeEC2Impl_DescribeAvailabilityZones,
     CreateTags = FakeEC2Impl_CreateTags,
     DeleteTags = FakeEC2Impl_DeleteTags,
     DescribeRouteTables = FakeEC2Impl_DescribeRouteTables,
     CreateRoute = (\<lambda>_ _ _. not_implemented),
     DeleteRoute = (\<lambda>_ _. not_implemented),
     ModifyInstanceAttribute = (\<lambda>_ _. not_implemented),
     DescribeNetworkInterfaces = FakeEC2Impl_DescribeNetworkInterfaces,
     DescribeInstanceTopology = (\<lambda>_. not_implemented),
     DescribeVpcs = FakeEC2Impl_DescribeVpcs\<rparr>"

section \<open>Metadata\<close>

text \<open>The three loops over the hardware addresses: the index of the first one that matches.\<close>

fun mac_index :: "nat \<Rightarrow> string \<Rightarrow> string list \<Rightarrow> nat option" where
  "mac_index i macParam [] = None"
| "mac_index i macParam (macElem # macs) = (if macParam = macElem then Some i else mac_index (Suc i) macParam macs)"

definition deref :: "string option \<Rightarrow> string result" where
  "deref p = (case p of None \<Rightarrow> Inl (Panic ''nil pointer dereference'') | Some v \<Rightarrow> Inr v)"

definition at_index :: "'a list \<Rightarrow> nat \<Rightarrow> 'a result" where
  "at_index xs i = (if i < length xs then Inr (xs ! i) else Inl (Panic ''index out of range''))"

definition interface_metadata :: "FakeAWSServices \<Rightarrow> string \<Rightarrow> string result" where
  "interface_metadata s key =
     (let keySplit = Split (CHR ''/'') key;
          i = mac_index 0 (keySplit ! 3) (fk_networkInterfacesMacs s) in
      if length keySplit = 5 \<and> keySplit ! 4 = ''vpc-id'' \<and> i \<noteq> None then at_index (fk_networkInterfacesVpcIDs s) (the i)
      else if length keySplit = 5 \<and> keySplit ! 4 = ''device-number'' \<and> i \<noteq> None then
        Inr (show_nat (if the i > 0 then the i + 1 else the i) @ [CHR 0x0A])
      else if length keySplit = 5 \<and> keySplit ! 4 = ''local-ipv4s'' \<and> i \<noteq> None then
        bindR (at_index (fk_networkInterfacesPrivateIPs s) (the i)) (\<lambda>ips. Inr (Join ips (''/'' @ [CHR 0x0A])))
      else Inr '''')"

definition FakeMetadata_GetMetadata :: "string \<Rightarrow> string faked" where
  "FakeMetadata_GetMetadata key s =
     (let i = self_instance s; networkInterfacesPrefix = ''network/interfaces/macs/'' in
      ((if key = ''placement/availability-zone'' then
          Inr (case inst_Placement i of None \<Rightarrow> '''' | Some az \<Rightarrow> ToString az)
        else if key = ''instance-id'' then deref (inst_InstanceId i)
        else if key = ''local-hostname'' then deref (inst_PrivateDnsName i)
        else if key = ''public-hostname'' then deref (inst_PublicDnsName i)
        else if key = ''local-ipv4'' then deref (inst_PrivateIpAddress i)
        else if key = ''public-ipv4'' then deref (inst_PublicIpAddress i)
        else if HasPrefix key networkInterfacesPrefix then
          (if key = networkInterfacesPrefix
           then Inr (Join (sort (fk_networkInterfacesMacs s)) (''/'' @ [CHR 0x0A]) @ ''/'' @ [CHR 0x0A])
           else interface_metadata s key)
        else Inr ''''), s))"

definition FakeMetadata_GetRegion :: "string faked" where
  "FakeMetadata_GetRegion s = (Inr (fk_region s), s)"

definition FakeMetadata :: "FakeAWSServices EC2Metadata" where
  "FakeMetadata = \<lparr>imds_GetMetadata = FakeMetadata_GetMetadata, imds_GetRegion = FakeMetadata_GetRegion\<rparr>"

section \<open>Classic load balancers\<close>

text \<open>The checks for a missing name: the callers always set it.\<close>

definition missing :: "string \<Rightarrow> go_error" where
  "missing field = Errorf ''Invalid input: %s missing'' [field]"

definition FakeELB_DescribeLoadBalancers :: "string list \<Rightarrow> elb_description list faked" where
  "FakeELB_DescribeLoadBalancers names =
     (case names of
        [] \<Rightarrow> throwM (missing ''LoadBalancerNames'')
      | name # _ \<Rightarrow> returnM [\<lparr>lbd_LoadBalancerName = Some name, lbd_DNSName = Some ''mock-dns-name'', lbd_Subnets = [],
          lbd_SecurityGroups = [], lbd_ListenerDescriptions = [], lbd_BackendServerDescriptions = [], lbd_HealthCheck = None,
          lbd_Instances = []\<rparr>])"

definition FakeELB_DescribeLoadBalancerPolicies :: "string option \<Rightarrow> string list \<Rightarrow> string list faked" where
  "FakeELB_DescribeLoadBalancerPolicies name policyNames =
     (if ToString name = '''' then throwM (APIError ''LoadBalancerAttributeNotFound'' '''')
      else if policyNames = [] \<or> hd policyNames = ''k8s-SSLNegotiationPolicy-'' then throwM (APIError ''PolicyNotFound'' '''')
      else returnM [])"

text \<open>A method that answers unless the list it is given is empty.\<close>

definition unless_empty :: "string \<Rightarrow> 'a list \<Rightarrow> unit faked" where
  "unless_empty field xs = (if xs = [] then throwM (missing field) else returnM ())"

definition FakeELB :: "FakeAWSServices elb_client" where
  "FakeELB = \<lparr>
     elb_Create = (\<lambda>_. returnM ()), elb_Delete = (\<lambda>_. returnM ()), elb_Describe = FakeELB_DescribeLoadBalancers,
     elb_AddTags = (\<lambda>_ _. not_implemented), elb_RegisterInstances = (\<lambda>_. unless_empty ''Instances''),
     elb_DeregisterInstances = (\<lambda>_ _. not_implemented), elb_CreatePolicy = (\<lambda>_ _ _ _. returnM ()),
     elb_SetBackendPolicies = (\<lambda>_ _ _. not_implemented), elb_SetListenerPolicies = (\<lambda>_ _ _. not_implemented),
     elb_DescribePolicies = FakeELB_DescribeLoadBalancerPolicies, elb_DetachSubnets = (\<lambda>_ _. not_implemented),
     elb_AttachSubnets = (\<lambda>_. unless_empty ''Subnets''), elb_CreateListeners = (\<lambda>_. unless_empty ''Listeners''),
     elb_DeleteListeners = (\<lambda>_ _. not_implemented), elb_ApplySecurityGroups = (\<lambda>_. unless_empty ''SecurityGroups''),
     elb_ConfigureHealthCheck = (\<lambda>_ _. not_implemented),
     elb_DescribeAttributes = (\<lambda>_. returnM \<lparr>attr_AccessLog = None, attr_AdditionalAttributes = None,
        attr_ConnectionDraining = None, attr_ConnectionSettings = None, attr_CrossZoneLoadBalancing = None\<rparr>),
     elb_ModifyAttributes = (\<lambda>_ _. returnM ())\<rparr>"

section \<open>Network load balancers\<close>

definition FakeELBV2_DescribeLoadBalancers :: "string list \<Rightarrow> load_balancer list faked" where
  "FakeELBV2_DescribeLoadBalancers names =
     (case names of
        [] \<Rightarrow> throwM (missing ''LoadBalancer names'')
      | name # _ \<Rightarrow> if name = ''aid'' then returnM []
          else throwM (Errorf (''NLB '' @ [CHR 0x27] @ ''aid'' @ [CHR 0x27] @ '' could not be found'') []))"

definition FakeELBV2_SetIpAddressType :: "string \<Rightarrow> unit faked" where
  "FakeELBV2_SetIpAddressType typ s = (Inr (), s\<lparr>fk_IpAddressType := typ\<rparr>)"

definition FakeELBV2_RegisterTargets :: "target_description list \<Rightarrow> unit faked" where
  "FakeELBV2_RegisterTargets = unless_empty ''Targets''"

definition FakeELBV2 :: "FakeAWSServices elbv2_client" where
  "FakeELBV2 = \<lparr>
     nlb_AddTags = (\<lambda>_ _. not_implemented),
     nlb_Create = (\<lambda>_. not_implemented), nlb_Describe = (\<lambda>names _. FakeELBV2_DescribeLoadBalancers names),
     nlb_Delete = (\<lambda>_. not_implemented), nlb_SetSecurityGroups = (\<lambda>_ _. not_implemented),
     nlb_SetIpAddressType = (\<lambda>_. FakeELBV2_SetIpAddressType),
     nlb_ModifyAttributes = (\<lambda>_ _. not_implemented), nlb_DescribeAttributes = (\<lambda>_. not_implemented),
     nlb_CreateTargetGroup = (\<lambda>_. not_implemented), nlb_DescribeTargetGroups = (\<lambda>_ _. not_implemented),
     nlb_ModifyTargetGroup = (\<lambda>_. not_implemented), nlb_DeleteTargetGroup = (\<lambda>_. not_implemented),
     nlb_DescribeTargetHealth = (\<lambda>_. not_implemented),
     nlb_DescribeTargetGroupAttributes = (\<lambda>_. not_implemented),
     nlb_ModifyTargetGroupAttributes = (\<lambda>_ _. not_implemented),
     nlb_RegisterTargets = (\<lambda>_. FakeELBV2_RegisterTargets), nlb_DeregisterTargets = (\<lambda>_ _. not_implemented),
     nlb_CreateListener = (\<lambda>_ _. not_implemented), nlb_DescribeListeners = (\<lambda>_. not_implemented),
     nlb_DeleteListener = (\<lambda>_. not_implemented), nlb_ModifyListener = (\<lambda>_ _. not_implemented)\<rparr>"

section \<open>The services\<close>

text \<open>The five accessors return the doubles whatever the region is. The compilation of patterns and the digests are those of Go's
  standard library.\<close>

definition fake_services :: "(string \<Rightarrow> bool) \<Rightarrow> (string \<Rightarrow> string) \<Rightarrow> (string \<Rightarrow> string) \<Rightarrow> FakeAWSServices Services" where
  "fake_services pattern_ok sha1hex sha256hex = \<lparr>sv_Compute = (\<lambda>_. Inr fake_ec2), sv_LoadBalancing = (\<lambda>_. Inr FakeELB),
     sv_LoadBalancingV2 = (\<lambda>_. Inr FakeELBV2), sv_Metadata = Inr FakeMetadata, sv_KeyManagement = (\<lambda>_. Inr ()),
     sv_pattern_ok = pattern_ok, sv_sha1hex = sha1hex, sv_sha256hex = sha256hex\<rparr>"

section \<open>Listing instances\<close>

text \<open>What EC2 documents: an instance matches a filter when one of the values is the attribute that the filter names.\<close>

definition attribute_values :: "'a ec2_instance_scheme \<Rightarrow> string \<Rightarrow> string set" where
  "attribute_values inst name =
     (if name = ''private-dns-name'' then set_option (inst_PrivateDnsName inst)
      else if name = ''instance-state-name'' then set_option (inst_State inst)
      else if name = ''tag-key'' then {ToString (tag_Key tag) | tag. tag \<in> set (inst_Tags inst)}
      else {ToString (tag_Value tag) | tag. tag \<in> set (inst_Tags inst) \<and> ToString (tag_Key tag) = drop 4 name})"

definition satisfies :: "'a ec2_instance_scheme \<Rightarrow> ec2_filter \<Rightarrow> bool" where
  "satisfies inst flt \<longleftrightarrow> set (filter_Values flt) \<inter> attribute_values inst (filter_Name flt) \<noteq> {}"

definition known_filter :: "ec2_filter \<Rightarrow> bool" where
  "known_filter flt \<longleftrightarrow> filter_Name flt \<in> {''private-dns-name'', ''instance-state-name'', ''tag-key''}
     \<or> HasPrefix (filter_Name flt) ''tag:''"

definition complete_instance :: "'a ec2_instance_scheme \<Rightarrow> bool" where
  "complete_instance inst \<longleftrightarrow> inst_InstanceId inst \<noteq> None \<and> inst_State inst \<noteq> None"

lemma instanceMatchesFilter_satisfies:
  assumes "complete_instance inst" and "known_filter flt"
  shows "instanceMatchesFilter inst flt = Inr (satisfies inst flt)"
  using assms
  by (auto simp: instanceMatchesFilter_def satisfies_def attribute_values_def known_filter_def complete_instance_def
      contains_def Let_def list_ex_iff split: option.splits)

definition selected :: "string list \<Rightarrow> ec2_filter list \<Rightarrow> 'a ec2_instance_scheme \<Rightarrow> bool" where
  "selected ids filters inst \<longleftrightarrow>
     (ids = [] \<or> (\<exists>i \<in> set ids. inst_InstanceId inst = Some i)) \<and> list_all (satisfies inst) filters"

lemma matches_request_selected:
  assumes "complete_instance inst" and "list_all known_filter filters"
  shows "matches_request (nil_slice ids) (nil_slice filters) inst = Inr (selected ids filters inst)"
proof -
  have "allR (instanceMatchesFilter inst) filters = Inr (list_all (satisfies inst) filters)"
    using assms by (intro allR_total instanceMatchesFilter_satisfies) (auto simp: list_all_iff)
  moreover obtain i where "inst_InstanceId inst = Some i" using assms by (auto simp: complete_instance_def)
  ultimately show ?thesis
    by (auto simp: matches_request_def selected_def nil_slice_def Let_def list_ex_iff)
qed

lemma foldR_filter:
  assumes "\<And>x. x \<in> set xs \<Longrightarrow> f x = Inr (P x)"
  shows "foldR (\<lambda>x acc. bindR (f x) (\<lambda>ok. Inr (if ok then acc @ [g x] else acc))) xs acc = Inr (acc @ map g (filter P xs))"
  using assms by (induction xs arbitrary: acc) auto

text \<open>On a store whose instances have an id and a state, \<^verbatim>\<open>DescribeInstances\<close> of the test double answers every request with
  filters it knows as EC2 documents it: the instances that are listed (all of them when no id is given) and that satisfy every
  filter, in the order of the store; and it changes only the counter of that call.\<close>

lemma FakeEC2Impl_DescribeInstances_spec:
  assumes "list_all (\<lambda>a. complete_instance (fk_store s ! a)) (fk_instances s)" and "list_all known_filter filters"
  shows "\<exists>n key. DescribeInstances fake_ec2 ids filters s =
     (Inr (map ec2_instance.truncate (filter (selected ids filters) (map ((!) (fk_store s)) (fk_instances s)))),
      s\<lparr>fk_callCounts := mput key n (fk_callCounts s)\<rparr>)"
proof -
  have "foldR (\<lambda>a found. bindR (matches_request (nil_slice ids) (nil_slice filters) (fk_store s ! a))
      (\<lambda>ok. Inr (if ok then found @ [fk_store s ! a] else found))) (fk_instances s) []
    = Inr ([] @ map ((!) (fk_store s)) (filter (\<lambda>a. selected ids filters (fk_store s ! a)) (fk_instances s)))"
    using assms by (intro foldR_filter matches_request_selected) (auto simp: list_all_iff)
  then show ?thesis
    by (auto simp: fake_ec2_def FakeEC2Impl_DescribeInstances_def countCall_def Let_def run_simps filter_map o_def)
qed

section \<open>Failures on request\<close>

definition counted :: "string \<Rightarrow> int \<Rightarrow> FakeAWSServices \<Rightarrow> FakeAWSServices" where
  "counted key n s = s\<lparr>fk_callCounts := mput key n (fk_callCounts s)\<rparr>"

lemma counted_simps [simp]:
  "call_count (counted key n s) key = n" "counted key m (counted key n s) = counted key m s"
  by (simp_all add: counted_def call_count_def update_conv' update_last)

definition flaky_id :: "nat \<Rightarrow> string \<Rightarrow> string" where
  "flaky_id n t = ''i-not-found-count-'' @ show_nat n @ ''-'' @ t"

lemma flaky_id_count: "Split (CHR ''-'') (flaky_id n t) ! 4 = show_nat n"
proof -
  have "CHR ''-'' \<notin> set (show_nat n)" using show_nat_digits [of n] by (auto simp: list_all_iff)
  then have "Split (CHR ''-'') (show_nat n @ CHR ''-'' # t) = show_nat n # Split (CHR ''-'') t" by (rule Split_append_sep)
  then show ?thesis by (simp add: flaky_id_def)
qed

lemma create_flaky:
  assumes "n < 2 ^ 63"
  shows "CreateTags fake_ec2 [flaky_id n t] ts s =
    (let key = call_key ''ec2'' ''CreateTags'' (flaky_id n t); k = call_count s key + 1
     in (if k < int n then Inl not_found_error else Inr (), counted key k s))"
proof -
  have "Atoi (Split (CHR ''-'') (flaky_id n t) ! 4) = Some (int n)"
    using ParseInt_text [of "int n"] assms by (simp add: flaky_id_count Itoa_def)
  moreover have "HasPrefix (flaky_id n t) ''i-not-found-count-''" by (simp add: flaky_id_def HasPrefix_iff)
  moreover have "\<not> HasPrefix (flaky_id n t) ''i-invalid-id''" "flaky_id n t \<noteq> ''i-error''" "flaky_id n t \<noteq> ''i-not-found''"
    by (simp_all add: flaky_id_def HasPrefix_def)
  ultimately show ?thesis
    by (simp add: fake_ec2_def FakeEC2Impl_CreateTags_def create_tag_of_def run_simps countCall_def counted_def Let_def)
qed

lemma failed_flaky:
  assumes "n < 2 ^ 63" and "call_count s key + int k < int n" and "key = call_key ''ec2'' ''CreateTags'' (flaky_id n t)" and "k > 0"
  shows "failed_calls (CreateTags fake_ec2 [flaky_id n t] ts) k (s, l)
     = Some (counted key (call_count s key + int k) s, Some not_found_error)"
  using assms(2,4)
proof (induction k arbitrary: s l)
  case (Suc k)
  then show ?case
    by (cases "k = 0") (simp_all add: create_flaky [OF assms(1)] assms(3) Let_def algebra_simps)
qed simp

text \<open>The retry of \<^verbatim>\<open>createTags\<close> against failures on request. An instance that EC2 does not find before the \<open>n\<close>-th call is
  tagged, with exactly \<open>n\<close> calls, when \<open>n\<close> is at most nine; otherwise \<^verbatim>\<open>createTags\<close> gives up after nine calls with the error of
  the service.\<close>

lemma createTags_outlasts:
  assumes "buildTags t lifecycle add \<noteq> []" and "0 < n" and "n < 2 ^ 63"
    and "key = call_key ''ec2'' ''CreateTags'' (flaky_id n x)" and "call_count s key = 0"
  shows "createTags t fake_ec2 (flaky_id n x) lifecycle add s =
    (if n \<le> 9 then (Inr (), counted key (int n) s) else (Inl not_found_error, counted key 9 s))"
proof -
  let ?call = "CreateTags fake_ec2 [flaky_id n x] (buildAwsTags (buildTags t lifecycle add))"
  note run = createTags_run [OF assms(1), of fake_ec2 "flaky_id n x" s]
  note create = create_flaky [OF assms(3), of x "buildAwsTags (buildTags t lifecycle add)", folded assms(4)]
  show ?thesis
  proof (cases "n \<le> 9")
    case True
    obtain m where n: "n = Suc m" using assms(2) by (cases n) auto
    have "\<exists>w1 l. failed_calls ?call m (s, None) = Some (w1, l) \<and> ?call w1 = (Inr (), counted key (int n) s)"
    proof (cases "m = 0")
      case True
      with n create [of s] assms(5) show ?thesis by (simp add: Let_def)
    next
      case False
      with n failed_flaky [OF assms(3) _ assms(4), of s m "buildAwsTags (buildTags t lifecycle add)" None] assms(5)
      have "failed_calls ?call m (s, None) = Some (counted key (int m) s, Some not_found_error)" by simp
      moreover have "?call (counted key (int m) s) = (Inr (), counted key (int n) s)"
        using create [of "counted key (int m) s"] n by (simp add: Let_def add.commute)
      ultimately show ?thesis by blast
    qed
    moreover have "m < 9" using True n by simp
    ultimately obtain l where "ExponentialBackoff 9 (createTags_attempt fake_ec2 (flaky_id n x)
        (buildAwsTags (buildTags t lifecycle add))) (s, None) = (Inr (), (counted key (int n) s, l))"
      using backoff_createTags_ok [of 9 fake_ec2 "flaky_id n x" _ "(s, None)" "counted key (int n) s"] by blast
    with run True show ?thesis by simp
  next
    case False
    with failed_flaky [OF assms(3) _ assms(4), of s 9 "buildAwsTags (buildTags t lifecycle add)" None] assms(5)
    have "failed_calls ?call 9 (s, None) = Some (counted key 9 s, Some not_found_error)" by simp
    then have "ExponentialBackoff 9 (createTags_attempt fake_ec2 (flaky_id n x)
        (buildAwsTags (buildTags t lifecycle add))) (s, None) = (Inl ErrWaitTimeout, (counted key 9 s, Some not_found_error))"
      by (simp add: backoff_createTags_err)
    with run False show ?thesis by simp
  qed
qed

section \<open>Starting the provider\<close>

text \<open>A configuration that leaves the zone, the region and the cluster to the metadata and the instance.\<close>

definition discovers :: "CloudConfig \<Rightarrow> bool" where
  "discovers cfg \<longleftrightarrow> Zone (Global cfg) = '''' \<and> Region (Global cfg) = '''' \<and> KubernetesClusterTag (Global cfg) = ''''
     \<and> KubernetesClusterID (Global cfg) = ''''"

definition fake_world :: "string \<Rightarrow> string \<Rightarrow> string \<Rightarrow> FakeAWSServices" where
  "fake_world region az clusterID = WithRegion region (WithAz az (NewFakeAWSServices clusterID))"

lemma nil_slice_simps [simp]: "nil_slice [] = None" "nil_slice (x # xs) = Some (x # xs)"
  by (simp_all add: nil_slice_def)

definition described :: "FakeAWSServices \<Rightarrow> FakeAWSServices" where
  "described s = (let key = call_key ''ec2'' ''DescribeInstances'' ''i-self'' in counted key (call_count s key + 1) s)"

definition self_described :: "string \<Rightarrow> string \<Rightarrow> ec2_instance" where
  "self_described az clusterID = ec2_instance.truncate (self_instance (fake_world '''' az clusterID))"

definition holds_self :: "string \<Rightarrow> string \<Rightarrow> FakeAWSServices \<Rightarrow> bool" where
  "holds_self az clusterID s \<longleftrightarrow> fk_store s = fk_store (fake_world '''' az clusterID) \<and> fk_instances s = [0] \<and> fk_selfInstance s = 0"

lemma holds_self_simps [simp]:
  "holds_self az clusterID (fake_world region az clusterID)"
  "holds_self az clusterID s \<Longrightarrow> holds_self az clusterID (described s)"
  by (simp_all add: holds_self_def fake_world_def WithRegion_def WithAz_def NewFakeAWSServices_def described_def counted_def Let_def)

lemma describe_self:
  assumes "holds_self az clusterID s"
  shows "DescribeInstances fake_ec2 [''i-self''] [] s = (Inr [self_described az clusterID], described s)"
  using assms
  by (simp add: fake_ec2_def FakeEC2Impl_DescribeInstances_def matches_request_def holds_self_def self_described_def
      fake_world_def WithRegion_def WithAz_def NewFakeAWSServices_def self_instance_def described_def counted_def
      countCall_def run_simps Let_def)


lemma get_self:
  assumes "holds_self az clusterID s" and "c_ec2 c = fake_ec2"
  shows "getInstanceByID c ''i-self'' s = (Inr (Some (self_described az clusterID)), described s)"
proof -
  have "inst_InstanceId (self_described az clusterID) = Some ''i-self''"
    by (simp add: self_described_def fake_world_def WithRegion_def WithAz_def NewFakeAWSServices_def self_instance_def
        ec2_instance.truncate_def)
  then show ?thesis
    using describe_self [OF assms(1)] assms(2)
    by (simp add: getInstanceByID_def getInstancesByIDs_def describeInstanceBatcher_def batch_DescribeInstances_def
        execDescribeInstanceBatch_def run_simps mput_all_def)
qed


definition fake_provider :: "CloudConfig \<Rightarrow> FakeAWSServices Services \<Rightarrow> string \<Rightarrow> string \<Rightarrow> string \<Rightarrow> FakeAWSServices Cloud" where
  "fake_provider cfg sv region az clusterID = \<lparr>c_ec2 = fake_ec2, c_elb = FakeELB, c_elbv2 = FakeELBV2, c_metadata = FakeMetadata,
     c_cfg = cfg\<lparr>Global := (Global cfg)\<lparr>NodeIPFamilies :=
       (if NodeIPFamilies (Global cfg) = [] then [''ipv4''] else NodeIPFamilies (Global cfg))\<rparr>\<rparr>,
     c_region = region, c_vpcID = '''', c_tagging = \<lparr>ClusterID = clusterID, usesLegacyTags = True\<rparr>,
     c_selfAWSInstance = no_instance\<lparr>self_awsID := ''i-self'', self_nodeName := ''ip-172-20-0-100.ec2.internal'',
       self_availabilityZone := az\<rparr>,
     c_informer = None, c_sha1hex = sv_sha1hex sv, c_sha256hex = sv_sha256hex sv\<rparr>"

lemma self_described_fields [simp]:
  "inst_InstanceId (self_described az clusterID) = Some ''i-self''"
  "inst_Tags (self_described az clusterID) = [\<lparr>tag_Key = Some TagNameKubernetesClusterLegacy, tag_Value = Some clusterID\<rparr>]"
  "newAWSInstance (self_described az clusterID) = no_instance\<lparr>self_awsID := ''i-self'',
     self_nodeName := ''ip-172-20-0-100.ec2.internal'', self_availabilityZone := az\<rparr>"
  by (simp_all add: self_described_def fake_world_def WithRegion_def WithAz_def NewFakeAWSServices_def self_instance_def
      ec2_instance.truncate_def newAWSInstance_def mapInstanceToNodeName_def no_instance_def)

lemma fake_clients:
  assumes "discovers cfg" and "sv = fake_services pattern_ok sha1hex sha256hex"
    and "pattern_ok (SupportedTopologyInstanceTypePattern (Global cfg))"
  shows "create_clients cfg sv s = (Inr \<lparr>c_ec2 = fake_ec2, c_elb = FakeELB, c_elbv2 = FakeELBV2, c_metadata = FakeMetadata,
     c_cfg = cfg, c_region = fk_region s, c_vpcID = '''', c_tagging = \<lparr>ClusterID = '''', usesLegacyTags = False\<rparr>,
     c_selfAWSInstance = no_instance, c_informer = None, c_sha1hex = sha1hex, c_sha256hex = sha256hex\<rparr>, s)"
  using assms
  by (simp add: create_clients_def fake_services_def run_simps getRegionFromMetadata_def discovers_def GetRegion_def
      FakeMetadata_def FakeMetadata_GetRegion_def)

lemma fake_self_instance:
  assumes "holds_self az clusterID s" and "c_ec2 c = fake_ec2" and "c_metadata c = FakeMetadata" and "discovers (c_cfg c)"
  shows "set_self_instance c s = (Inr (c\<lparr>c_selfAWSInstance := newAWSInstance (self_described az clusterID),
     c_vpcID := ''''\<rparr>), described s)"
proof -
  have "imds_GetMetadata FakeMetadata ''instance-id'' s = (Inr ''i-self'', s)"
    using assms(1)
    by (simp add: FakeMetadata_def FakeMetadata_GetMetadata_def deref_def self_instance_def holds_self_def fake_world_def
        WithRegion_def WithAz_def NewFakeAWSServices_def Let_def)
  then show ?thesis
    using assms get_self [OF assms(1,2)]
    by (simp add: set_self_instance_def buildSelfAWSInstance_def dummy_instance_def discovers_def run_simps no_instance_def)
qed

lemma fake_tagging:
  assumes "holds_self az clusterID s" and "c_ec2 c = fake_ec2" and "discovers (c_cfg c)"
    and "self_awsID (c_selfAWSInstance c) = ''i-self''"
  shows "set_tagging c s =
    (if clusterID = '''' then Inl (Errorf ''AWS cloud failed to find ClusterID'' [])
     else Inr (c\<lparr>c_tagging := (c_tagging c)\<lparr>ClusterID := clusterID, usesLegacyTags := True\<rparr>\<rparr>), described s)"
proof -
  have "findClusterIDs [\<lparr>tag_Key = Some TagNameKubernetesClusterLegacy, tag_Value = Some clusterID\<rparr>] = Inr (clusterID, '''')"
    by (simp add: findClusterIDs_def findClusterIDs_step_def TagNameKubernetesClusterLegacy_def
        TagNameKubernetesClusterPrefix_def HasPrefix_def Let_def)
  then show ?thesis
    using assms describe_self [OF assms(1)]
    by (simp add: set_tagging_def self_describeInstance_def describeInstance_def discovers_def run_simps initFromTags_def
        init_def Let_def)
qed

text \<open>C20: starting on the test doubles. With a configuration that leaves everything to be discovered, \<^verbatim>\<open>newAWSCloud2\<close> asks the
  metadata for the region and the instance id, describes the instance twice, and builds the provider of the cluster in the instance's legacy
  tag, with the zone and the name of the instance; without a cluster in the tag it fails.\<close>

theorem newAWSCloud2_on_fakes:
  assumes "discovers cfg" and "sv = fake_services pattern_ok sha1hex sha256hex"
    and "pattern_ok (SupportedTopologyInstanceTypePattern (Global cfg))"
  shows "newAWSCloud2 cfg sv (fake_world region az clusterID) =
     (if clusterID = '''' then Inl (Errorf ''AWS cloud failed to find ClusterID'' [])
      else Inr (fake_provider cfg sv region az clusterID), described (described (fake_world region az clusterID)))"
proof -
  let ?w = "fake_world region az clusterID"
  define c where "c = \<lparr>c_ec2 = fake_ec2, c_elb = FakeELB, c_elbv2 = FakeELBV2, c_metadata = FakeMetadata,
     c_cfg = cfg, c_region = region, c_vpcID = '''', c_tagging = \<lparr>ClusterID = '''', usesLegacyTags = False\<rparr>,
     c_selfAWSInstance = no_instance, c_informer = None, c_sha1hex = sha1hex, c_sha256hex = sha256hex\<rparr>"
  define c' where "c' = c\<lparr>c_selfAWSInstance := newAWSInstance (self_described az clusterID), c_vpcID := ''''\<rparr>"
  have "create_clients cfg sv ?w = (Inr c, ?w)"
    using fake_clients [OF assms, of ?w] by (simp add: c_def fake_world_def WithRegion_def)
  moreover have "set_self_instance c ?w = (Inr c', described ?w)"
    unfolding c'_def using assms(1) by (intro fake_self_instance) (simp_all add: c_def)
  moreover have "set_tagging c' (described ?w) =
    (if clusterID = '''' then Inl (Errorf ''AWS cloud failed to find ClusterID'' [])
     else Inr (c'\<lparr>c_tagging := (c_tagging c')\<lparr>ClusterID := clusterID, usesLegacyTags := True\<rparr>\<rparr>), described (described ?w))"
    using assms(1) by (intro fake_tagging [where az = az]) (simp_all add: c'_def c_def)
  ultimately show ?thesis
    using assms(2) by (auto simp: newAWSCloud2_def run_simps fake_provider_def c'_def c_def fake_services_def no_instance_def)
qed


definition discovering_config :: CloudConfig where
  "discovering_config = \<lparr>Global = sample_global\<lparr>Zone := '''', Region := '''', KubernetesClusterTag := '''', KubernetesClusterID := ''''\<rparr>,
     ServiceOverride = []\<rparr>"

theorem newAWSCloud2_on_fakes_witness:
  "newAWSCloud2 discovering_config (fake_services (\<lambda>_. True) (\<lambda>s. s) (\<lambda>s. s)) (fake_world ''eu-west-1'' ''eu-west-1b'' ''c'') =
     (Inr (fake_provider discovering_config (fake_services (\<lambda>_. True) (\<lambda>s. s) (\<lambda>s. s)) ''eu-west-1'' ''eu-west-1b'' ''c''),
      described (described (fake_world ''eu-west-1'' ''eu-west-1b'' ''c'')))"
proof -
  have "discovers discovering_config" by (simp add: discovers_def discovering_config_def)
  from newAWSCloud2_on_fakes [OF this refl] show ?thesis by simp
qed

text \<open>The VPC of the first interface, and the addresses of the instance in the order of its interfaces' device numbers although
  the instance lists them in the other order.\<close>

lemma findVPCID_on_fakes:
  assumes "c_metadata c = FakeMetadata"
  shows "findVPCID c (fake_world region az clusterID) = (Inr ''vpc-mac0'', fake_world region az clusterID)"
proof -
  let ?w = "fake_world region az clusterID"
  have macs: "imds_GetMetadata FakeMetadata ''network/interfaces/macs/'' ?w =
      (Inr (''aa:bb:cc:dd:ee:00/'' @ [CHR 0x0A] @ ''aa:bb:cc:dd:ee:01/'' @ [CHR 0x0A]), ?w)"
    by (simp add: FakeMetadata_def FakeMetadata_GetMetadata_def fake_world_def WithRegion_def WithAz_def NewFakeAWSServices_def
        HasPrefix_def Let_def less_char_def)
  have vpc: "imds_GetMetadata FakeMetadata ''network/interfaces/macs/aa:bb:cc:dd:ee:00/vpc-id'' ?w = (Inr ''vpc-mac0'', ?w)"
    by (simp add: FakeMetadata_def FakeMetadata_GetMetadata_def interface_metadata_def fake_world_def WithRegion_def WithAz_def
        NewFakeAWSServices_def HasPrefix_def at_index_def Let_def)
  show ?thesis
    using assms by (simp add: findVPCID_def run_simps macs vpc)
qed

lemma fake_addresses_parse:
  "map_option ip_String (ParseIPSloppy ''172.20.0.100'') = Some ''172.20.0.100''"
  "map_option ip_String (ParseIPSloppy ''172.20.0.101'') = Some ''172.20.0.101''"
  "map_option ip_String (ParseIPSloppy ''172.20.1.1'') = Some ''172.20.1.1''"
  "map_option ip_String (ParseIPSloppy ''172.20.1.2'') = Some ''172.20.1.2''"
  "map_option ip_String (ParseIPSloppy ''1.2.3.4'') = Some ''1.2.3.4''"
  by code_simp+

lemma parse_then_print: "map_option ip_String (ParseIPSloppy s) = Some t \<Longrightarrow>
   (case ParseIPSloppy s of None \<Rightarrow> Inl e | Some ip \<Rightarrow> Inr (as @ [(k, ip_String ip)])) = Inr (as @ [(k, t)])"
  by (auto split: option.splits)

lemma node_addresses_on_fakes:
  assumes "NodeIPFamilies (c_global c) = [''ipv4'']"
  shows "getInstanceNodeAddress c (self_described az clusterID) = Inr
     [(''InternalIP'', ''172.20.0.100''), (''InternalIP'', ''172.20.0.101''), (''InternalIP'', ''172.20.1.1''),
      (''InternalIP'', ''172.20.1.2''), (''ExternalIP'', ''1.2.3.4''), (''InternalDNS'', ''ip-172-20-0-100.ec2.internal''),
      (''Hostname'', ''ip-172-20-0-100.ec2.internal'')]"
proof -
  let ?inner = "fake_eni 0 [''172.20.0.100'', ''172.20.0.101'']" and ?outer = "fake_eni 1 [''172.20.1.1'', ''172.20.1.2'']"
  have fields: "inst_NetworkInterfaces (self_described az clusterID) = [?outer, ?inner]"
    "inst_PublicIpAddress (self_described az clusterID) = Some ''1.2.3.4''"
    "inst_PublicDnsName (self_described az clusterID) = None"
    "inst_PrivateDnsName (self_described az clusterID) = Some ''ip-172-20-0-100.ec2.internal''"
    by (simp_all add: self_described_def fake_world_def WithRegion_def WithAz_def NewFakeAWSServices_def self_instance_def
        ec2_instance.truncate_def)
  have "sort_slice eni_less [?outer, ?inner] = [?inner, ?outer]"
    by (simp add: sort_slice_def eni_less_def fake_eni_def)
  moreover have "interface_addresses inst ?inner = Inr [(''InternalIP'', ''172.20.0.100''), (''InternalIP'', ''172.20.0.101'')]"
    "interface_addresses inst ?outer = Inr [(''InternalIP'', ''172.20.1.1''), (''InternalIP'', ''172.20.1.2'')]" for inst
    by (simp_all add: interface_addresses_def fake_eni_def parse_then_print [OF fake_addresses_parse(1)]
        parse_then_print [OF fake_addresses_parse(2)] parse_then_print [OF fake_addresses_parse(3), where as = "[]", simplified]
        parse_then_print [OF fake_addresses_parse(1), where as = "[]", simplified] parse_then_print [OF fake_addresses_parse(4)])
  ultimately show ?thesis
    using assms
    by (simp add: getInstanceNodeAddress_def extractIPv4NodeAddresses_def fields parse_then_print [OF fake_addresses_parse(5)] Let_def)
qed

end
