(* ===== verification/Spec2Isabelle.thy ===== *)
theory Spec2Isabelle
  imports Reconcile Routes Manager Metrics ECR Fakes
begin

text \<open>
  A verification of the AWS cloud provider for Kubernetes. File names below are relative to \<^verbatim>\<open>src/pkg/providers/v1\<close>
  unless they start with \<^verbatim>\<open>cmd\<close> or \<^verbatim>\<open>pkg\<close>.

  \<^bold>\<open>The program.\<close> The cloud controller manager builds a provider object \<^verbatim>\<open>Cloud\<close> from its configuration, the metadata service and the
  clients of AWS. The generic controllers of Kubernetes call this object: the node controllers ask about instances, zones and
  topology, the route controller about routes, and the service controller for load balancers, with their listeners, target groups, security groups and
  subnets. Resources are recognised by cluster tags. The tagging controller tags the instances of nodes through a work queue; calls of this
  kind are batched. Every call of AWS passes through middleware that delays, counts and logs it. A second program, run by
  the kubelet, fetches credentials for images in ECR.

  \<^bold>\<open>Theories.\<close> In the order of their imports, with what they model:

  \<^item> \<open>Prelude\<close>, \<open>GoStrings\<close>, \<open>Url\<close>, \<open>IpAddr\<close>, \<open>Json\<close>, \<open>Base64\<close>, \<open>Wait\<close>: errors as values, the error-and-state functions in which code that calls AWS is
    written, Go maps, and the parts of the libraries of Go and Kubernetes that the code calls.
  \<^item> \<open>AwsApi\<close>, \<open>ElbApi\<close>: the data of EC2, ELB and ELBv2, and their clients as records of calls (\<^verbatim>\<open>iface/types.go\<close>, \<^verbatim>\<open>aws.go\<close>).
  \<^item> \<open>Tagging\<close> (\<^verbatim>\<open>tags.go\<close>), \<open>Config\<close> (\<^verbatim>\<open>config/config.go\<close>), \<open>IPPermissions\<close> (\<^verbatim>\<open>sets_ippermissions.go\<close>), \<open>Cloud\<close> (the object and the Kubernetes data it is given).
  \<^item> \<open>Annotations\<close> (annotations of services and \<^verbatim>\<open>aws_validations.go\<close>), \<open>SecurityGroups\<close>, \<open>Subnets\<close> (\<^verbatim>\<open>aws.go\<close>), \<open>TargetGroups\<close>, \<open>ClassicELB\<close>,
    \<open>NLB\<close> (\<^verbatim>\<open>aws_loadbalancer.go\<close>), \<open>LoadBalancer\<close> (the four operations of the interface, which call the others), \<open>Reconcile\<close> (no code of its own:
    what these operations achieve from end to end).
  \<^item> \<open>InstanceIDs\<close> (\<^verbatim>\<open>instances.go\<close>, \<^verbatim>\<open>variant\<close>), \<open>Instances\<close> (\<^verbatim>\<open>instances.go\<close>, \<^verbatim>\<open>instances_v2.go\<close>, \<^verbatim>\<open>aws.go\<close>), \<open>Zones\<close> (\<^verbatim>\<open>zones.go\<close>, \<^verbatim>\<open>topology.go\<close>), \<open>Routes\<close> (\<^verbatim>\<open>aws_routes.go\<close>).
  \<^item> \<open>Batcher\<close> (\<^verbatim>\<open>batcher\<close> and its three users), \<open>WorkQueue\<close> (the queue of client-go), \<open>TaggingController\<close> and \<open>Shutdown\<close> (\<^verbatim>\<open>pkg/controllers\<close>).
  \<^item> \<open>Ec2Sdk\<close> (\<^verbatim>\<open>aws_ec2.go\<close>), \<open>Retry\<close> (\<^verbatim>\<open>retry_handler.go\<close>), \<open>SdkClients\<close> (\<^verbatim>\<open>aws_sdk.go\<close>, \<^verbatim>\<open>log_handler.go\<close>, \<^verbatim>\<open>aws_metrics.go\<close>), \<open>Startup\<close> (\<^verbatim>\<open>aws.go\<close>: building the provider;
    \<^verbatim>\<open>aws_utils.go\<close>, \<^verbatim>\<open>pkg/services/aws_sts.go\<close>), \<open>Manager\<close> (\<^verbatim>\<open>cmd/aws-cloud-controller-manager\<close>).
  \<^item> \<open>Metrics\<close> (\<^verbatim>\<open>aws_metrics.go\<close>, \<^verbatim>\<open>pkg/controllers/tagging/metrics.go\<close>): the metrics that the other theories leave out, on calls and work items that carry them.
  \<^item> \<open>Fakes\<close> (\<^verbatim>\<open>aws_fakes.go\<close>): the test doubles of the services as concrete clients, with other components run on them.
  \<^item> \<open>ECR\<close> (\<^verbatim>\<open>cmd/ecr-credential-provider\<close>).

  \<^bold>\<open>How code becomes definitions.\<close> A definition has the name of its function where HOL allows it; a loop body or a part of a long function is a definition of its own. A
  pointer is an option, a struct a record with the fields that are read, a map an association list whose order is the order of
  iteration, a panic a value of the error type that no handler catches. A function that calls AWS is a function of the state behind the clients, and the clients are its arguments; a property that needs
  more of AWS than its types says so in its hypotheses, and its witness shows a client that meets them. Numbers that are narrowed to 32 or 64
  bits wrap around in the definitions. The batcher and the work queue with its workers are step relations, so that their
  properties hold for every interleaving; the caches are explicit state.

  \<^bold>\<open>Interfaces.\<close> \<open>keyed_set\<close> is a set of rules identified by a key; \<open>tagging_contract\<close> the laws of cluster tags on which every
  lookup by tag rests; \<open>endpoint_override\<close> the laws of resolvers and options of a service, and \<open>regional_service\<close>, which extends it, those of the clients built from them; \<open>batch_executor\<close> what the
  batcher needs of an executor; \<open>bounded_retry\<close> what the work queue needs of a handler. Each is interpreted on the definitions of the code.

  \<^bold>\<open>What the lemmas show.\<close> Reconciliation: the rules of a security group, the listeners of both kinds of load balancers, the targets of a group and the routes
  become what was asked for, from the service and its nodes to the listeners of a network load balancer and the instances of a classic one. A classic load balancer that is as wanted is not changed (unless proxy protocol or
  additional tags are asked for, for which the code repeats its calls), and what belongs to others is left alone. For security groups this holds for IPv4 and group sources;
  for IPv6 sources the lemmas show how the code departs from it. Services with a fault that can be seen without calls are refused before any call. Deletion: only groups of the cluster that nobody else manages are deleted, and success
  means that everything is gone. Lookup: provider ids round trip, caches answer like the service they stand for or say how old they are,
  subnets and addresses are chosen in the documented order. Concurrency: every batched call is answered once, every queued node is handled or given up, the workers end after a shutdown, and a node is labelled only
  after it was tagged. Start: a manager that runs has a provider with a cluster id, built from a valid configuration, and on the
  test doubles the provider discovers all it needs. Calls: listings have all pages, a call is delayed and counted once whatever handlers of the SDK surround it. Credentials: the response
  has what the token of the right region says. Defects that the model showed are stated as lemmas about the code as it is.

  \<^bold>\<open>Bounds.\<close> Backoff loops run at most the number of steps in the code. A poll with a timeout runs \<open>polls\<close> times, an argument, since the time of a call is not
  known; the properties hold for every number. The retries of the SDK are a number \<open>n\<close>. Paged listings are partial functions: a service whose pages never end gives no
  value, and the properties assume pages that end. The rounding of floating point numbers is an argument with the laws of IEEE 754.

  \<^bold>\<open>Not modelled.\<close> The text of log messages and events. Time, other than the readings of the clock that the code compares. The
  registration of types, generated code and mocks, the methods of the test doubles that nothing but their interface asks for and that panic, what \<^verbatim>\<open>Initialize\<close> sets up for
  events, the parsing of the configuration file and of command
  lines, and the generic controllers, which are libraries. The order in which \<^verbatim>\<open>sort.Slice\<close> leaves elements that compare
  equal is that of insertion sort, which it uses for up to twelve elements.

  \<^bold>\<open>Simplifications.\<close> Strings are sequences of bytes: comparison without case and trimming know the letters and blanks of ASCII, and JSON keeps bytes from 128 on as they
  are. The lookups of instances treat the ids of one request as one batch of the batcher; how batches form is the subject of \<open>Batcher\<close>. The deserializers of the SDK are
  functions of the response.
\<close>

end
